(* ===== verification/Prelude.thy ===== *)
theory Prelude
  imports Main "HOL-Library.State_Monad" "HOL-Library.Multiset"
begin

text \<open>
  Shared vocabulary of the development: Go's error values, Go maps that may be nil, programs that
  thread a state and may panic, the two shapes of error check every function of
  \<open>controllers/\<close> is written with, loops, and the lemmas that run and compose them.
  Nothing here mentions etcd or Kubernetes.
\<close>

named_theorems run_simps \<open>how a program runs on a state, one rewrite per combinator\<close>
named_theorems splits_prog \<open>how a property of programs passes through a case distinction\<close>

section \<open>Error values\<close>

text \<open>
  A value of Go's interface \<open>error\<close> is an \<open>err\<close>, and \<open>nil\<close> is \<open>None\<close> of \<open>err option\<close>.
  \<^item> \<open>ErrorNew msg\<close>: \<open>errors.New\<close>, or \<open>fmt.Errorf\<close> whose arguments are already in the text;
  \<^item> \<open>Errorf fmt args\<close>: \<open>fmt.Errorf\<close> with \<open>%v\<close> of other errors: their text is part of the message,
    but they are not on the chain \<open>errors.Is\<close> follows;
  \<^item> \<open>Wrapped msg e\<close>: an error with a cause, as \<open>errors.Wrap\<close> documents it;
  \<^item> \<open>External msg\<close>: an error of a library or of a service, opaque but for the library's own
    predicates on it;
  \<^item> \<open>PortNotOpen\<close>: the package variable \<open>portNotOpenErr\<close> of \<open>healthcheck.go\<close>;
  \<^item> \<open>Aggregate es\<close>: several errors at once.
\<close>

datatype err =
    ErrorNew string
  | Errorf string "err list"
  | Wrapped string err
  | External string
  | PortNotOpen
  | Aggregate "err list"

text \<open>\<open>errors.Is(e, portNotOpenErr)\<close>: pointer equality along the chain of causes.\<close>

fun errors_Is_portNotOpen :: "err \<Rightarrow> bool" where
  "errors_Is_portNotOpen PortNotOpen = True"
| "errors_Is_portNotOpen (Wrapped _ e) = errors_Is_portNotOpen e"
| "errors_Is_portNotOpen (Aggregate es) = list_ex errors_Is_portNotOpen es"
| "errors_Is_portNotOpen (ErrorNew _) = False"
| "errors_Is_portNotOpen (Errorf _ _) = False"
| "errors_Is_portNotOpen (External _) = False"

section \<open>Maps from string to string\<close>

text \<open>
  A Go map is a reference that may be nil (\<open>None\<close>). Reading and deleting in a nil map find nothing;
  writing to one panics, so \<open>map_put\<close> is partial.
\<close>

type_synonym go_map = "(string \<rightharpoonup> string) option"

definition map_get :: "go_map \<Rightarrow> string \<Rightarrow> string option" where
  "map_get m k = (case m of None \<Rightarrow> None | Some f \<Rightarrow> f k)"

definition map_put :: "go_map \<Rightarrow> string \<Rightarrow> string \<Rightarrow> go_map option" where
  "map_put m k v = (case m of None \<Rightarrow> None | Some f \<Rightarrow> Some (Some (f(k \<mapsto> v))))"

definition map_delete :: "go_map \<Rightarrow> string \<Rightarrow> go_map" where
  "map_delete m k = (case m of None \<Rightarrow> None | Some f \<Rightarrow> Some (f(k := None)))"

lemma map_get_Some [simp]: "map_get (Some f) k = f k"
  by (simp add: map_get_def)

lemma map_get_None [simp]: "map_get None k = None"
  by (simp add: map_get_def)

lemma map_get_put [simp]: "map_put m k v = Some m' \<Longrightarrow> map_get m' k' = (if k' = k then Some v else map_get m k')"
  by (auto simp: map_put_def split: option.splits)

lemma map_get_delete [simp]: "map_get (map_delete m k) k' = (if k' = k then None else map_get m k')"
  by (auto simp: map_delete_def map_get_def split: option.splits)

lemma map_put_nil [simp]: "map_put None k v = None"
  by (simp add: map_put_def)

section \<open>Programs\<close>

text \<open>
  A function of the source with effects is a program over a state \<open>'s\<close>, built on the library's
  state monad. It ends with \<open>Done x\<close>, where \<open>x\<close> is what the Go function returns (an error is a
  value of that type), or with \<open>Panic msg\<close>, which no error check of a caller sees.
\<close>

datatype 'a outcome = Done 'a | Panic string

type_synonym ('s, 'a) prog = "('s, 'a outcome) state"

definition ret :: "'a \<Rightarrow> ('s, 'a) prog" where
  "ret x = State_Monad.return (Done x)"

definition panic :: "string \<Rightarrow> ('s, 'a) prog" where
  "panic msg = State_Monad.return (Panic msg)"

definition bnd :: "('s, 'a) prog \<Rightarrow> ('a \<Rightarrow> ('s, 'b) prog) \<Rightarrow> ('s, 'b) prog" where
  "bnd m f = do { r \<leftarrow> m; case r of Panic msg \<Rightarrow> State_Monad.return (Panic msg) | Done x \<Rightarrow> f x }"

definition gets :: "('s \<Rightarrow> 'a) \<Rightarrow> ('s, 'a) prog" where
  "gets f = do { s \<leftarrow> State_Monad.get; State_Monad.return (Done (f s)) }"

definition modify :: "('s \<Rightarrow> 's) \<Rightarrow> ('s, unit) prog" where
  "modify f = do { s \<leftarrow> State_Monad.get; State_Monad.set (f s); State_Monad.return (Done ()) }"

text \<open>\<open>m; k\<close>: run \<open>m\<close> for its effect.\<close>

definition seq :: "('s, 'a) prog \<Rightarrow> ('s, 'b) prog \<Rightarrow> ('s, 'b) prog" where
  "seq m k = bnd m (\<lambda>_. k)"

text \<open>\<open>if err := m; err != nil { return h(err) }; k\<close>\<close>

definition checkErr :: "('s, err option) prog \<Rightarrow> (err \<Rightarrow> 'b) \<Rightarrow> ('s, 'b) prog \<Rightarrow> ('s, 'b) prog" where
  "checkErr m h k = bnd m (\<lambda>r. case r of Some e \<Rightarrow> ret (h e) | None \<Rightarrow> k)"

text \<open>\<open>x, err := m; if err != nil { return h(err) }; k x\<close>\<close>

definition tryErr ::
  "('s, err + 'a) prog \<Rightarrow> (err \<Rightarrow> 'b) \<Rightarrow> ('a \<Rightarrow> ('s, 'b) prog) \<Rightarrow> ('s, 'b) prog" where
  "tryErr m h k = bnd m (\<lambda>r. case r of Inl e \<Rightarrow> ret (h e) | Inr x \<Rightarrow> k x)"

text \<open>A pure step that may panic (a nil dereference, a write to a nil map).\<close>

definition orPanic :: "string \<Rightarrow> 'a option \<Rightarrow> ('a \<Rightarrow> ('s, 'b) prog) \<Rightarrow> ('s, 'b) prog" where
  "orPanic msg x k = (case x of None \<Rightarrow> panic msg | Some y \<Rightarrow> k y)"

text \<open>
  \<open>for _, x := range xs { body }\<close>: \<open>forRange\<close> where the body never leaves the loop,
  \<open>forReturn\<close> where it may return from the function (\<open>Some v\<close>), and then skips the rest.
\<close>

primrec forRange :: "('a \<Rightarrow> ('s, unit) prog) \<Rightarrow> 'a list \<Rightarrow> ('s, unit) prog" where
  "forRange f [] = ret ()"
| "forRange f (x # xs) = seq (f x) (forRange f xs)"

primrec forReturn :: "('a \<Rightarrow> ('s, 'r option) prog) \<Rightarrow> 'a list \<Rightarrow> ('s, 'r option) prog" where
  "forReturn f [] = ret None"
| "forReturn f (x # xs) =
     bnd (f x) (\<lambda>r. case r of Some v \<Rightarrow> ret (Some v) | None \<Rightarrow> forReturn f xs)"

text \<open>
  A stage of a function that may return from it: \<open>orElse m k\<close> goes on with \<open>k\<close> unless \<open>m\<close> has
  produced the value to return.
\<close>

definition orElse :: "('s, 'a option) prog \<Rightarrow> ('s, 'a) prog \<Rightarrow> ('s, 'a) prog" where
  "orElse m k = bnd m (\<lambda>r. case r of Some v \<Rightarrow> ret v | None \<Rightarrow> k)"

text \<open>
  \<open>defer func() { ... }()\<close> in a function with named results: the deferred function sees what the
  body returns and may replace it. It also runs when the body panics, on results that still have
  their initial value \<open>zero\<close>, and then the panic goes on.
\<close>

definition withDefer :: "'a \<Rightarrow> ('s, 'a) prog \<Rightarrow> ('a \<Rightarrow> ('s, 'a) prog) \<Rightarrow> ('s, 'a) prog" where
  "withDefer zero body d = do {
     r \<leftarrow> body;
     case r of
       Done x \<Rightarrow> d x
     | Panic msg \<Rightarrow> seq (d zero) (panic msg)
   }"

subsection \<open>Running programs\<close>

lemma run_ret [simp, run_simps]: "run_state (ret x) s = (Done x, s)"
  by (simp add: ret_def)

lemma run_panic [simp, run_simps]: "run_state (panic msg) s = (Panic msg, s)"
  by (simp add: panic_def)

lemma run_gets [simp, run_simps]: "run_state (gets f) s = (Done (f s), s)"
  by (simp add: gets_def)

lemma run_modify [simp, run_simps]: "run_state (modify f) s = (Done (), f s)"
  by (simp add: modify_def)

lemma run_bnd [run_simps]:
  "run_state (bnd m f) s =
     (case run_state m s of (Panic msg, s') \<Rightarrow> (Panic msg, s') | (Done x, s') \<Rightarrow> run_state (f x) s')"
  by (auto simp: bnd_def split: prod.splits outcome.splits)

lemma run_seq [run_simps]:
  "run_state (seq m k) s =
     (case run_state m s of (Panic msg, s') \<Rightarrow> (Panic msg, s') | (Done x, s') \<Rightarrow> run_state k s')"
  by (simp add: seq_def run_bnd)

lemma run_checkErr [run_simps]:
  "run_state (checkErr m h k) s =
     (case run_state m s of
        (Panic msg, s') \<Rightarrow> (Panic msg, s')
      | (Done (Some e), s') \<Rightarrow> (Done (h e), s')
      | (Done None, s') \<Rightarrow> run_state k s')"
  by (auto simp: checkErr_def run_bnd split: prod.splits outcome.splits option.splits)

lemma run_tryErr [run_simps]:
  "run_state (tryErr m h k) s =
     (case run_state m s of
        (Panic msg, s') \<Rightarrow> (Panic msg, s')
      | (Done (Inl e), s') \<Rightarrow> (Done (h e), s')
      | (Done (Inr x), s') \<Rightarrow> run_state (k x) s')"
  by (auto simp: tryErr_def run_bnd split: prod.splits outcome.splits sum.splits)

lemma run_orPanic [run_simps]:
  "run_state (orPanic msg x k) s = (case x of None \<Rightarrow> (Panic msg, s) | Some y \<Rightarrow> run_state (k y) s)"
  by (simp add: orPanic_def split: option.splits)

lemma run_forRange_Cons [run_simps]:
  "run_state (forRange f (x # xs)) s =
     (case run_state (f x) s of
        (Panic msg, s') \<Rightarrow> (Panic msg, s')
      | (Done u, s') \<Rightarrow> run_state (forRange f xs) s')"
  by (simp add: run_seq)

lemma run_forReturn_Cons [run_simps]:
  "run_state (forReturn f (x # xs)) s =
     (case run_state (f x) s of
        (Panic msg, s') \<Rightarrow> (Panic msg, s')
      | (Done (Some v), s') \<Rightarrow> (Done (Some v), s')
      | (Done None, s') \<Rightarrow> run_state (forReturn f xs) s')"
  by (auto simp: run_bnd split: prod.splits outcome.splits option.splits)

lemma run_orElse [run_simps]:
  "run_state (orElse m k) s =
     (case run_state m s of
        (Panic msg, s') \<Rightarrow> (Panic msg, s')
      | (Done (Some v), s') \<Rightarrow> (Done v, s')
      | (Done None, s') \<Rightarrow> run_state k s')"
  by (auto simp: orElse_def run_bnd split: prod.splits outcome.splits option.splits)

lemma run_withDefer [run_simps]:
  "run_state (withDefer zero body d) s =
     (case run_state body s of
        (Done x, s') \<Rightarrow> run_state (d x) s'
      | (Panic msg, s') \<Rightarrow> run_state (seq (d zero) (panic msg)) s')"
  by (auto simp: withDefer_def split: prod.splits outcome.splits)

lemma if_run [run_simps]:
  "run_state (if b then m else n) s = (if b then run_state m s else run_state n s)"
  by simp

subsection \<open>What a program may do to the state\<close>

text \<open>
  \<open>obeys R m\<close>: every run of \<open>m\<close>, whatever it returns, leads from a state to an \<open>R\<close>-related one.
  When \<open>R\<close> is a preorder this is closed under every way programs are put together. The locale
  proves that once; an instance is "only appends such events to the trace" or "leaves that field
  of the state alone".
\<close>

definition obeys :: "('s \<Rightarrow> 's \<Rightarrow> bool) \<Rightarrow> ('s, 'a) prog \<Rightarrow> bool" where
  "obeys R m = (\<forall>s. R s (snd (run_state m s)))"

lemma obeysI: "(\<And>s. R s (snd (run_state m s))) \<Longrightarrow> obeys R m"
  by (simp add: obeys_def)

lemma obeysD: "obeys R m \<Longrightarrow> run_state m s = (r, s') \<Longrightarrow> R s s'"
  unfolding obeys_def by (metis snd_conv)

lemma obeys_case_option [splits_prog]:
  "obeys R f \<Longrightarrow> (\<And>y. x = Some y \<Longrightarrow> obeys R (g y)) \<Longrightarrow>
   obeys R (case x of None \<Rightarrow> f | Some y \<Rightarrow> g y)"
  by (cases x) simp_all

lemma obeys_case_sum [splits_prog]:
  "(\<And>e. x = Inl e \<Longrightarrow> obeys R (f e)) \<Longrightarrow> (\<And>y. x = Inr y \<Longrightarrow> obeys R (g y)) \<Longrightarrow>
   obeys R (case x of Inl e \<Rightarrow> f e | Inr y \<Rightarrow> g y)"
  by (cases x) simp_all

lemma obeys_case_prod [splits_prog]:
  "(\<And>a b. x = (a, b) \<Longrightarrow> obeys R (f a b)) \<Longrightarrow> obeys R (case x of (a, b) \<Rightarrow> f a b)"
  by (cases x) simp_all

lemma obeys_if [splits_prog]:
  "(b \<Longrightarrow> obeys R m) \<Longrightarrow> (\<not> b \<Longrightarrow> obeys R n) \<Longrightarrow> obeys R (if b then m else n)"
  by simp

lemma obeys_let [splits_prog]:
  "(\<And>y. y = x \<Longrightarrow> obeys R (f y)) \<Longrightarrow> obeys R (let y = x in f y)"
  by simp

locale step_order =
  fixes R :: "'s \<Rightarrow> 's \<Rightarrow> bool"
  assumes refl: "R s s"
    and trans: "R s t \<Longrightarrow> R t u \<Longrightarrow> R s u"
begin

lemma prog_ret: "obeys R (ret x)"
  by (simp add: obeys_def refl)

lemma prog_panic: "obeys R (panic msg)"
  by (simp add: obeys_def refl)

lemma prog_gets: "obeys R (gets f)"
  by (simp add: obeys_def refl)

lemma prog_bnd:
  assumes "obeys R m" and "\<And>x. obeys R (f x)"
  shows "obeys R (bnd m f)"
proof (rule obeysI)
  fix s
  obtain r s' where m: "run_state m s = (r, s')" by fastforce
  with assms(1) have first: "R s s'" by (rule obeysD)
  show "R s (snd (run_state (bnd m f) s))"
  proof (cases r)
    case (Done x)
    have "R s' (snd (run_state (f x) s'))"
      using assms(2) by (simp add: obeys_def)
    with first have "R s (snd (run_state (f x) s'))" by (rule trans)
    then show ?thesis using m Done by (simp add: run_bnd)
  next
    case Panic
    then show ?thesis using m first by (simp add: run_bnd)
  qed
qed

lemma prog_seq: "obeys R m \<Longrightarrow> obeys R k \<Longrightarrow> obeys R (seq m k)"
  unfolding seq_def by (rule prog_bnd)

lemma prog_checkErr: "obeys R m \<Longrightarrow> obeys R k \<Longrightarrow> obeys R (checkErr m h k)"
  unfolding checkErr_def by (intro prog_bnd splits_prog prog_ret)

lemma prog_tryErr: "obeys R m \<Longrightarrow> (\<And>x. obeys R (k x)) \<Longrightarrow> obeys R (tryErr m h k)"
  unfolding tryErr_def by (intro prog_bnd splits_prog prog_ret)

lemma prog_orPanic: "(\<And>y. x = Some y \<Longrightarrow> obeys R (k y)) \<Longrightarrow> obeys R (orPanic msg x k)"
  unfolding orPanic_def by (intro splits_prog prog_panic)

lemma prog_forRange: "(\<And>x. x \<in> set xs \<Longrightarrow> obeys R (f x)) \<Longrightarrow> obeys R (forRange f xs)"
  by (induction xs) (simp_all add: prog_ret prog_seq)

lemma prog_forReturn: "(\<And>x. x \<in> set xs \<Longrightarrow> obeys R (f x)) \<Longrightarrow> obeys R (forReturn f xs)"
proof (induction xs)
  case Nil
  show ?case by (simp add: prog_ret)
next
  case (Cons x xs)
  then show ?case by (auto intro!: prog_bnd splits_prog prog_ret)
qed

lemma prog_orElse: "obeys R m \<Longrightarrow> obeys R k \<Longrightarrow> obeys R (orElse m k)"
  unfolding orElse_def by (intro prog_bnd splits_prog prog_ret)

lemma prog_withDefer:
  fixes body :: "('s, 'a) prog"
  assumes "obeys R body" and "\<And>x. obeys R (d x)"
  shows "obeys R (withDefer zero body d)"
proof (rule obeysI)
  fix s
  obtain r s' where b: "run_state body s = (r, s')" by fastforce
  with assms(1) have first: "R s s'" by (rule obeysD)
  show "R s (snd (run_state (withDefer zero body d) s))"
  proof (cases r)
    case (Done x)
    have "R s' (snd (run_state (d x) s'))" using assms(2) by (simp add: obeys_def)
    with first have "R s (snd (run_state (d x) s'))" by (rule trans)
    then show ?thesis using b Done by (simp add: run_withDefer)
  next
    case (Panic msg)
    have "obeys R (seq (d zero) (panic msg :: ('s, 'a) prog))"
      by (intro prog_seq assms(2) prog_panic)
    then have "R s' (snd (run_state (seq (d zero) (panic msg :: ('s, 'a) prog)) s'))"
      by (simp add: obeys_def)
    with first have "R s (snd (run_state (seq (d zero) (panic msg :: ('s, 'a) prog)) s'))"
      by (rule trans)
    then show ?thesis using b Panic by (simp add: run_withDefer)
  qed
qed

lemmas prog_intros =
  prog_ret prog_panic prog_gets prog_bnd prog_seq prog_checkErr prog_tryErr prog_orPanic
  prog_forRange prog_forReturn prog_orElse prog_withDefer splits_prog

end

text \<open>A field of the state that a program leaves alone, for any field.\<close>

definition keeps :: "('s \<Rightarrow> 'f) \<Rightarrow> 's \<Rightarrow> 's \<Rightarrow> bool" where
  "keeps F s s' = (F s' = F s)"

interpretation kept: step_order "keeps F" for F
  by unfold_locales (simp_all add: keeps_def)

lemma kept_modify: "(\<And>s. F (g s) = F s) \<Longrightarrow> obeys (keeps F) (modify g)"
  by (simp add: obeys_def keeps_def)

lemma keptD: "obeys (keeps F) m \<Longrightarrow> run_state m s = (r, s') \<Longrightarrow> F s' = F s"
  by (drule (1) obeysD) (simp add: keeps_def)

section \<open>Go's iteration order over maps\<close>

text \<open>
  \<open>range\<close> over a Go map visits the entries in an order the language leaves open. \<open>go_range p xs\<close> is
  \<open>xs\<close> in the order the list of positions \<open>p\<close> gives, where \<open>p\<close> is a permutation of the positions of
  \<open>xs\<close>; for any other \<open>p\<close> it is \<open>xs\<close> itself. As \<open>p\<close> varies, every order occurs, and nothing else.
\<close>

definition go_range :: "nat list \<Rightarrow> 'a list \<Rightarrow> 'a list" where
  "go_range p xs = (if mset p = mset [0..<length xs] then map ((!) xs) p else xs)"

lemma mset_go_range [simp]: "mset (go_range p xs) = mset xs"
proof (cases "mset p = mset [0..<length xs]")
  case True
  then have "image_mset ((!) xs) (mset p) = image_mset ((!) xs) (mset [0..<length xs])" by simp
  also have "\<dots> = mset (map ((!) xs) [0..<length xs])" by simp
  also have "\<dots> = mset xs" by (simp add: map_nth)
  finally show ?thesis using True by (simp add: go_range_def)
next
  case False
  then show ?thesis unfolding go_range_def by presburger
qed

lemma set_go_range [simp]: "set (go_range p xs) = set xs"
  by (metis mset_go_range set_mset_mset)

lemma length_go_range [simp]: "length (go_range p xs) = length xs"
  by (metis mset_go_range size_mset)

lemma distinct_map_go_range [simp]: "distinct (map f (go_range p xs)) = distinct (map f xs)"
  by (metis mset_go_range mset_map mset_eq_imp_distinct_iff)

lemma go_range_Nil [simp]: "go_range p [] = []"
  by (simp add: go_range_def)

lemma go_range_single [simp]: "go_range p [x] = [x]"
proof -
  have "mset (go_range p [x]) = {#x#}" by simp
  then show ?thesis by (simp only: mset_single_iff)
qed

text \<open>Every order of \<open>xs\<close> is one that \<open>go_range\<close> can produce.\<close>

lemma image_mset_eq_mset: "image_mset f M = mset ys \<Longrightarrow> \<exists>p. mset p = M \<and> map f p = ys"
proof (induction ys arbitrary: M)
  case Nil
  then show ?case by simp
next
  case (Cons y ys)
  from Cons.prems have "image_mset f M = add_mset y (mset ys)" by simp
  from msed_map_invR [OF this] obtain a N
    where M: "M = add_mset a N" and fa: "f a = y" and N: "image_mset f N = mset ys" by blast
  from Cons.IH [OF N] obtain p where p: "mset p = N" and q: "map f p = ys" by blast
  have "mset (a # p) = M \<and> map f (a # p) = y # ys" using M p fa q by simp
  then show ?case by (rule exI)
qed

lemma go_range_complete: "mset ys = mset xs \<Longrightarrow> \<exists>p. go_range p xs = ys"
proof -
  assume ys: "mset ys = mset xs"
  have "image_mset ((!) xs) (mset [0..<length xs]) = mset (map ((!) xs) [0..<length xs])" by simp
  also have "\<dots> = mset xs" by (simp only: map_nth)
  also have "\<dots> = mset ys" by (rule ys [symmetric])
  finally have "image_mset ((!) xs) (mset [0..<length xs]) = mset ys" .
  from image_mset_eq_mset [OF this] obtain p
    where p: "mset p = mset [0..<length xs]" and q: "map ((!) xs) p = ys" by blast
  have "go_range p xs = ys" unfolding go_range_def using p q by presburger
  then show ?thesis by (rule exI)
qed

end
