(* ===== verification/Api_Types.thy ===== *)
theory Api_Types
  imports Prelude "HOL-Library.Word"
begin

text \<open>
  The data the controller works on. The types of \<open>api/v1beta1\<close> and the condition type of
  \<open>internal/thirdparty/api/v1alpha3\<close> are records with the source's fields; the constants are those
  of \<open>condition_consts.go\<close> and \<open>etcdadmcluster_types.go\<close>. The Cluster API and Kubernetes types the
  controller reads (\<open>Machine\<close>, \<open>Cluster\<close>, \<open>ObjectMeta\<close>, \<dots>) are declared with the fields it
  reads or writes. Pointers that may be nil are options; \<open>int32\<close> is a 32-bit word, read with \<open>sint\<close>.
\<close>

section \<open>Kubernetes metadata\<close>

record OwnerReference =
  orAPIVersion :: string
  orKind :: string
  orName :: string
  orUID :: string
  orController :: bool

text \<open>\<open>metav1.ObjectMeta\<close>. Times are nanoseconds; \<open>DeletionTimestamp\<close> is a pointer.\<close>

record ObjectMeta =
  Name :: string
  Namespace :: string
  UID :: string
  Labels :: go_map
  Annotations :: go_map
  Finalizers :: "string list"
  OwnerReferences :: "OwnerReference list"
  CreationTimestamp :: int
  DeletionTimestamp :: "int option"

text \<open>\<open>corev1.ObjectReference\<close>\<close>

record ObjectReference =
  oAPIVersion :: string
  oKind :: string
  oNamespace :: string
  oName :: string

text \<open>\<open>clusterv1.ContractVersionedObjectReference\<close>\<close>

record ContractRef =
  crKind :: string
  crName :: string
  crAPIGroup :: string

section \<open>Conditions\<close>

text \<open>\<open>ConditionSeverity\<close>, the named severities and any other string.\<close>

datatype ConditionSeverity =
    ConditionSeverityError
  | ConditionSeverityWarning
  | ConditionSeverityInfo
  | ConditionSeverityNone
  | ConditionSeverityOther string

text \<open>The string each severity constant is declared as.\<close>

fun severity_string :: "ConditionSeverity \<Rightarrow> string" where
  "severity_string ConditionSeverityError = ''Error''"
| "severity_string ConditionSeverityWarning = ''Warning''"
| "severity_string ConditionSeverityInfo = ''Info''"
| "severity_string ConditionSeverityNone = []"
| "severity_string (ConditionSeverityOther s) = s"

datatype ConditionStatus = ConditionTrue | ConditionFalse | ConditionUnknown

type_synonym ConditionType = string

record Condition =
  cType :: ConditionType
  cStatus :: ConditionStatus
  cSeverity :: ConditionSeverity
  cLastTransitionTime :: int
  cReason :: string
  cMessage :: string

definition EtcdMachinesSpecUpToDateCondition :: ConditionType where
  "EtcdMachinesSpecUpToDateCondition = ''EtcdMachinesSpecUpToDate''"

definition EtcdRollingUpdateInProgressReason :: string where
  "EtcdRollingUpdateInProgressReason = ''EtcdRollingUpdateInProgress''"

definition MaxNumberOfEtcdMachinesReachedReason :: string where
  "MaxNumberOfEtcdMachinesReachedReason = ''MaxNumberOfEtcdMachinesReached''"

definition EtcdCertificatesAvailableCondition :: ConditionType where
  "EtcdCertificatesAvailableCondition = ''EtcdCertificatesAvailable''"

definition EtcdClusterResizeCompleted :: ConditionType where
  "EtcdClusterResizeCompleted = ''EtcdClusterResizeCompleted''"

definition EtcdScaleUpInProgressReason :: string where
  "EtcdScaleUpInProgressReason = ''ScalingUp''"

definition EtcdScaleDownInProgressReason :: string where
  "EtcdScaleDownInProgressReason = ''ScalingDown''"

definition InitializedCondition :: ConditionType where
  "InitializedCondition = ''Initialized''"

definition WaitingForEtcdadmInitReason :: string where
  "WaitingForEtcdadmInitReason = ''WaitingForEtcdadmInit''"

definition EtcdMachinesReadyCondition :: ConditionType where
  "EtcdMachinesReadyCondition = ''EtcdMachinesReady''"

definition EtcdClusterHasNoOutdatedMembersCondition :: ConditionType where
  "EtcdClusterHasNoOutdatedMembersCondition = ''EtcdClusterHasNoOutdatedMachines''"

definition EtcdClusterHasOutdatedMembersReason :: string where
  "EtcdClusterHasOutdatedMembersReason = ''EtcdClusterHasOutdatedMachines''"

definition EtcdEndpointsAvailable :: ConditionType where
  "EtcdEndpointsAvailable = ''EtcdEndpointsAvailable''"

definition WaitingForEtcdadmEndpointsToPassHealthcheckReason :: string where
  "WaitingForEtcdadmEndpointsToPassHealthcheckReason = ''WaitingForEtcdadmEndpointsToPassHealthcheck''"

lemmas condition_type_defs =
  EtcdMachinesSpecUpToDateCondition_def EtcdCertificatesAvailableCondition_def
  EtcdClusterResizeCompleted_def InitializedCondition_def EtcdMachinesReadyCondition_def
  EtcdClusterHasNoOutdatedMembersCondition_def EtcdEndpointsAvailable_def

lemmas condition_reason_defs =
  EtcdRollingUpdateInProgressReason_def MaxNumberOfEtcdMachinesReachedReason_def
  EtcdScaleUpInProgressReason_def EtcdScaleDownInProgressReason_def
  WaitingForEtcdadmInitReason_def EtcdClusterHasOutdatedMembersReason_def
  WaitingForEtcdadmEndpointsToPassHealthcheckReason_def

text \<open>The condition types are pairwise different: marking one leaves the others alone.\<close>

lemma condition_types_distinct:
  "distinct [EtcdMachinesSpecUpToDateCondition, EtcdCertificatesAvailableCondition,
     EtcdClusterResizeCompleted, InitializedCondition, EtcdMachinesReadyCondition,
     EtcdClusterHasNoOutdatedMembersCondition, EtcdEndpointsAvailable]"
  by (simp add: condition_type_defs)

lemmas condition_types_neq [simp] = condition_types_distinct [simplified]

section \<open>EtcdadmCluster\<close>

definition UpgradeInProgressAnnotation :: string where
  "UpgradeInProgressAnnotation = ''etcdcluster.cluster.x-k8s.io/upgrading''"

definition HealthCheckRetriesAnnotation :: string where
  "HealthCheckRetriesAnnotation = ''etcdcluster.cluster.x-k8s.io/healthcheck-retries''"

definition EtcdadmClusterFinalizer :: string where
  "EtcdadmClusterFinalizer = ''etcdcluster.cluster.x-k8s.io''"

text \<open>
  The spec of the bootstrap provider's EtcdadmConfig belongs to another repository. The controller
  copies it and compares it with \<open>reflect.DeepEqual\<close>, so it is an opaque value with equality.
\<close>

datatype EtcdadmConfigSpec = OpaqueEtcdadmConfigSpec string

record EtcdadmClusterSpec =
  Replicas :: "32 word option"
  InfrastructureTemplate :: ObjectReference
  etcdadmConfigSpec :: EtcdadmConfigSpec

record EtcdadmClusterStatus =
  ReadyReplicas :: "32 word"
  InitMachineAddress :: string
  Initialized :: bool
  Ready :: bool
  CreationComplete :: bool
  Endpoints :: string
  Selector :: string
  ObservedGeneration :: "64 word"
  Conditions :: "Condition list"

record EtcdadmCluster =
  ecMeta :: ObjectMeta
  ecSpec :: EtcdadmClusterSpec
  ecStatus :: EtcdadmClusterStatus

definition GetConditions :: "EtcdadmCluster \<Rightarrow> Condition list" where
  "GetConditions ec = Conditions (ecStatus ec)"

definition SetConditions :: "EtcdadmCluster \<Rightarrow> Condition list \<Rightarrow> EtcdadmCluster" where
  "SetConditions ec cs = ec\<lparr>ecStatus := (ecStatus ec)\<lparr>Conditions := cs\<rparr>\<rparr>"

lemma Get_SetConditions [simp]: "GetConditions (SetConditions ec cs) = cs"
  by (simp add: GetConditions_def SetConditions_def)

lemma SetConditions_frame [simp]:
  "ecMeta (SetConditions ec cs) = ecMeta ec"
  "ecSpec (SetConditions ec cs) = ecSpec ec"
  "Ready (ecStatus (SetConditions ec cs)) = Ready (ecStatus ec)"
  "ReadyReplicas (ecStatus (SetConditions ec cs)) = ReadyReplicas (ecStatus ec)"
  "InitMachineAddress (ecStatus (SetConditions ec cs)) = InitMachineAddress (ecStatus ec)"
  "Initialized (ecStatus (SetConditions ec cs)) = Initialized (ecStatus ec)"
  "CreationComplete (ecStatus (SetConditions ec cs)) = CreationComplete (ecStatus ec)"
  "Endpoints (ecStatus (SetConditions ec cs)) = Endpoints (ecStatus ec)"
  "Selector (ecStatus (SetConditions ec cs)) = Selector (ecStatus ec)"
  by (simp_all add: SetConditions_def)

section \<open>Cluster API objects\<close>

text \<open>\<open>clusterv1.MachineAddress\<close>; its type is a string with these named values.\<close>

datatype MachineAddressType =
    MachineHostName
  | MachineInternalIP
  | MachineInternalDNS
  | MachineExternalIP
  | MachineExternalDNS
  | OtherAddressType string

record MachineAddress =
  addrType :: MachineAddressType
  addrAddress :: string

text \<open>\<open>clusterv1.Machine\<close>: metadata, the fields of its spec the controller uses, its addresses.\<close>

record Machine =
  mMeta :: ObjectMeta
  mClusterName :: string
  mInfrastructureRef :: ContractRef
  mConfigRef :: ContractRef
  mFailureDomain :: string
  mAddresses :: "MachineAddress list"

abbreviation mName :: "Machine \<Rightarrow> string" where
  "mName m \<equiv> Name (mMeta m)"

text \<open>
  \<open>collections.Machines\<close> is a Go map from a machine's name to the machine: a list of machines, the
  order being one in which \<open>range\<close> may visit them. \<open>machines_wf\<close> says that names are keys.
\<close>

type_synonym Machines = "Machine list"

definition machines_wf :: "Machines \<Rightarrow> bool" where
  "machines_wf ms = distinct (map mName ms)"

definition machines_lookup :: "Machines \<Rightarrow> string \<Rightarrow> Machine option" where
  "machines_lookup ms n = find (\<lambda>m. mName m = n) ms"

lemma machines_lookup_Some: "machines_lookup ms n = Some m \<Longrightarrow> m \<in> set ms \<and> mName m = n"
  by (auto simp: machines_lookup_def find_Some_iff in_set_conv_nth)

lemma machines_lookup_mem: "m \<in> set ms \<Longrightarrow> \<exists>m'. machines_lookup ms (mName m) = Some m'"
  by (cases "machines_lookup ms (mName m)") (auto simp: machines_lookup_def find_None_iff)

record FailureDomain =
  fdName :: string
  fdControlPlane :: "bool option"

record Cluster =
  clMeta :: ObjectMeta
  clPaused :: "bool option"
  clManagedExternalEtcdRef :: "ContractRef option"
  clFailureDomains :: "FailureDomain list option"
  clConditions :: "(string \<times> string) list"

abbreviation clName :: "Cluster \<Rightarrow> string" where
  "clName c \<equiv> Name (clMeta c)"

text \<open>\<open>etcdbootstrapv1.EtcdadmConfig\<close>: the bootstrap object of one machine.\<close>

record EtcdadmConfig =
  cfgMeta :: ObjectMeta
  cfgSpec :: EtcdadmConfigSpec

text \<open>\<open>unstructured.Unstructured\<close>, an infrastructure object read or cloned by the controller.\<close>

record InfraObject =
  infMeta :: ObjectMeta
  infAPIVersion :: string
  infKind :: string

text \<open>\<open>corev1.Secret\<close>: metadata, data (a Go map, nil when the secret has none), type.\<close>

record Secret =
  secMeta :: ObjectMeta
  secData :: go_map
  secType :: string

text \<open>\<open>etcdserverpb.Member\<close>\<close>

record Member =
  memberID :: "64 word"
  memberName :: string
  memberPeerURLs :: "string list"

text \<open>\<open>ctrl.Result\<close>; durations are nanoseconds.\<close>

record Result =
  Requeue :: bool
  RequeueAfter :: int

definition noResult :: Result where
  "noResult = \<lparr>Requeue = False, RequeueAfter = 0\<rparr>"

definition requeueNow :: Result where
  "requeueNow = \<lparr>Requeue = True, RequeueAfter = 0\<rparr>"

definition requeueAfter :: "int \<Rightarrow> Result" where
  "requeueAfter d = \<lparr>Requeue = False, RequeueAfter = d\<rparr>"

definition time_Second :: int where
  "time_Second = 1000000000"

record ObjectKey =
  keyNamespace :: string
  keyName :: string

end
