(* ===== verification/Go_Std.thy ===== *)
theory Go_Std
  imports Prelude "HOL-Library.List_Lexorder" "HOL-Library.Char_ord"
begin

text \<open>
  The parts of Go's standard library the controller computes with: \<open>strconv\<close>, \<open>strings\<close>,
  \<open>sort.Strings\<close>, \<open>net/url\<close> and \<open>net.SplitHostPort\<close>, for the Go release \<open>go.mod\<close> names (1.25.0).
  A Go string is a list of bytes (\<open>string\<close>); \<open>int\<close> is 64 bits wide.
\<close>

section \<open>Numbers and text\<close>

text \<open>\<open>%d\<close> of \<open>fmt.Sprintf\<close>.\<close>

definition digit_char :: "nat \<Rightarrow> char" where
  "digit_char d = char_of (48 + d)"

fun show_nat :: "nat \<Rightarrow> string" where
  "show_nat n = (if n < 10 then [digit_char n] else show_nat (n div 10) @ [digit_char (n mod 10)])"

declare show_nat.simps [simp del]

definition show_int :: "int \<Rightarrow> string" where
  "show_int i = (if i < 0 then CHR ''-'' # show_nat (nat (- i)) else show_nat (nat i))"

definition is_digit :: "char \<Rightarrow> bool" where
  "is_digit c = (48 \<le> (of_char c :: nat) \<and> (of_char c :: nat) \<le> 57)"

definition digit_val :: "char \<Rightarrow> int" where
  "digit_val c = of_char c - 48"

text \<open>
  \<open>strconv.ParseUint(s, 10, 64)\<close> from a given value: \<open>None\<close> of the second component is success. It
  stops at the first byte that is no digit (a syntax error, value 0) or at the first digit that
  overflows (a range error, the largest value), whichever comes first.
\<close>

datatype num_error = ErrSyntax | ErrRange

definition maxUint64 :: int where "maxUint64 = 18446744073709551615"
definition maxInt64 :: int where "maxInt64 = 9223372036854775807"
definition minInt64 :: int where "minInt64 = - 9223372036854775808"

fun parse_uint_from :: "int \<Rightarrow> string \<Rightarrow> int \<times> num_error option" where
  "parse_uint_from n [] = (n, None)"
| "parse_uint_from n (c # cs) =
     (if \<not> is_digit c then (0, Some ErrSyntax)
      else if n \<ge> maxUint64 div 10 + 1 then (maxUint64, Some ErrRange)
      else if n * 10 + digit_val c > maxUint64 then (maxUint64, Some ErrRange)
      else parse_uint_from (n * 10 + digit_val c) cs)"

definition parse_uint :: "string \<Rightarrow> int \<times> num_error option" where
  "parse_uint s = (if s = [] then (0, Some ErrSyntax) else parse_uint_from 0 s)"

text \<open>
  \<open>strconv.Atoi\<close>: on a syntax error the value is 0, on a range error it is the nearest \<open>int\<close>. The
  fast path of the library for short strings computes the same.
\<close>

definition Atoi_unsigned :: "bool \<Rightarrow> string \<Rightarrow> int \<times> num_error option" where
  "Atoi_unsigned neg s =
     (case parse_uint s of
        (_, Some ErrSyntax) \<Rightarrow> (0, Some ErrSyntax)
      | (un, _) \<Rightarrow>
          if \<not> neg \<and> un > maxInt64 then (maxInt64, Some ErrRange)
          else if neg \<and> un > maxInt64 + 1 then (minInt64, Some ErrRange)
          else (if neg then - un else un, None))"

definition Atoi :: "string \<Rightarrow> int \<times> num_error option" where
  "Atoi s =
     (case s of
        [] \<Rightarrow> (0, Some ErrSyntax)
      | c # cs \<Rightarrow>
          if c = CHR ''+'' then Atoi_unsigned False cs
          else if c = CHR ''-'' then Atoi_unsigned True cs
          else Atoi_unsigned False s)"

section \<open>strings and sort\<close>

text \<open>\<open>strings.Join(xs, sep)\<close>\<close>

fun strings_Join :: "string list \<Rightarrow> string \<Rightarrow> string" where
  "strings_Join [] sep = []"
| "strings_Join [x] sep = x"
| "strings_Join (x # y # xs) sep = x @ sep @ strings_Join (y # xs) sep"

text \<open>\<open>strings.Split(s, sep)\<close> for a separator of one byte.\<close>

fun strings_Split :: "string \<Rightarrow> char \<Rightarrow> string list" where
  "strings_Split [] sep = [[]]"
| "strings_Split (c # cs) sep =
     (if c = sep then [] # strings_Split cs sep
      else case strings_Split cs sep of [] \<Rightarrow> [[c]] | w # ws \<Rightarrow> (c # w) # ws)"

definition strings_HasSuffix :: "string \<Rightarrow> string \<Rightarrow> bool" where
  "strings_HasSuffix s suf = (length suf \<le> length s \<and> drop (length s - length suf) s = suf)"

definition strings_HasPrefix :: "string \<Rightarrow> string \<Rightarrow> bool" where
  "strings_HasPrefix s pre = (take (length pre) s = pre)"

text \<open>\<open>strings.Cut(s, sep)\<close> for a separator of one byte: before, after, found.\<close>

fun strings_Cut :: "string \<Rightarrow> char \<Rightarrow> string \<times> string \<times> bool" where
  "strings_Cut [] sep = ([], [], False)"
| "strings_Cut (c # cs) sep =
     (if c = sep then ([], cs, True)
      else case strings_Cut cs sep of (b, a, f) \<Rightarrow> (c # b, a, f))"

text \<open>
  \<open>strings.LastIndex(s, sep)\<close> for one byte, as a split: \<open>Some (s[:i], s[i+1:])\<close> at the last
  occurrence, \<open>None\<close> where the index is -1.
\<close>

definition split_last :: "string \<Rightarrow> char \<Rightarrow> (string \<times> string) option" where
  "split_last s sep =
     (if sep \<in> set s
      then Some (rev (tl (dropWhile (\<lambda>c. c \<noteq> sep) (rev s))), rev (takeWhile (\<lambda>c. c \<noteq> sep) (rev s)))
      else None)"

text \<open>\<open>sort.Strings\<close>: ascending by bytes.\<close>

definition sort_Strings :: "string list \<Rightarrow> string list" where
  "sort_Strings xs = sort xs"

section \<open>net/url\<close>

definition ord :: "char \<Rightarrow> nat" where "ord c = of_char c"

definition is_alpha :: "char \<Rightarrow> bool" where
  "is_alpha c = (65 \<le> ord c \<and> ord c \<le> 90 \<or> 97 \<le> ord c \<and> ord c \<le> 122)"

definition is_alnum :: "char \<Rightarrow> bool" where
  "is_alnum c = (is_alpha c \<or> is_digit c)"

definition ishex :: "char \<Rightarrow> bool" where
  "ishex c = (is_digit c \<or> 97 \<le> ord c \<and> ord c \<le> 102 \<or> 65 \<le> ord c \<and> ord c \<le> 70)"

definition unhex :: "char \<Rightarrow> nat" where
  "unhex c =
     (if is_digit c then ord c - 48
      else if 97 \<le> ord c \<and> ord c \<le> 102 then ord c - 97 + 10
      else if 65 \<le> ord c \<and> ord c \<le> 70 then ord c - 65 + 10
      else 0)"

text \<open>The bytes \<open>shouldEscape\<close> leaves alone in a host or a zone.\<close>

definition host_byte :: "char \<Rightarrow> bool" where
  "host_byte c = (is_alnum c \<or> c \<in> set ''!$&()*+,;=:[]<>-_.~'' \<or> ord c = 39 \<or> ord c = 34)"

datatype url_encoding = encodeHost | encodeZone | encodePath | encodeUserPassword | encodeFragment

text \<open>\<open>unescape(s, mode)\<close>; \<open>None\<close> is an error. A \<open>+\<close> stands for itself in all these modes.\<close>

fun unescape :: "url_encoding \<Rightarrow> string \<Rightarrow> string option" where
  "unescape mode [] = Some []"
| "unescape mode (c # cs) =
     (if ord c = 37 then
        (case cs of
           a # b # rest \<Rightarrow>
             if \<not> ishex a \<or> \<not> ishex b then None
             else
               let v = unhex a * 16 + unhex b; is25 = (ord a = 50 \<and> ord b = 53) in
               if mode = encodeHost \<and> unhex a < 8 \<and> \<not> is25 then None
               else if mode = encodeZone \<and> \<not> is25 \<and> v \<noteq> 32 \<and> \<not> host_byte (char_of v) then None
               else map_option (\<lambda>t. char_of v # t) (unescape mode rest)
         | _ \<Rightarrow> None)
      else if (mode = encodeHost \<or> mode = encodeZone) \<and> ord c < 128 \<and> \<not> host_byte c then None
      else map_option (\<lambda>t. c # t) (unescape mode cs))"

text \<open>\<open>validOptionalPort\<close>: empty, or a colon and digits.\<close>

definition validOptionalPort :: "string \<Rightarrow> bool" where
  "validOptionalPort p = (case p of [] \<Rightarrow> True | c # ds \<Rightarrow> c = CHR '':'' \<and> list_all is_digit ds)"

definition validUserinfo :: "string \<Rightarrow> bool" where
  "validUserinfo s = list_all (\<lambda>c. is_alnum c \<or> c \<in> set ''-._:~!$&()*+,;=%@'' \<or> ord c = 39) s"

text \<open>Where \<open>%25\<close> first occurs in a bracketed host (\<open>strings.Index\<close>), as a split before it.\<close>

fun cut_percent25 :: "string \<Rightarrow> (string \<times> string) option" where
  "cut_percent25 [] = None"
| "cut_percent25 (c # cs) =
     (if strings_HasPrefix (c # cs) ''%25'' then Some ([], c # cs)
      else map_option (\<lambda>(a, b). (c # a, b)) (cut_percent25 cs))"

definition parseHost :: "string \<Rightarrow> string option" where
  "parseHost host =
     (if strings_HasPrefix host ''['' then
        (case split_last host (CHR '']'') of
           None \<Rightarrow> None
         | Some (bef, colonPort) \<Rightarrow>
             if \<not> validOptionalPort colonPort then None
             else (case cut_percent25 bef of
                 Some (h1, zone) \<Rightarrow>
                   (case (unescape encodeHost h1, unescape encodeZone zone,
                          unescape encodeHost (CHR '']'' # colonPort)) of
                      (Some a, Some b, Some c) \<Rightarrow> Some (a @ b @ c)
                    | _ \<Rightarrow> None)
               | None \<Rightarrow> unescape encodeHost host))
      else
        (case split_last host (CHR '':'') of
           Some (_, port) \<Rightarrow>
             if \<not> validOptionalPort (CHR '':'' # port) then None else unescape encodeHost host
         | None \<Rightarrow> unescape encodeHost host))"

definition parseAuthority :: "string \<Rightarrow> string option" where
  "parseAuthority authority =
     (case split_last authority (CHR ''@'') of
        None \<Rightarrow> parseHost authority
      | Some (userinfo, h) \<Rightarrow>
          (case parseHost h of
             None \<Rightarrow> None
           | Some host \<Rightarrow>
               if \<not> validUserinfo userinfo then None
               else (case strings_Cut userinfo (CHR '':'') of (user, pw, _) \<Rightarrow>
                   (case (unescape encodeUserPassword user, unescape encodeUserPassword pw) of
                      (Some _, Some _) \<Rightarrow> Some host
                    | _ \<Rightarrow> None))))"

text \<open>
  \<open>getScheme\<close>: \<open>None\<close> is an error (a leading colon); otherwise the scheme (empty if there is none)
  and what follows it.
\<close>

fun getScheme_from :: "string \<Rightarrow> string \<Rightarrow> string \<Rightarrow> (string \<times> string) option" where
  "getScheme_from raw acc [] = Some ([], raw)"
| "getScheme_from raw acc (c # cs) =
     (if is_alpha c then getScheme_from raw (acc @ [c]) cs
      else if is_digit c \<or> c \<in> set ''+-.'' then
        (if acc = [] then Some ([], raw) else getScheme_from raw (acc @ [c]) cs)
      else if c = CHR '':'' then (if acc = [] then None else Some (acc, cs))
      else Some ([], raw))"

definition getScheme :: "string \<Rightarrow> (string \<times> string) option" where
  "getScheme raw = getScheme_from raw [] raw"

text \<open>
  \<open>parse(rawURL, viaRequest)\<close>, of which the controller reads the field \<open>Host\<close>: \<open>None\<close> is an error,
  \<open>Some h\<close> a URL whose host is \<open>h\<close>.
\<close>

definition url_parse_host :: "bool \<Rightarrow> string \<Rightarrow> string option" where
  "url_parse_host viaRequest raw =
     (if list_ex (\<lambda>c. ord c < 32 \<or> ord c = 127) raw then None
      else if raw = [] \<and> viaRequest then None
      else if raw = ''*'' then Some []
      else case getScheme raw of
        None \<Rightarrow> None
      | Some (scheme, rest0) \<Rightarrow>
          let rest = fst (strings_Cut rest0 (CHR ''?'')) in
          if \<not> strings_HasPrefix rest ''/'' \<and> scheme \<noteq> [] then Some []
          else if \<not> strings_HasPrefix rest ''/'' \<and> viaRequest then None
          else if \<not> strings_HasPrefix rest ''/'' \<and>
                  CHR '':'' \<in> set (fst (strings_Cut rest (CHR ''/''))) then None
          else if (scheme \<noteq> [] \<or> \<not> viaRequest \<and> \<not> strings_HasPrefix rest ''///'') \<and>
                  strings_HasPrefix rest ''//'' then
            (case strings_Cut (drop 2 rest) (CHR ''/'') of (authority, path, slash) \<Rightarrow>
               (case (parseAuthority authority,
                      unescape encodePath (if slash then CHR ''/'' # path else [])) of
                  (Some host, Some _) \<Rightarrow> Some host
                | _ \<Rightarrow> None))
          else map_option (\<lambda>_. []) (unescape encodePath rest))"

text \<open>\<open>url.ParseRequestURI(s)\<close> and \<open>url.Parse(s)\<close>, which first cuts off a fragment.\<close>

definition url_ParseRequestURI :: "string \<Rightarrow> string option" where
  "url_ParseRequestURI s = url_parse_host True s"

definition url_Parse :: "string \<Rightarrow> string option" where
  "url_Parse s =
     (case strings_Cut s (CHR ''#'') of (u, frag, _) \<Rightarrow>
        (case (url_parse_host False u, unescape encodeFragment frag) of
           (Some h, Some _) \<Rightarrow> Some h
         | _ \<Rightarrow> None))"

section \<open>net.SplitHostPort\<close>

definition net_SplitHostPort :: "string \<Rightarrow> (string \<times> string) option" where
  "net_SplitHostPort hostport =
     (case split_last hostport (CHR '':'') of
        None \<Rightarrow> None
      | Some (bef, port) \<Rightarrow>
          if strings_HasPrefix hostport ''['' then
            (case strings_Cut hostport (CHR '']'') of (pre, after, found) \<Rightarrow>
               if \<not> found then None
               else if after \<noteq> CHR '':'' # port then None
               else if CHR ''['' \<in> set (tl hostport) \<or> CHR '']'' \<in> set after then None
               else Some (tl pre, port))
          else if CHR '':'' \<in> set bef then None
          else if CHR ''['' \<in> set hostport \<or> CHR '']'' \<in> set hostport then None
          else Some (bef, port))"

end
