(* ===== verification/World.thy ===== *)
theory World
  imports Api_Types Go_Std
begin

text \<open>
  The outside of the controller. Its collaborators (the Kubernetes API server, etcd, the network,
  the clock, and the libraries it links: controller-runtime, cluster-api, etcd's client,
  pkg/errors, \<dots>) are not part of this repository, so they are a parameter: a record \<open>env\<close> of
  functions that every definition of the model takes as its argument \<open>E\<close>.

  A call that leaves the process is answered by a function of the history of calls made so far, and
  the call and its answer are appended to that history, the \<open>trace\<close> of the state. Since the answer
  may be any function of the history, \<open>E\<close> ranges over all environments, friendly or not; whatever
  is proved without a hypothesis on \<open>E\<close> holds for every one of them. Pure library functions are
  plain fields; what their documentation promises is stated as predicates over \<open>E\<close> in the
  theory \<open>Laws\<close>, and used as named hypotheses.
\<close>

section \<open>Data exchanged with the outside\<close>

text \<open>Which client reads: the manager's cached client or the API reader.\<close>

datatype Reader = CachedClient | UncachedClient

text \<open>\<open>certs.KeyPair\<close> and \<open>secret.Certificate\<close> of cluster-api (PEM bytes as strings)\<close>

record KeyPair =
  kpCert :: string
  kpKey :: string

record Certificate =
  certPurpose :: string
  certCertFile :: string
  certKeyFile :: string
  certKeyPair :: "KeyPair option"
  certGenerated :: bool

text \<open>\<open>certutil.Config\<close>, \<open>tls.Certificate\<close> (opaque), and what the source puts in an \<open>http.Client\<close>\<close>

record CertConfig =
  ccCommonName :: string
  ccOrganization :: "string list"
  ccUsages :: "string list"

datatype TlsCertificate = TlsCertificate string string

record HttpClient =
  hcTimeout :: int
  hcRootCAs :: string
  hcCertificate :: TlsCertificate

text \<open>An \<open>http.Response\<close>; \<open>respBody\<close> is what reading the body to its end gives.\<close>

record HttpResponse =
  respStatusCode :: int
  respBody :: "err + string"

text \<open>\<open>clientv3.Config\<close>, as filled in by \<open>generateEtcdClient\<close>\<close>

record EtcdConfig =
  etcdEndpoints :: "string list"
  etcdDialTimeout :: int
  etcdRootCAs :: string
  etcdCertificate :: TlsCertificate

text \<open>\<open>external.CreateFromTemplateInput\<close>\<close>

record CreateFromTemplateInput =
  cftTemplateRef :: ObjectReference
  cftNamespace :: string
  cftOwnerRef :: OwnerReference
  cftClusterName :: string
  cftLabels :: go_map

text \<open>A requirement of a label selector: key and values, with the operator \<open>selection.Equals\<close>.\<close>

record Requirement =
  reqKey :: string
  reqValues :: "string list"

section \<open>Events\<close>

text \<open>
  One constructor per call that leaves the process, with its arguments and its answer. The events
  that change the outside are singled out below.
\<close>

datatype event =
    EvGetEtcdadmCluster ObjectKey "err + EtcdadmCluster"
  | EvGetOwnerCluster ObjectMeta "err + Cluster option"
  | EvNewPatchHelper string "err option"
  | EvPatchEtcdadmCluster EtcdadmCluster EtcdadmCluster "err option"
  | EvListEtcdadmClusters "err + EtcdadmCluster list"
  | EvStatusUpdate EtcdadmCluster "err option"
  | EvListMachines Reader string "err + Machines"
  | EvExternalGet ObjectReference "err + InfraObject"
  | EvPatchTemplate InfraObject "err option"
  | EvCreateFromTemplate CreateFromTemplateInput "err + InfraObject option"
  | EvGetEtcdadmConfig ObjectKey "err + EtcdadmConfig"
  | EvCreateEtcdadmConfig EtcdadmConfig "err option"
  | EvGenerateName string string
  | EvCreateMachine Machine "err option"
  | EvUpdateMachine Machine "err option"
  | EvDeleteMachine Machine "err option"
  | EvLookupOrGenerateCerts ObjectKey "err + Certificate list"
  | EvLookupCerts ObjectKey string "err + Certificate list"
  | EvCreateOrPatchSecret Secret "err option"
  | EvCreateSecret Secret "err option"
  | EvGetSecret ObjectKey "err + Secret"
  | EvUpdateSecret Secret "err option"
  | EvNewCertAndKey CertConfig "err + string \<times> string"
  | EvNewEtcdClient EtcdConfig "err + nat"
  | EvMemberList nat "err + Member list"
  | EvMemberRemove nat "64 word" "err option"
  | EvCloseEtcdClient nat
  | EvDial string bool
  | EvHttpGet string "err + HttpResponse"
  | EvNow int
  | EvRecordEvent string string

type_synonym history = "event list"

text \<open>The calls that ask the outside to change something, whether or not it agrees to.\<close>

fun mutates :: "event \<Rightarrow> bool" where
  "mutates (EvPatchEtcdadmCluster _ _ _) = True"
| "mutates (EvStatusUpdate _ _) = True"
| "mutates (EvPatchTemplate _ _) = True"
| "mutates (EvCreateFromTemplate _ _) = True"
| "mutates (EvCreateEtcdadmConfig _ _) = True"
| "mutates (EvCreateMachine _ _) = True"
| "mutates (EvUpdateMachine _ _) = True"
| "mutates (EvDeleteMachine _ _) = True"
| "mutates (EvLookupOrGenerateCerts _ _) = True"
| "mutates (EvCreateOrPatchSecret _ _) = True"
| "mutates (EvCreateSecret _ _) = True"
| "mutates (EvUpdateSecret _ _) = True"
| "mutates (EvMemberRemove _ _ _) = True"
| "mutates _ = False"

fun is_delete :: "event \<Rightarrow> bool" where
  "is_delete (EvDeleteMachine _ _) = True"
| "is_delete _ = False"

fun is_remove :: "event \<Rightarrow> bool" where
  "is_remove (EvMemberRemove _ _ _) = True"
| "is_remove _ = False"

fun is_create :: "event \<Rightarrow> bool" where
  "is_create (EvCreateMachine _ _) = True"
| "is_create _ = False"

fun is_update :: "event \<Rightarrow> bool" where
  "is_update (EvUpdateMachine _ _) = True"
| "is_update _ = False"

text \<open>Calls that take part in removing a member: none of them is made outside \<open>removeEtcdMachine\<close>.\<close>

fun removal_free :: "event \<Rightarrow> bool" where
  "removal_free (EvDeleteMachine _ _) = False"
| "removal_free (EvMemberRemove _ _ _) = False"
| "removal_free _ = True"

lemma removal_free_iff: "removal_free e = (\<not> is_delete e \<and> \<not> is_remove e)"
  by (cases e) simp_all

lemma mutates_if: "is_delete e \<or> is_remove e \<or> is_create e \<or> is_update e \<Longrightarrow> mutates e"
  by (cases e) simp_all

section \<open>The state of the process\<close>

text \<open>
  \<open>etcdadmClusterMemberHealthConfig\<close>: the health-check loop's memory of one cluster. Its two maps
  are Go maps, here association lists with distinct keys.
\<close>

record MemberHealthConfig =
  unhealthyMembersFrequency :: "(string \<times> int) list"
  unhealthyMembersToRemove :: "(string \<times> Machine) list"
  hcCluster :: Cluster
  hcEndpoints :: string
  hcOwnedMachines :: Machines

text \<open>
  \<^item> \<open>trace\<close>: the calls made so far, oldest first;
  \<^item> \<open>theEC\<close>: the EtcdadmCluster object the running function reads and writes through its pointer;
  \<^item> \<open>clusterToHttpClient\<close>: the \<open>sync.Map\<close> of \<open>etcdHealthCheckConfig\<close>, by cluster UID;
  \<^item> \<open>etcdadmClusterMapper\<close>: the health-check loop's map, by EtcdadmCluster UID.
\<close>

record sys =
  trace :: history
  theEC :: EtcdadmCluster
  clusterToHttpClient :: "string \<rightharpoonup> HttpClient"
  etcdadmClusterMapper :: "string \<rightharpoonup> MemberHealthConfig"

type_synonym 'a io = "(sys, 'a) prog"

section \<open>The environment\<close>

text \<open>\<open>github.com/pkg/errors\<close>, \<open>apimachinery/pkg/util/errors\<close>, \<open>apimachinery/pkg/api/errors\<close>, \<open>go-multierror\<close>\<close>

record errors_api =
  errors_Wrap :: "err option \<Rightarrow> string \<Rightarrow> err option"
  errors_Cause :: "err \<Rightarrow> err"
  kerrors_NewAggregate :: "err option list \<Rightarrow> err option"
  multierror_Append :: "err option \<Rightarrow> err \<Rightarrow> err option"
  IsNotFound :: "err \<Rightarrow> bool"
  IsAlreadyExists :: "err \<Rightarrow> bool"
  IsGone :: "err \<Rightarrow> bool"

text \<open>\<open>cluster-api/util/collections\<close> and \<open>util/failuredomains\<close>\<close>

record collections_api =
  col_Filter :: "(Machine \<Rightarrow> bool) \<Rightarrow> Machines \<Rightarrow> Machines"
  col_AnyFilter :: "(Machine \<Rightarrow> bool) \<Rightarrow> Machines \<Rightarrow> Machines"
  col_Difference :: "Machines \<Rightarrow> Machines \<Rightarrow> Machines"
  col_Len :: "Machines \<Rightarrow> int"
  col_Oldest :: "Machines \<Rightarrow> Machine option"
  col_Newest :: "Machines \<Rightarrow> Machine option"
  col_Not :: "(Machine \<Rightarrow> bool) \<Rightarrow> Machine \<Rightarrow> bool"
  col_And :: "(Machine \<Rightarrow> bool) \<Rightarrow> (Machine \<Rightarrow> bool) \<Rightarrow> Machine \<Rightarrow> bool"
  col_InFailureDomains :: "string list \<Rightarrow> Machine \<Rightarrow> bool"
  col_HasAnnotationKey :: "string \<Rightarrow> Machine \<Rightarrow> bool"
  col_HasDeletionTimestamp :: "Machine \<Rightarrow> bool"
  col_OwnedMachines :: "EtcdadmCluster \<Rightarrow> Machine \<Rightarrow> bool"
  fd_PickMost :: "FailureDomain list \<Rightarrow> Machines \<Rightarrow> Machines \<Rightarrow> string"
  fd_PickFewest :: "FailureDomain list \<Rightarrow> Machines \<Rightarrow> Machines \<Rightarrow> string"

text \<open>
  \<open>cluster-api/util/deprecated/v1beta1/conditions\<close>. The setters stamp the time, so they take the
  history as well.
\<close>

record conditions_api =
  cond_IsTrue :: "Condition list \<Rightarrow> ConditionType \<Rightarrow> bool"
  cond_IsFalse :: "Condition list \<Rightarrow> ConditionType \<Rightarrow> bool"
  cond_IsUnknown :: "Condition list \<Rightarrow> ConditionType \<Rightarrow> bool"
  cond_Has :: "Condition list \<Rightarrow> ConditionType \<Rightarrow> bool"
  cond_GetReason :: "Condition list \<Rightarrow> ConditionType \<Rightarrow> string"
  cond_MarkTrue :: "history \<Rightarrow> ConditionType \<Rightarrow> Condition list \<Rightarrow> Condition list"
  cond_MarkFalse ::
    "history \<Rightarrow> ConditionType \<Rightarrow> string \<Rightarrow> ConditionSeverity \<Rightarrow> string \<Rightarrow> Condition list \<Rightarrow> Condition list"
  cond_SetSummary :: "history \<Rightarrow> ConditionType list \<Rightarrow> Condition list \<Rightarrow> Condition list"

text \<open>Other pure library functions: labels, annotations, references, finalizers, names, certificates.\<close>

record capi_api =
  labels_NewRequirement :: "string \<Rightarrow> string list \<Rightarrow> err + Requirement"
  labels_Matches :: "Requirement list \<Rightarrow> go_map \<Rightarrow> bool"
  labels_String :: "Requirement list \<Rightarrow> string"
  ClusterNameLabel :: string
  MachineEtcdClusterLabelName :: string
  DeleteMachineAnnotation :: string
  ControlPlaneUpgradeCompletedAnnotation :: string
  TemplateClonedFromNameAnnotation :: string
  TemplateClonedFromGroupKindAnnotation :: string
  TemplateSuffix :: string
  GroupVersionString :: string
  BootstrapGroup :: string
  DeletingReason :: string
  ClusterSecretType :: string
  TLSCrtDataName :: string
  MastersGroup :: string
  ReadyCondition :: ConditionType
  InfrastructureReadyCondition :: ConditionType
  cluster_IsTrue :: "Cluster \<Rightarrow> ConditionType \<Rightarrow> bool"
  annotations_IsPaused :: "Cluster \<Rightarrow> EtcdadmCluster \<Rightarrow> bool"
  annotations_HasPaused :: "EtcdadmCluster \<Rightarrow> bool"
  ref_IsDefined :: "ContractRef option \<Rightarrow> bool"
  util_EnsureOwnerRef :: "OwnerReference list \<Rightarrow> OwnerReference \<Rightarrow> OwnerReference list"
  NewControllerRef :: "ObjectMeta \<Rightarrow> string \<Rightarrow> string \<Rightarrow> OwnerReference"
  schema_ParseGroupVersion :: "string \<Rightarrow> err + string"
  groupKindString :: "ObjectReference \<Rightarrow> string"
  ContainsFinalizer :: "string list \<Rightarrow> string \<Rightarrow> bool"
  AddFinalizer :: "string list \<Rightarrow> string \<Rightarrow> string list"
  RemoveFinalizer :: "string list \<Rightarrow> string \<Rightarrow> string list"
  certs_GetByPurpose :: "Certificate list \<Rightarrow> string \<Rightarrow> Certificate option"
  ManagedExternalEtcdCA :: string
  APIServerEtcdClient :: string
  EtcdCAPurpose :: string
  secret_Name :: "string \<Rightarrow> string \<Rightarrow> string"
  certs_AsSecret :: "Certificate \<Rightarrow> ObjectKey \<Rightarrow> OwnerReference \<Rightarrow> Secret"
  certs_EncodeCertPEM :: "string \<Rightarrow> string"
  certs_EncodePrivateKeyPEM :: "string \<Rightarrow> string"
  pem_Decode :: "string \<Rightarrow> string option"
  x509_ParseCertificate :: "string \<Rightarrow> err + string"
  x509_ParsePKCS1PrivateKey :: "string \<Rightarrow> err + string"
  tls_X509KeyPair :: "string \<Rightarrow> string \<Rightarrow> err + TlsCertificate"

text \<open>The answers of the Kubernetes API server, of etcd, of the network and of the clock.\<close>

record service_api =
  k_GetEtcdadmCluster :: "history \<Rightarrow> ObjectKey \<Rightarrow> err + EtcdadmCluster"
  k_GetOwnerCluster :: "history \<Rightarrow> ObjectMeta \<Rightarrow> err + Cluster option"
  k_NewPatchHelper :: "history \<Rightarrow> string \<Rightarrow> err option"
  k_PatchEtcdadmCluster :: "history \<Rightarrow> EtcdadmCluster \<Rightarrow> EtcdadmCluster \<Rightarrow> err option"
  k_ListEtcdadmClusters :: "history \<Rightarrow> err + EtcdadmCluster list"
  k_StatusUpdate :: "history \<Rightarrow> EtcdadmCluster \<Rightarrow> err option"
  k_ListMachines :: "history \<Rightarrow> Reader \<Rightarrow> Cluster \<Rightarrow> (Machine \<Rightarrow> bool) \<Rightarrow> err + Machines"
  k_ExternalGet :: "history \<Rightarrow> ObjectReference \<Rightarrow> err + InfraObject"
  k_PatchTemplate :: "history \<Rightarrow> InfraObject \<Rightarrow> err option"
  k_CreateFromTemplate :: "history \<Rightarrow> CreateFromTemplateInput \<Rightarrow> err + InfraObject option"
  k_GetEtcdadmConfig :: "history \<Rightarrow> ObjectKey \<Rightarrow> err + EtcdadmConfig"
  k_CreateEtcdadmConfig :: "history \<Rightarrow> EtcdadmConfig \<Rightarrow> err option"
  k_GenerateName :: "history \<Rightarrow> string \<Rightarrow> string"
  k_CreateMachine :: "history \<Rightarrow> Machine \<Rightarrow> err option"
  k_UpdateMachine :: "history \<Rightarrow> Machine \<Rightarrow> err option"
  k_DeleteMachine :: "history \<Rightarrow> Machine \<Rightarrow> err option"
  k_LookupOrGenerateCerts ::
    "history \<Rightarrow> Certificate list \<Rightarrow> ObjectKey \<Rightarrow> OwnerReference \<Rightarrow> err + Certificate list"
  k_LookupCerts :: "history \<Rightarrow> Certificate list \<Rightarrow> ObjectKey \<Rightarrow> err + Certificate list"
  k_CreateOrPatchSecret :: "history \<Rightarrow> Secret \<Rightarrow> err option"
  k_CreateSecret :: "history \<Rightarrow> Secret \<Rightarrow> err option"
  k_GetSecret :: "history \<Rightarrow> ObjectKey \<Rightarrow> err + Secret"
  k_UpdateSecret :: "history \<Rightarrow> Secret \<Rightarrow> err option"
  x_NewCertAndKey :: "history \<Rightarrow> string \<Rightarrow> string \<Rightarrow> CertConfig \<Rightarrow> err + string \<times> string"
  e_New :: "history \<Rightarrow> EtcdConfig \<Rightarrow> err + nat"
  e_MemberList :: "history \<Rightarrow> nat \<Rightarrow> err + Member list"
  e_MemberRemove :: "history \<Rightarrow> nat \<Rightarrow> 64 word \<Rightarrow> err option"
  n_Dial :: "history \<Rightarrow> string \<Rightarrow> err + bool"
  n_HttpGet :: "history \<Rightarrow> HttpClient \<Rightarrow> string \<Rightarrow> err + HttpResponse"
  t_Now :: "history \<Rightarrow> int"
  range_order :: "string \<Rightarrow> history \<Rightarrow> nat \<Rightarrow> nat list"

text \<open>
  All of it, with the two fields of the reconciler that hold functions: how to get an etcd client
  and how to probe a port. A nil client is \<open>Inr None\<close>.
\<close>

record env =
  errs :: errors_api
  coll :: collections_api
  conds :: conditions_api
  capi :: capi_api
  svc :: service_api
  GetEtcdClient :: "Cluster \<Rightarrow> string \<Rightarrow> (sys, (err + nat option) outcome) state"
  r_isPortOpen :: "string \<Rightarrow> (sys, bool outcome) state"

end
