(* ===== verification/Calls.thy ===== *)
theory Calls
  imports World
begin

text \<open>
  One program per call that leaves the process: it asks the environment, appends the event and
  returns the answer. Then the two preorders every program respects (it only extends the trace; it
  keeps a field of the state), the in-memory updates of the EtcdadmCluster, and the documented
  behaviour of the libraries as predicates over the environment.
\<close>

section \<open>Calls\<close>

definition call :: "('r \<Rightarrow> event) \<Rightarrow> (history \<Rightarrow> 'r) \<Rightarrow> 'r io" where
  "call ev answer =
     bnd (gets (\<lambda>s. answer (trace s))) (\<lambda>r.
     seq (modify (\<lambda>s. s\<lparr>trace := trace s @ [ev r]\<rparr>)) (ret r))"

lemma run_call [simp, run_simps]:
  "run_state (call ev answer) s =
     (Done (answer (trace s)), s\<lparr>trace := trace s @ [ev (answer (trace s))]\<rparr>)"
  by (simp add: call_def run_bnd run_seq)

definition call_GetEtcdadmCluster :: "env \<Rightarrow> ObjectKey \<Rightarrow> (err + EtcdadmCluster) io" where
  "call_GetEtcdadmCluster E k = call (EvGetEtcdadmCluster k) (\<lambda>h. k_GetEtcdadmCluster (svc E) h k)"

definition call_GetOwnerCluster :: "env \<Rightarrow> ObjectMeta \<Rightarrow> (err + Cluster option) io" where
  "call_GetOwnerCluster E om = call (EvGetOwnerCluster om) (\<lambda>h. k_GetOwnerCluster (svc E) h om)"

definition call_NewPatchHelper :: "env \<Rightarrow> string \<Rightarrow> err option io" where
  "call_NewPatchHelper E n = call (EvNewPatchHelper n) (\<lambda>h. k_NewPatchHelper (svc E) h n)"

definition call_PatchEtcdadmCluster :: "env \<Rightarrow> EtcdadmCluster \<Rightarrow> EtcdadmCluster \<Rightarrow> err option io" where
  "call_PatchEtcdadmCluster E old new =
     call (EvPatchEtcdadmCluster old new) (\<lambda>h. k_PatchEtcdadmCluster (svc E) h old new)"

definition call_ListEtcdadmClusters :: "env \<Rightarrow> (err + EtcdadmCluster list) io" where
  "call_ListEtcdadmClusters E = call EvListEtcdadmClusters (k_ListEtcdadmClusters (svc E))"

definition call_StatusUpdate :: "env \<Rightarrow> EtcdadmCluster \<Rightarrow> err option io" where
  "call_StatusUpdate E ec = call (EvStatusUpdate ec) (\<lambda>h. k_StatusUpdate (svc E) h ec)"

definition call_ListMachines ::
  "env \<Rightarrow> Reader \<Rightarrow> Cluster \<Rightarrow> (Machine \<Rightarrow> bool) \<Rightarrow> (err + Machines) io" where
  "call_ListMachines E rd cl f =
     call (EvListMachines rd (clName cl)) (\<lambda>h. k_ListMachines (svc E) h rd cl f)"

definition call_ExternalGet :: "env \<Rightarrow> ObjectReference \<Rightarrow> (err + InfraObject) io" where
  "call_ExternalGet E ref = call (EvExternalGet ref) (\<lambda>h. k_ExternalGet (svc E) h ref)"

definition call_PatchTemplate :: "env \<Rightarrow> InfraObject \<Rightarrow> err option io" where
  "call_PatchTemplate E obj = call (EvPatchTemplate obj) (\<lambda>h. k_PatchTemplate (svc E) h obj)"

definition call_CreateFromTemplate ::
  "env \<Rightarrow> CreateFromTemplateInput \<Rightarrow> (err + InfraObject option) io" where
  "call_CreateFromTemplate E i =
     call (EvCreateFromTemplate i) (\<lambda>h. k_CreateFromTemplate (svc E) h i)"

definition call_GetEtcdadmConfig :: "env \<Rightarrow> ObjectKey \<Rightarrow> (err + EtcdadmConfig) io" where
  "call_GetEtcdadmConfig E k = call (EvGetEtcdadmConfig k) (\<lambda>h. k_GetEtcdadmConfig (svc E) h k)"

definition call_CreateEtcdadmConfig :: "env \<Rightarrow> EtcdadmConfig \<Rightarrow> err option io" where
  "call_CreateEtcdadmConfig E c =
     call (EvCreateEtcdadmConfig c) (\<lambda>h. k_CreateEtcdadmConfig (svc E) h c)"

definition call_GenerateName :: "env \<Rightarrow> string \<Rightarrow> string io" where
  "call_GenerateName E base = call (EvGenerateName base) (\<lambda>h. k_GenerateName (svc E) h base)"

definition call_CreateMachine :: "env \<Rightarrow> Machine \<Rightarrow> err option io" where
  "call_CreateMachine E m = call (EvCreateMachine m) (\<lambda>h. k_CreateMachine (svc E) h m)"

definition call_UpdateMachine :: "env \<Rightarrow> Machine \<Rightarrow> err option io" where
  "call_UpdateMachine E m = call (EvUpdateMachine m) (\<lambda>h. k_UpdateMachine (svc E) h m)"

definition call_DeleteMachine :: "env \<Rightarrow> Machine \<Rightarrow> err option io" where
  "call_DeleteMachine E m = call (EvDeleteMachine m) (\<lambda>h. k_DeleteMachine (svc E) h m)"

definition call_LookupOrGenerateCerts ::
  "env \<Rightarrow> Certificate list \<Rightarrow> ObjectKey \<Rightarrow> OwnerReference \<Rightarrow> (err + Certificate list) io" where
  "call_LookupOrGenerateCerts E cs k own =
     call (EvLookupOrGenerateCerts k) (\<lambda>h. k_LookupOrGenerateCerts (svc E) h cs k own)"

definition call_LookupCerts ::
  "env \<Rightarrow> Certificate list \<Rightarrow> ObjectKey \<Rightarrow> (err + Certificate list) io" where
  "call_LookupCerts E cs k =
     call (EvLookupCerts k (concat (map certPurpose cs))) (\<lambda>h. k_LookupCerts (svc E) h cs k)"

definition call_CreateOrPatchSecret :: "env \<Rightarrow> Secret \<Rightarrow> err option io" where
  "call_CreateOrPatchSecret E s =
     call (EvCreateOrPatchSecret s) (\<lambda>h. k_CreateOrPatchSecret (svc E) h s)"

definition call_CreateSecret :: "env \<Rightarrow> Secret \<Rightarrow> err option io" where
  "call_CreateSecret E s = call (EvCreateSecret s) (\<lambda>h. k_CreateSecret (svc E) h s)"

definition call_GetSecret :: "env \<Rightarrow> ObjectKey \<Rightarrow> (err + Secret) io" where
  "call_GetSecret E k = call (EvGetSecret k) (\<lambda>h. k_GetSecret (svc E) h k)"

definition call_UpdateSecret :: "env \<Rightarrow> Secret \<Rightarrow> err option io" where
  "call_UpdateSecret E s = call (EvUpdateSecret s) (\<lambda>h. k_UpdateSecret (svc E) h s)"

definition call_NewCertAndKey ::
  "env \<Rightarrow> string \<Rightarrow> string \<Rightarrow> CertConfig \<Rightarrow> (err + string \<times> string) io" where
  "call_NewCertAndKey E caCert caKey cfg =
     call (EvNewCertAndKey cfg) (\<lambda>h. x_NewCertAndKey (svc E) h caCert caKey cfg)"

definition call_NewEtcdClient :: "env \<Rightarrow> EtcdConfig \<Rightarrow> (err + nat) io" where
  "call_NewEtcdClient E cfg = call (EvNewEtcdClient cfg) (\<lambda>h. e_New (svc E) h cfg)"

definition call_MemberList :: "env \<Rightarrow> nat \<Rightarrow> (err + Member list) io" where
  "call_MemberList E c = call (EvMemberList c) (\<lambda>h. e_MemberList (svc E) h c)"

definition call_MemberRemove :: "env \<Rightarrow> nat \<Rightarrow> 64 word \<Rightarrow> err option io" where
  "call_MemberRemove E c mid = call (EvMemberRemove c mid) (\<lambda>h. e_MemberRemove (svc E) h c mid)"

definition call_CloseEtcdClient :: "env \<Rightarrow> nat \<Rightarrow> unit io" where
  "call_CloseEtcdClient E c = call (\<lambda>_. EvCloseEtcdClient c) (\<lambda>h. ())"

definition call_Dial :: "env \<Rightarrow> string \<Rightarrow> (err + bool) io" where
  "call_Dial E host = call (\<lambda>r. EvDial host (r = Inr True)) (\<lambda>h. n_Dial (svc E) h host)"

definition call_HttpGet :: "env \<Rightarrow> HttpClient \<Rightarrow> string \<Rightarrow> (err + HttpResponse) io" where
  "call_HttpGet E c url = call (EvHttpGet url) (\<lambda>h. n_HttpGet (svc E) h c url)"

definition call_Now :: "env \<Rightarrow> int io" where
  "call_Now E = call EvNow (t_Now (svc E))"

definition call_RecordEvent :: "env \<Rightarrow> string \<Rightarrow> string \<Rightarrow> unit io" where
  "call_RecordEvent E reason msg = call (\<lambda>_. EvRecordEvent reason msg) (\<lambda>h. ())"

lemmas call_defs =
  call_GetEtcdadmCluster_def call_GetOwnerCluster_def call_NewPatchHelper_def
  call_PatchEtcdadmCluster_def call_ListEtcdadmClusters_def call_StatusUpdate_def
  call_ListMachines_def call_ExternalGet_def call_PatchTemplate_def call_CreateFromTemplate_def
  call_GetEtcdadmConfig_def call_CreateEtcdadmConfig_def call_GenerateName_def
  call_CreateMachine_def call_UpdateMachine_def call_DeleteMachine_def
  call_LookupOrGenerateCerts_def call_LookupCerts_def call_CreateOrPatchSecret_def
  call_CreateSecret_def call_GetSecret_def call_UpdateSecret_def call_NewCertAndKey_def
  call_NewEtcdClient_def call_MemberList_def call_MemberRemove_def call_CloseEtcdClient_def
  call_Dial_def call_HttpGet_def call_Now_def call_RecordEvent_def

text \<open>The order in which \<open>range\<close> visits a Go map at a place of the source.\<close>

definition range_over :: "env \<Rightarrow> string \<Rightarrow> 'a list \<Rightarrow> 'a list io" where
  "range_over E site xs =
     gets (\<lambda>s. go_range (range_order (svc E) site (trace s) (length xs)) xs)"

lemma run_range_over [simp, run_simps]:
  "run_state (range_over E site xs) s =
     (Done (go_range (range_order (svc E) site (trace s) (length xs)) xs), s)"
  by (simp add: range_over_def)

lemma obeys_range_over:
  "(\<And>p. obeys R (f (go_range p xs))) \<Longrightarrow> obeys R (bnd (range_over E site xs) f)"
  by (simp add: obeys_def run_bnd)

section \<open>Trace extension\<close>

definition extends :: "(event \<Rightarrow> bool) \<Rightarrow> sys \<Rightarrow> sys \<Rightarrow> bool" where
  "extends P s s' = (\<exists>es. trace s' = trace s @ es \<and> list_all P es)"

interpretation emit: step_order "extends P" for P
proof unfold_locales
  fix s
  show "extends P s s" unfolding extends_def by (rule exI [of _ "[]"]) simp
next
  fix s t u
  assume "extends P s t" and "extends P t u"
  then obtain es fs where "trace t = trace s @ es" "list_all P es"
    and "trace u = trace t @ fs" "list_all P fs"
    by (auto simp: extends_def)
  then have "trace u = trace s @ (es @ fs) \<and> list_all P (es @ fs)" by simp
  then show "extends P s u" unfolding extends_def by (rule exI)
qed

abbreviation emits :: "(event \<Rightarrow> bool) \<Rightarrow> 'a io \<Rightarrow> bool" where
  "emits P m \<equiv> obeys (extends P) m"

lemma emits_call: "(\<And>r. P (ev r)) \<Longrightarrow> emits P (call ev f)"
  by (rule obeysI) (simp add: extends_def)

lemma emits_modify: "(\<And>s. trace (g s) = trace s) \<Longrightarrow> emits P (modify g)"
  by (rule obeysI) (simp add: extends_def)

lemma emits_range_over: "emits P (range_over E site xs)"
  by (simp add: range_over_def emit.prog_gets)

lemma extends_mono: "extends P s s' \<Longrightarrow> (\<And>e. P e \<Longrightarrow> Q e) \<Longrightarrow> extends Q s s'"
  by (auto simp: extends_def list_all_iff)

lemma emits_mono: "emits P m \<Longrightarrow> (\<And>e. P e \<Longrightarrow> Q e) \<Longrightarrow> emits Q m"
  unfolding obeys_def using extends_mono by blast

text \<open>The events a run of \<open>m\<close> appends.\<close>

definition events :: "'a io \<Rightarrow> sys \<Rightarrow> event list" where
  "events m s = drop (length (trace s)) (trace (snd (run_state m s)))"

lemma eventsI: "run_state m s = (r, s') \<Longrightarrow> trace s' = trace s @ es \<Longrightarrow> events m s = es"
  by (simp add: events_def)

lemma emits_events: "emits P m \<Longrightarrow> e \<in> set (events m s) \<Longrightarrow> P e"
  by (auto simp: obeys_def extends_def events_def list_all_iff dest!: spec [of _ s])

lemma emits_trace: "emits P m \<Longrightarrow> trace (snd (run_state m s)) = trace s @ events m s"
  by (auto simp: obeys_def extends_def events_def dest!: spec [of _ s])

lemma events_bnd:
  assumes "emits P m" and "\<And>x. emits Q (f x)" and "run_state m s = (Done x, s')"
  shows "events (bnd m f) s = events m s @ events (f x) s'"
proof -
  have "trace (snd (run_state (bnd m f) s)) = trace (snd (run_state (f x) s'))"
    using assms(3) by (simp add: run_bnd)
  also have "\<dots> = trace s' @ events (f x) s'"
    by (rule emits_trace [OF assms(2)])
  also have "trace s' = trace s @ events m s"
    using emits_trace [OF assms(1), of s] assms(3) by simp
  finally have "trace (snd (run_state (bnd m f) s)) = trace s @ events m s @ events (f x) s'"
    by simp
  then show ?thesis
    unfolding events_def [of "bnd m f"] by (metis append_eq_conv_conj)
qed

section \<open>In-memory updates of the EtcdadmCluster\<close>

definition modifyEC :: "(EtcdadmCluster \<Rightarrow> EtcdadmCluster) \<Rightarrow> unit io" where
  "modifyEC g = modify (\<lambda>s. s\<lparr>theEC := g (theEC s)\<rparr>)"

definition modifyStatus :: "(EtcdadmClusterStatus \<Rightarrow> EtcdadmClusterStatus) \<Rightarrow> unit io" where
  "modifyStatus g = modifyEC (\<lambda>ec. ec\<lparr>ecStatus := g (ecStatus ec)\<rparr>)"

text \<open>\<open>conditions.MarkTrue(etcdCluster, t)\<close> and \<open>conditions.MarkFalse(etcdCluster, t, reason, severity, message)\<close>\<close>

definition MarkTrue :: "env \<Rightarrow> ConditionType \<Rightarrow> unit io" where
  "MarkTrue E t =
     modify (\<lambda>s. s\<lparr>theEC := SetConditions (theEC s)
       (cond_MarkTrue (conds E) (trace s) t (GetConditions (theEC s)))\<rparr>)"

definition MarkFalse ::
  "env \<Rightarrow> ConditionType \<Rightarrow> string \<Rightarrow> ConditionSeverity \<Rightarrow> string \<Rightarrow> unit io" where
  "MarkFalse E t reason severity msg =
     modify (\<lambda>s. s\<lparr>theEC := SetConditions (theEC s)
       (cond_MarkFalse (conds E) (trace s) t reason severity msg (GetConditions (theEC s)))\<rparr>)"

definition SetSummary :: "env \<Rightarrow> ConditionType list \<Rightarrow> unit io" where
  "SetSummary E ts =
     modify (\<lambda>s. s\<lparr>theEC := SetConditions (theEC s)
       (cond_SetSummary (conds E) (trace s) ts (GetConditions (theEC s)))\<rparr>)"

text \<open>Reading a condition of an EtcdadmCluster.\<close>

definition IsTrue :: "env \<Rightarrow> EtcdadmCluster \<Rightarrow> ConditionType \<Rightarrow> bool" where
  "IsTrue E ec t = cond_IsTrue (conds E) (GetConditions ec) t"

definition IsFalse :: "env \<Rightarrow> EtcdadmCluster \<Rightarrow> ConditionType \<Rightarrow> bool" where
  "IsFalse E ec t = cond_IsFalse (conds E) (GetConditions ec) t"

definition IsUnknown :: "env \<Rightarrow> EtcdadmCluster \<Rightarrow> ConditionType \<Rightarrow> bool" where
  "IsUnknown E ec t = cond_IsUnknown (conds E) (GetConditions ec) t"

definition HasCondition :: "env \<Rightarrow> EtcdadmCluster \<Rightarrow> ConditionType \<Rightarrow> bool" where
  "HasCondition E ec t = cond_Has (conds E) (GetConditions ec) t"

definition GetReason :: "env \<Rightarrow> EtcdadmCluster \<Rightarrow> ConditionType \<Rightarrow> string" where
  "GetReason E ec t = cond_GetReason (conds E) (GetConditions ec) t"

lemmas condition_reads = IsTrue_def IsFalse_def IsUnknown_def HasCondition_def GetReason_def

lemma run_modifyEC [simp, run_simps]:
  "run_state (modifyEC g) s = (Done (), s\<lparr>theEC := g (theEC s)\<rparr>)"
  by (simp add: modifyEC_def)

lemma run_modifyStatus [simp, run_simps]:
  "run_state (modifyStatus g) s =
     (Done (), s\<lparr>theEC := (theEC s)\<lparr>ecStatus := g (ecStatus (theEC s))\<rparr>\<rparr>)"
  by (simp add: modifyStatus_def)

lemma run_MarkTrue [simp, run_simps]:
  "run_state (MarkTrue E t) s =
     (Done (), s\<lparr>theEC := SetConditions (theEC s)
        (cond_MarkTrue (conds E) (trace s) t (GetConditions (theEC s)))\<rparr>)"
  by (simp add: MarkTrue_def)

lemma run_MarkFalse [simp, run_simps]:
  "run_state (MarkFalse E t reason severity msg) s =
     (Done (), s\<lparr>theEC := SetConditions (theEC s)
        (cond_MarkFalse (conds E) (trace s) t reason severity msg (GetConditions (theEC s)))\<rparr>)"
  by (simp add: MarkFalse_def)

lemma run_SetSummary [simp, run_simps]:
  "run_state (SetSummary E ts) s =
     (Done (), s\<lparr>theEC := SetConditions (theEC s)
        (cond_SetSummary (conds E) (trace s) ts (GetConditions (theEC s)))\<rparr>)"
  by (simp add: SetSummary_def)

lemma emits_EC [intro!]:
  "emits P (modifyEC g)" "emits P (modifyStatus f)" "emits P (MarkTrue E t)"
  "emits P (MarkFalse E t reason severity msg)" "emits P (SetSummary E ts)"
  unfolding modifyEC_def modifyStatus_def MarkTrue_def MarkFalse_def SetSummary_def
  by (rule emits_modify, simp)+

lemmas emit_intros = emit.prog_intros emits_call emits_range_over emits_EC

text \<open>A call keeps everything but the trace.\<close>

lemma kept_call: "(\<And>s x. F (s\<lparr>trace := x\<rparr>) = F s) \<Longrightarrow> obeys (keeps F) (call ev f)"
  by (rule obeysI) (simp add: keeps_def)

lemma kept_range_over: "obeys (keeps F) (range_over E site xs)"
  by (simp add: range_over_def kept.prog_gets)

lemma kept_EC:
  "(\<And>s x. F (s\<lparr>theEC := x\<rparr>) = F s) \<Longrightarrow> obeys (keeps F) (modifyEC g)"
  "(\<And>s x. F (s\<lparr>theEC := x\<rparr>) = F s) \<Longrightarrow> obeys (keeps F) (modifyStatus f)"
  "(\<And>s x. F (s\<lparr>theEC := x\<rparr>) = F s) \<Longrightarrow> obeys (keeps F) (MarkTrue E t)"
  "(\<And>s x. F (s\<lparr>theEC := x\<rparr>) = F s) \<Longrightarrow> obeys (keeps F) (MarkFalse E t reason severity msg)"
  "(\<And>s x. F (s\<lparr>theEC := x\<rparr>) = F s) \<Longrightarrow> obeys (keeps F) (SetSummary E ts)"
  by (simp_all add: obeys_def keeps_def)

lemmas kept_intros = kept.prog_intros kept_call kept_range_over kept_EC

end
