(* ===== verification/Laws.thy ===== *)
theory Laws
  imports Calls
begin

text \<open>
  What the libraries the controller links document about themselves, as predicates over the
  environment. A property that needs one of them names it as a hypothesis. Each is met by the
  reference environment of the theory \<open>Reference\<close>.
\<close>

section \<open>Errors\<close>

text \<open>
  \<open>errors.Wrap\<close> of nil is nil; a wrapped error is an error with the same chain below it. An
  aggregate of nothing but nil is nil. \<open>multierror.Append\<close> returns an error.
\<close>

definition errors_laws :: "errors_api \<Rightarrow> bool" where
  "errors_laws A \<longleftrightarrow>
     (\<forall>msg. errors_Wrap A None msg = None) \<and>
     (\<forall>e msg. \<exists>e'. errors_Wrap A (Some e) msg = Some e' \<and>
        errors_Is_portNotOpen e' = errors_Is_portNotOpen e) \<and>
     (\<forall>es. (kerrors_NewAggregate A es = None) = (\<forall>e\<in>set es. e = None)) \<and>
     (\<forall>r e. multierror_Append A r e \<noteq> None)"

lemma errors_lawsD:
  assumes "errors_laws A"
  shows "errors_Wrap A None msg = None" "errors_Wrap A (Some e) msg \<noteq> None"
    "(kerrors_NewAggregate A es = None) = (\<forall>e\<in>set es. e = None)" "multierror_Append A r e \<noteq> None"
  proof -
  have "\<exists>e'. errors_Wrap A (Some e) msg = Some e' \<and> errors_Is_portNotOpen e' = errors_Is_portNotOpen e"
    using assms unfolding errors_laws_def by simp
  then show "errors_Wrap A (Some e) msg \<noteq> None" by auto
qed (use assms in \<open>simp_all add: errors_laws_def\<close>)

section \<open>Machine collections\<close>

definition collections_laws :: "collections_api \<Rightarrow> bool" where
  "collections_laws C \<longleftrightarrow>
     (\<forall>f ms. mset (col_Filter C f ms) = mset (filter f ms)) \<and>
     (\<forall>f ms. mset (col_AnyFilter C f ms) = mset (filter f ms)) \<and>
     (\<forall>as bs. mset (col_Difference C as bs) =
        mset (filter (\<lambda>m. machines_lookup bs (mName m) = None) as)) \<and>
     (\<forall>ms. col_Len C ms = int (length ms)) \<and>
     (\<forall>f m. col_Not C f m = (\<not> f m)) \<and>
     (\<forall>f g m. col_And C f g m = (f m \<and> g m)) \<and>
     (\<forall>fds m. col_InFailureDomains C fds m = (mFailureDomain m \<in> set fds)) \<and>
     (\<forall>k m. col_HasAnnotationKey C k m = (map_get (Annotations (mMeta m)) k \<noteq> None)) \<and>
     (\<forall>m. col_HasDeletionTimestamp C m = (DeletionTimestamp (mMeta m) \<noteq> None))"

text \<open>
  \<open>Oldest\<close> and \<open>Newest\<close> go by creation time and are nil for no machines. \<open>PickMost\<close>, asked about
  machines that all are in one of the failure domains, names one of theirs.
\<close>

definition choice_laws :: "collections_api \<Rightarrow> bool" where
  "choice_laws C \<longleftrightarrow>
     col_Oldest C [] = None \<and> col_Newest C [] = None \<and>
     (\<forall>ms. ms \<noteq> [] \<longrightarrow> (\<exists>m\<in>set ms. col_Oldest C ms = Some m \<and>
        (\<forall>m'\<in>set ms. CreationTimestamp (mMeta m) \<le> CreationTimestamp (mMeta m')))) \<and>
     (\<forall>ms. ms \<noteq> [] \<longrightarrow> (\<exists>m\<in>set ms. col_Newest C ms = Some m \<and>
        (\<forall>m'\<in>set ms. CreationTimestamp (mMeta m') \<le> CreationTimestamp (mMeta m)))) \<and>
     (\<forall>fds all ms. ms \<noteq> [] \<and> (\<forall>m\<in>set ms. mFailureDomain m \<in> set (map fdName fds)) \<longrightarrow>
        (\<exists>m\<in>set ms. fd_PickMost C fds all ms = mFailureDomain m))"

lemma collections_lawsD:
  assumes "collections_laws C"
  shows "mset (col_Filter C f ms) = mset (filter f ms)"
    "mset (col_AnyFilter C f ms) = mset (filter f ms)"
    "mset (col_Difference C as bs) = mset (filter (\<lambda>m. machines_lookup bs (mName m) = None) as)"
    "col_Len C ms = int (length ms)"
    "col_Not C f m = (\<not> f m)" "col_And C f g m = (f m \<and> g m)"
    "col_InFailureDomains C fds m = (mFailureDomain m \<in> set fds)"
    "col_HasAnnotationKey C k m = (map_get (Annotations (mMeta m)) k \<noteq> None)"
    "col_HasDeletionTimestamp C m = (DeletionTimestamp (mMeta m) \<noteq> None)"
  using assms unfolding collections_laws_def by simp_all

lemma set_col:
  assumes "collections_laws C"
  shows "set (col_Filter C f ms) = set (filter f ms)" "set (col_AnyFilter C f ms) = set (filter f ms)"
    "length (col_Filter C f ms) = length (filter f ms)"
    "length (col_AnyFilter C f ms) = length (filter f ms)"
  using collections_lawsD [OF assms] by (metis mset_eq_setD, metis mset_eq_setD, metis size_mset, metis size_mset)

lemma length_Filter_Filter:
  assumes "collections_laws C"
  shows "length (col_Filter C f (col_Filter C g ms)) = length (filter (\<lambda>m. g m \<and> f m) ms)"
proof -
  have "mset (col_Filter C f (col_Filter C g ms)) = filter_mset f (mset (col_Filter C g ms))"
    using collections_lawsD(1) [OF assms] by simp
  also have "\<dots> = filter_mset f (mset (filter g ms))"
    by (simp only: collections_lawsD(1) [OF assms])
  also have "\<dots> = mset (filter f (filter g ms))"
    by (rule mset_filter [symmetric])
  finally have "mset (col_Filter C f (col_Filter C g ms)) = mset (filter (\<lambda>m. g m \<and> f m) ms)"
    by (simp only: filter_filter conj_commute)
  then show ?thesis by (rule mset_eq_length)
qed

lemma set_Difference:
  assumes "collections_laws C"
  shows "set (col_Difference C as bs) = {m \<in> set as. machines_lookup bs (mName m) = None}"
  using mset_eq_setD [OF collections_lawsD(3) [OF assms]] by auto

lemma oldestD:
  assumes "choice_laws C" and "col_Oldest C ms = Some m"
  shows "m \<in> set ms" "m' \<in> set ms \<Longrightarrow> CreationTimestamp (mMeta m) \<le> CreationTimestamp (mMeta m')"
  using assms unfolding choice_laws_def by (metis option.distinct(1) option.inject)+

lemma oldest_exists:
  assumes "choice_laws C" and "ms \<noteq> []"
  obtains m where "col_Oldest C ms = Some m"
  using assms unfolding choice_laws_def by blast

lemma newestD:
  assumes "choice_laws C" and "col_Newest C ms = Some m"
  shows "m \<in> set ms" "m' \<in> set ms \<Longrightarrow> CreationTimestamp (mMeta m') \<le> CreationTimestamp (mMeta m)"
  using assms unfolding choice_laws_def by (metis option.distinct(1) option.inject)+

section \<open>Conditions\<close>

text \<open>
  Marking a condition is what is read back, and leaves every other type alone; \<open>SetSummary\<close> writes
  the Ready condition only.
\<close>

definition same_condition ::
  "conditions_api \<Rightarrow> Condition list \<Rightarrow> Condition list \<Rightarrow> ConditionType \<Rightarrow> bool" where
  "same_condition C cs cs' t =
     (cond_IsTrue C cs' t = cond_IsTrue C cs t \<and> cond_IsFalse C cs' t = cond_IsFalse C cs t \<and>
      cond_IsUnknown C cs' t = cond_IsUnknown C cs t \<and> cond_Has C cs' t = cond_Has C cs t \<and>
      cond_GetReason C cs' t = cond_GetReason C cs t)"

definition conditions_laws :: "conditions_api \<Rightarrow> ConditionType \<Rightarrow> bool" where
  "conditions_laws C readyType \<longleftrightarrow>
     (\<forall>h t cs. cond_IsTrue C (cond_MarkTrue C h t cs) t \<and>
        \<not> cond_IsFalse C (cond_MarkTrue C h t cs) t \<and>
        (\<forall>t'. t' \<noteq> t \<longrightarrow> same_condition C cs (cond_MarkTrue C h t cs) t')) \<and>
     (\<forall>h t reason sev msg cs. cond_IsFalse C (cond_MarkFalse C h t reason sev msg cs) t \<and>
        cond_GetReason C (cond_MarkFalse C h t reason sev msg cs) t = reason \<and>
        (\<forall>t'. t' \<noteq> t \<longrightarrow> same_condition C cs (cond_MarkFalse C h t reason sev msg cs) t')) \<and>
     (\<forall>h ts cs t'. t' \<noteq> readyType \<longrightarrow> same_condition C cs (cond_SetSummary C h ts cs) t') \<and>
     (\<forall>cs t. cond_IsFalse C cs t \<longrightarrow> cond_Has C cs t)"

lemma conditions_lawsD:
  assumes "conditions_laws C r"
  shows "cond_IsTrue C (cond_MarkTrue C h t cs) t" "\<not> cond_IsFalse C (cond_MarkTrue C h t cs) t"
    "cond_IsFalse C (cond_MarkFalse C h t reason sev msg cs) t"
    "cond_GetReason C (cond_MarkFalse C h t reason sev msg cs) t = reason"
    "t' \<noteq> t \<Longrightarrow> same_condition C cs (cond_MarkTrue C h t cs) t'"
    "t' \<noteq> t \<Longrightarrow> same_condition C cs (cond_MarkFalse C h t reason sev msg cs) t'"
    "t' \<noteq> r \<Longrightarrow> same_condition C cs (cond_SetSummary C h ts cs) t'"
  using assms unfolding conditions_laws_def by simp_all

section \<open>Finalizers\<close>

definition finalizer_laws :: "capi_api \<Rightarrow> bool" where
  "finalizer_laws A \<longleftrightarrow>
     (\<forall>fs f. ContainsFinalizer A fs f = (f \<in> set fs)) \<and>
     (\<forall>fs f. set (AddFinalizer A fs f) = insert f (set fs)) \<and>
     (\<forall>fs f. set (RemoveFinalizer A fs f) = set fs - {f})"

end
