(* ===== verification/Reference.thy ===== *)
theory Reference
  imports Laws
begin

text \<open>
  A concrete environment, for the examples that show the hypotheses of the properties can hold. Its
  libraries are simple list programs that meet the laws; its services are quiet (no objects, every
  write accepted), and an example replaces the answers it is about.
\<close>

section \<open>Libraries\<close>

definition ref_errors :: errors_api where
  "ref_errors =
     \<lparr>errors_Wrap = (\<lambda>e msg. map_option (Wrapped msg) e),
      errors_Cause = (\<lambda>e. e),
      kerrors_NewAggregate = (\<lambda>es. if list_all (\<lambda>e. e = None) es then None
                               else Some (Aggregate (map the (filter (\<lambda>e. e \<noteq> None) es)))),
      multierror_Append = (\<lambda>r e. Some (Aggregate (case r of None \<Rightarrow> [e] | Some e' \<Rightarrow> [e', e]))),
      IsNotFound = (\<lambda>e. e = External ''not found''),
      IsAlreadyExists = (\<lambda>e. e = External ''already exists''),
      IsGone = (\<lambda>e. e = External ''gone'')\<rparr>"

lemma ref_errors_laws: "errors_laws ref_errors"
  unfolding errors_laws_def ref_errors_def by (simp add: list_all_iff)

fun pick_by :: "(Machine \<Rightarrow> Machine \<Rightarrow> bool) \<Rightarrow> Machines \<Rightarrow> Machine option" where
  "pick_by better [] = None"
| "pick_by better (m # ms) =
     (case pick_by better ms of None \<Rightarrow> Some m | Some m' \<Rightarrow> if better m m' then Some m else Some m')"

definition older :: "Machine \<Rightarrow> Machine \<Rightarrow> bool" where
  "older m m' = (CreationTimestamp (mMeta m) \<le> CreationTimestamp (mMeta m'))"

definition newer :: "Machine \<Rightarrow> Machine \<Rightarrow> bool" where
  "newer m m' = (CreationTimestamp (mMeta m') \<le> CreationTimestamp (mMeta m))"

definition ref_collections :: collections_api where
  "ref_collections =
     \<lparr>col_Filter = filter, col_AnyFilter = filter,
      col_Difference = (\<lambda>as bs. filter (\<lambda>m. machines_lookup bs (mName m) = None) as),
      col_Len = (\<lambda>ms. int (length ms)),
      col_Oldest = pick_by older, col_Newest = pick_by newer,
      col_Not = (\<lambda>f m. \<not> f m), col_And = (\<lambda>f g m. f m \<and> g m),
      col_InFailureDomains = (\<lambda>fds m. mFailureDomain m \<in> set fds),
      col_HasAnnotationKey = (\<lambda>k m. map_get (Annotations (mMeta m)) k \<noteq> None),
      col_HasDeletionTimestamp = (\<lambda>m. DeletionTimestamp (mMeta m) \<noteq> None),
      col_OwnedMachines = (\<lambda>ec m. list_ex (\<lambda>o'. orUID o' = UID (ecMeta ec)) (OwnerReferences (mMeta m))),
      fd_PickMost = (\<lambda>fds all ms. case ms of [] \<Rightarrow> [] | m # _ \<Rightarrow> mFailureDomain m),
      fd_PickFewest = (\<lambda>fds all ms. case fds of [] \<Rightarrow> [] | fd # _ \<Rightarrow> fdName fd)\<rparr>"

lemma pick_by_exists:
  assumes total: "\<And>a b. better a b \<or> better b a" and trans: "\<And>a b c. better a b \<Longrightarrow> better b c \<Longrightarrow> better a c"
  shows "ms \<noteq> [] \<Longrightarrow> \<exists>m\<in>set ms. pick_by better ms = Some m \<and> (\<forall>m'\<in>set ms. better m m')"
proof (induction ms)
  case (Cons m ms)
  show ?case
  proof (cases ms)
    case Nil
    then show ?thesis using total by auto
  next
    case (Cons a as)
    with Cons.IH obtain b where "b \<in> set ms" "pick_by better ms = Some b" "\<forall>m'\<in>set ms. better b m'"
      by auto
    have all: "\<forall>m'\<in>set ms. better m m'" if "better m b"
      using that trans \<open>\<forall>m'\<in>set ms. better b m'\<close> by blast
    have "better m m" using total by blast
    with all have yes: "\<forall>m'\<in>set (m # ms). better m m'" if "better m b"
      using that by simp
    have no: "\<forall>m'\<in>set (m # ms). better b m'" if "\<not> better m b"
      using that total [of m b] \<open>\<forall>m'\<in>set ms. better b m'\<close> by simp
    show ?thesis
    proof (cases "better m b")
      case True
      then show ?thesis using yes \<open>pick_by better ms = Some b\<close> by simp
    next
      case False
      then show ?thesis using no \<open>pick_by better ms = Some b\<close> \<open>b \<in> set ms\<close> by simp
    qed
  qed
qed simp

lemma ref_collections_laws: "collections_laws ref_collections"
  unfolding collections_laws_def ref_collections_def by simp

lemma pick_older:
  assumes "ms \<noteq> []"
  shows "\<exists>m\<in>set ms. pick_by older ms = Some m \<and> (\<forall>m'\<in>set ms. CreationTimestamp (mMeta m) \<le> CreationTimestamp (mMeta m'))"
proof -
  have "\<exists>m\<in>set ms. pick_by older ms = Some m \<and> (\<forall>m'\<in>set ms. older m m')"
    by (rule pick_by_exists [OF _ _ assms]) (auto simp: older_def)
  then show ?thesis by (simp only: older_def)
qed

lemma pick_newer:
  assumes "ms \<noteq> []"
  shows "\<exists>m\<in>set ms. pick_by newer ms = Some m \<and> (\<forall>m'\<in>set ms. CreationTimestamp (mMeta m') \<le> CreationTimestamp (mMeta m))"
proof -
  have "\<exists>m\<in>set ms. pick_by newer ms = Some m \<and> (\<forall>m'\<in>set ms. newer m m')"
    by (rule pick_by_exists [OF _ _ assms]) (auto simp: newer_def)
  then show ?thesis by (simp only: newer_def)
qed

lemma ref_PickMost:
  "ms \<noteq> [] \<Longrightarrow> \<exists>m\<in>set ms. fd_PickMost ref_collections fds all ms = mFailureDomain m"
  by (cases ms) (simp_all add: ref_collections_def)

lemma ref_choice_laws: "choice_laws ref_collections"
  unfolding choice_laws_def using ref_PickMost
  by (simp add: ref_collections_def pick_older pick_newer)

fun set_condition :: "Condition \<Rightarrow> Condition list \<Rightarrow> Condition list" where
  "set_condition c [] = [c]"
| "set_condition c (d # ds) = (if cType d = cType c then c # ds else d # set_condition c ds)"

definition get_condition :: "Condition list \<Rightarrow> ConditionType \<Rightarrow> Condition option" where
  "get_condition cs t = find (\<lambda>c. cType c = t) cs"

definition has_status :: "ConditionStatus \<Rightarrow> Condition list \<Rightarrow> ConditionType \<Rightarrow> bool" where
  "has_status st cs t = (case get_condition cs t of None \<Rightarrow> False | Some c \<Rightarrow> cStatus c = st)"

definition ref_conditions :: "ConditionType \<Rightarrow> conditions_api" where
  "ref_conditions ready =
     \<lparr>cond_IsTrue = has_status ConditionTrue, cond_IsFalse = has_status ConditionFalse,
      cond_IsUnknown = (\<lambda>cs t. get_condition cs t = None \<or> has_status ConditionUnknown cs t),
      cond_Has = (\<lambda>cs t. get_condition cs t \<noteq> None),
      cond_GetReason = (\<lambda>cs t. case get_condition cs t of None \<Rightarrow> [] | Some c \<Rightarrow> cReason c),
      cond_MarkTrue = (\<lambda>h t. set_condition
        \<lparr>cType = t, cStatus = ConditionTrue, cSeverity = ConditionSeverityNone,
         cLastTransitionTime = int (length h), cReason = [], cMessage = []\<rparr>),
      cond_MarkFalse = (\<lambda>h t reason sev msg. set_condition
        \<lparr>cType = t, cStatus = ConditionFalse, cSeverity = sev,
         cLastTransitionTime = int (length h), cReason = reason, cMessage = msg\<rparr>),
      cond_SetSummary = (\<lambda>h ts. set_condition
        \<lparr>cType = ready, cStatus = ConditionTrue, cSeverity = ConditionSeverityNone,
         cLastTransitionTime = int (length h), cReason = [], cMessage = []\<rparr>)\<rparr>"

lemma get_set_condition:
  "get_condition (set_condition c cs) t = (if t = cType c then Some c else get_condition cs t)"
  unfolding get_condition_def by (induction cs) auto

lemma ref_conditions_laws: "conditions_laws (ref_conditions ready) ready"
  unfolding conditions_laws_def same_condition_def ref_conditions_def
  by (auto simp: has_status_def get_set_condition split: option.splits)

definition ref_capi :: capi_api where
  "ref_capi =
     \<lparr>labels_NewRequirement = (\<lambda>k vs. Inr \<lparr>reqKey = k, reqValues = vs\<rparr>),
      labels_Matches = (\<lambda>rs ls. list_all (\<lambda>r. case map_get ls (reqKey r) of
          None \<Rightarrow> False | Some v \<Rightarrow> v \<in> set (reqValues r)) rs),
      labels_String = (\<lambda>rs. concat (map (\<lambda>r. reqKey r @ ''='' @ concat (reqValues r)) rs)),
      ClusterNameLabel = ''cluster-name'',
      MachineEtcdClusterLabelName = ''etcd-cluster'',
      DeleteMachineAnnotation = ''delete-machine'',
      ControlPlaneUpgradeCompletedAnnotation = ''upgrade-complete'',
      TemplateClonedFromNameAnnotation = ''cloned-from-name'',
      TemplateClonedFromGroupKindAnnotation = ''cloned-from-groupkind'',
      TemplateSuffix = ''Template'',
      GroupVersionString = ''cluster.x-k8s.io/v1beta2'',
      BootstrapGroup = ''bootstrap.cluster.x-k8s.io'',
      DeletingReason = ''Deleting'',
      ClusterSecretType = ''cluster.x-k8s.io/secret'',
      TLSCrtDataName = ''tls.crt'',
      MastersGroup = ''system:masters'',
      ReadyCondition = ''Ready'',
      InfrastructureReadyCondition = ''InfrastructureReady'',
      cluster_IsTrue = (\<lambda>c t. (t, ''True'') \<in> set (clConditions c)),
      annotations_IsPaused = (\<lambda>c ec. clPaused c = Some True \<or>
          map_get (Annotations (ecMeta ec)) ''paused'' \<noteq> None),
      annotations_HasPaused = (\<lambda>ec. map_get (Annotations (ecMeta ec)) ''paused'' \<noteq> None),
      ref_IsDefined = (\<lambda>r. r \<noteq> None),
      util_EnsureOwnerRef = (\<lambda>os o'. if o' \<in> set os then os else os @ [o']),
      NewControllerRef = (\<lambda>om gv kind. \<lparr>orAPIVersion = gv, orKind = kind, orName = Name om,
          orUID = UID om, orController = True\<rparr>),
      schema_ParseGroupVersion = (\<lambda>gv. Inr (takeWhile (\<lambda>c. c \<noteq> CHR ''/'') gv)),
      groupKindString = (\<lambda>r. oKind r @ ''.'' @ takeWhile (\<lambda>c. c \<noteq> CHR ''/'') (oAPIVersion r)),
      ContainsFinalizer = (\<lambda>fs f. f \<in> set fs),
      AddFinalizer = (\<lambda>fs f. if f \<in> set fs then fs else fs @ [f]),
      RemoveFinalizer = (\<lambda>fs f. filter (\<lambda>g. g \<noteq> f) fs),
      certs_GetByPurpose = (\<lambda>cs p. find (\<lambda>c. certPurpose c = p) cs),
      ManagedExternalEtcdCA = ''managed-etcd'',
      APIServerEtcdClient = ''apiserver-etcd-client'',
      EtcdCAPurpose = ''etcd'',
      secret_Name = (\<lambda>c p. c @ ''-'' @ p),
      certs_AsSecret = (\<lambda>c k o'. \<lparr>secMeta = \<lparr>Name = keyName k @ ''-'' @ certPurpose c,
          Namespace = keyNamespace k, UID = [], Labels = None, Annotations = None, Finalizers = [],
          OwnerReferences = [o'], CreationTimestamp = 0, DeletionTimestamp = None\<rparr>,
          secData = Some [''tls.crt'' \<mapsto> (case certKeyPair c of None \<Rightarrow> [] | Some kp \<Rightarrow> kpCert kp)],
          secType = ''cluster.x-k8s.io/secret''\<rparr>),
      certs_EncodeCertPEM = (\<lambda>c. c), certs_EncodePrivateKeyPEM = (\<lambda>k. k),
      pem_Decode = Some, x509_ParseCertificate = Inr, x509_ParsePKCS1PrivateKey = Inr,
      tls_X509KeyPair = (\<lambda>c k. Inr (TlsCertificate c k))\<rparr>"

lemma ref_finalizer_laws: "finalizer_laws ref_capi"
  unfolding finalizer_laws_def ref_capi_def by (auto simp: insert_absorb)

section \<open>Services\<close>

definition notFound :: err where "notFound = External ''not found''"

definition ref_keyPair :: "Certificate \<Rightarrow> Certificate" where
  "ref_keyPair c = c\<lparr>certKeyPair := Some \<lparr>kpCert = ''cert'', kpKey = ''key''\<rparr>\<rparr>"

definition ref_svc :: service_api where
  "ref_svc =
     \<lparr>k_GetEtcdadmCluster = (\<lambda>h k. Inl notFound), k_GetOwnerCluster = (\<lambda>h om. Inr None),
      k_NewPatchHelper = (\<lambda>h n. None), k_PatchEtcdadmCluster = (\<lambda>h a b. None),
      k_ListEtcdadmClusters = (\<lambda>h. Inr []), k_StatusUpdate = (\<lambda>h ec. None),
      k_ListMachines = (\<lambda>h rd cl f. Inr []), k_ExternalGet = (\<lambda>h r. Inl notFound),
      k_PatchTemplate = (\<lambda>h x. None),
      k_CreateFromTemplate = (\<lambda>h i. Inr (Some
        \<lparr>infMeta = \<lparr>Name = ''infra'', Namespace = cftNamespace i, UID = [], Labels = None,
           Annotations = Some [''cloned-from-name'' \<mapsto> oName (cftTemplateRef i),
             ''cloned-from-groupkind'' \<mapsto> oKind (cftTemplateRef i) @ ''.'' @
               takeWhile (\<lambda>c. c \<noteq> CHR ''/'') (oAPIVersion (cftTemplateRef i))],
           Finalizers = [], OwnerReferences = [cftOwnerRef i],
           CreationTimestamp = 0, DeletionTimestamp = None\<rparr>,
         infAPIVersion = ''infra.x-k8s.io/v1'', infKind = ''InfraMachine''\<rparr>)),
      k_GetEtcdadmConfig = (\<lambda>h k. Inl notFound), k_CreateEtcdadmConfig = (\<lambda>h c. None),
      k_GenerateName = (\<lambda>h base. base @ ''x''), k_CreateMachine = (\<lambda>h m. None),
      k_UpdateMachine = (\<lambda>h m. None), k_DeleteMachine = (\<lambda>h m. None),
      k_LookupOrGenerateCerts = (\<lambda>h cs k o'. Inr (map ref_keyPair cs)),
      k_LookupCerts = (\<lambda>h cs k. Inr (map ref_keyPair cs)),
      k_CreateOrPatchSecret = (\<lambda>h x. None), k_CreateSecret = (\<lambda>h x. None),
      k_GetSecret = (\<lambda>h k. Inl notFound), k_UpdateSecret = (\<lambda>h x. None),
      x_NewCertAndKey = (\<lambda>h c k cfg. Inr (''client-cert'', ''client-key'')),
      e_New = (\<lambda>h cfg. Inr 1), e_MemberList = (\<lambda>h c. Inr []), e_MemberRemove = (\<lambda>h c i. None),
      n_Dial = (\<lambda>h host. Inr True), n_HttpGet = (\<lambda>h c url. Inl (External ''timeout'')),
      t_Now = (\<lambda>h. 0), range_order = (\<lambda>site h n. [])\<rparr>"

definition ref_env :: env where
  "ref_env =
     \<lparr>errs = ref_errors, coll = ref_collections, conds = ref_conditions ''Ready'', capi = ref_capi,
      svc = ref_svc, GetEtcdClient = (\<lambda>cl eps. ret (Inr (Some 1))),
      r_isPortOpen = (\<lambda>host. ret True)\<rparr>"

text \<open>The same environment with other services.\<close>

definition with_svc :: "(service_api \<Rightarrow> service_api) \<Rightarrow> env" where
  "with_svc f = ref_env\<lparr>svc := f ref_svc\<rparr>"

lemma ref_env_fields [simp]:
  "errs (with_svc f) = ref_errors" "coll (with_svc f) = ref_collections"
  "conds (with_svc f) = ref_conditions ''Ready''" "capi (with_svc f) = ref_capi"
  "svc (with_svc f) = f ref_svc"
  by (simp_all add: with_svc_def ref_env_def)

section \<open>Objects\<close>

definition ref_meta :: "string \<Rightarrow> ObjectMeta" where
  "ref_meta n = \<lparr>Name = n, Namespace = ''ns'', UID = n @ ''-uid'', Labels = Some Map.empty,
     Annotations = Some Map.empty, Finalizers = [], OwnerReferences = [], CreationTimestamp = 0,
     DeletionTimestamp = None\<rparr>"

definition ref_ec :: EtcdadmCluster where
  "ref_ec = \<lparr>ecMeta = (ref_meta ''etcd'')\<lparr>Finalizers := [EtcdadmClusterFinalizer]\<rparr>,
     ecSpec = \<lparr>Replicas = Some 3,
       InfrastructureTemplate = \<lparr>oAPIVersion = ''infra.x-k8s.io/v1'', oKind = ''InfraMachineTemplate'',
          oNamespace = ''ns'', oName = ''tmpl''\<rparr>,
       etcdadmConfigSpec = OpaqueEtcdadmConfigSpec ''spec''\<rparr>,
     ecStatus = \<lparr>ReadyReplicas = 0, InitMachineAddress = ''init'', Initialized = True, Ready = False,
       CreationComplete = True, Endpoints = [], Selector = [], ObservedGeneration = 0,
       Conditions = []\<rparr>\<rparr>"

definition ref_cluster :: Cluster where
  "ref_cluster = \<lparr>clMeta = ref_meta ''c1'', clPaused = None, clManagedExternalEtcdRef = None,
     clFailureDomains = None, clConditions = [(''InfrastructureReady'', ''True'')]\<rparr>"

definition ref_machine :: "string \<Rightarrow> string \<Rightarrow> Machine" where
  "ref_machine n ip = \<lparr>mMeta = (ref_meta n)\<lparr>OwnerReferences :=
        [\<lparr>orAPIVersion = ''etcdcluster.cluster.x-k8s.io/v1beta1'', orKind = ''EtcdadmCluster'',
          orName = ''etcd'', orUID = ''etcd-uid'', orController = True\<rparr>]\<rparr>,
     mClusterName = ''c1'', mInfrastructureRef = \<lparr>crKind = [], crName = [], crAPIGroup = []\<rparr>,
     mConfigRef = \<lparr>crKind = [], crName = [], crAPIGroup = []\<rparr>, mFailureDomain = [],
     mAddresses = [\<lparr>addrType = MachineExternalIP, addrAddress = ip\<rparr>]\<rparr>"

definition ref_sys :: sys where
  "ref_sys = \<lparr>trace = [], theEC = ref_ec, clusterToHttpClient = Map.empty,
     etcdadmClusterMapper = Map.empty\<rparr>"

text \<open>The reference environment where every listing gives these machines.\<close>

definition listing :: "Machines \<Rightarrow> env" where
  "listing ms = with_svc (\<lambda>v. v\<lparr>k_ListMachines := (\<lambda>h rd cl f. Inr ms)\<rparr>)"

lemma listing_fields [simp]:
  "errs (listing ms) = ref_errors" "coll (listing ms) = ref_collections"
  "conds (listing ms) = ref_conditions ''Ready''" "capi (listing ms) = ref_capi"
  "svc (listing ms) = ref_svc\<lparr>k_ListMachines := (\<lambda>h rd cl f. Inr ms)\<rparr>"
  by (simp_all add: listing_def)

lemmas ref_laws [simp] =
  ref_errors_laws ref_collections_laws ref_choice_laws ref_conditions_laws ref_finalizer_laws

lemmas ref_defs =
  ref_errors_def ref_collections_def ref_conditions_def ref_capi_def ref_svc_def ref_env_def
  with_svc_def ref_meta_def ref_ec_def ref_cluster_def ref_machine_def ref_sys_def notFound_def
  ref_keyPair_def

end
