(* ===== verification/Helpers.thy ===== *)
theory Helpers
  imports Reference
begin

text \<open>
  The address and label helpers of \<open>controllers/helpers.go\<close> and \<open>controllers/machines.go\<close>: which
  address of a machine is used, how it becomes an etcd client URL and back, how a member is found by
  its peer URLs, and the label selector of a cluster's etcd machines.
\<close>

section \<open>Machine addresses\<close>

text \<open>What the scan of \<open>machine.Status.Addresses\<close> has recorded so far: one address per type.\<close>

record AddressScan =
  internalIP :: string
  internalDNS :: string
  externalIP :: string
  externalDNS :: string

fun record_address :: "MachineAddress \<Rightarrow> AddressScan \<Rightarrow> AddressScan" where
  "record_address a s =
     (case addrType a of
        MachineInternalIP \<Rightarrow> s\<lparr>internalIP := addrAddress a\<rparr>
      | MachineInternalDNS \<Rightarrow> s\<lparr>internalDNS := addrAddress a\<rparr>
      | MachineExternalIP \<Rightarrow> s\<lparr>externalIP := addrAddress a\<rparr>
      | MachineExternalDNS \<Rightarrow> s\<lparr>externalDNS := addrAddress a\<rparr>
      | _ \<Rightarrow> s)"

definition scan_addresses :: "MachineAddress list \<Rightarrow> AddressScan" where
  "scan_addresses as =
     fold record_address as \<lparr>internalIP = [], internalDNS = [], externalIP = [], externalDNS = []\<rparr>"

definition getEtcdMachineAddress :: "Machine \<Rightarrow> string" where
  "getEtcdMachineAddress machine =
     (let s = scan_addresses (mAddresses machine) in
      if externalDNS s \<noteq> [] then externalDNS s
      else if externalIP s \<noteq> [] then externalIP s
      else if internalDNS s \<noteq> [] then internalDNS s
      else if internalIP s \<noteq> [] then internalIP s
      else [])"

definition httpsPrefix :: string where "httpsPrefix = ''https://''"
definition etcdClientURLPort :: string where "etcdClientURLPort = ''2379''"

definition getMemberClientURL :: "string \<Rightarrow> string" where
  "getMemberClientURL address = httpsPrefix @ address @ '':'' @ etcdClientURLPort"

definition getEtcdMachineAddressFromClientURL :: "string \<Rightarrow> string" where
  "getEtcdMachineAddressFromClientURL clientURL =
     (case url_ParseRequestURI clientURL of
        None \<Rightarrow> []
      | Some uHost \<Rightarrow>
          (case net_SplitHostPort uHost of
             None \<Rightarrow> []
           | Some (host, _) \<Rightarrow> host))"

definition getMemberHealthCheckEndpoint :: "string \<Rightarrow> string" where
  "getMemberHealthCheckEndpoint clientURL = clientURL @ ''/health''"

definition getMachineEtcdEndpoint :: "Machine \<Rightarrow> string" where
  "getMachineEtcdEndpoint machine =
     (let address = getEtcdMachineAddress machine in
      if address = [] then [] else getMemberClientURL address)"

section \<open>Members by peer URLs\<close>

fun stringSlicesEqual_from :: "string list \<Rightarrow> string list \<Rightarrow> bool" where
  "stringSlicesEqual_from (x # l) (y # r) = (if x \<noteq> y then False else stringSlicesEqual_from l r)"
| "stringSlicesEqual_from _ _ = True"

definition stringSlicesEqual :: "string list \<Rightarrow> string list \<Rightarrow> bool" where
  "stringSlicesEqual l r = (if length l \<noteq> length r then False else stringSlicesEqual_from l r)"

fun memberForPeerURLs :: "Member list \<Rightarrow> string list \<Rightarrow> Member option" where
  "memberForPeerURLs [] peerURLs = None"
| "memberForPeerURLs (m # ms) peerURLs =
     (if stringSlicesEqual (memberPeerURLs m) peerURLs then Some m
      else memberForPeerURLs ms peerURLs)"

section \<open>Labels\<close>

text \<open>\<open>None\<close> is the panic of \<open>must\<close>, when a name is not a valid label value.\<close>

definition EtcdMachinesSelectorForCluster :: "env \<Rightarrow> string \<Rightarrow> string \<Rightarrow> Requirement list option" where
  "EtcdMachinesSelectorForCluster E clusterName etcdClusterName =
     (case labels_NewRequirement (capi E) (ClusterNameLabel (capi E)) [clusterName] of
        Inl _ \<Rightarrow> None
      | Inr r1 \<Rightarrow>
          (case labels_NewRequirement (capi E) (MachineEtcdClusterLabelName (capi E)) [etcdClusterName] of
             Inl _ \<Rightarrow> None
           | Inr r2 \<Rightarrow> Some [r1, r2]))"

text \<open>The filter \<open>EtcdClusterMachines\<close> returns, for the selector it has built; \<open>None\<close> is a nil machine.\<close>

definition EtcdClusterMachines :: "env \<Rightarrow> Requirement list \<Rightarrow> Machine option \<Rightarrow> bool" where
  "EtcdClusterMachines E selector machine =
     (case machine of
        None \<Rightarrow> False
      | Some m \<Rightarrow> labels_Matches (capi E) selector (Labels (mMeta m)))"

definition EtcdLabelsForCluster :: "env \<Rightarrow> string \<Rightarrow> string \<Rightarrow> go_map" where
  "EtcdLabelsForCluster E clusterName etcdClusterName =
     Some [ClusterNameLabel (capi E) \<mapsto> clusterName, MachineEtcdClusterLabelName (capi E) \<mapsto> etcdClusterName]"

text \<open>
  The call every caller makes: \<open>collections.GetFilteredMachinesForCluster\<close> with the filter
  \<open>EtcdClusterMachines(cluster.Name, etcdCluster.Name)\<close>, whose construction may panic first.
\<close>

definition listEtcdMachines :: "env \<Rightarrow> Reader \<Rightarrow> Cluster \<Rightarrow> string \<Rightarrow> (err + Machines) io" where
  "listEtcdMachines E rd cluster etcdClusterName =
     orPanic ''invalid label value''
       (EtcdMachinesSelectorForCluster E (clName cluster) etcdClusterName)
       (\<lambda>sel. call_ListMachines E rd cluster (\<lambda>m. EtcdClusterMachines E sel (Some m)))"

section \<open>Facts\<close>

lemma stringSlicesEqual_from_iff:
  "length l = length r \<Longrightarrow> stringSlicesEqual_from l r = (l = r)"
  by (induction l r rule: stringSlicesEqual_from.induct) auto

lemma stringSlicesEqual_iff [simp]: "stringSlicesEqual l r = (l = r)"
  by (auto simp: stringSlicesEqual_def stringSlicesEqual_from_iff)

lemma memberForPeerURLs_find: "memberForPeerURLs ms urls = find (\<lambda>m. memberPeerURLs m = urls) ms"
  by (induction ms) simp_all

lemma memberForPeerURLs_Some:
  "memberForPeerURLs ms urls = Some m \<Longrightarrow> m \<in> set ms \<and> memberPeerURLs m = urls"
  by (induction ms) (auto split: if_splits)

lemma memberForPeerURLs_None:
  "memberForPeerURLs ms urls = None \<longleftrightarrow> (\<forall>m\<in>set ms. memberPeerURLs m \<noteq> urls)"
  by (induction ms) auto

text \<open>The last address of a type, empty when there is none.\<close>

definition last_address :: "MachineAddressType \<Rightarrow> MachineAddress list \<Rightarrow> string" where
  "last_address t as =
     (case filter (\<lambda>a. addrType a = t) as of [] \<Rightarrow> [] | bs \<Rightarrow> addrAddress (last bs))"

lemma last_address_snoc:
  "last_address t (as @ [a]) = (if addrType a = t then addrAddress a else last_address t as)"
  by (cases "filter (\<lambda>a. addrType a = t) as") (simp_all add: last_address_def)

lemma scan_addresses_last:
  "internalIP (scan_addresses as) = last_address MachineInternalIP as \<and>
   internalDNS (scan_addresses as) = last_address MachineInternalDNS as \<and>
   externalIP (scan_addresses as) = last_address MachineExternalIP as \<and>
   externalDNS (scan_addresses as) = last_address MachineExternalDNS as"
proof (induction as rule: rev_induct)
  case Nil
  show ?case by (simp add: scan_addresses_def last_address_def)
next
  case (snoc a as)
  then show ?case
    by (cases "addrType a") (simp_all add: scan_addresses_def last_address_snoc)
qed

lemma emits_listEtcdMachines:
  "(\<And>r. P (EvListMachines rd (clName cl) r)) \<Longrightarrow> emits P (listEtcdMachines E rd cl n)"
  unfolding listEtcdMachines_def call_ListMachines_def by (intro emit_intros) simp

lemma kept_listEtcdMachines:
  "(\<And>s x. F (s\<lparr>trace := x\<rparr>) = F s) \<Longrightarrow> obeys (keeps F) (listEtcdMachines E rd cl n)"
  unfolding listEtcdMachines_def call_ListMachines_def by (intro kept_intros) simp

text \<open>The selector of the reference environment, for the examples.\<close>

definition ref_selector :: "string \<Rightarrow> string \<Rightarrow> Requirement list" where
  "ref_selector cl n =
     [\<lparr>reqKey = ''cluster-name'', reqValues = [cl]\<rparr>, \<lparr>reqKey = ''etcd-cluster'', reqValues = [n]\<rparr>]"

lemma selector_ref_capi [simp]:
  "capi E = ref_capi \<Longrightarrow> EtcdMachinesSelectorForCluster E cl n = Some (ref_selector cl n)"
  by (simp add: EtcdMachinesSelectorForCluster_def ref_capi_def ref_selector_def)

end
