(* ===== verification/Effects.thy ===== *)
theory Effects
  imports Helpers
begin

text \<open>
  What an operation may do, as preorders on states for which every way of composing programs is
  closed (\<open>step_order\<close>): it only reads; it extends the trace by events that satisfy a property of
  whole event lists. The specification of member removal is such a property, given by a monitor that
  reads the trace. Then the interface of the two functions the reconciler is configured with.
\<close>

section \<open>Reading\<close>

definition reads :: "sys \<Rightarrow> sys \<Rightarrow> bool" where
  "reads s s' =
     (extends (\<lambda>e. \<not> mutates e) s s' \<and> theEC s' = theEC s \<and>
      etcdadmClusterMapper s' = etcdadmClusterMapper s)"

interpretation reading: step_order reads
  by unfold_locales (auto simp: reads_def intro: emit.refl emit.trans)

lemma reads_call: "(\<And>r. \<not> mutates (ev r)) \<Longrightarrow> obeys reads (call ev f)"
  by (rule obeysI) (simp add: reads_def extends_def)

lemma reads_range_over: "obeys reads (range_over E site xs)"
  by (simp add: range_over_def reading.prog_gets)

lemma reads_modify:
  "(\<And>s. trace (g s) = trace s \<and> theEC (g s) = theEC s \<and>
        etcdadmClusterMapper (g s) = etcdadmClusterMapper s) \<Longrightarrow> obeys reads (modify g)"
  by (rule obeysI) (simp add: reads_def extends_def)

lemma reads_listEtcdMachines: "obeys reads (listEtcdMachines E rd cl n)"
  unfolding listEtcdMachines_def call_ListMachines_def
  by (intro reading.prog_intros reads_call) simp

lemmas read_intros = reading.prog_intros reads_call reads_range_over

lemma reads_emits:
  assumes "obeys reads m" and "\<And>e. \<not> mutates e \<Longrightarrow> P e" shows "emits P m"
  using assms unfolding obeys_def reads_def by (blast intro: extends_mono)

lemma reads_keeps_theEC: "obeys reads m \<Longrightarrow> obeys (keeps theEC) m"
  by (simp add: obeys_def reads_def keeps_def)

lemma reads_keeps_mapper: "obeys reads m \<Longrightarrow> obeys (keeps etcdadmClusterMapper) m"
  by (simp add: obeys_def reads_def keeps_def)

lemma not_mutates_removal_free [simp]: "\<not> mutates e \<Longrightarrow> removal_free e"
  by (cases e) (simp_all add: removal_free_iff)

lemma not_mutates_not_create [simp]: "\<not> mutates e \<Longrightarrow> \<not> is_create e"
  by (cases e) simp_all

section \<open>Properties of the list of events\<close>

text \<open>The events appended have \<open>Q\<close>, which holds of no events and of one list after another.\<close>

definition appends :: "(event list \<Rightarrow> bool) \<Rightarrow> sys \<Rightarrow> sys \<Rightarrow> bool" where
  "appends Q s s' = (\<exists>es. trace s' = trace s @ es \<and> Q es)"

locale closed_events =
  fixes Q :: "event list \<Rightarrow> bool"
  assumes none: "Q []" and andThen: "Q es \<Longrightarrow> Q fs \<Longrightarrow> Q (es @ fs)"
begin

lemma order: "step_order (appends Q)"
proof unfold_locales
  show "appends Q s s" for s
    unfolding appends_def using none by (metis append_Nil2)
  show "appends Q s t \<Longrightarrow> appends Q t u \<Longrightarrow> appends Q s u" for s t u
    unfolding appends_def using andThen by (metis append_assoc)
qed

lemma of_modify: "(\<And>s. trace (g s) = trace s) \<Longrightarrow> obeys (appends Q) (modify g)"
  by (rule obeysI) (auto simp: appends_def intro: none)

lemma of_EC:
  "obeys (appends Q) (modifyEC g)" "obeys (appends Q) (modifyStatus f)"
  "obeys (appends Q) (MarkTrue E t)" "obeys (appends Q) (MarkFalse E t reason severity msg)"
  "obeys (appends Q) (SetSummary E ts)"
  unfolding modifyEC_def modifyStatus_def MarkTrue_def MarkFalse_def SetSummary_def
  by (rule of_modify, simp)+

lemma of_range_over: "obeys (appends Q) (range_over E site xs)"
  by (rule obeysI) (auto simp: appends_def intro: none)

text \<open>Harmless events are those \<open>Q\<close> does not restrict.\<close>

lemma of_emits:
  assumes "emits P m" and "\<And>es. list_all P es \<Longrightarrow> Q es" shows "obeys (appends Q) m"
  using assms unfolding obeys_def extends_def appends_def by blast

end

lemma appends_events: "obeys (appends Q) m \<Longrightarrow> Q (events m s)"
  by (auto simp: obeys_def appends_def events_def dest!: spec [of _ s])

section \<open>The specification of member removal\<close>

text \<open>
  The monitor knows what etcd has just answered: \<open>Listed c ms\<close>, the member list of client \<open>c\<close>, or
  \<open>Removed ms i\<close>, that of these members the one with ID \<open>i\<close> has been removed. Any other call makes
  it forget.
\<close>

datatype monitor_state = Idle | Listed nat "Member list" | Removed "Member list" "64 word"

fun observe :: "monitor_state \<Rightarrow> event \<Rightarrow> monitor_state" where
  "observe _ (EvMemberList c (Inr ms)) = Listed c ms"
| "observe (Listed c ms) (EvMemberRemove _ i None) = Removed ms i"
| "observe _ _ = Idle"

text \<open>
  A member is removed only from a list of at least two that has just been read with the same
  client. A machine is deleted only right after its member, the one that answers at the machine's
  peer URL, has been removed, or right after a list that has no such member.
\<close>

fun allowed :: "(Machine \<Rightarrow> string) \<Rightarrow> monitor_state \<Rightarrow> event \<Rightarrow> bool" where
  "allowed url (Listed c ms) (EvMemberRemove c' i r) =
     (c' = c \<and> length ms > 1 \<and> (\<exists>x\<in>set ms. memberID x = i))"
| "allowed url _ (EvMemberRemove _ _ _) = False"
| "allowed url (Listed c ms) (EvDeleteMachine m r) = (\<forall>x\<in>set ms. memberPeerURLs x \<noteq> [url m])"
| "allowed url (Removed ms i) (EvDeleteMachine m r) =
     (length ms > 1 \<and> (\<exists>x\<in>set ms. memberID x = i \<and> memberPeerURLs x = [url m]))"
| "allowed url Idle (EvDeleteMachine m r) = False"
| "allowed url _ _ = True"

fun monitored :: "(Machine \<Rightarrow> string) \<Rightarrow> monitor_state \<Rightarrow> event list \<Rightarrow> bool" where
  "monitored url st [] = True"
| "monitored url st (e # es) = (allowed url st e \<and> monitored url (observe st e) es)"

lemma monitored_append:
  "monitored url st (es @ fs) = (monitored url st es \<and> monitored url (fold (\<lambda>e st. observe st e) es st) fs)"
  by (induction es arbitrary: st) simp_all

lemma allowed_removal_free: "removal_free e \<Longrightarrow> allowed url st e"
  by (cases e; cases st) (simp_all add: removal_free_iff)

definition safe_removals :: "(Machine \<Rightarrow> string) \<Rightarrow> event list \<Rightarrow> bool" where
  "safe_removals url es = (\<forall>st. monitored url st es)"

interpretation removals: closed_events "safe_removals url" for url
  by unfold_locales (simp_all add: safe_removals_def monitored_append)

interpretation guarding: step_order "appends (safe_removals url)" for url
  by (rule removals.order)

lemma safe_removals_free: "list_all removal_free es \<Longrightarrow> safe_removals url es"
  unfolding safe_removals_def by (induction es) (simp_all add: allowed_removal_free)

lemma guarded_if_free: "emits removal_free m \<Longrightarrow> obeys (appends (safe_removals url)) m"
  by (erule removals.of_emits) (rule safe_removals_free)

lemma guarded_if_reads: "obeys reads m \<Longrightarrow> obeys (appends (safe_removals url)) m"
  by (rule guarded_if_free, erule reads_emits) simp

section \<open>One change per run\<close>

text \<open>
  A property of event lists that harmless events (\<open>P\<close>) neither establish nor break. It is enough that
  the operation in tail position has it.
\<close>

locale absorbing =
  fixes P :: "event \<Rightarrow> bool" and Q :: "event list \<Rightarrow> bool"
  assumes harmless: "list_all P es \<Longrightarrow> Q es"
    and before_it: "list_all P es \<Longrightarrow> Q fs \<Longrightarrow> Q (es @ fs)"
    and after_it: "Q es \<Longrightarrow> list_all P fs \<Longrightarrow> Q (es @ fs)"
begin

lemma prefix: "extends P s t \<Longrightarrow> appends Q t u \<Longrightarrow> appends Q s u"
  unfolding extends_def appends_def using before_it by (metis append_assoc)

lemma suffix: "appends Q s t \<Longrightarrow> extends P t u \<Longrightarrow> appends Q s u"
  unfolding extends_def appends_def using after_it by (metis append_assoc)

lemma of_harmless: "emits P m \<Longrightarrow> obeys (appends Q) m"
  unfolding obeys_def extends_def appends_def using harmless by blast

lemma of_ret: "obeys (appends Q) (ret x)" and of_panic: "obeys (appends Q) (panic msg)"
  by (intro of_harmless emit_intros)+

lemma of_bnd:
  assumes m: "emits P m" and f: "\<And>x. obeys (appends Q) (f x)"
  shows "obeys (appends Q) (bnd m f)"
proof (rule obeysI)
  fix s :: sys
  obtain r t where run: "run_state m s = (r, t)" by fastforce
  with m have st: "extends P s t" by (rule obeysD)
  show "appends Q s (snd (run_state (bnd m f) s))"
  proof (cases r)
    case (Done x)
    then show ?thesis using run f prefix [OF st] by (simp add: run_bnd obeys_def)
  next
    case (Panic msg)
    then show ?thesis using run st harmless by (auto simp: run_bnd extends_def appends_def)
  qed
qed

lemma of_seq: "emits P m \<Longrightarrow> obeys (appends Q) k \<Longrightarrow> obeys (appends Q) (seq m k)"
  unfolding seq_def by (rule of_bnd)

lemma of_checkErr: "emits P m \<Longrightarrow> obeys (appends Q) k \<Longrightarrow> obeys (appends Q) (checkErr m h k)"
  unfolding checkErr_def by (intro of_bnd splits_prog of_ret)

lemma of_tryErr:
  "emits P m \<Longrightarrow> (\<And>x. obeys (appends Q) (k x)) \<Longrightarrow> obeys (appends Q) (tryErr m h k)"
  unfolding tryErr_def by (intro of_bnd splits_prog of_ret)

lemma of_orPanic:
  "(\<And>y. x = Some y \<Longrightarrow> obeys (appends Q) (k y)) \<Longrightarrow> obeys (appends Q) (orPanic msg x k)"
  unfolding orPanic_def by (intro splits_prog of_panic)

text \<open>A stage may do it itself, if it then returns.\<close>

lemma of_orElse:
  assumes m: "obeys (appends Q) m"
    and goes_on: "\<And>s t. run_state m s = (Done None, t) \<Longrightarrow> extends P s t"
    and k: "obeys (appends Q) k"
  shows "obeys (appends Q) (orElse m k)"
proof (rule obeysI)
  fix s :: sys
  obtain r t where run: "run_state m s = (r, t)" by fastforce
  with m have st: "appends Q s t" by (rule obeysD)
  show "appends Q s (snd (run_state (orElse m k) s))"
  proof (cases "r = Done None")
    case True
    then show ?thesis using run k prefix [OF goes_on [of s t]] by (simp add: run_orElse obeys_def)
  next
    case False
    then show ?thesis using run st
      by (cases r) (auto simp: run_orElse split: option.splits)
  qed
qed

lemma of_last:
  assumes m: "obeys (appends Q) m" and f: "\<And>x. emits P (f x)"
  shows "obeys (appends Q) (bnd m f)"
proof (rule obeysI)
  fix s :: sys
  obtain r t where run: "run_state m s = (r, t)" by fastforce
  with m have st: "appends Q s t" by (rule obeysD)
  show "appends Q s (snd (run_state (bnd m f) s))"
    using run f suffix [OF st] st by (cases r) (simp_all add: run_bnd obeys_def)
qed

lemma of_withDefer:
  assumes m: "obeys (appends Q) m" and d: "\<And>x. emits P (d x)"
  shows "obeys (appends Q) (withDefer zero m d)"
proof (rule obeysI)
  fix s :: sys
  obtain r t where run: "run_state m s = (r, t)" by fastforce
  with m have st: "appends Q s t" by (rule obeysD)
  have "emits P (seq (d zero) (panic msg :: 'a io))" for msg
    by (intro emit_intros d)
  then show "appends Q s (snd (run_state (withDefer zero m d) s))"
    using run d suffix [OF st] st by (cases r) (simp_all add: run_withDefer obeys_def)
qed

lemmas tail_intros = of_ret of_panic of_bnd of_seq of_checkErr of_tryErr of_orPanic splits_prog

end

text \<open>At most one event of kind \<open>A\<close>, and no removal beside it.\<close>

definition single :: "(event \<Rightarrow> bool) \<Rightarrow> event list \<Rightarrow> bool" where
  "single A es =
     (length (filter A es) \<le> 1 \<and> (list_ex A es \<longrightarrow> list_all removal_free es))"

definition harmless :: "(event \<Rightarrow> bool) \<Rightarrow> event \<Rightarrow> bool" where
  "harmless A e = (\<not> A e \<and> removal_free e)"

lemma harmless_none:
  "list_all (harmless A) es \<Longrightarrow> filter A es = [] \<and> \<not> list_ex A es \<and> list_all removal_free es"
  by (induction es) (simp_all add: harmless_def)

interpretation one: absorbing "harmless A" "single A" for A
  by unfold_locales (auto simp: single_def dest: harmless_none)

lemma single_if_none: "list_all (\<lambda>e. \<not> A e) es \<Longrightarrow> single A es"
  by (auto simp: single_def list_all_iff list_ex_iff filter_empty_conv [THEN iffD2])

lemma single_if_emits_none:
  assumes "emits (\<lambda>e. \<not> A e) m" shows "obeys (appends (single A)) m"
  using assms single_if_none unfolding obeys_def extends_def appends_def by blast

definition changesMachines :: "event \<Rightarrow> bool" where
  "changesMachines e = (is_create e \<or> is_update e)"

lemma harmless_if_reads: "\<not> mutates e \<Longrightarrow> harmless changesMachines e \<and> harmless is_create e"
  by (cases e) (simp_all add: harmless_def changesMachines_def removal_free_iff)

section \<open>The functions the reconciler is configured with\<close>

text \<open>
  What every operation relies on when it asks for an etcd client or probes a port: both only look
  things up, and getting a client does not list machines.
\<close>

fun is_list :: "event \<Rightarrow> bool" where
  "is_list (EvListMachines _ _ _) = True"
| "is_list _ = False"

locale collaborators =
  fixes E :: env
  assumes client_reads: "obeys reads (GetEtcdClient E cluster endpoints)"
    and client_lists_nothing: "emits (\<lambda>e. \<not> is_list e) (GetEtcdClient E cluster endpoints)"
    and probe_reads: "obeys reads (r_isPortOpen E host)"

end
