(* ===== verification/Etcd_Plane.thy ===== *)
theory Etcd_Plane
  imports Effects
begin

text \<open>
  \<open>controllers/etcd_plane.go\<close>: the view of a cluster's etcd machines that one reconciliation works
  with, which of them are out of date, and which one goes first when scaling down.
\<close>

section \<open>The plane\<close>

text \<open>
  \<open>EC\<close> is a pointer to the object being reconciled; the plane only reads its spec, which no function
  of the controller changes, so the record holds its value when the plane was built. The patch
  helpers are stored and never used: only the names they are stored under are kept.
\<close>

record EtcdPlane =
  EC :: EtcdadmCluster
  epCluster :: Cluster
  epMachines :: Machines
  machinesPatchHelpers :: "string list"
  etcdadmConfigs :: "string \<rightharpoonup> EtcdadmConfig"
  infraResources :: "string \<rightharpoonup> InfraObject"

text \<open>\<open>errors.Wrap\<close> of an error that is not nil, which the library documents never to be nil.\<close>

definition wrapErr :: "env \<Rightarrow> err \<Rightarrow> string \<Rightarrow> err" where
  "wrapErr E e msg = (case errors_Wrap (errs E) (Some e) msg of Some e' \<Rightarrow> e' | None \<Rightarrow> Wrapped msg e)"

definition infraRefOf :: "Machine \<Rightarrow> ObjectReference" where
  "infraRefOf m =
     \<lparr>oAPIVersion = crAPIGroup (mInfrastructureRef m) @ ''/v1beta1'',
      oKind = crKind (mInfrastructureRef m),
      oNamespace = Namespace (mMeta m),
      oName = crName (mInfrastructureRef m)\<rparr>"

fun getInfraResources_loop ::
  "env \<Rightarrow> (string \<rightharpoonup> InfraObject) \<Rightarrow> Machines \<Rightarrow> (err + (string \<rightharpoonup> InfraObject)) io" where
  "getInfraResources_loop E result [] = ret (Inr result)"
| "getInfraResources_loop E result (m # ms) =
     bnd (call_ExternalGet E (infraRefOf m)) (\<lambda>r.
       case r of
         Inl e \<Rightarrow>
           if IsNotFound (errs E) (errors_Cause (errs E) e) then getInfraResources_loop E result ms
           else ret (Inl (wrapErr E e (''failed to retrieve infra obj for machine '' @ mName m)))
       | Inr infraObj \<Rightarrow> getInfraResources_loop E (result(mName m \<mapsto> infraObj)) ms)"

definition getInfraResources :: "env \<Rightarrow> Machines \<Rightarrow> (err + (string \<rightharpoonup> InfraObject)) io" where
  "getInfraResources E machines =
     bnd (range_over E ''getInfraResources'' machines) (getInfraResources_loop E Map.empty)"

fun getEtcdadmConfigs_loop ::
  "env \<Rightarrow> (string \<rightharpoonup> EtcdadmConfig) \<Rightarrow> Machines \<Rightarrow> (err + (string \<rightharpoonup> EtcdadmConfig)) io" where
  "getEtcdadmConfigs_loop E result [] = ret (Inr result)"
| "getEtcdadmConfigs_loop E result (m # ms) =
     (if \<not> ref_IsDefined (capi E) (Some (mConfigRef m)) then getEtcdadmConfigs_loop E result ms
      else
        bnd (call_GetEtcdadmConfig E
               \<lparr>keyNamespace = Namespace (mMeta m), keyName = crName (mConfigRef m)\<rparr>) (\<lambda>r.
          case r of
            Inl e \<Rightarrow>
              if IsNotFound (errs E) (errors_Cause (errs E) e) then getEtcdadmConfigs_loop E result ms
              else ret (Inl (wrapErr E e (''failed to retrieve bootstrap config for machine '' @ mName m)))
          | Inr machineConfig \<Rightarrow> getEtcdadmConfigs_loop E (result(mName m \<mapsto> machineConfig)) ms))"

definition getEtcdadmConfigs :: "env \<Rightarrow> Machines \<Rightarrow> (err + (string \<rightharpoonup> EtcdadmConfig)) io" where
  "getEtcdadmConfigs E machines =
     bnd (range_over E ''getEtcdadmConfigs'' machines) (getEtcdadmConfigs_loop E Map.empty)"

definition newPatchHelpers :: "env \<Rightarrow> Machines \<Rightarrow> err option io" where
  "newPatchHelpers E machines =
     bnd (range_over E ''NewEtcdPlane'' machines)
       (forReturn (\<lambda>m. bnd (call_NewPatchHelper E (mName m)) (\<lambda>r.
          case r of
            None \<Rightarrow> ret None
          | Some e \<Rightarrow>
              ret (Some (wrapErr E e (''failed to create patch helper for machine '' @ mName m))))))"

definition NewEtcdPlane ::
  "env \<Rightarrow> Cluster \<Rightarrow> EtcdadmCluster \<Rightarrow> Machines \<Rightarrow> (err + EtcdPlane) io" where
  "NewEtcdPlane E cluster ec machines =
     tryErr (getInfraResources E machines) Inl (\<lambda>infraObjects.
     tryErr (getEtcdadmConfigs E machines) Inl (\<lambda>configs.
     checkErr (newPatchHelpers E machines) Inl
       (ret (Inr \<lparr>EC = ec, epCluster = cluster, epMachines = machines,
                  machinesPatchHelpers = map mName machines,
                  etcdadmConfigs = configs, infraResources = infraObjects\<rparr>))))"

section \<open>Out-of-date machines\<close>

definition MatchesEtcdadmConfig ::
  "(string \<rightharpoonup> EtcdadmConfig) \<Rightarrow> EtcdadmCluster \<Rightarrow> Machine option \<Rightarrow> bool" where
  "MatchesEtcdadmConfig machineConfigs ec machine =
     (case machine of
        None \<Rightarrow> False
      | Some m \<Rightarrow>
          (case machineConfigs (mName m) of
             None \<Rightarrow> True
           | Some etcdadmConfig \<Rightarrow> cfgSpec etcdadmConfig = etcdadmConfigSpec (ecSpec ec)))"

definition MatchesTemplateClonedFrom ::
  "env \<Rightarrow> (string \<rightharpoonup> InfraObject) \<Rightarrow> EtcdadmCluster \<Rightarrow> Machine option \<Rightarrow> bool" where
  "MatchesTemplateClonedFrom E infraConfigs ec machine =
     (case machine of
        None \<Rightarrow> False
      | Some m \<Rightarrow>
          (case infraConfigs (mName m) of
             None \<Rightarrow> True
           | Some infraObj \<Rightarrow>
               (case (map_get (Annotations (infMeta infraObj)) (TemplateClonedFromNameAnnotation (capi E)),
                      map_get (Annotations (infMeta infraObj)) (TemplateClonedFromGroupKindAnnotation (capi E))) of
                  (Some clonedFromName, Some clonedFromGroupKind) \<Rightarrow>
                    \<not> (clonedFromName \<noteq> oName (InfrastructureTemplate (ecSpec ec)) \<or>
                       clonedFromGroupKind \<noteq> groupKindString (capi E) (InfrastructureTemplate (ecSpec ec)))
                | _ \<Rightarrow> True)))"

definition MatchesEtcdadmClusterConfiguration ::
  "env \<Rightarrow> (string \<rightharpoonup> InfraObject) \<Rightarrow> (string \<rightharpoonup> EtcdadmConfig) \<Rightarrow> EtcdadmCluster \<Rightarrow> Machine \<Rightarrow> bool" where
  "MatchesEtcdadmClusterConfiguration E infraConfigs machineConfigs ec =
     col_And (coll E)
       (\<lambda>m. MatchesEtcdadmConfig machineConfigs ec (Some m))
       (\<lambda>m. MatchesTemplateClonedFrom E infraConfigs ec (Some m))"

definition MachinesNeedingRollout :: "env \<Rightarrow> EtcdPlane \<Rightarrow> Machines" where
  "MachinesNeedingRollout E ep =
     (let machines = col_Filter (coll E) (col_Not (coll E) (col_HasDeletionTimestamp (coll E))) (epMachines ep) in
      col_AnyFilter (coll E)
        (col_Not (coll E)
           (MatchesEtcdadmClusterConfiguration E (infraResources ep) (etcdadmConfigs ep) (EC ep)))
        machines)"

definition OutOfDateMachines :: "env \<Rightarrow> EtcdPlane \<Rightarrow> Machines" where
  "OutOfDateMachines E ep =
     col_AnyFilter (coll E)
       (col_Not (coll E)
          (MatchesEtcdadmClusterConfiguration E (infraResources ep) (etcdadmConfigs ep) (EC ep)))
       (epMachines ep)"

definition UpToDateMachines :: "env \<Rightarrow> EtcdPlane \<Rightarrow> Machines" where
  "UpToDateMachines E ep = col_Difference (coll E) (epMachines ep) (MachinesNeedingRollout E ep)"

definition NewestUpToDateMachine :: "env \<Rightarrow> EtcdPlane \<Rightarrow> Machine option" where
  "NewestUpToDateMachine E ep = col_Newest (coll E) (UpToDateMachines E ep)"

section \<open>Failure domains and the machine to scale down\<close>

definition FailureDomains :: "EtcdPlane \<Rightarrow> FailureDomain list" where
  "FailureDomains ep = (case clFailureDomains (epCluster ep) of None \<Rightarrow> [] | Some fds \<Rightarrow> fds)"

text \<open>\<open>Panic\<close>: a nil machine from \<open>Oldest()\<close> would be dereferenced.\<close>

definition FailureDomainWithMostMachines :: "env \<Rightarrow> EtcdPlane \<Rightarrow> Machines \<Rightarrow> string outcome" where
  "FailureDomainWithMostMachines E ep machines =
     (let failureDomainIDs = map fdName (FailureDomains ep);
          notInFailureDomains =
            col_Filter (coll E) (col_Not (coll E) (col_InFailureDomains (coll E) failureDomainIDs)) machines in
      if length notInFailureDomains > 0 then
        (case col_Oldest (coll E) notInFailureDomains of
           None \<Rightarrow> Panic ''nil pointer dereference''
         | Some m \<Rightarrow> Done (mFailureDomain m))
      else Done (fd_PickMost (coll E) (FailureDomains ep) (epMachines ep) machines))"

definition MachineInFailureDomainWithMostMachines ::
  "env \<Rightarrow> EtcdPlane \<Rightarrow> Machines \<Rightarrow> (err + Machine) outcome" where
  "MachineInFailureDomainWithMostMachines E ep machines =
     (case FailureDomainWithMostMachines E ep machines of
        Panic msg \<Rightarrow> Panic msg
      | Done fd \<Rightarrow>
          (let machinesInFailureDomain =
                 col_Filter (coll E) (col_InFailureDomains (coll E) [fd]) machines in
           case col_Oldest (coll E) machinesInFailureDomain of
             None \<Rightarrow> Done (Inl (ErrorNew ''failed to pick control plane Machine to mark for deletion''))
           | Some machineToMark \<Rightarrow> Done (Inr machineToMark)))"

definition MachineWithDeleteAnnotation :: "env \<Rightarrow> Machines \<Rightarrow> Machines" where
  "MachineWithDeleteAnnotation E machines =
     col_Filter (coll E) (col_HasAnnotationKey (coll E) (DeleteMachineAnnotation (capi E))) machines"

definition scaleDownCandidates :: "env \<Rightarrow> EtcdPlane \<Rightarrow> Machines \<Rightarrow> Machines" where
  "scaleDownCandidates E ep outdatedMachines =
     (let machines = epMachines ep in
      if col_Len (coll E) (MachineWithDeleteAnnotation E outdatedMachines) > 0
      then MachineWithDeleteAnnotation E outdatedMachines
      else if col_Len (coll E) (MachineWithDeleteAnnotation E machines) > 0
      then MachineWithDeleteAnnotation E machines
      else if col_Len (coll E) outdatedMachines > 0 then outdatedMachines
      else machines)"

definition selectMachineForScaleDown ::
  "env \<Rightarrow> EtcdPlane \<Rightarrow> Machines \<Rightarrow> (err + Machine) outcome" where
  "selectMachineForScaleDown E ep outdatedMachines =
     MachineInFailureDomainWithMostMachines E ep (scaleDownCandidates E ep outdatedMachines)"

definition NextFailureDomainForScaleUp :: "env \<Rightarrow> EtcdPlane \<Rightarrow> string option" where
  "NextFailureDomainForScaleUp E ep =
     (if length (FailureDomains ep) = 0 then None
      else Some (fd_PickFewest (coll E) (FailureDomains ep) (UpToDateMachines E ep) []))"

section \<open>Building the plane only reads\<close>

lemma reads_getInfraResources_loop: "obeys reads (getInfraResources_loop E result ms)"
  by (induction E result ms rule: getInfraResources_loop.induct)
    (auto simp: call_ExternalGet_def simp del: fun_upd_apply split: sum.splits intro!: read_intros)

lemma reads_getEtcdadmConfigs_loop: "obeys reads (getEtcdadmConfigs_loop E result ms)"
  by (induction E result ms rule: getEtcdadmConfigs_loop.induct)
    (auto simp: call_GetEtcdadmConfig_def simp del: fun_upd_apply split: sum.splits intro!: read_intros)

lemma reads_NewEtcdPlane: "obeys reads (NewEtcdPlane E cluster ec machines)"
  unfolding NewEtcdPlane_def getInfraResources_def getEtcdadmConfigs_def newPatchHelpers_def
    call_NewPatchHelper_def
  by (intro read_intros reads_getInfraResources_loop reads_getEtcdadmConfigs_loop) simp

text \<open>The plane of a run: the object and the machines it was given.\<close>

lemma NewEtcdPlane_plane:
  assumes "run_state (NewEtcdPlane E cluster ec machines) s = (Done (Inr ep), s')"
  shows "EC ep = ec \<and> epMachines ep = machines \<and> epCluster ep = cluster"
  using assms unfolding NewEtcdPlane_def
  by (auto simp: run_tryErr run_checkErr
      split: prod.splits outcome.splits sum.splits option.splits)

end
