(* ===== verification/Certs.thy ===== *)
theory Certs
  imports Etcd_Plane
begin

text \<open>
  \<open>controllers/certs.go\<close>: the CA and client certificates of the etcd cluster, saved as Secrets for
  the control plane and read back for the controller's own connections. PEM and DER bytes are
  opaque strings; the x509, PEM and TLS routines are fields of the environment.
\<close>

definition etcdCACertKeyPair :: "env \<Rightarrow> Certificate list" where
  "etcdCACertKeyPair E =
     [\<lparr>certPurpose = ManagedExternalEtcdCA (capi E),
       certCertFile = ''/etc/etcd/pki/ca.crt'', certKeyFile = ''/etc/etcd/pki/ca.key'',
       certKeyPair = None, certGenerated = False\<rparr>]"

definition clusterKey :: "Cluster \<Rightarrow> ObjectKey" where
  "clusterKey cluster = \<lparr>keyNamespace = Namespace (clMeta cluster), keyName = clName cluster\<rparr>"

text \<open>\<open>*metav1.NewControllerRef(etcdCluster, etcdv1.GroupVersion.WithKind("EtcdadmCluster"))\<close>\<close>

definition controllerRefOf :: "env \<Rightarrow> EtcdadmCluster \<Rightarrow> OwnerReference" where
  "controllerRefOf E ec =
     NewControllerRef (capi E) (ecMeta ec) ''etcdcluster.cluster.x-k8s.io/v1beta1'' ''EtcdadmCluster''"

definition etcdCASecret :: "env \<Rightarrow> Cluster \<Rightarrow> EtcdadmCluster \<Rightarrow> string \<Rightarrow> Secret" where
  "etcdCASecret E cluster ec caPEM =
     \<lparr>secMeta = \<lparr>Name = secret_Name (capi E) (clName cluster) (EtcdCAPurpose (capi E)),
                 Namespace = Namespace (clMeta cluster), UID = [],
                 Labels = Some [ClusterNameLabel (capi E) \<mapsto> clName cluster],
                 Annotations = None, Finalizers = [],
                 OwnerReferences = [controllerRefOf E ec],
                 CreationTimestamp = 0, DeletionTimestamp = None\<rparr>,
      secData = Some [TLSCrtDataName (capi E) \<mapsto> caPEM],
      secType = ClusterSecretType (capi E)\<rparr>"

definition clientCertConfig :: "env \<Rightarrow> Cluster \<Rightarrow> CertConfig" where
  "clientCertConfig E cluster =
     \<lparr>ccCommonName = clName cluster @ ''-kube-apiserver-etcd-client'',
      ccOrganization = [MastersGroup (capi E)], ccUsages = [''ExtKeyUsageClientAuth'']\<rparr>"

text \<open>
  The client certificate as a Secret. \<open>CreateOrPatch\<close> is called with a callback that sets the data
  of whatever object it finds to the data generated here, so the event carries that Secret.
\<close>

definition apiServerClientSecret ::
  "env \<Rightarrow> Cluster \<Rightarrow> EtcdadmCluster \<Rightarrow> string \<times> string \<Rightarrow> Secret" where
  "apiServerClientSecret E cluster ec certAndKey =
     certs_AsSecret (capi E)
       \<lparr>certPurpose = APIServerEtcdClient (capi E), certCertFile = [], certKeyFile = [],
        certKeyPair = Some \<lparr>kpCert = certs_EncodeCertPEM (capi E) (fst certAndKey),
                            kpKey = certs_EncodePrivateKeyPEM (capi E) (snd certAndKey)\<rparr>,
        certGenerated = True\<rparr>
       (clusterKey cluster) (controllerRefOf E ec)"

definition generateCAandClientCertSecrets :: "env \<Rightarrow> Cluster \<Rightarrow> err option io" where
  "generateCAandClientCertSecrets E cluster =
     bnd (gets theEC) (\<lambda>ec.
     tryErr (call_LookupOrGenerateCerts E (etcdCACertKeyPair E) (clusterKey cluster) (controllerRefOf E ec)) Some
       (\<lambda>certs.
     case certs_GetByPurpose (capi E) certs (ManagedExternalEtcdCA (capi E)) of
       None \<Rightarrow> ret (Some (ErrorNew ''nil returned from getting etcd CA certificate by purpose''))
     | Some caCertKey \<Rightarrow>
         orPanic ''nil pointer dereference'' (certKeyPair caCertKey) (\<lambda>kp.
         orPanic ''nil pointer dereference'' (pem_Decode (capi E) (kpCert kp)) (\<lambda>caCertDecoded.
         case x509_ParseCertificate (capi E) caCertDecoded of
           Inl e \<Rightarrow> ret (Some e)
         | Inr caCert \<Rightarrow>
             orPanic ''nil pointer dereference'' (pem_Decode (capi E) (kpKey kp)) (\<lambda>caKeyDecoded.
             case x509_ParsePKCS1PrivateKey (capi E) caKeyDecoded of
               Inl e \<Rightarrow> ret (Some e)
             | Inr caKey \<Rightarrow>
                 tryErr (call_NewCertAndKey E caCert caKey (clientCertConfig E cluster))
                   (\<lambda>e. Some (Errorf ''failure while creating etcd client key and certificate'' [e]))
                   (\<lambda>certAndKey.
                 checkErr (call_CreateOrPatchSecret E (apiServerClientSecret E cluster ec certAndKey))
                   (\<lambda>e. Some (Errorf ''failure while saving etcd client key and certificate'' [e]))
                   (bnd (call_CreateSecret E (etcdCASecret E cluster ec (kpCert kp))) (\<lambda>r.
                    if r \<noteq> None \<and> \<not> IsAlreadyExists (errs E) (the r)
                    then ret (Some (Errorf ''failure while saving etcd CA certificate'' [the r]))
                    else seq (MarkTrue E EtcdCertificatesAvailableCondition) (ret None)))))))))"

text \<open>A certificate list to be looked up: only the purpose is filled in.\<close>

definition lookupCert :: "string \<Rightarrow> Certificate list" where
  "lookupCert purpose =
     [\<lparr>certPurpose = purpose, certCertFile = [], certKeyFile = [], certKeyPair = None,
       certGenerated = False\<rparr>]"

definition getCACert :: "env \<Rightarrow> Cluster \<Rightarrow> (err + string) io" where
  "getCACert E cluster =
     tryErr (call_LookupCerts E (lookupCert (ManagedExternalEtcdCA (capi E))) (clusterKey cluster))
       (\<lambda>e. Inl (wrapErr E e ''error looking up external etcd CA certs''))
       (\<lambda>caCert.
     case certs_GetByPurpose (capi E) caCert (ManagedExternalEtcdCA (capi E)) of
       Some caCertKey \<Rightarrow>
         (case certKeyPair caCertKey of
            None \<Rightarrow> ret (Inl (ErrorNew ''ca cert key pair not found for cluster''))
          | Some kp \<Rightarrow> ret (Inr (kpCert kp)))
     | None \<Rightarrow> ret (Inl (ErrorNew ''nil returned from getting etcd CA certificate by purpose'')))"

definition getClientCerts :: "env \<Rightarrow> Cluster \<Rightarrow> (err + TlsCertificate) io" where
  "getClientCerts E cluster =
     tryErr (call_LookupCerts E (lookupCert (APIServerEtcdClient (capi E))) (clusterKey cluster)) Inl
       (\<lambda>clientCert.
     case certs_GetByPurpose (capi E) clientCert (APIServerEtcdClient (capi E)) of
       Some clientCertKey \<Rightarrow>
         (case certKeyPair clientCertKey of
            None \<Rightarrow> ret (Inl (ErrorNew ''client cert key pair not found for cluster''))
          | Some kp \<Rightarrow> ret (tls_X509KeyPair (capi E) (kpCert kp) (kpKey kp)))
     | None \<Rightarrow> ret (Inl (ErrorNew ''nil returned from getting etcd CA certificate by purpose'')))"

section \<open>What they do to the outside\<close>

lemma reads_getCACert: "obeys reads (getCACert E cluster)"
  unfolding getCACert_def call_LookupCerts_def by (intro read_intros) simp

lemma reads_getClientCerts: "obeys reads (getClientCerts E cluster)"
  unfolding getClientCerts_def call_LookupCerts_def by (intro read_intros) simp

fun cert_event :: "event \<Rightarrow> bool" where
  "cert_event (EvLookupOrGenerateCerts _ _) = True"
| "cert_event (EvNewCertAndKey _ _) = True"
| "cert_event (EvCreateOrPatchSecret _ _) = True"
| "cert_event (EvCreateSecret _ _) = True"
| "cert_event _ = False"

lemma emits_generateCAandClientCertSecrets:
  assumes "\<And>e. cert_event e \<Longrightarrow> P e"
  shows "emits P (generateCAandClientCertSecrets E cluster)"
  unfolding generateCAandClientCertSecrets_def call_defs
  by (intro emit_intros assms) simp_all

end
