(* ===== verification/Go_Json.thy ===== *)
theory Go_Json
  imports Go_Std
begin

text \<open>
  \<open>encoding/json.Unmarshal\<close> into a struct with one string field named \<open>health\<close>, as
  \<open>parseEtcdHealthCheckOutput\<close> uses it. The library first checks the whole text with a scanner, a
  machine that reads one byte at a time and keeps a stack of the objects and arrays it is inside;
  the scanner below has its states. The members of a top-level object are captured on the way, and
  decoding looks only at those whose key folds to \<open>health\<close>. Bytes of a string from 128 on are
  kept as they are (the library replaces malformed UTF-8, which changes no comparison made here).
\<close>

section \<open>The scanner\<close>

datatype parse_ctx = ParseObjectKey | ParseObjectValue | ParseArrayValue

datatype scan_state =
    BeginValue
  | BeginValueOrEmpty
  | BeginStringOrEmpty
  | BeginString
  | EndValue
  | EndTop
  | InString
  | InStringEsc
  | InStringEscU nat
  | Neg
  | Digits1
  | Digit0
  | Dot
  | Dot0
  | Exp
  | ExpSign
  | Exp0
  | Literal string

definition maxNestingDepth :: nat where "maxNestingDepth = 10000"

definition isSpace :: "char \<Rightarrow> bool" where
  "isSpace c = (ord c = 32 \<or> ord c = 9 \<or> ord c = 13 \<or> ord c = 10)"

type_synonym scan_result = "(scan_state \<times> parse_ctx list) option"

definition push_ctx :: "scan_state \<Rightarrow> parse_ctx \<Rightarrow> parse_ctx list \<Rightarrow> scan_result" where
  "push_ctx st p stack =
     (if length (p # stack) \<le> maxNestingDepth then Some (st, p # stack) else None)"

definition pop_ctx :: "parse_ctx list \<Rightarrow> scan_result" where
  "pop_ctx stack = (if tl stack = [] then Some (EndTop, []) else Some (EndValue, tl stack))"

definition step_end_value :: "parse_ctx list \<Rightarrow> char \<Rightarrow> scan_result" where
  "step_end_value stack c =
     (case stack of
        [] \<Rightarrow> if isSpace c then Some (EndTop, []) else None
      | p # rest \<Rightarrow>
          if isSpace c then Some (EndValue, stack)
          else (case p of
              ParseObjectKey \<Rightarrow>
                if c = CHR '':'' then Some (BeginValue, ParseObjectValue # rest) else None
            | ParseObjectValue \<Rightarrow>
                if c = CHR '','' then Some (BeginString, ParseObjectKey # rest)
                else if c = CHR ''}'' then pop_ctx stack else None
            | ParseArrayValue \<Rightarrow>
                if c = CHR '','' then Some (BeginValue, stack)
                else if c = CHR '']'' then pop_ctx stack else None))"

definition step_begin_value :: "parse_ctx list \<Rightarrow> char \<Rightarrow> scan_result" where
  "step_begin_value stack c =
     (if isSpace c then Some (BeginValue, stack)
      else if c = CHR ''{'' then push_ctx BeginStringOrEmpty ParseObjectKey stack
      else if c = CHR ''['' then push_ctx BeginValueOrEmpty ParseArrayValue stack
      else if ord c = 34 then Some (InString, stack)
      else if c = CHR ''-'' then Some (Neg, stack)
      else if c = CHR ''0'' then Some (Digit0, stack)
      else if c = CHR ''t'' then Some (Literal ''rue'', stack)
      else if c = CHR ''f'' then Some (Literal ''alse'', stack)
      else if c = CHR ''n'' then Some (Literal ''ull'', stack)
      else if is_digit c then Some (Digits1, stack)
      else None)"

fun scan_step :: "scan_state \<Rightarrow> parse_ctx list \<Rightarrow> char \<Rightarrow> scan_result" where
  "scan_step BeginValue stack c = step_begin_value stack c"
| "scan_step BeginValueOrEmpty stack c =
     (if isSpace c then Some (BeginValueOrEmpty, stack)
      else if c = CHR '']'' then step_end_value stack c
      else step_begin_value stack c)"
| "scan_step BeginStringOrEmpty stack c =
     (if isSpace c then Some (BeginStringOrEmpty, stack)
      else if c = CHR ''}'' then step_end_value (ParseObjectValue # tl stack) c
      else if ord c = 34 then Some (InString, stack)
      else None)"
| "scan_step BeginString stack c =
     (if isSpace c then Some (BeginString, stack)
      else if ord c = 34 then Some (InString, stack)
      else None)"
| "scan_step EndValue stack c = step_end_value stack c"
| "scan_step EndTop stack c = (if isSpace c then Some (EndTop, stack) else None)"
| "scan_step InString stack c =
     (if ord c = 34 then Some (EndValue, stack)
      else if ord c = 92 then Some (InStringEsc, stack)
      else if ord c < 32 then None
      else Some (InString, stack))"
| "scan_step InStringEsc stack c =
     (if c \<in> set ''bfnrt/'' \<or> ord c = 92 \<or> ord c = 34 then Some (InString, stack)
      else if c = CHR ''u'' then Some (InStringEscU 3, stack)
      else None)"
| "scan_step (InStringEscU k) stack c =
     (if \<not> ishex c then None
      else case k of 0 \<Rightarrow> Some (InString, stack) | Suc j \<Rightarrow> Some (InStringEscU j, stack))"
| "scan_step Neg stack c =
     (if c = CHR ''0'' then Some (Digit0, stack)
      else if is_digit c then Some (Digits1, stack)
      else None)"
| "scan_step Digits1 stack c =
     (if is_digit c then Some (Digits1, stack)
      else if c = CHR ''.'' then Some (Dot, stack)
      else if c = CHR ''e'' \<or> c = CHR ''E'' then Some (Exp, stack)
      else step_end_value stack c)"
| "scan_step Digit0 stack c =
     (if c = CHR ''.'' then Some (Dot, stack)
      else if c = CHR ''e'' \<or> c = CHR ''E'' then Some (Exp, stack)
      else step_end_value stack c)"
| "scan_step Dot stack c = (if is_digit c then Some (Dot0, stack) else None)"
| "scan_step Dot0 stack c =
     (if is_digit c then Some (Dot0, stack)
      else if c = CHR ''e'' \<or> c = CHR ''E'' then Some (Exp, stack)
      else step_end_value stack c)"
| "scan_step Exp stack c =
     (if c = CHR ''+'' \<or> c = CHR ''-'' then Some (ExpSign, stack)
      else if is_digit c then Some (Exp0, stack) else None)"
| "scan_step ExpSign stack c = (if is_digit c then Some (Exp0, stack) else None)"
| "scan_step Exp0 stack c =
     (if is_digit c then Some (Exp0, stack) else step_end_value stack c)"
| "scan_step (Literal rest) stack c =
     (case rest of
        [] \<Rightarrow> step_end_value stack c
      | r # rs \<Rightarrow>
          if c \<noteq> r then None
          else if rs = [] then Some (EndValue, stack) else Some (Literal rs, stack))"

section \<open>Validity and the members of a top-level object\<close>

text \<open>
  While the innermost open thing is the top-level object waiting for a key, bytes belong to the
  key; while it waits for a value, or is inside that value, they belong to the value.
\<close>

record capture =
  capKey :: string
  capVal :: string
  capMembers :: "(string \<times> string) list"

definition capture_byte ::
  "parse_ctx list \<Rightarrow> parse_ctx list \<Rightarrow> char \<Rightarrow> capture \<Rightarrow> capture" where
  "capture_byte stack stack' c cap =
     (if stack = [ParseObjectKey] \<and> stack' = [ParseObjectValue] then cap\<lparr>capVal := []\<rparr>
      else if stack = [ParseObjectKey] then cap\<lparr>capKey := capKey cap @ [c]\<rparr>
      else if stack = [ParseObjectValue] \<and> (stack' = [ParseObjectKey] \<or> stack' = []) then
        cap\<lparr>capKey := [], capVal := [], capMembers := capMembers cap @ [(capKey cap, capVal cap)]\<rparr>
      else if stack \<noteq> [] \<and> last stack = ParseObjectValue then cap\<lparr>capVal := capVal cap @ [c]\<rparr>
      else cap)"

fun scan ::
  "scan_state \<Rightarrow> parse_ctx list \<Rightarrow> capture \<Rightarrow> string \<Rightarrow> (string \<times> string) list option" where
  "scan st stack cap [] =
     (if st = EndTop then Some (capMembers cap)
      else case scan_step st stack (CHR '' '') of
        Some (EndTop, _) \<Rightarrow> Some (capMembers cap)
      | _ \<Rightarrow> None)"
| "scan st stack cap (c # cs) =
     (case scan_step st stack c of
        None \<Rightarrow> None
      | Some (st', stack') \<Rightarrow> scan st' stack' (capture_byte stack stack' c cap) cs)"

text \<open>\<open>None\<close>: not a JSON text. Otherwise the members of the top-level object, none for other values.\<close>

definition json_members :: "string \<Rightarrow> (string \<times> string) list option" where
  "json_members data = scan BeginValue [] \<lparr>capKey = [], capVal = [], capMembers = []\<rparr> data"

section \<open>Decoding\<close>

definition trim :: "string \<Rightarrow> string" where
  "trim s = rev (dropWhile isSpace (rev (dropWhile isSpace s)))"

definition hex4 :: "char \<Rightarrow> char \<Rightarrow> char \<Rightarrow> char \<Rightarrow> nat" where
  "hex4 a b c d = ((unhex a * 16 + unhex b) * 16 + unhex c) * 16 + unhex d"

definition utf8 :: "nat \<Rightarrow> string" where
  "utf8 r =
     (if r < 128 then [char_of r]
      else if r < 2048 then [char_of (192 + r div 64), char_of (128 + r mod 64)]
      else if r < 65536 then
        [char_of (224 + r div 4096), char_of (128 + r div 64 mod 64), char_of (128 + r mod 64)]
      else
        [char_of (240 + r div 262144), char_of (128 + r div 4096 mod 64),
         char_of (128 + r div 64 mod 64), char_of (128 + r mod 64)])"

definition replacementChar :: nat where "replacementChar = 65533"

text \<open>The inside of a string literal that the scanner has accepted.\<close>

fun unquote :: "string \<Rightarrow> string" where
  "unquote [] = []"
| "unquote (c # cs) =
     (if ord c \<noteq> 92 then c # unquote cs
      else case cs of
        [] \<Rightarrow> []
      | e # rest \<Rightarrow>
          if e = CHR ''u'' then
            (case rest of
               h1 # h2 # h3 # h4 # rest' \<Rightarrow>
                 let r = hex4 h1 h2 h3 h4 in
                 if r < 55296 \<or> 57343 < r then utf8 r @ unquote rest'
                 else (case rest' of
                     b # u # g1 # g2 # g3 # g4 # rest'' \<Rightarrow>
                       let r2 = hex4 g1 g2 g3 g4 in
                       if ord b = 92 \<and> u = CHR ''u'' \<and> r < 56320 \<and> 56320 \<le> r2 \<and> r2 \<le> 57343
                       then utf8 (65536 + (r - 55296) * 1024 + (r2 - 56320)) @ unquote rest''
                       else utf8 replacementChar @ unquote rest'
                   | _ \<Rightarrow> utf8 replacementChar @ unquote rest')
             | _ \<Rightarrow> [])
          else if e = CHR ''b'' then char_of (8::nat) # unquote rest
          else if e = CHR ''f'' then char_of (12::nat) # unquote rest
          else if e = CHR ''n'' then char_of (10::nat) # unquote rest
          else if e = CHR ''r'' then char_of (13::nat) # unquote rest
          else if e = CHR ''t'' then char_of (9::nat) # unquote rest
          else e # unquote rest)"

definition string_value :: "string \<Rightarrow> string" where
  "string_value lit = unquote (butlast (tl lit))"

definition ascii_lower :: "char \<Rightarrow> char" where
  "ascii_lower c = (if 65 \<le> ord c \<and> ord c \<le> 90 then char_of (ord c + 32) else c)"

text \<open>A key matches the field \<open>health\<close> exactly or up to case.\<close>

definition is_health_key :: "string \<Rightarrow> bool" where
  "is_health_key raw = (map ascii_lower (string_value (trim raw)) = ''health'')"

text \<open>
  Storing the members one after the other: a string overwrites the field, \<open>null\<close> leaves it, any
  other value leaves it and makes \<open>Unmarshal\<close> fail at the end.
\<close>

fun store_health :: "string \<times> bool \<Rightarrow> string \<times> string \<Rightarrow> string \<times> bool" where
  "store_health (health, bad) (key, val) =
     (if \<not> is_health_key key then (health, bad)
      else case trim val of
        [] \<Rightarrow> (health, bad)
      | c # _ \<Rightarrow>
          if ord c = 34 then (string_value (trim val), bad)
          else if c = CHR ''n'' then (health, bad)
          else (health, True))"

definition first_byte :: "string \<Rightarrow> char option" where
  "first_byte s = (case dropWhile isSpace s of [] \<Rightarrow> None | c # _ \<Rightarrow> Some c)"

text \<open>\<open>json.Unmarshal(data, &obj)\<close> with \<open>obj.Health\<close> initially empty; \<open>None\<close> is an error.\<close>

definition json_Unmarshal_health :: "string \<Rightarrow> string option" where
  "json_Unmarshal_health data =
     (case json_members data of
        None \<Rightarrow> None
      | Some members \<Rightarrow>
          if first_byte data = Some (CHR ''n'') then Some []
          else if first_byte data \<noteq> Some (CHR ''{'') then None
          else case foldl store_health ([], False) members of
            (health, bad) \<Rightarrow> if bad then None else Some health)"

section \<open>The answer etcd gives\<close>

text \<open>A string that needs no escapes, as a JSON literal and as the health etcd reports: it is read back.\<close>

definition plain_text :: "string \<Rightarrow> bool" where
  "plain_text xs = list_all (\<lambda>c. 32 \<le> ord c \<and> ord c \<noteq> 34 \<and> ord c \<noteq> 92) xs"

definition quoted :: "string \<Rightarrow> string" where
  "quoted xs = CHR 0x22 # xs @ [CHR 0x22]"

definition health_json :: "string \<Rightarrow> string" where
  "health_json v = CHR ''{'' # quoted ''health'' @ CHR '':'' # quoted v @ ''}''"

lemma scan_string:
  "plain_text xs \<Longrightarrow> scan InString [ParseObjectKey] cap (xs @ rest) =
     scan InString [ParseObjectKey] (cap\<lparr>capKey := capKey cap @ xs\<rparr>) rest"
  "plain_text xs \<Longrightarrow> scan InString [ParseObjectValue] cap (xs @ rest) =
     scan InString [ParseObjectValue] (cap\<lparr>capVal := capVal cap @ xs\<rparr>) rest"
  by (induction xs arbitrary: cap) (simp_all add: plain_text_def capture_byte_def)

lemma scan_quoted_key:
  assumes "plain_text xs"
  shows "scan BeginStringOrEmpty [ParseObjectKey] cap (quoted xs @ rest) =
     scan EndValue [ParseObjectKey] (cap\<lparr>capKey := capKey cap @ quoted xs\<rparr>) rest"
  using scan_string(1) [OF assms] by (simp add: quoted_def capture_byte_def isSpace_def ord_def)

lemma scan_quoted_value:
  assumes "plain_text xs"
  shows "scan BeginValue [ParseObjectValue] cap (quoted xs @ rest) =
     scan EndValue [ParseObjectValue] (cap\<lparr>capVal := capVal cap @ quoted xs\<rparr>) rest"
  using scan_string(2) [OF assms] by (simp add: quoted_def capture_byte_def isSpace_def ord_def step_begin_value_def)

lemma health_json_members:
  assumes "plain_text v"
  shows "json_members (health_json v) = Some [(quoted ''health'', quoted v)]"
proof -
  have "plain_text ''health''" by (simp add: plain_text_def ord_def)
  note key = scan_quoted_key [OF this] and val = scan_quoted_value [OF assms]
  have "json_members (health_json v) = scan BeginStringOrEmpty [ParseObjectKey] \<lparr>capKey = [], capVal = [], capMembers = []\<rparr>
      (quoted ''health'' @ CHR '':'' # quoted v @ ''}'')"
    by (simp add: json_members_def health_json_def step_begin_value_def isSpace_def ord_def push_ctx_def
        maxNestingDepth_def capture_byte_def)
  also have "\<dots> = scan BeginValue [ParseObjectValue] \<lparr>capKey = quoted ''health'', capVal = [], capMembers = []\<rparr> (quoted v @ ''}'')"
    by (simp add: key step_end_value_def isSpace_def ord_def capture_byte_def)
  also have "\<dots> = Some [(quoted ''health'', quoted v)]"
    by (simp add: val step_end_value_def isSpace_def ord_def capture_byte_def pop_ctx_def)
  finally show ?thesis .
qed

lemma quoted_value: "plain_text xs \<Longrightarrow> trim (quoted xs) = quoted xs \<and> string_value (quoted xs) = xs"
proof -
  assume p: "plain_text xs"
  have "unquote xs = xs" using p by (induction xs) (simp_all add: plain_text_def)
  then show ?thesis by (simp add: trim_def quoted_def string_value_def isSpace_def ord_def butlast_append)
qed

lemma health_json_decodes:
  assumes "plain_text v"
  shows "json_Unmarshal_health (health_json v) = Some v"
proof -
  have p: "plain_text ''health''" by (simp add: plain_text_def ord_def)
  have "is_health_key (quoted ''health'')"
    using quoted_value [OF p] by (simp add: is_health_key_def ascii_lower_def ord_def)
  then have "store_health ([], False) (quoted ''health'', quoted v) = (v, False)"
    using quoted_value [OF assms] by (simp add: quoted_def ord_def)
  moreover have "first_byte (health_json v) = Some (CHR ''{'')"
    by (simp add: first_byte_def health_json_def isSpace_def ord_def)
  ultimately show ?thesis
    using health_json_members [OF assms] by (simp add: json_Unmarshal_health_def)
qed

end
