(* ===== verification/Health_Check.thy ===== *)
theory Health_Check
  imports Certs Go_Json
begin

text \<open>
  \<open>controllers/healthcheck.go\<close>: one health check of one etcd endpoint, over an HTTP client that is
  built from the cluster's certificates once and then kept.
\<close>

definition httpClientTimeout :: int where "httpClientTimeout = 10 * time_Second"
definition portCheckTimeout :: int where "portCheckTimeout = 2 * time_Second"

text \<open>\<open>r.isPortOpen\<close> unless a test replaces it: dial and hang up.\<close>

definition isPortOpen :: "env \<Rightarrow> string \<Rightarrow> bool io" where
  "isPortOpen E endpoint =
     bnd (call_Dial E endpoint) (\<lambda>r. case r of Inl _ \<Rightarrow> ret False | Inr conn \<Rightarrow> ret conn)"

definition parseEtcdHealthCheckOutput :: "string \<Rightarrow> err option" where
  "parseEtcdHealthCheckOutput data =
     (case json_Unmarshal_health data of
        None \<Rightarrow> Some (External ''json: cannot unmarshal health check response'')
      | Some health \<Rightarrow>
          if health = ''true'' then None
          else Some (ErrorNew (''/health returned '' @ health)))"

definition getEtcdHttpClient :: "env \<Rightarrow> Cluster \<Rightarrow> (err + HttpClient) io" where
  "getEtcdHttpClient E cluster =
     bnd (gets (\<lambda>s. clusterToHttpClient s (UID (clMeta cluster)))) (\<lambda>cached.
     case cached of
       Some httpClient \<Rightarrow> ret (Inr httpClient)
     | None \<Rightarrow>
         tryErr (getCACert E cluster) Inl (\<lambda>caCert.
         tryErr (getClientCerts E cluster)
           (\<lambda>e. Inl (wrapErr E e ''Error getting client cert for healthcheck'')) (\<lambda>clientCert.
         let etcdHttpClient =
               \<lparr>hcTimeout = httpClientTimeout, hcRootCAs = caCert, hcCertificate = clientCert\<rparr> in
         seq (modify (\<lambda>s. s\<lparr>clusterToHttpClient :=
                (clusterToHttpClient s)(UID (clMeta cluster) \<mapsto> etcdHttpClient)\<rparr>))
           (ret (Inr etcdHttpClient)))))"

text \<open>
  In the branch for a status other than 200 the code wraps \<open>err\<close>, which is nil there: the value
  returned is what the library makes of a nil error.
\<close>

definition performEndpointHealthCheck :: "env \<Rightarrow> Cluster \<Rightarrow> string \<Rightarrow> bool \<Rightarrow> err option io" where
  "performEndpointHealthCheck E cluster endpoint logLevelInfo =
     tryErr (getEtcdHttpClient E cluster) Some (\<lambda>client.
     case url_Parse endpoint of
       None \<Rightarrow> ret (errors_Wrap (errs E) (Some (External ''parse'')) ''invalid etcd endpoint url'')
     | Some uHost \<Rightarrow>
         bnd (r_isPortOpen E uHost) (\<lambda>isOpen.
         if \<not> isOpen then ret (Some PortNotOpen)
         else
           let healthCheckURL = getMemberHealthCheckEndpoint endpoint in
           if url_Parse healthCheckURL = None then
             ret (errors_Wrap (errs E) (Some (External ''parse'')) ''error creating healthcheck request'')
           else
             bnd (call_HttpGet E client healthCheckURL) (\<lambda>r.
             case r of
               Inl e \<Rightarrow> ret (errors_Wrap (errs E) (Some e) ''error checking etcd member health'')
             | Inr resp \<Rightarrow>
                 if respStatusCode resp \<noteq> 200 then
                   ret (errors_Wrap (errs E) None ''Etcd member not ready, retry'')
                 else (case respBody resp of
                     Inl e \<Rightarrow> ret (Some e)
                   | Inr body \<Rightarrow>
                       (case parseEtcdHealthCheckOutput body of
                          Some e \<Rightarrow> ret (errors_Wrap (errs E) (Some e)
                                      (''etcd member '' @ endpoint @ '' failed healthcheck''))
                        | None \<Rightarrow> ret None)))))"

section \<open>A check only reads\<close>

text \<open>Its one effect in the process is the HTTP client it may cache.\<close>

lemma reads_getEtcdHttpClient: "obeys reads (getEtcdHttpClient E cluster)"
  unfolding getEtcdHttpClient_def
  by (intro read_intros reads_getCACert reads_getClientCerts reads_modify) simp

lemma reads_isPortOpen: "obeys reads (isPortOpen E endpoint)"
  unfolding isPortOpen_def call_Dial_def by (intro read_intros) simp

text \<open>
  What the reconciler and the health-check loop use of a check: it has an answer and does not
  disturb what they are doing.
\<close>

locale health_checker =
  fixes check :: "Cluster \<Rightarrow> string \<Rightarrow> bool \<Rightarrow> err option io"
  assumes check_reads: "obeys reads (check cluster endpoint verbose)"
begin

lemma check_emits: "(\<And>e. \<not> mutates e \<Longrightarrow> P e) \<Longrightarrow> emits P (check cluster endpoint verbose)"
  by (rule reads_emits [OF check_reads])

lemma check_keeps:
  "run_state (check cluster endpoint verbose) s = (r, s') \<Longrightarrow>
   theEC s' = theEC s \<and> etcdadmClusterMapper s' = etcdadmClusterMapper s"
  using obeysD [OF check_reads] by (simp add: reads_def)

end

sublocale collaborators \<subseteq> checker: health_checker "performEndpointHealthCheck E"
proof unfold_locales
  show "obeys reads (performEndpointHealthCheck E cluster endpoint verbose)" for cluster endpoint verbose
    unfolding performEndpointHealthCheck_def call_HttpGet_def
    by (intro read_intros reads_getEtcdHttpClient probe_reads) simp
qed

end
