(* ===== verification/Members.thy ===== *)
theory Members
  imports Health_Check
begin

text \<open>
  The part of \<open>controllers/scale.go\<close> that removes a member: an etcd client for the cluster, the
  removal of the member from etcd, and only then the deletion of its machine.
\<close>

definition etcdClientTimeout :: int where "etcdClientTimeout = 5 * time_Second"

definition generateEtcdClient :: "env \<Rightarrow> Cluster \<Rightarrow> string \<Rightarrow> (err + nat option) io" where
  "generateEtcdClient E cluster endpoints =
     tryErr (getCACert E cluster) Inl (\<lambda>caCert.
     tryErr (getClientCerts E cluster)
       (\<lambda>e. Inl (wrapErr E e ''error getting client cert for healthcheck'')) (\<lambda>clientCert.
     tryErr (call_NewEtcdClient E
               \<lparr>etcdEndpoints = strings_Split endpoints (CHR '',''),
                etcdDialTimeout = etcdClientTimeout,
                etcdRootCAs = caCert, etcdCertificate = clientCert\<rparr>) Inl (\<lambda>c.
     ret (Inr (Some c)))))"

text \<open>\<open>r.Client.Delete\<close> as this file calls it: a machine already gone is no error.\<close>

definition deleteMachine :: "env \<Rightarrow> Machine \<Rightarrow> err option io" where
  "deleteMachine E m =
     bnd (call_DeleteMachine E m) (\<lambda>r.
     case r of
       Some e \<Rightarrow>
         if \<not> IsNotFound (errs E) e \<and> \<not> IsGone (errs E) e
         then ret (Some (Errorf (''failed to delete etcd machine '' @ mName m) [e]))
         else ret None
     | None \<Rightarrow> ret None)"

definition deleteMachineIfAny :: "env \<Rightarrow> Machine option \<Rightarrow> err option io" where
  "deleteMachineIfAny E machineToDelete =
     (case machineToDelete of None \<Rightarrow> ret None | Some m \<Rightarrow> deleteMachine E m)"

definition removeEtcdMemberAndDeleteMachine ::
  "env \<Rightarrow> nat \<Rightarrow> string \<Rightarrow> Machine option \<Rightarrow> err option io" where
  "removeEtcdMemberAndDeleteMachine E etcdClient peerURL machineToDelete =
     tryErr (call_MemberList E etcdClient) (\<lambda>e. Some (Errorf ''error listing members'' [e])) (\<lambda>members.
     case memberForPeerURLs members [peerURL] of
       Some localMember \<Rightarrow>
         if length members > 1 then
           checkErr (call_MemberRemove E etcdClient (memberID localMember))
             (\<lambda>e. Some (Errorf (''failed to remove etcd member '' @ memberName localMember) [e]))
             (deleteMachineIfAny E machineToDelete)
         else ret None
     | None \<Rightarrow> deleteMachineIfAny E machineToDelete)"

definition peerURLOf :: "string \<Rightarrow> string" where
  "peerURLOf machineAddress = ''https://'' @ machineAddress @ '':2380''"

definition removeEtcdMachine :: "env \<Rightarrow> Cluster \<Rightarrow> Machine option \<Rightarrow> string \<Rightarrow> err option io" where
  "removeEtcdMachine E cluster machineToDelete machineAddress =
     bnd (gets (\<lambda>s. Endpoints (ecStatus (theEC s)))) (\<lambda>endpoints.
     tryErr (GetEtcdClient E cluster endpoints) (\<lambda>e. Some (Errorf ''error creating etcd client'' [e])) (\<lambda>c.
     case c of
       None \<Rightarrow> ret (Some (ErrorNew ''could not create etcd client''))
     | Some etcdClient \<Rightarrow>
         bnd (removeEtcdMemberAndDeleteMachine E etcdClient (peerURLOf machineAddress) machineToDelete) (\<lambda>r.
         seq (call_CloseEtcdClient E etcdClient) (ret r))))"

definition scaleDownEtcdCluster ::
  "env \<Rightarrow> Cluster \<Rightarrow> EtcdPlane \<Rightarrow> Machines \<Rightarrow> (Result \<times> err option) io" where
  "scaleDownEtcdCluster E cluster ep outdatedMachines =
     (case selectMachineForScaleDown E ep outdatedMachines of
        Panic msg \<Rightarrow> panic msg
      | Done (Inl e) \<Rightarrow> ret (noResult, errors_Wrap (errs E) (Some e) ''failed to select machine for scale down'')
      | Done (Inr machineToDelete) \<Rightarrow>
          bnd (removeEtcdMachine E cluster (Some machineToDelete) (getEtcdMachineAddress machineToDelete))
            (\<lambda>r. ret (noResult, r)))"

section \<open>Removal obeys its specification\<close>

lemma reads_generateEtcdClient: "obeys reads (generateEtcdClient E cluster endpoints)"
  unfolding generateEtcdClient_def call_NewEtcdClient_def
  by (intro read_intros reads_getCACert reads_getClientCerts) simp

lemma memberForPeerURLs_ID:
  "memberForPeerURLs ms [u] = Some m \<Longrightarrow> \<exists>x\<in>set ms. memberID x = memberID m \<and> memberPeerURLs x = [u]"
  using memberForPeerURLs_Some by blast

lemma deleteMachineIfAny_events:
  "\<exists>r. trace (snd (run_state (deleteMachineIfAny E (Some m)) s)) = trace s @ [EvDeleteMachine m r]"
  by (auto simp: deleteMachineIfAny_def deleteMachine_def call_DeleteMachine_def run_bnd
      split: option.splits)

lemma deleteMachineIfAny_keeps:
  "(\<And>s x. F (s\<lparr>trace := x\<rparr>) = F s) \<Longrightarrow> obeys (keeps F) (deleteMachineIfAny E m)"
  unfolding deleteMachineIfAny_def deleteMachine_def call_DeleteMachine_def
  by (intro kept_intros) simp

text \<open>
  What a removal does after etcd has listed its members: the abstract plan, and the events of
  carrying it out.
\<close>

datatype removal_plan = LeaveLast | JustDelete | RemoveThenDelete "64 word"

definition removal_plan :: "Member list \<Rightarrow> string \<Rightarrow> removal_plan" where
  "removal_plan members peerURL =
     (case find (\<lambda>m. memberPeerURLs m = [peerURL]) members of
        None \<Rightarrow> JustDelete
      | Some m \<Rightarrow> if length members \<ge> 2 then RemoveThenDelete (memberID m) else LeaveLast)"

fun carry_out :: "env \<Rightarrow> nat \<Rightarrow> Machine option \<Rightarrow> string \<Rightarrow> removal_plan \<Rightarrow> err option io" where
  "carry_out E c m name LeaveLast = ret None"
| "carry_out E c m name JustDelete = deleteMachineIfAny E m"
| "carry_out E c m name (RemoveThenDelete i) =
     checkErr (call_MemberRemove E c i)
       (\<lambda>e. Some (Errorf (''failed to remove etcd member '' @ name) [e])) (deleteMachineIfAny E m)"

lemma removal_refines_plan:
  "removeEtcdMemberAndDeleteMachine E c u m =
     tryErr (call_MemberList E c) (\<lambda>e. Some (Errorf ''error listing members'' [e])) (\<lambda>members.
       carry_out E c m
         (case find (\<lambda>m. memberPeerURLs m = [u]) members of None \<Rightarrow> [] | Some x \<Rightarrow> memberName x)
         (removal_plan members u))"
  unfolding removeEtcdMemberAndDeleteMachine_def removal_plan_def memberForPeerURLs_find
  by (intro arg_cong [of _ _ "tryErr _ _"] ext) (simp split: option.splits)

lemma removal_plan_safe:
  assumes "removal_plan ms u = RemoveThenDelete i"
  shows "length ms > 1 \<and> (\<exists>x\<in>set ms. memberID x = i \<and> memberPeerURLs x = [u])"
  using assms unfolding removal_plan_def
  by (auto simp: find_Some_iff split: option.splits if_splits)

lemma removal_plan_absent:
  "removal_plan ms u = JustDelete \<Longrightarrow> x \<in> set ms \<Longrightarrow> memberPeerURLs x \<noteq> [u]"
  by (auto simp: removal_plan_def find_None_iff split: option.splits if_splits)

lemma removeEtcdMemberAndDeleteMachine_guarded:
  assumes u: "u = url m"
  shows "obeys (appends (safe_removals url)) (removeEtcdMemberAndDeleteMachine E c u (Some m))"
proof (rule obeysI)
  fix s :: sys
  let ?lst = "e_MemberList (svc E) (trace s) c"
  let ?s1 = "s\<lparr>trace := trace s @ [EvMemberList c ?lst]\<rparr>"
  show "appends (safe_removals url) s (snd (run_state (removeEtcdMemberAndDeleteMachine E c u (Some m)) s))"
  proof (cases ?lst)
    case (Inl e)
    then show ?thesis
      by (simp add: removal_refines_plan run_tryErr call_MemberList_def appends_def safe_removals_def)
  next
    case ms: (Inr ms)
    show ?thesis
    proof (cases "removal_plan ms u")
      case LeaveLast
      then show ?thesis using ms
        by (simp add: removal_refines_plan run_tryErr call_MemberList_def appends_def safe_removals_def)
    next
      case JustDelete
      obtain r where "trace (snd (run_state (deleteMachineIfAny E (Some m)) ?s1)) =
          trace ?s1 @ [EvDeleteMachine m r]"
        using deleteMachineIfAny_events by blast
      then show ?thesis using ms JustDelete removal_plan_absent [OF JustDelete] u
        by (auto simp: removal_refines_plan run_tryErr call_MemberList_def appends_def safe_removals_def)
    next
      case (RemoveThenDelete i)
      let ?rr = "e_MemberRemove (svc E) (trace ?s1) c i"
      let ?s2 = "?s1\<lparr>trace := trace ?s1 @ [EvMemberRemove c i ?rr]\<rparr>"
      obtain r where "trace (snd (run_state (deleteMachineIfAny E (Some m)) ?s2)) =
          trace ?s2 @ [EvDeleteMachine m r]"
        using deleteMachineIfAny_events by blast
      then show ?thesis using ms RemoveThenDelete removal_plan_safe [OF RemoveThenDelete] u
        by (cases ?rr)
          (auto simp: removal_refines_plan run_tryErr run_checkErr call_MemberList_def
            call_MemberRemove_def appends_def safe_removals_def)
    qed
  qed
qed

lemma emits_removeEtcdMemberAndDeleteMachine:
  assumes "\<And>r. P (EvMemberList c r)" "\<And>i r. P (EvMemberRemove c i r)" "\<And>m r. P (EvDeleteMachine m r)"
  shows "emits P (removeEtcdMemberAndDeleteMachine E c u m)"
  unfolding removeEtcdMemberAndDeleteMachine_def deleteMachineIfAny_def deleteMachine_def call_defs
  by (intro emit_intros assms)

lemma removeEtcdMemberAndDeleteMachine_keeps:
  assumes "\<And>s x. F (s\<lparr>trace := x\<rparr>) = F s"
  shows "obeys (keeps F) (removeEtcdMemberAndDeleteMachine E c u m)"
  unfolding removeEtcdMemberAndDeleteMachine_def deleteMachineIfAny_def deleteMachine_def call_defs
  by (intro kept_intros assms)

text \<open>
  The interface both users of a removal rely on: the reconciler for outdated machines and scale
  down, the health-check loop for failed members.
\<close>

locale member_remover =
  fixes remove :: "Cluster \<Rightarrow> Machine option \<Rightarrow> string \<Rightarrow> err option io"
  assumes remove_guarded:
      "url m = peerURLOf address \<Longrightarrow>
       obeys (appends (safe_removals url)) (remove cluster (Some m) address)"
    and remove_emits:
      "(\<And>e. mutates e \<Longrightarrow> is_delete e \<or> is_remove e \<Longrightarrow> P e) \<Longrightarrow> (\<And>e. \<not> mutates e \<Longrightarrow> P e) \<Longrightarrow>
       emits P (remove cluster mo address)"
    and remove_keeps_theEC: "obeys (keeps theEC) (remove cluster mo address)"
    and remove_keeps_mapper: "obeys (keeps etcdadmClusterMapper) (remove cluster mo address)"
begin

lemma remove_no_create: "emits (\<lambda>e. \<not> is_create e) (remove cluster mo address)"
proof (rule remove_emits)
  show "is_delete e \<or> is_remove e \<Longrightarrow> \<not> is_create e" for e by (cases e) simp_all
qed simp

lemma remove_all_guarded:
  "(\<And>m. m \<in> set ms \<Longrightarrow> url m = peerURLOf (address m)) \<Longrightarrow>
   obeys (appends (safe_removals url))
     (forReturn (\<lambda>m. checkErr (remove cluster (Some m) (address m)) h (ret None)) ms)"
  by (intro guarding.prog_intros remove_guarded)

end

sublocale collaborators \<subseteq> remover: member_remover "removeEtcdMachine E"
proof unfold_locales
  fix url :: "Machine \<Rightarrow> string" and m mo address cluster P
  show "obeys (appends (safe_removals url)) (removeEtcdMachine E cluster (Some m) address)"
    if "url m = peerURLOf address"
    unfolding removeEtcdMachine_def call_CloseEtcdClient_def
    by (intro guarding.prog_intros removeEtcdMemberAndDeleteMachine_guarded that [symmetric]
        guarded_if_reads client_reads reads_call) simp
  show "emits P (removeEtcdMachine E cluster mo address)"
    if "\<And>e. mutates e \<Longrightarrow> is_delete e \<or> is_remove e \<Longrightarrow> P e" and "\<And>e. \<not> mutates e \<Longrightarrow> P e"
    unfolding removeEtcdMachine_def call_CloseEtcdClient_def
    by (intro emit_intros emits_removeEtcdMemberAndDeleteMachine reads_emits [OF client_reads])
      (simp_all add: that)
  show "obeys (keeps theEC) (removeEtcdMachine E cluster mo address)"
    unfolding removeEtcdMachine_def call_CloseEtcdClient_def
    by (intro kept_intros removeEtcdMemberAndDeleteMachine_keeps
        reads_keeps_theEC [OF client_reads]) simp_all
  show "obeys (keeps etcdadmClusterMapper) (removeEtcdMachine E cluster mo address)"
    unfolding removeEtcdMachine_def call_CloseEtcdClient_def
    by (intro kept_intros removeEtcdMemberAndDeleteMachine_keeps
        reads_keeps_mapper [OF client_reads]) simp_all
qed

section \<open>Wiring\<close>

text \<open>\<open>SetIsPortOpen\<close>, and the two function fields \<open>SetupWithManager\<close> fills in; a nil \<open>isPortOpen\<close> is \<open>None\<close>.\<close>

definition SetIsPortOpen :: "env \<Rightarrow> (string \<Rightarrow> bool io) \<Rightarrow> env" where
  "SetIsPortOpen E f = E\<lparr>r_isPortOpen := f\<rparr>"

definition SetupWithManager_env :: "env \<Rightarrow> (string \<Rightarrow> bool io) option \<Rightarrow> env" where
  "SetupWithManager_env E portCheck =
     (SetIsPortOpen E (case portCheck of None \<Rightarrow> isPortOpen E | Some f \<Rightarrow> f))
       \<lparr>GetEtcdClient := generateEtcdClient E\<rparr>"

lemma SetupWithManager_env_fields [simp]:
  "errs (SetupWithManager_env E p) = errs E" "coll (SetupWithManager_env E p) = coll E"
  "conds (SetupWithManager_env E p) = conds E" "capi (SetupWithManager_env E p) = capi E"
  "svc (SetupWithManager_env E p) = svc E"
  by (simp_all add: SetupWithManager_env_def SetIsPortOpen_def)

lemma SetupWithManager_env_functions [simp]:
  "GetEtcdClient (SetupWithManager_env E p) = generateEtcdClient E"
  "r_isPortOpen (SetupWithManager_env E p) = (case p of None \<Rightarrow> isPortOpen E | Some f \<Rightarrow> f)"
  by (simp_all add: SetupWithManager_env_def SetIsPortOpen_def)

text \<open>As the manager sets the reconciler up, it meets the interface, whatever the outside does.\<close>

lemma generateEtcdClient_lists_nothing: "emits (\<lambda>e. \<not> is_list e) (generateEtcdClient E cluster endpoints)"
  unfolding generateEtcdClient_def getCACert_def getClientCerts_def call_LookupCerts_def
    call_NewEtcdClient_def
  by (intro emit_intros) simp_all

interpretation wired: collaborators "SetupWithManager_env E None" for E
  by unfold_locales
    (simp_all add: reads_generateEtcdClient reads_isPortOpen generateEtcdClient_lists_nothing)

end
