(* ===== verification/Provision.thy ===== *)
theory Provision
  imports Certs
begin

text \<open>
  How a new etcd machine comes to be: \<open>cloneConfigsAndGenerateMachine\<close> of \<open>controllers/helpers.go\<close>
  with its two halves, \<open>intializeEtcdCluster\<close> and \<open>scaleUpEtcdCluster\<close> of \<open>controllers/scale.go\<close>,
  and \<open>reconcileExternalReference\<close>, which adopts the infrastructure template.
\<close>

section \<open>Metadata of the objects created\<close>

definition etcdGroupVersion :: string where
  "etcdGroupVersion = ''etcdcluster.cluster.x-k8s.io/v1beta1''"

text \<open>An owner reference to the EtcdadmCluster without the controller flag.\<close>

definition etcdOwnerRef :: "EtcdadmCluster \<Rightarrow> OwnerReference" where
  "etcdOwnerRef ec =
     \<lparr>orAPIVersion = etcdGroupVersion, orKind = ''EtcdadmCluster'',
      orName = Name (ecMeta ec), orUID = UID (ecMeta ec), orController = False\<rparr>"

definition childMeta ::
  "env \<Rightarrow> EtcdadmCluster \<Rightarrow> Cluster \<Rightarrow> string \<Rightarrow> OwnerReference \<Rightarrow> ObjectMeta" where
  "childMeta E ec cluster name owner =
     \<lparr>Name = name, Namespace = Namespace (ecMeta ec), UID = [],
      Labels = EtcdLabelsForCluster E (clName cluster) (Name (ecMeta ec)),
      Annotations = None, Finalizers = [], OwnerReferences = [owner],
      CreationTimestamp = 0, DeletionTimestamp = None\<rparr>"

section \<open>Operations\<close>

definition generateEtcdadmConfig :: "env \<Rightarrow> Cluster \<Rightarrow> (err + ContractRef) io" where
  "generateEtcdadmConfig E cluster =
     bnd (gets theEC) (\<lambda>ec.
     bnd (call_GenerateName E (Name (ecMeta ec) @ ''-'')) (\<lambda>name.
     checkErr (call_CreateEtcdadmConfig E
                 \<lparr>cfgMeta = childMeta E ec cluster name (etcdOwnerRef ec),
                  cfgSpec = etcdadmConfigSpec (ecSpec ec)\<rparr>)
       (\<lambda>e. Inl (wrapErr E e ''Failed to create etcdadm bootstrap configuration''))
       (ret (Inr \<lparr>crKind = ''EtcdadmConfig'', crName = name, crAPIGroup = BootstrapGroup (capi E)\<rparr>))))"

definition generateMachine ::
  "env \<Rightarrow> Cluster \<Rightarrow> ContractRef \<Rightarrow> ContractRef \<Rightarrow> string option \<Rightarrow> err option io" where
  "generateMachine E cluster infraRef bootstrapRef failureDomain =
     bnd (gets theEC) (\<lambda>ec.
     bnd (call_GenerateName E (Name (ecMeta ec) @ ''-'')) (\<lambda>name.
     checkErr (call_CreateMachine E
                 \<lparr>mMeta = childMeta E ec cluster name (controllerRefOf E ec),
                  mClusterName = clName cluster,
                  mInfrastructureRef = infraRef,
                  mConfigRef = bootstrapRef,
                  mFailureDomain = (case failureDomain of None \<Rightarrow> [] | Some fd \<Rightarrow> fd),
                  mAddresses = []\<rparr>)
       (\<lambda>e. Some (wrapErr E e ''failed to create machine''))
       (ret None)))"

definition cloneConfigsAndGenerateMachine ::
  "env \<Rightarrow> Cluster \<Rightarrow> string option \<Rightarrow> (Result \<times> err option) io" where
  "cloneConfigsAndGenerateMachine E cluster failureDomain =
     bnd (gets theEC) (\<lambda>ec.
     tryErr (call_CreateFromTemplate E
               \<lparr>cftTemplateRef = InfrastructureTemplate (ecSpec ec),
                cftNamespace = Namespace (ecMeta ec),
                cftOwnerRef = etcdOwnerRef ec,
                cftClusterName = clName cluster,
                cftLabels = EtcdLabelsForCluster E (clName cluster) (Name (ecMeta ec))\<rparr>)
       (\<lambda>e. (noResult, Some (Errorf ''error cloning infrastructure template for etcd machine'' [e])))
       (\<lambda>r. case r of
          None \<Rightarrow>
            ret (noResult, Some (ErrorNew ''infrastructure template could not be cloned for etcd machine''))
        | Some infraObj \<Rightarrow>
            (case schema_ParseGroupVersion (capi E) (infAPIVersion infraObj) of
               Inl e \<Rightarrow>
                 ret (noResult, Some (Errorf ''failed to parse infrastructure object API version'' [e]))
             | Inr gvGroup \<Rightarrow>
                 tryErr (generateEtcdadmConfig E cluster) (\<lambda>e. (noResult, Some e)) (\<lambda>bootstrapRef.
                 checkErr (generateMachine E cluster
                             \<lparr>crKind = infKind infraObj, crName = Name (infMeta infraObj), crAPIGroup = gvGroup\<rparr>
                             bootstrapRef failureDomain)
                   (\<lambda>e. (noResult, Some e))
                   (ret (noResult, None))))))"

definition scaleUpEtcdCluster :: "env \<Rightarrow> Cluster \<Rightarrow> EtcdPlane \<Rightarrow> (Result \<times> err option) io" where
  "scaleUpEtcdCluster E cluster ep =
     cloneConfigsAndGenerateMachine E cluster (NextFailureDomainForScaleUp E ep)"

definition intializeEtcdCluster :: "env \<Rightarrow> Cluster \<Rightarrow> EtcdPlane \<Rightarrow> (Result \<times> err option) io" where
  "intializeEtcdCluster E cluster ep =
     checkErr (generateCAandClientCertSecrets E cluster) (\<lambda>e. (noResult, Some e))
       (seq (MarkTrue E EtcdCertificatesAvailableCondition)
         (cloneConfigsAndGenerateMachine E cluster (NextFailureDomainForScaleUp E ep)))"

definition reconcileExternalReference :: "env \<Rightarrow> Cluster \<Rightarrow> ObjectReference \<Rightarrow> err option io" where
  "reconcileExternalReference E cluster ref =
     (if \<not> strings_HasSuffix (oKind ref) (TemplateSuffix (capi E)) then ret None
      else
        tryErr (call_ExternalGet E ref) Some (\<lambda>obj.
        checkErr (call_NewPatchHelper E (Name (infMeta obj))) Some
          (call_PatchTemplate E
             (obj\<lparr>infMeta := (infMeta obj)\<lparr>OwnerReferences :=
                util_EnsureOwnerRef (capi E) (OwnerReferences (infMeta obj))
                  \<lparr>orAPIVersion = GroupVersionString (capi E), orKind = ''Cluster'',
                   orName = clName cluster, orUID = UID (clMeta cluster), orController = False\<rparr>\<rparr>\<rparr>))))"

section \<open>The run of a creation\<close>

text \<open>The input for the infrastructure, and the config that is created with a name.\<close>

definition infraInput :: "env \<Rightarrow> Cluster \<Rightarrow> EtcdadmCluster \<Rightarrow> CreateFromTemplateInput" where
  "infraInput E cluster ec =
     \<lparr>cftTemplateRef = InfrastructureTemplate (ecSpec ec), cftNamespace = Namespace (ecMeta ec),
      cftOwnerRef = etcdOwnerRef ec, cftClusterName = clName cluster,
      cftLabels = EtcdLabelsForCluster E (clName cluster) (Name (ecMeta ec))\<rparr>"

definition configNamed :: "env \<Rightarrow> Cluster \<Rightarrow> EtcdadmCluster \<Rightarrow> string \<Rightarrow> EtcdadmConfig" where
  "configNamed E cluster ec name =
     \<lparr>cfgMeta = childMeta E ec cluster name (etcdOwnerRef ec), cfgSpec = etcdadmConfigSpec (ecSpec ec)\<rparr>"

lemmas clone_defs = cloneConfigsAndGenerateMachine_def generateEtcdadmConfig_def generateMachine_def
  infraInput_def [symmetric] configNamed_def [symmetric] call_defs run_simps events_def

section \<open>What they do to the outside\<close>

text \<open>The calls these operations make.\<close>

fun provision_event :: "event \<Rightarrow> bool" where
  "provision_event (EvCreateFromTemplate _ _) = True"
| "provision_event (EvCreateEtcdadmConfig _ _) = True"
| "provision_event (EvGenerateName _ _) = True"
| "provision_event (EvCreateMachine _ _) = True"
| "provision_event _ = False"

lemma emits_generateEtcdadmConfig:
  assumes "\<And>e. provision_event e \<and> \<not> is_create e \<Longrightarrow> P e"
  shows "emits P (generateEtcdadmConfig E cluster)"
  unfolding generateEtcdadmConfig_def call_defs by (intro emit_intros assms) simp_all

lemma emits_cloneConfigsAndGenerateMachine:
  assumes "\<And>e. provision_event e \<Longrightarrow> P e"
  shows "emits P (cloneConfigsAndGenerateMachine E cluster fd)"
  unfolding cloneConfigsAndGenerateMachine_def generateMachine_def call_defs
  by (intro emit_intros emits_generateEtcdadmConfig assms) simp_all

lemma creates_one_call:
  "obeys (appends (single changesMachines)) (checkErr (call_CreateMachine E m) h (ret None))"
  by (rule obeysI)
    (simp add: run_checkErr call_CreateMachine_def appends_def single_def changesMachines_def
      split: option.splits)

lemma creates_one_generateMachine:
  "obeys (appends (single changesMachines)) (generateMachine E cluster infraRef bootstrapRef fd)"
  unfolding generateMachine_def call_GenerateName_def
  by (intro one.of_bnd creates_one_call emit_intros)
    (simp add: harmless_def changesMachines_def)

text \<open>Creating a machine is one change: the last thing that happens, and nothing is removed.\<close>

lemma creates_one_cloneConfigsAndGenerateMachine:
  "obeys (appends (single changesMachines)) (cloneConfigsAndGenerateMachine E cluster fd)"
proof -
  have pre: "provision_event e \<and> \<not> is_create e \<Longrightarrow> harmless changesMachines e" for e
    by (cases e) (simp_all add: harmless_def changesMachines_def removal_free_iff)
  show ?thesis
    unfolding cloneConfigsAndGenerateMachine_def call_CreateFromTemplate_def checkErr_def
    by (intro one.tail_intros emits_generateEtcdadmConfig emit_intros
        one.of_last [OF creates_one_generateMachine] pre) simp_all
qed

text \<open>
  What a rollout, a scale up and the initialisation have in common: they add at most one machine,
  as their last act, and remove nothing.
\<close>

locale machine_adder =
  fixes add :: "Cluster \<Rightarrow> EtcdPlane \<Rightarrow> (Result \<times> err option) io"
  assumes adds_one: "obeys (appends (single changesMachines)) (add cluster ep)"
    and adds_quietly: "emits removal_free (add cluster ep)"
begin

lemma add_guarded: "obeys (appends (safe_removals url)) (add cluster ep)"
  by (rule guarded_if_free) (rule adds_quietly)

lemma add_bound: "length (filter changesMachines (events (add cluster ep) s)) \<le> 1"
  using appends_events [OF adds_one] by (simp add: single_def)

end

interpretation scale_up: machine_adder "scaleUpEtcdCluster E" for E
proof unfold_locales
  show "obeys (appends (single changesMachines)) (scaleUpEtcdCluster E cluster ep)" for cluster ep
    unfolding scaleUpEtcdCluster_def by (rule creates_one_cloneConfigsAndGenerateMachine)
  have "provision_event e \<Longrightarrow> removal_free e" for e by (cases e) (simp_all add: removal_free_iff)
  then show "emits removal_free (scaleUpEtcdCluster E cluster ep)" for cluster ep
    unfolding scaleUpEtcdCluster_def by (rule emits_cloneConfigsAndGenerateMachine)
qed

lemma cert_event_harmless: "cert_event e \<Longrightarrow> harmless changesMachines e \<and> removal_free e"
  by (cases e) (simp_all add: harmless_def changesMachines_def removal_free_iff)

interpretation initialize: machine_adder "intializeEtcdCluster E" for E
proof unfold_locales
  show "obeys (appends (single changesMachines)) (intializeEtcdCluster E cluster ep)" for cluster ep
    unfolding intializeEtcdCluster_def
    by (intro one.tail_intros emit_intros emits_generateCAandClientCertSecrets
        creates_one_cloneConfigsAndGenerateMachine) (simp add: cert_event_harmless)
  have "provision_event e \<Longrightarrow> removal_free e" for e by (cases e) (simp_all add: removal_free_iff)
  then show "emits removal_free (intializeEtcdCluster E cluster ep)" for cluster ep
    unfolding intializeEtcdCluster_def
    by (intro emit_intros emits_generateCAandClientCertSecrets emits_cloneConfigsAndGenerateMachine)
      (simp_all add: cert_event_harmless)
qed

end
