(* ===== verification/Upgrade.thy ===== *)
theory Upgrade
  imports Provision
begin

text \<open>
  \<open>controllers/upgrade.go\<close>: one step of a rolling upgrade. Either a machine with the new spec is
  created, or one outdated machine stops being owned by the EtcdadmCluster. The latter only clears
  its owner references: machine and etcd member live on until the control plane has been upgraded.
\<close>

definition minEtcdMemberReadySeconds :: int where "minEtcdMemberReadySeconds = 60"

text \<open>The machine handed to \<open>Update\<close>: the pointer's object with its owner references cleared.\<close>

definition disowned :: "Machine \<Rightarrow> Machine" where
  "disowned m = m\<lparr>mMeta := (mMeta m)\<lparr>OwnerReferences := []\<rparr>\<rparr>"

definition removeFromListOfOwnedMachines :: "env \<Rightarrow> EtcdPlane \<Rightarrow> Machines \<Rightarrow> err option io" where
  "removeFromListOfOwnedMachines E ep machinesToUpgrade =
     (case selectMachineForScaleDown E ep machinesToUpgrade of
        Panic msg \<Rightarrow> panic msg
      | Done (Inl e) \<Rightarrow> ret (errors_Wrap (errs E) (Some e) ''failed to select machine for scale down'')
      | Done (Inr machineToDelete) \<Rightarrow> call_UpdateMachine E (disowned machineToDelete))"

definition withoutResult :: "err option io \<Rightarrow> (Result \<times> err option) io" where
  "withoutResult m = bnd m (\<lambda>r. ret (noResult, r))"

definition upgradeEtcdCluster ::
  "env \<Rightarrow> Cluster \<Rightarrow> EtcdPlane \<Rightarrow> Machines \<Rightarrow> (Result \<times> err option) io" where
  "upgradeEtcdCluster E cluster ep machinesToUpgrade =
     bnd (gets (\<lambda>s. Replicas (ecSpec (theEC s)))) (\<lambda>specReplicas.
     orPanic ''nil pointer dereference'' specReplicas (\<lambda>replicas.
     let numMachines = (word_of_int (col_Len (coll E) (epMachines ep)) :: 32 word) in
     if replicas = 1 then
       if numMachines = replicas then scaleUpEtcdCluster E cluster ep
       else withoutResult (removeFromListOfOwnedMachines E ep machinesToUpgrade)
     else if sint numMachines \<ge> sint replicas then
       withoutResult (removeFromListOfOwnedMachines E ep machinesToUpgrade)
     else scaleUpEtcdCluster E cluster ep))"

section \<open>What a step does to the outside\<close>

lemma disowned_frame [simp]:
  "mName (disowned m) = mName m" "OwnerReferences (mMeta (disowned m)) = []"
  "mAddresses (disowned m) = mAddresses m"
  by (simp_all add: disowned_def)

lemma emits_removeFromListOfOwnedMachines:
  assumes "\<And>m r. P (EvUpdateMachine (disowned m) r)"
  shows "emits P (removeFromListOfOwnedMachines E ep ms)"
  unfolding removeFromListOfOwnedMachines_def call_UpdateMachine_def
  by (auto split: outcome.splits sum.splits intro!: emit_intros assms)

lemma emits_upgradeEtcdCluster:
  assumes "\<And>e. provision_event e \<Longrightarrow> P e" and "\<And>m r. P (EvUpdateMachine (disowned m) r)"
  shows "emits P (upgradeEtcdCluster E cluster ep ms)"
  unfolding upgradeEtcdCluster_def scaleUpEtcdCluster_def withoutResult_def
  by (intro emit_intros emits_cloneConfigsAndGenerateMachine
      emits_removeFromListOfOwnedMachines assms)

text \<open>The step of an upgrade adds a machine or disowns one.\<close>

lemma disowns_one: "obeys (appends (single changesMachines)) (removeFromListOfOwnedMachines E ep ms)"
proof -
  have "obeys (appends (single changesMachines)) (call_UpdateMachine E m)" for m
    by (rule obeysI) (simp add: call_UpdateMachine_def appends_def single_def changesMachines_def removal_free_iff)
  then show ?thesis
    unfolding removeFromListOfOwnedMachines_def
    by (auto split: outcome.splits sum.splits intro!: one.tail_intros)
qed

interpretation upgrade: machine_adder "\<lambda>cluster ep. upgradeEtcdCluster E cluster ep ms" for E ms
proof unfold_locales
  show "obeys (appends (single changesMachines)) (upgradeEtcdCluster E cluster ep ms)" for cluster ep
    unfolding upgradeEtcdCluster_def withoutResult_def
    by (intro one.tail_intros emit_intros scale_up.adds_one one.of_last [OF disowns_one])
  have "provision_event e \<Longrightarrow> removal_free e" for e by (cases e) (simp_all add: removal_free_iff)
  then show "emits removal_free (upgradeEtcdCluster E cluster ep ms)" for cluster ep
    by (rule emits_upgradeEtcdCluster) (simp_all add: removal_free_iff)
qed

end
