(* ===== verification/Machine_Health.thy ===== *)
theory Machine_Health
  imports Members
begin

text \<open>
  \<open>controllers/machines.go\<close>: the health of every machine the EtcdadmCluster owns, and the
  etcd-ready label that tells the bootstrap of the next machines that one has joined.
\<close>

definition MachineEtcdReadyLabelName :: string where
  "MachineEtcdReadyLabelName = ''cluster.x-k8s.io/etcd-ready''"

record EtcdMachine =
  emMachine :: Machine
  emEndpoint :: string
  emListening :: bool
  emHealthError :: "err option"

text \<open>The Go map \<open>etcdMachines\<close>, keyed by machine name, in the order its entries were put in.\<close>

type_synonym etcdMachines = "(string \<times> EtcdMachine) list"

definition healthy :: "EtcdMachine \<Rightarrow> bool" where
  "healthy e = (emListening e \<and> emHealthError e = None)"

text \<open>\<open>endpoints\<close> over the entries in the order \<open>range\<close> visits them.\<close>

definition etcd_endpoints :: "etcdMachines \<Rightarrow> string list" where
  "etcd_endpoints ms = filter (\<lambda>ep. ep \<noteq> []) (map (\<lambda>(_, m). emEndpoint m) ms)"

definition withLabels :: "Machine \<Rightarrow> go_map \<Rightarrow> Machine" where
  "withLabels m ls = m\<lparr>mMeta := (mMeta m)\<lparr>Labels := ls\<rparr>\<rparr>"

definition labelIfHealthy :: "env \<Rightarrow> EtcdMachine \<Rightarrow> err option option io" where
  "labelIfHealthy E m =
     (if map_get (Labels (mMeta (emMachine m))) MachineEtcdReadyLabelName \<noteq> None then ret None
      else if \<not> healthy m then ret None
      else
        orPanic ''assignment to entry in nil map''
          (map_put (Labels (mMeta (emMachine m))) MachineEtcdReadyLabelName ''true'') (\<lambda>labels.
        checkErr (call_UpdateMachine E (withLabels (emMachine m) labels))
          (\<lambda>e. Some (Some (wrapErr E e (''adding etcd ready label to machine '' @ mName (emMachine m)))))
          (ret None)))"

definition updateMachinesEtcdReadyLabel :: "env \<Rightarrow> etcdMachines \<Rightarrow> err option io" where
  "updateMachinesEtcdReadyLabel E machines =
     bnd (range_over E ''updateMachinesEtcdReadyLabel'' machines) (\<lambda>ms.
     orElse (forReturn (\<lambda>(_, m). labelIfHealthy E m) ms) (ret None))"

definition getCurrentOwnedMachines :: "env \<Rightarrow> Cluster \<Rightarrow> (err + Machines) io" where
  "getCurrentOwnedMachines E cluster =
     bnd (gets theEC) (\<lambda>ec.
     tryErr (listEtcdMachines E
               (if IsFalse E ec EtcdMachinesSpecUpToDateCondition then UncachedClient else CachedClient)
               cluster (Name (ecMeta ec)))
       (\<lambda>e. Inl (wrapErr E e ''reading machines for etcd cluster''))
       (\<lambda>etcdMachines. ret (Inr (col_Filter (coll E) (col_OwnedMachines (coll E) ec) etcdMachines))))"

text \<open>The state of one machine, from the endpoint it has and the outcome of the check.\<close>

definition checkMachine :: "env \<Rightarrow> Cluster \<Rightarrow> Machine \<Rightarrow> EtcdMachine io" where
  "checkMachine E cluster machine =
     (let m = \<lparr>emMachine = machine, emEndpoint = [], emListening = False, emHealthError = None\<rparr>;
          endpoint = getMachineEtcdEndpoint machine in
      if endpoint = [] then ret m
      else
        bnd (performEndpointHealthCheck E cluster endpoint True) (\<lambda>err.
        if (case err of Some e \<Rightarrow> errors_Is_portNotOpen e | None \<Rightarrow> False)
        then ret (m\<lparr>emHealthError := err\<rparr>)
        else ret (m\<lparr>emHealthError := err, emEndpoint := endpoint, emListening := True\<rparr>)))"

fun checkMachines :: "env \<Rightarrow> Cluster \<Rightarrow> Machines \<Rightarrow> etcdMachines io" where
  "checkMachines E cluster [] = ret []"
| "checkMachines E cluster (machine # rest) =
     bnd (checkMachine E cluster machine) (\<lambda>m.
     bnd (checkMachines E cluster rest) (\<lambda>ms. ret ((mName machine, m) # ms)))"

definition checkOwnedMachines :: "env \<Rightarrow> Cluster \<Rightarrow> (err + etcdMachines) io" where
  "checkOwnedMachines E cluster =
     tryErr (getCurrentOwnedMachines E cluster) Inl (\<lambda>ownedMachines.
     bnd (range_over E ''checkOwnedMachines'' ownedMachines) (\<lambda>ms.
     bnd (checkMachines E cluster ms) (\<lambda>r. ret (Inr r))))"

section \<open>What they do to the outside\<close>

lemma reads_getCurrentOwnedMachines: "obeys reads (getCurrentOwnedMachines E cluster)"
  unfolding getCurrentOwnedMachines_def by (intro read_intros reads_listEtcdMachines)

lemma emits_updateMachinesEtcdReadyLabel:
  assumes "\<And>m r. P (EvUpdateMachine m r)"
  shows "emits P (updateMachinesEtcdReadyLabel E ms)"
  unfolding updateMachinesEtcdReadyLabel_def labelIfHealthy_def call_UpdateMachine_def
  by (intro emit_intros assms)

lemma updateMachinesEtcdReadyLabel_keeps_theEC:
  "obeys (keeps theEC) (updateMachinesEtcdReadyLabel E ms)"
  unfolding updateMachinesEtcdReadyLabel_def labelIfHealthy_def call_UpdateMachine_def
  by (intro kept_intros) simp_all

context health_checker
begin

text \<open>Checking all machines only reads, for any health check that only reads.\<close>

lemma check_then_reads:
  "(\<And>r. obeys reads (k r)) \<Longrightarrow> obeys reads (bnd (check cluster endpoint verbose) k)"
  by (intro read_intros check_reads)

end

context collaborators
begin

lemma reads_checkMachine: "obeys reads (checkMachine E cluster m)"
  unfolding checkMachine_def by (intro read_intros checker.check_then_reads)

lemma reads_checkMachines: "obeys reads (checkMachines E cluster ms)"
  by (induction ms) (auto intro!: read_intros reads_checkMachine)

lemma reads_checkOwnedMachines: "obeys reads (checkOwnedMachines E cluster)"
  unfolding checkOwnedMachines_def
  by (intro read_intros reads_getCurrentOwnedMachines reads_checkMachines)

end

end
