(* ===== verification/Status.thy ===== *)
theory Status
  imports Machine_Health
begin

text \<open>
  \<open>controllers/status.go\<close>: the status of the EtcdadmCluster, recomputed at the end of every
  reconciliation from the health of the machines it owns, and the Secret with the address new
  members join through.
\<close>

text \<open>\<open>readyReplicas\<close>: an \<open>int32\<close>, counted up once per healthy machine.\<close>

definition countReady :: "etcdMachines \<Rightarrow> 32 word" where
  "countReady ms = fold (\<lambda>(_, m) n. if healthy m then n + 1 else n) ms 0"

definition setReady :: "bool \<Rightarrow> unit io" where
  "setReady b = modifyStatus (\<lambda>st. st\<lparr>Ready := b\<rparr>)"

definition scalingMessage :: "32 word \<Rightarrow> 32 word \<Rightarrow> string" where
  "scalingMessage desired actual =
     ''Scaling up etcd cluster to '' @ show_int (sint desired) @ '' replicas (actual '' @
     show_int (sint actual) @ '')''"

text \<open>The first machine of the second loop that is not healthy decides what is returned.\<close>

fun firstUnhealthy :: "etcdMachines \<Rightarrow> err option option io" where
  "firstUnhealthy [] = ret None"
| "firstUnhealthy ((_, m) # ms) =
     (if \<not> healthy m then
        if emListening m then seq (setReady False) (ret (Some (emHealthError m)))
        else ret (Some None)
      else firstUnhealthy ms)"

definition updateInitSecret :: "env \<Rightarrow> Cluster \<Rightarrow> string list \<Rightarrow> string \<Rightarrow> err option io" where
  "updateInitSecret E cluster endpoints currEndpoints =
     bnd (gets (\<lambda>s. InitMachineAddress (ecStatus (theEC s)))) (\<lambda>initName.
     tryErr (call_GetSecret E \<lparr>keyNamespace = Namespace (clMeta cluster), keyName = initName\<rparr>) Some (\<lambda>secret.
     orPanic ''assignment to entry in nil map''
       (map_put (secData secret) ''address''
          (if length endpoints > 0 then getEtcdMachineAddressFromClientURL (endpoints ! 0) else [])) (\<lambda>data1.
     orPanic ''assignment to entry in nil map'' (map_put data1 ''clientUrls'' currEndpoints) (\<lambda>data2.
     call_UpdateSecret E (secret\<lparr>secData := data2\<rparr>)))))"

definition updateEndpoints :: "env \<Rightarrow> Cluster \<Rightarrow> etcdMachines \<Rightarrow> err option io" where
  "updateEndpoints E cluster ownedMachines =
     bnd (range_over E ''endpoints'' ownedMachines) (\<lambda>ms.
     let endpoints = sort_Strings (etcd_endpoints ms);
         currEndpoints = strings_Join endpoints '','' in
     bnd (gets (\<lambda>s. Endpoints (ecStatus (theEC s)))) (\<lambda>prevEndpoints.
     if prevEndpoints \<noteq> currEndpoints then
       seq (modifyStatus (\<lambda>st. st\<lparr>Endpoints := currEndpoints\<rparr>))
         (updateInitSecret E cluster endpoints currEndpoints)
     else ret None))"

definition updateStatus :: "env \<Rightarrow> Cluster \<Rightarrow> etcdMachines \<Rightarrow> err option io" where
  "updateStatus E cluster ownedMachines =
     bnd (gets theEC) (\<lambda>ec.
     orPanic ''invalid label value''
       (EtcdMachinesSelectorForCluster E (clName cluster) (Name (ecMeta ec))) (\<lambda>selector.
     seq (modifyStatus (\<lambda>st. st\<lparr>Selector := labels_String (capi E) selector\<rparr>))
     (orPanic ''nil pointer dereference'' (Replicas (ecSpec ec)) (\<lambda>desiredReplicas.
     let readyReplicas = countReady ownedMachines in
     seq (modifyStatus (\<lambda>st. st\<lparr>ReadyReplicas := readyReplicas\<rparr>))
     (if DeletionTimestamp (ecMeta ec) \<noteq> None then ret None
      else if sint readyReplicas < sint desiredReplicas then
        seq (MarkFalse E EtcdClusterResizeCompleted EtcdScaleUpInProgressReason
               ConditionSeverityWarning (scalingMessage desiredReplicas readyReplicas))
          (seq (setReady False) (ret None))
      else if sint readyReplicas > sint desiredReplicas then
        seq (MarkFalse E EtcdClusterResizeCompleted EtcdScaleDownInProgressReason
               ConditionSeverityWarning (scalingMessage desiredReplicas readyReplicas))
          (seq (setReady False) (ret None))
      else
        bnd (range_over E ''updateStatus'' ownedMachines) (\<lambda>ms.
        orElse (firstUnhealthy ms)
          (seq (MarkTrue E EtcdClusterResizeCompleted)
          (seq (setReady True)
          (seq (MarkTrue E EtcdEndpointsAvailable)
          (checkErr (updateEndpoints E cluster ownedMachines) Some
          (seq (modifyStatus (\<lambda>st. st\<lparr>CreationComplete := True\<rparr>)) (ret None))))))))))))"

section \<open>What it does to the outside\<close>

lemma emits_firstUnhealthy: "emits P (firstUnhealthy ms)"
  by (induction ms) (auto simp: setReady_def intro!: emit_intros)

lemma emits_updateEndpoints:
  assumes "\<And>k r. P (EvGetSecret k r)" and "\<And>x r. P (EvUpdateSecret x r)"
  shows "emits P (updateEndpoints E cluster ms)"
  unfolding updateEndpoints_def updateInitSecret_def call_GetSecret_def call_UpdateSecret_def
  by (intro emit_intros assms)

lemma emits_updateStatus:
  assumes "\<And>k r. P (EvGetSecret k r)" and "\<And>x r. P (EvUpdateSecret x r)"
  shows "emits P (updateStatus E cluster ms)"
  unfolding updateStatus_def setReady_def
  by (intro emit_intros emits_updateEndpoints emits_firstUnhealthy assms)

end
