(* ===== verification/Reconcile.thy ===== *)
theory Reconcile
  imports Members Upgrade Status
begin

text \<open>
  \<open>controllers/controller.go\<close>: one reconciliation of one EtcdadmCluster. \<open>Reconcile\<close> fetches the
  objects and checks the gates, \<open>reconcile\<close> and \<open>reconcileDelete\<close> do the work, and the deferred
  function recomputes the status and patches the object whatever they returned. \<open>reconcile\<close> is
  written in the stages of its source text; a stage may return from the function.
\<close>

type_synonym reconcile_result = "Result \<times> err option"

section \<open>Deleting outdated members after the control plane upgrade\<close>

definition hasAnnotation :: "EtcdadmCluster \<Rightarrow> string \<Rightarrow> bool" where
  "hasAnnotation ec k = (map_get (Annotations (ecMeta ec)) k \<noteq> None)"

definition deleteAnnotation :: "string \<Rightarrow> unit io" where
  "deleteAnnotation k =
     modifyEC (\<lambda>ec. ec\<lparr>ecMeta := (ecMeta ec)\<lparr>Annotations := map_delete (Annotations (ecMeta ec)) k\<rparr>\<rparr>)"

definition ownedBy :: "env \<Rightarrow> EtcdadmCluster \<Rightarrow> Machines \<Rightarrow> Machines" where
  "ownedBy E ec machines = col_Filter (coll E) (col_OwnedMachines (coll E) ec) machines"

text \<open>\<open>onlyIf b m\<close>: \<open>if b { m }\<close>\<close>

definition onlyIf :: "bool \<Rightarrow> unit io \<Rightarrow> unit io" where
  "onlyIf b m = (if b then m else ret ())"

definition removeOutdated :: "env \<Rightarrow> Cluster \<Rightarrow> Machine \<Rightarrow> reconcile_result option io" where
  "removeOutdated E cluster m =
     checkErr (removeEtcdMachine E cluster (Some m) (getEtcdMachineAddress m))
       (\<lambda>e. Some (noResult, Some e)) (ret None)"

definition outdatedStage ::
  "env \<Rightarrow> Cluster \<Rightarrow> Machines \<Rightarrow> Machines \<Rightarrow> reconcile_result option io" where
  "outdatedStage E cluster etcdMachines ownedMachines =
     bnd (gets theEC) (\<lambda>ec.
     if length ownedMachines \<noteq> length etcdMachines then
       seq (onlyIf (IsUnknown E ec EtcdClusterHasNoOutdatedMembersCondition \<or>
                  IsTrue E ec EtcdClusterHasNoOutdatedMembersCondition)
              (MarkFalse E EtcdClusterHasNoOutdatedMembersCondition EtcdClusterHasOutdatedMembersReason
                 ConditionSeverityInfo
                 (show_int (int (length (col_Difference (coll E) etcdMachines ownedMachines))) @
                  '' etcd members have outdated spec'')))
       (if hasAnnotation ec (ControlPlaneUpgradeCompletedAnnotation (capi E)) then
          bnd (range_over E ''outdatedMachines'' (col_Difference (coll E) etcdMachines ownedMachines)) (\<lambda>outdatedMachines.
          bnd (forReturn (removeOutdated E cluster) outdatedMachines) (\<lambda>r.
          case r of Some v \<Rightarrow> ret (Some v) | None \<Rightarrow> ret (Some (requeueNow, None))))
        else ret None)
     else
       seq (onlyIf (hasAnnotation ec (ControlPlaneUpgradeCompletedAnnotation (capi E)))
              (deleteAnnotation (ControlPlaneUpgradeCompletedAnnotation (capi E))))
       (seq (onlyIf (IsFalse E ec EtcdClusterHasNoOutdatedMembersCondition)
               (MarkTrue E EtcdClusterHasNoOutdatedMembersCondition))
       (ret None)))"

section \<open>Rolling out a new spec\<close>

definition rolloutMessage :: "EtcdPlane \<Rightarrow> Machines \<Rightarrow> string" where
  "rolloutMessage ep needRollout =
     ''Rolling '' @ show_int (int (length needRollout)) @ '' replicas with outdated spec ('' @
     show_int (int (length (epMachines ep)) - int (length needRollout)) @ '' replicas up to date)''"

definition maxMachinesMessage :: "int \<Rightarrow> int \<Rightarrow> string" where
  "maxMachinesMessage numAll desired =
     ''Etcd cluster has '' @ show_int numAll @ '' total machines, maximum number of machines is '' @
     show_int (2 * desired)"

text \<open>
  An upgrade in progress waits for its newest machine: until it is old enough, until it has an
  address, until it passes a health check. \<open>None\<close> lets the upgrade go on.
\<close>

definition waitForNewestMachine :: "env \<Rightarrow> Cluster \<Rightarrow> EtcdPlane \<Rightarrow> reconcile_result option io" where
  "waitForNewestMachine E cluster ep =
     orPanic ''nil pointer dereference'' (NewestUpToDateMachine E ep) (\<lambda>newestUpToDateMachine.
     let nextMachineUpdateTime =
           CreationTimestamp (mMeta newestUpToDateMachine) + minEtcdMemberReadySeconds * time_Second in
     bnd (call_Now E) (\<lambda>now.
     if nextMachineUpdateTime > now then
       bnd (call_Now E) (\<lambda>now2.
       ret (Some (requeueAfter (nextMachineUpdateTime - now2), None)))
     else
       let address = getEtcdMachineAddress newestUpToDateMachine in
       if address = [] then ret (Some (noResult, None))
       else
         checkErr (performEndpointHealthCheck E cluster (getMemberClientURL address) True)
           (\<lambda>e. Some (noResult, Some e)) (ret None)))"

definition rolloutCase ::
  "env \<Rightarrow> Cluster \<Rightarrow> EtcdPlane \<Rightarrow> Machines \<Rightarrow> int \<Rightarrow> int \<Rightarrow> int \<Rightarrow> reconcile_result io" where
  "rolloutCase E cluster ep needRollout numAllEtcdMachines numOutOfDateMachines desiredReplicas =
     (if numAllEtcdMachines > numOutOfDateMachines + desiredReplicas then
        seq (MarkFalse E EtcdMachinesSpecUpToDateCondition MaxNumberOfEtcdMachinesReachedReason
               ConditionSeverityWarning (maxMachinesMessage numAllEtcdMachines desiredReplicas))
          (ret (noResult, None))
      else
        bnd (gets theEC) (\<lambda>ec.
        orElse (if IsFalse E ec EtcdMachinesSpecUpToDateCondition \<and> length (UpToDateMachines E ep) > 0
                then waitForNewestMachine E cluster ep else ret None)
        (seq (MarkFalse E EtcdMachinesSpecUpToDateCondition EtcdRollingUpdateInProgressReason
                ConditionSeverityWarning (rolloutMessage ep needRollout))
        (seq (MarkFalse E EtcdCertificatesAvailableCondition EtcdRollingUpdateInProgressReason
                ConditionSeverityWarning (rolloutMessage ep needRollout))
        (upgradeEtcdCluster E cluster ep needRollout)))))"

text \<open>The default case: no rollout is needed (any more).\<close>

definition rolloutDone :: "env \<Rightarrow> Cluster \<Rightarrow> reconcile_result option io" where
  "rolloutDone E cluster =
     bnd (gets theEC) (\<lambda>ec.
     seq (onlyIf (HasCondition E ec EtcdMachinesSpecUpToDateCondition)
            (seq (MarkTrue E EtcdMachinesSpecUpToDateCondition)
               (onlyIf (hasAnnotation ec UpgradeInProgressAnnotation)
                  (deleteAnnotation UpgradeInProgressAnnotation))))
     (bnd (gets theEC) (\<lambda>ec'.
      if IsFalse E ec' EtcdCertificatesAvailableCondition then
        checkErr (generateCAandClientCertSecrets E cluster) (\<lambda>e. Some (noResult, Some e)) (ret None)
      else ret None)))"

definition rolloutStage ::
  "env \<Rightarrow> Cluster \<Rightarrow> EtcdPlane \<Rightarrow> Machines \<Rightarrow> int \<Rightarrow> int \<Rightarrow> int \<Rightarrow> reconcile_result option io" where
  "rolloutStage E cluster ep needRollout numAllEtcdMachines numOutOfDateMachines desiredReplicas =
     (if length needRollout > 0 then
        bnd (rolloutCase E cluster ep needRollout numAllEtcdMachines numOutOfDateMachines desiredReplicas)
          (\<lambda>r. ret (Some r))
      else rolloutDone E cluster)"

section \<open>Scaling\<close>

definition scaleStage ::
  "env \<Rightarrow> Cluster \<Rightarrow> EtcdPlane \<Rightarrow> int \<Rightarrow> int \<Rightarrow> int \<Rightarrow> reconcile_result io" where
  "scaleStage E cluster ep numCurrentMachines numNeedRollout desiredReplicas =
     bnd (gets theEC) (\<lambda>ec.
     if numCurrentMachines < desiredReplicas \<and> numCurrentMachines = 0 then
       seq (MarkFalse E InitializedCondition WaitingForEtcdadmInitReason ConditionSeverityInfo [])
       (seq (MarkFalse E EtcdEndpointsAvailable WaitingForEtcdadmEndpointsToPassHealthcheckReason
               ConditionSeverityInfo [])
       (intializeEtcdCluster E cluster ep))
     else if numCurrentMachines > 0 \<and> IsFalse E ec InitializedCondition then
       (if \<not> Initialized (ecStatus ec) then ret (noResult, None)
        else seq (MarkTrue E InitializedCondition) (ret (noResult, None)))
     else if numCurrentMachines < desiredReplicas \<and> numCurrentMachines > 0 then
       scaleUpEtcdCluster E cluster ep
     else if numCurrentMachines > desiredReplicas then
       scaleDownEtcdCluster E cluster ep []
     else if numCurrentMachines = desiredReplicas \<and> numNeedRollout = 0 then
       seq (onlyIf (hasAnnotation ec UpgradeInProgressAnnotation)
              (deleteAnnotation UpgradeInProgressAnnotation))
         (ret (noResult, None))
     else ret (noResult, None))"

section \<open>\<open>reconcile\<close>\<close>

definition reconcile :: "env \<Rightarrow> Cluster \<Rightarrow> reconcile_result io" where
  "reconcile E cluster =
     bnd (gets theEC) (\<lambda>ec.
     checkErr (reconcileExternalReference E cluster (InfrastructureTemplate (ecSpec ec)))
       (\<lambda>e. (noResult, Some e))
     (tryErr (listEtcdMachines E UncachedClient cluster (Name (ecMeta ec)))
       (\<lambda>e. (noResult, errors_Wrap (errs E) (Some e) ''Error filtering machines for etcd cluster''))
       (\<lambda>etcdMachines.
     let ownedMachines = ownedBy E ec etcdMachines in
     tryErr (NewEtcdPlane E cluster ec ownedMachines)
       (\<lambda>e. (noResult, errors_Wrap (errs E) (Some e) ''Error initializing internal object EtcdPlane''))
       (\<lambda>ep.
     orElse (outdatedStage E cluster etcdMachines ownedMachines)
     (orPanic ''nil pointer dereference'' (Replicas (ecSpec ec)) (\<lambda>replicas.
     let needRollout = MachinesNeedingRollout E ep in
     tryErr (NewEtcdPlane E cluster ec etcdMachines)
       (\<lambda>e. (noResult, errors_Wrap (errs E) (Some e) ''Error initializing internal object EtcdPlane''))
       (\<lambda>ep2.
     orElse (rolloutStage E cluster ep needRollout (int (length etcdMachines))
               (int (length (OutOfDateMachines E ep2))) (sint replicas))
       (scaleStage E cluster ep (int (length ownedMachines)) (int (length needRollout)) (sint replicas)))))))))"

section \<open>\<open>reconcileDelete\<close>\<close>

text \<open>The loop collects the errors of the deletions that failed.\<close>

fun deleteMachines :: "env \<Rightarrow> err list \<Rightarrow> Machines \<Rightarrow> err list io" where
  "deleteMachines E errors [] = ret errors"
| "deleteMachines E errors (m # ms) =
     bnd (call_DeleteMachine E m) (\<lambda>r.
     deleteMachines E
       (case r of Some e \<Rightarrow> if \<not> IsNotFound (errs E) e then errors @ [e] else errors | None \<Rightarrow> errors) ms)"

text \<open>The message of the event ends with the text of the error, which is left out.\<close>

definition reconcileDelete :: "env \<Rightarrow> Cluster \<Rightarrow> reconcile_result io" where
  "reconcileDelete E cluster =
     bnd (gets theEC) (\<lambda>ec.
     tryErr (listEtcdMachines E UncachedClient cluster (Name (ecMeta ec)))
       (\<lambda>e. (noResult, errors_Wrap (errs E) (Some e) ''Error filtering machines for etcd cluster''))
       (\<lambda>etcdMachines.
     if length etcdMachines = 0 then
       seq (modifyEC (\<lambda>ec. ec\<lparr>ecMeta := (ecMeta ec)\<lparr>Finalizers :=
              RemoveFinalizer (capi E) (Finalizers (ecMeta ec)) EtcdadmClusterFinalizer\<rparr>\<rparr>))
         (ret (noResult, None))
     else
       bnd (range_over E ''reconcileDelete''
              (col_Filter (coll E) (col_Not (coll E) (col_HasDeletionTimestamp (coll E))) etcdMachines))
         (\<lambda>machinesToDelete.
       bnd (deleteMachines E [] machinesToDelete) (\<lambda>errors.
       if length errors > 0 then
         (let err = kerrors_NewAggregate (errs E) (map Some errors) in
          seq (call_RecordEvent E ''FailedDelete''
                 (''Failed to delete etcd Machines for cluster '' @ Namespace (clMeta cluster) @ ''/'' @ clName cluster))
            (ret (noResult, err)))
       else
         seq (MarkFalse E EtcdClusterResizeCompleted (DeletingReason (capi E)) ConditionSeverityInfo [])
           (ret (requeueAfter (30 * time_Second), None))))))"

section \<open>\<open>Reconcile\<close>\<close>

definition summaryConditions :: "ConditionType list" where
  "summaryConditions =
     [EtcdMachinesSpecUpToDateCondition, EtcdCertificatesAvailableCondition,
      EtcdMachinesReadyCondition, EtcdClusterResizeCompleted, InitializedCondition,
      EtcdClusterHasNoOutdatedMembersCondition, EtcdEndpointsAvailable]"

text \<open>The patch is the difference between the object now and \<open>base\<close>, its state when it was read.\<close>

definition patchEtcdCluster :: "env \<Rightarrow> EtcdadmCluster \<Rightarrow> err option io" where
  "patchEtcdCluster E base =
     seq (SetSummary E summaryConditions)
     (bnd (gets theEC) (\<lambda>ec. call_PatchEtcdadmCluster E base ec))"

definition aggregate :: "env \<Rightarrow> err option \<Rightarrow> err option \<Rightarrow> err option" where
  "aggregate E reterr e = (case e of None \<Rightarrow> reterr | Some e \<Rightarrow> kerrors_NewAggregate (errs E) [reterr, Some e])"

definition deferredRequeue :: "EtcdadmCluster \<Rightarrow> reconcile_result \<Rightarrow> reconcile_result" where
  "deferredRequeue ec r =
     (case r of (res, reterr) \<Rightarrow>
        if reterr = None \<and> \<not> Requeue res \<and> \<not> (RequeueAfter res > 0) \<and> DeletionTimestamp (ecMeta ec) = None
        then if \<not> Ready (ecStatus ec) then (requeueAfter (20 * time_Second), reterr) else (res, reterr)
        else (res, reterr))"

definition deferredStatus :: "env \<Rightarrow> EtcdadmCluster \<Rightarrow> Cluster \<Rightarrow> reconcile_result \<Rightarrow> reconcile_result io" where
  "deferredStatus E base cluster result =
     bnd (checkOwnedMachines E cluster) (\<lambda>r.
     case r of
       Inl e \<Rightarrow> ret (fst result, kerrors_NewAggregate (errs E) [snd result, Some e])
     | Inr etcdMachines \<Rightarrow>
         bnd (updateMachinesEtcdReadyLabel E etcdMachines) (\<lambda>e1.
         bnd (updateStatus E cluster etcdMachines) (\<lambda>e2.
         bnd (gets theEC) (\<lambda>ec.
         seq (onlyIf (IsFalse E ec EtcdMachinesSpecUpToDateCondition \<and>
                    GetReason E ec EtcdMachinesSpecUpToDateCondition = EtcdRollingUpdateInProgressReason)
                (setReady False))
         (bnd (patchEtcdCluster E base) (\<lambda>e3.
          bnd (gets theEC) (\<lambda>ec'.
          ret (deferredRequeue ec'
                 (fst result, aggregate E (aggregate E (aggregate E (snd result) e1) e2) e3)))))))))"

text \<open>What follows the two reads, for the object read and its Cluster.\<close>

definition reconcileObject :: "env \<Rightarrow> EtcdadmCluster \<Rightarrow> Cluster \<Rightarrow> reconcile_result io" where
  "reconcileObject E etcdCluster cluster =
     (if \<not> cluster_IsTrue (capi E) cluster (InfrastructureReadyCondition (capi E)) then
        ret (requeueAfter (5 * time_Second), None)
      else if annotations_IsPaused (capi E) cluster etcdCluster then ret (noResult, None)
      else
        checkErr (call_NewPatchHelper E (Name (ecMeta etcdCluster))) (\<lambda>e. (requeueNow, None))
        (if \<not> ContainsFinalizer (capi E) (Finalizers (ecMeta etcdCluster)) EtcdadmClusterFinalizer then
           seq (modifyEC (\<lambda>ec. ec\<lparr>ecMeta := (ecMeta ec)\<lparr>Finalizers :=
                  AddFinalizer (capi E) (Finalizers (ecMeta ec)) EtcdadmClusterFinalizer\<rparr>\<rparr>))
           (bnd (gets theEC) (\<lambda>ec.
            checkErr (call_PatchEtcdadmCluster E etcdCluster ec) (\<lambda>e. (noResult, Some e))
              (ret (noResult, None))))
         else
           withDefer (noResult, None)
             (if DeletionTimestamp (ecMeta etcdCluster) \<noteq> None then reconcileDelete E cluster
              else reconcile E cluster)
             (deferredStatus E etcdCluster cluster)))"

definition Reconcile :: "env \<Rightarrow> ObjectKey \<Rightarrow> reconcile_result io" where
  "Reconcile E request =
     bnd (call_GetEtcdadmCluster E request) (\<lambda>r.
     case r of
       Inl e \<Rightarrow> if IsNotFound (errs E) e then ret (noResult, None) else ret (noResult, Some e)
     | Inr etcdCluster \<Rightarrow>
         seq (modifyEC (\<lambda>_. etcdCluster))
         (tryErr (call_GetOwnerCluster E (ecMeta etcdCluster)) (\<lambda>e. (noResult, Some e)) (\<lambda>c.
          case c of
            None \<Rightarrow> ret (noResult, None)
          | Some cluster \<Rightarrow> reconcileObject E etcdCluster cluster)))"

section \<open>Wiring\<close>

text \<open>\<open>ClusterToEtcdadmCluster\<close>: the request a change of a Cluster enqueues; \<open>None\<close> is a nil cluster.\<close>

definition ClusterToEtcdadmCluster :: "env \<Rightarrow> Cluster option \<Rightarrow> ObjectKey list" where
  "ClusterToEtcdadmCluster E c =
     (case c of
        None \<Rightarrow> []
      | Some cl \<Rightarrow>
          (case clManagedExternalEtcdRef cl of
             Some etcdRef \<Rightarrow>
               if ref_IsDefined (capi E) (Some etcdRef) \<and> crKind etcdRef = ''EtcdadmCluster''
               then [\<lparr>keyNamespace = Namespace (clMeta cl), keyName = crName etcdRef\<rparr>] else []
           | None \<Rightarrow>
               if ref_IsDefined (capi E) None then [] else []))"

section \<open>What a reconciliation does to the outside\<close>

lemma emits_deleteAnnotation: "emits P (deleteAnnotation k)"
  unfolding deleteAnnotation_def by (intro emit_intros)

lemma emits_onlyIf: "emits P m \<Longrightarrow> emits P (onlyIf b m)"
  unfolding onlyIf_def by (intro emit_intros)

lemmas stage_intros = emit_intros emits_deleteAnnotation emits_onlyIf

lemma emits_reconcileExternalReference:
  assumes "\<And>e. \<not> mutates e \<Longrightarrow> P e" and "\<And>x r. P (EvPatchTemplate x r)"
  shows "emits P (reconcileExternalReference E cluster ref)"
  unfolding reconcileExternalReference_def call_defs by (intro emit_intros assms) simp_all

lemma emits_rolloutDone:
  assumes "\<And>e. cert_event e \<Longrightarrow> P e"
  shows "emits P (rolloutDone E cluster)"
  unfolding rolloutDone_def by (intro stage_intros emits_generateCAandClientCertSecrets assms)

text \<open>The stage that removes outdated members goes on only when it has removed none.\<close>

lemma outdatedStage_goes_on:
  "run_state (outdatedStage E cluster ms owned) s = (Done None, t) \<Longrightarrow> trace t = trace s"
  by (auto simp: outdatedStage_def onlyIf_def deleteAnnotation_def run_simps
      split: if_splits prod.splits outcome.splits option.splits)

lemma rolloutStage_goes_on:
  "run_state (rolloutStage E cluster ep needRollout n m d) s = (Done None, t) \<Longrightarrow>
   needRollout = [] \<and> run_state (rolloutDone E cluster) s = (Done None, t)"
  by (auto simp: rolloutStage_def run_simps split: if_splits prod.splits outcome.splits)

lemma scaleDown_emits_no_change:
  assumes "\<And>m addr. emits P (removeEtcdMachine E cluster m addr)"
  shows "emits P (scaleDownEtcdCluster E cluster ep ms)"
  unfolding scaleDownEtcdCluster_def
  by (auto split: outcome.splits sum.splits intro!: emit_intros assms)

context collaborators
begin

abbreviation "machineURL \<equiv> \<lambda>m. peerURLOf (getEtcdMachineAddress m)"

lemma scaleDown_guarded:
  "obeys (appends (safe_removals machineURL)) (scaleDownEtcdCluster E cluster ep ms)"
  unfolding scaleDownEtcdCluster_def
  by (auto split: outcome.splits sum.splits
      intro!: guarding.prog_intros remover.remove_guarded)

lemma emits_waitForNewestMachine:
  assumes "\<And>e. \<not> mutates e \<Longrightarrow> P e"
  shows "emits P (waitForNewestMachine E cluster ep)"
  unfolding waitForNewestMachine_def call_Now_def
  by (intro emit_intros checker.check_emits assms) simp_all

lemma removeEtcdMachine_changes_nothing:
  "emits (\<lambda>e. \<not> changesMachines e) (removeEtcdMachine E cluster m addr)"
proof (rule remover.remove_emits)
  show "is_delete e \<or> is_remove e \<Longrightarrow> \<not> changesMachines e" for e
    by (cases e) (simp_all add: changesMachines_def)
  show "\<not> mutates e \<Longrightarrow> \<not> changesMachines e" for e
    using harmless_if_reads by (simp add: harmless_def)
qed

lemma outdatedStage_guarded:
  "obeys (appends (safe_removals machineURL)) (outdatedStage E cluster ms owned)"
  unfolding outdatedStage_def removeOutdated_def
  by (intro guarding.prog_intros remover.remove_all_guarded guarded_if_free stage_intros
      removals.of_range_over) simp

lemma outdatedStage_single: "obeys (appends (single changesMachines)) (outdatedStage E cluster ms owned)"
  unfolding outdatedStage_def removeOutdated_def
  by (intro single_if_emits_none stage_intros removeEtcdMachine_changes_nothing)

lemma rolloutCase_guarded:
  "obeys (appends (safe_removals url)) (rolloutCase E cluster ep needRollout n m d)"
  unfolding rolloutCase_def
  by (intro guarding.prog_intros upgrade.add_guarded guarded_if_free emits_waitForNewestMachine
      stage_intros) simp

lemma rolloutCase_single:
  "obeys (appends (single changesMachines)) (rolloutCase E cluster ep needRollout n m d)"
  unfolding rolloutCase_def orElse_def
  by (intro one.tail_intros upgrade.adds_one emits_waitForNewestMachine stage_intros)
    (simp_all add: harmless_if_reads)

lemma scaleStage_guarded:
  "obeys (appends (safe_removals machineURL)) (scaleStage E cluster ep n m d)"
  unfolding scaleStage_def
  by (intro guarding.prog_intros initialize.add_guarded scale_up.add_guarded scaleDown_guarded
      removals.of_EC guarded_if_free stage_intros)

lemma scaleStage_single:
  "obeys (appends (single changesMachines)) (scaleStage E cluster ep n m d)"
  unfolding scaleStage_def
  by (intro one.tail_intros initialize.adds_one scale_up.adds_one
      single_if_emits_none [OF scaleDown_emits_no_change] removeEtcdMachine_changes_nothing
      stage_intros)

lemma patch_template_harmless: "harmless changesMachines (EvPatchTemplate x r)"
  by (simp add: harmless_def changesMachines_def removal_free_iff)

lemma reconcile_guarded: "obeys (appends (safe_removals machineURL)) (reconcile E cluster)"
  unfolding reconcile_def rolloutStage_def
  by (intro guarding.prog_intros guarded_if_reads [OF reads_listEtcdMachines]
      guarded_if_reads [OF reads_NewEtcdPlane] outdatedStage_guarded rolloutCase_guarded
      scaleStage_guarded
      guarded_if_free [OF emits_reconcileExternalReference]
      guarded_if_free [OF emits_rolloutDone])
    (simp_all add: cert_event_harmless)

lemma rolloutStage_single:
  "obeys (appends (single changesMachines)) (rolloutStage E cluster ep ms n m d)"
  unfolding rolloutStage_def
  by (intro one.tail_intros one.of_last rolloutCase_single emit_intros
      one.of_harmless [OF emits_rolloutDone]) (simp_all add: cert_event_harmless)

lemma rolloutStage_goes_on_harmless:
  assumes "run_state (rolloutStage E cluster ep ms n m d) s = (Done None, t)"
  shows "extends (harmless changesMachines) s t"
  using rolloutStage_goes_on [OF assms] emits_rolloutDone [of "harmless changesMachines"]
  by (auto simp: cert_event_harmless dest: obeysD)

lemma outdatedStage_goes_on_harmless:
  "run_state (outdatedStage E cluster ms owned) s = (Done None, t) \<Longrightarrow> extends P s t"
  by (simp add: extends_def outdatedStage_goes_on)

lemma reconcile_single: "obeys (appends (single changesMachines)) (reconcile E cluster)"
  unfolding reconcile_def
  by (intro one.tail_intros
      one.of_orElse [OF outdatedStage_single outdatedStage_goes_on_harmless]
      one.of_orElse [OF rolloutStage_single rolloutStage_goes_on_harmless]
      scaleStage_single emit_intros emits_reconcileExternalReference
      reads_emits [OF reads_listEtcdMachines] reads_emits [OF reads_NewEtcdPlane])
    (simp_all add: harmless_if_reads patch_template_harmless)

end

end
