(* ===== verification/Reconcile_Correct.thy ===== *)
theory Reconcile_Correct
  imports Reconcile
begin

text \<open>
  What holds of a whole reconciliation: which changes it may make to the outside, in which order, and
  what each of its gates lets through.
\<close>

section \<open>Deleting the machines of a deleted cluster\<close>

text \<open>The errors of the requests that are reported: all but "not found".\<close>

definition otherErrors :: "env \<Rightarrow> err option list \<Rightarrow> err list" where
  "otherErrors E rs = filter (\<lambda>e. \<not> IsNotFound (errs E) e) (concat (map (\<lambda>r. case r of None \<Rightarrow> [] | Some e \<Rightarrow> [e]) rs))"

lemma otherErrors_none: "otherErrors E rs = [] \<longleftrightarrow> (\<forall>e. Some e \<in> set rs \<longrightarrow> IsNotFound (errs E) e)"
proof -
  have "set (concat (map (\<lambda>r. case r of None \<Rightarrow> [] | Some e \<Rightarrow> [e]) rs)) = {e. Some e \<in> set rs}"
    by (induction rs) (auto split: option.splits)
  then show ?thesis by (auto simp: otherErrors_def filter_empty_conv)
qed

lemma run_deleteMachines:
  "\<exists>rs t. run_state (deleteMachines E errors ms) s = (Done (errors @ otherErrors E rs), t) \<and>
     length rs = length ms \<and> t = s\<lparr>trace := trace s @ map2 EvDeleteMachine ms rs\<rparr>"
proof (induction ms arbitrary: errors s)
  case Nil
  show ?case by (simp add: otherErrors_def)
next
  case (Cons m ms)
  let ?r = "k_DeleteMachine (svc E) (trace s) m"
  let ?s = "s\<lparr>trace := trace s @ [EvDeleteMachine m ?r]\<rparr>"
  let ?errors = "case ?r of Some e \<Rightarrow> if \<not> IsNotFound (errs E) e then errors @ [e] else errors | None \<Rightarrow> errors"
  obtain rs t where IH: "run_state (deleteMachines E ?errors ms) ?s = (Done (?errors @ otherErrors E rs), t)"
     "length rs = length ms" "t = ?s\<lparr>trace := trace ?s @ map2 EvDeleteMachine ms rs\<rparr>"
    using Cons.IH [of ?errors ?s] by blast
  then show ?case
    by (intro exI [of _ "?r # rs"] exI [of _ t])
      (auto simp: run_bnd call_DeleteMachine_def otherErrors_def split: option.splits)
qed

lemma run_listEtcdMachines:
  assumes "EtcdMachinesSelectorForCluster E (clName cluster) n = Some sel"
  shows "run_state (listEtcdMachines E rd cluster n) s =
    (Done (k_ListMachines (svc E) (trace s) rd cluster (\<lambda>m. EtcdClusterMachines E sel (Some m))),
     s\<lparr>trace := trace s @ [EvListMachines rd (clName cluster)
        (k_ListMachines (svc E) (trace s) rd cluster (\<lambda>m. EtcdClusterMachines E sel (Some m)))]\<rparr>)"
  using assms by (simp add: listEtcdMachines_def call_ListMachines_def run_simps)

lemma filter_is_delete_map2: "filter is_delete (map2 EvDeleteMachine ms rs) = map2 EvDeleteMachine ms rs"
  by (auto simp: filter_id_conv)

text \<open>The machines a deletion goes over, in the order of the loop.\<close>

definition machinesToDelete :: "env \<Rightarrow> history \<Rightarrow> Machines \<Rightarrow> Machines" where
  "machinesToDelete E h ms =
     (let ds = col_Filter (coll E) (col_Not (coll E) (col_HasDeletionTimestamp (coll E))) ms in
      go_range (range_order (svc E) ''reconcileDelete'' h (length ds)) ds)"

lemma mset_machinesToDelete:
  assumes "collections_laws (coll E)"
  shows "mset (machinesToDelete E h ms) = mset (filter (\<lambda>m. DeletionTimestamp (mMeta m) = None) ms)"
  using assms by (simp add: machinesToDelete_def Let_def collections_lawsD cong: filter_cong)

text \<open>
  The whole of \<open>reconcileDelete\<close> while machines are left: the answers to the requests, one for each
  machine, decide how it ends.
\<close>

lemma run_reconcileDelete:
  assumes sel: "EtcdMachinesSelectorForCluster E (clName cluster) (Name (ecMeta (theEC s))) = Some sel"
    and lst: "k_ListMachines (svc E) (trace s) UncachedClient cluster (\<lambda>m. EtcdClusterMachines E sel (Some m)) = Inr ms"
    and some: "ms \<noteq> []"
  shows "\<exists>h h' ds rs. h = trace s @ [EvListMachines UncachedClient (clName cluster) (Inr ms)] \<and>
     ds = machinesToDelete E h ms \<and> length rs = length ds \<and> h' = h @ map2 EvDeleteMachine ds rs \<and>
     run_state (reconcileDelete E cluster) s =
       (if otherErrors E rs = []
        then (Done (requeueAfter (30 * time_Second), None),
          s\<lparr>trace := h', theEC := SetConditions (theEC s) (cond_MarkFalse (conds E) h' EtcdClusterResizeCompleted
            (DeletingReason (capi E)) ConditionSeverityInfo [] (GetConditions (theEC s)))\<rparr>)
        else (Done (noResult, kerrors_NewAggregate (errs E) (map Some (otherErrors E rs))),
          s\<lparr>trace := h' @ [EvRecordEvent ''FailedDelete'' (''Failed to delete etcd Machines for cluster '' @
            Namespace (clMeta cluster) @ ''/'' @ clName cluster)]\<rparr>))"
proof -
  let ?s1 = "s\<lparr>trace := trace s @ [EvListMachines UncachedClient (clName cluster) (Inr ms)]\<rparr>"
  let ?ds = "machinesToDelete E (trace ?s1) ms"
  obtain rs where "run_state (deleteMachines E [] ?ds) ?s1 =
      (Done (otherErrors E rs), ?s1\<lparr>trace := trace ?s1 @ map2 EvDeleteMachine ?ds rs\<rparr>)" "length rs = length ?ds"
    using run_deleteMachines [of E "[]" ?ds ?s1] by auto
  then show ?thesis using some lst sel
    by (intro exI [of _ "trace ?s1"] exI [of _ "trace ?s1 @ map2 EvDeleteMachine ?ds rs"] exI [of _ ?ds] exI [of _ rs])
      (simp add: reconcileDelete_def run_simps run_listEtcdMachines machinesToDelete_def Let_def call_RecordEvent_def)
qed

text \<open>C18: While etcd machines are left, deleting an EtcdadmCluster asks
  for the deletion of exactly the machines that are not being deleted yet, each once, whatever
  becomes of the other requests; it keeps the finalizer, and comes back after 30 seconds unless a
  request failed other than with "not found", which is reported.\<close>

theorem reconcileDelete_deletes_all:
  assumes laws: "collections_laws (coll E)" and errors: "errors_laws (errs E)"
    and sel: "EtcdMachinesSelectorForCluster E (clName cluster) (Name (ecMeta (theEC s))) = Some sel"
    and lst: "k_ListMachines (svc E) (trace s) UncachedClient cluster
                (\<lambda>m. EtcdClusterMachines E sel (Some m)) = Inr ms"
    and some: "ms \<noteq> []"
  shows "\<exists>res t ds rs. run_state (reconcileDelete E cluster) s = (Done res, t) \<and>
     filter is_delete (events (reconcileDelete E cluster) s) = map2 EvDeleteMachine ds rs \<and>
     mset ds = mset (filter (\<lambda>m. DeletionTimestamp (mMeta m) = None) ms) \<and> length rs = length ds \<and>
     Finalizers (ecMeta (theEC t)) = Finalizers (ecMeta (theEC s)) \<and>
     (if \<forall>e. Some e \<in> set rs \<longrightarrow> IsNotFound (errs E) e
      then res = (requeueAfter (30 * time_Second), None)
      else fst res = noResult \<and> snd res \<noteq> None)"
proof -
  let ?h = "trace s @ [EvListMachines UncachedClient (clName cluster) (Inr ms)]"
  let ?ds = "machinesToDelete E ?h ms"
  obtain rs where rs: "length rs = length ?ds" and run: "run_state (reconcileDelete E cluster) s =
      (if otherErrors E rs = []
       then (Done (requeueAfter (30 * time_Second), None),
         s\<lparr>trace := ?h @ map2 EvDeleteMachine ?ds rs, theEC := SetConditions (theEC s) (cond_MarkFalse (conds E)
           (?h @ map2 EvDeleteMachine ?ds rs) EtcdClusterResizeCompleted (DeletingReason (capi E)) ConditionSeverityInfo []
           (GetConditions (theEC s)))\<rparr>)
       else (Done (noResult, kerrors_NewAggregate (errs E) (map Some (otherErrors E rs))),
         s\<lparr>trace := (?h @ map2 EvDeleteMachine ?ds rs) @ [EvRecordEvent ''FailedDelete''
           (''Failed to delete etcd Machines for cluster '' @ Namespace (clMeta cluster) @ ''/'' @ clName cluster)]\<rparr>))"
    using run_reconcileDelete [OF sel lst some] by blast
  have "otherErrors E rs \<noteq> [] \<Longrightarrow> kerrors_NewAggregate (errs E) (map Some (otherErrors E rs)) \<noteq> None"
    using errors_lawsD(3) [OF errors, of "map Some (otherErrors E rs)"] by (cases "otherErrors E rs") auto
  moreover have "filter is_delete (events (reconcileDelete E cluster) s) = map2 EvDeleteMachine ?ds rs"
    by (simp add: events_def run filter_is_delete_map2)
  moreover note mset_machinesToDelete [OF laws, of ?h ms]
  ultimately show ?thesis
    using rs run unfolding otherErrors_none [symmetric]
    by (cases "otherErrors E rs = []") (auto intro!: exI [of _ ?ds] exI [of _ rs] simp: SetConditions_def)
qed

theorem reconcileDelete_deletes_all_witness:
  "\<exists>res t ds rs. run_state (reconcileDelete (listing [ref_machine ''m1'' ''10.0.0.1'']) ref_cluster) ref_sys = (Done res, t) \<and>
     filter is_delete (events (reconcileDelete (listing [ref_machine ''m1'' ''10.0.0.1'']) ref_cluster) ref_sys) =
       map2 EvDeleteMachine ds rs \<and>
     mset ds = mset (filter (\<lambda>m. DeletionTimestamp (mMeta m) = None) [ref_machine ''m1'' ''10.0.0.1'']) \<and>
     length rs = length ds \<and> Finalizers (ecMeta (theEC t)) = Finalizers (ecMeta (theEC ref_sys)) \<and>
     (if \<forall>e. Some e \<in> set rs \<longrightarrow> IsNotFound (errs (listing [ref_machine ''m1'' ''10.0.0.1''])) e
      then res = (requeueAfter (30 * time_Second), None)
      else fst res = noResult \<and> snd res \<noteq> None)"
  by (rule reconcileDelete_deletes_all
      [where E = "listing [ref_machine ''m1'' ''10.0.0.1'']" and s = ref_sys and cluster = ref_cluster
        and ms = "[ref_machine ''m1'' ''10.0.0.1'']"
        and sel = "ref_selector (clName ref_cluster) (Name (ecMeta (theEC ref_sys)))"]) simp_all

text \<open>C9: The finalizer goes only after the API server, asked without a
  cache, has answered that the cluster has no etcd machine left.\<close>

theorem finalizer_kept_until_empty:
  assumes "Finalizers (ecMeta (theEC (snd (run_state (reconcileDelete E cluster) s)))) \<noteq>
           Finalizers (ecMeta (theEC s))"
  shows "EvListMachines UncachedClient (clName cluster) (Inr []) \<in>
         set (events (reconcileDelete E cluster) s)"
proof (cases "EtcdMachinesSelectorForCluster E (clName cluster) (Name (ecMeta (theEC s)))")
  case None
  then show ?thesis
    using assms by (simp add: reconcileDelete_def listEtcdMachines_def run_simps)
next
  case (Some sel)
  let ?a = "k_ListMachines (svc E) (trace s) UncachedClient cluster (\<lambda>m. EtcdClusterMachines E sel (Some m))"
  show ?thesis
  proof (cases ?a)
    case (Inl e)
    then show ?thesis
      using assms Some by (simp add: reconcileDelete_def run_listEtcdMachines run_simps)
  next
    case (Inr ms)
    have "ms = []"
    proof (rule ccontr)
      assume "ms \<noteq> []"
      have keep: "run_state (deleteMachines E errors ds) t = (r, t') \<Longrightarrow> theEC t' = theEC t" for errors ds t r t'
        using run_deleteMachines [of E errors ds t] by auto
      have "Finalizers (ecMeta (theEC (snd (run_state (reconcileDelete E cluster) s)))) =
            Finalizers (ecMeta (theEC s))"
        using Some Inr \<open>ms \<noteq> []\<close>
        by (auto simp: reconcileDelete_def run_listEtcdMachines run_simps call_RecordEvent_def Let_def
            split: prod.splits outcome.splits dest!: keep)
      then show False using assms by simp
    qed
    then show ?thesis
      using Some Inr
      by (simp add: reconcileDelete_def run_listEtcdMachines run_simps events_def)
  qed
qed

theorem finalizer_kept_until_empty_witness:
  "EvListMachines UncachedClient (clName ref_cluster) (Inr []) \<in>
     set (events (reconcileDelete (listing []) ref_cluster) ref_sys)"
proof (rule finalizer_kept_until_empty)
  show "Finalizers (ecMeta (theEC (snd (run_state (reconcileDelete (listing []) ref_cluster) ref_sys)))) \<noteq>
      Finalizers (ecMeta (theEC ref_sys))"
    by (simp add: reconcileDelete_def run_listEtcdMachines run_simps ref_sys_def ref_ec_def ref_capi_def)
qed

section \<open>The gates\<close>

text \<open>A reconciliation whose Cluster is not there, has no infrastructure yet, or is
  paused makes two reads and nothing else: no call changes anything, and the result only asks for a
  retry after 5 seconds when the infrastructure is missing.\<close>

theorem Reconcile_gates:
  assumes ec: "k_GetEtcdadmCluster (svc E) (trace s) key = Inr ec"
    and cl: "k_GetOwnerCluster (svc E) (trace s @ [EvGetEtcdadmCluster key (Inr ec)]) (ecMeta ec) = Inr c"
    and gate: "case c of None \<Rightarrow> True
       | Some cluster \<Rightarrow> \<not> cluster_IsTrue (capi E) cluster (InfrastructureReadyCondition (capi E)) \<or>
                         annotations_IsPaused (capi E) cluster ec"
  shows "run_state (Reconcile E key) s =
     (Done (case c of None \<Rightarrow> noResult
        | Some cluster \<Rightarrow> if cluster_IsTrue (capi E) cluster (InfrastructureReadyCondition (capi E))
                          then noResult else requeueAfter (5 * time_Second), None),
      s\<lparr>trace := trace s @ [EvGetEtcdadmCluster key (Inr ec), EvGetOwnerCluster (ecMeta ec) (Inr c)],
        theEC := ec\<rparr>)"
  using assms
  by (auto simp: Reconcile_def reconcileObject_def call_GetEtcdadmCluster_def call_GetOwnerCluster_def run_simps
      split: option.splits)

definition gate_env :: env where
  "gate_env = with_svc (\<lambda>v. v\<lparr>k_GetEtcdadmCluster := (\<lambda>h k. Inr ref_ec),
     k_GetOwnerCluster := (\<lambda>h om. Inr (Some (ref_cluster\<lparr>clConditions := []\<rparr>)))\<rparr>)"

theorem Reconcile_gates_witness:
  "run_state (Reconcile gate_env \<lparr>keyNamespace = ''ns'', keyName = ''etcd''\<rparr>) ref_sys =
     (Done (requeueAfter (5 * time_Second), None),
      ref_sys\<lparr>trace := [EvGetEtcdadmCluster \<lparr>keyNamespace = ''ns'', keyName = ''etcd''\<rparr> (Inr ref_ec),
          EvGetOwnerCluster (ecMeta ref_ec) (Inr (Some (ref_cluster\<lparr>clConditions := []\<rparr>)))],
        theEC := ref_ec\<rparr>)"
  using Reconcile_gates [of gate_env ref_sys "\<lparr>keyNamespace = ''ns'', keyName = ''etcd''\<rparr>" ref_ec
      "Some (ref_cluster\<lparr>clConditions := []\<rparr>)"]
  by (simp add: gate_env_def ref_capi_def ref_sys_def)

text \<open>C19: The first reconciliation of an object only adds the finalizer: its one
  change to the outside is the patch of the object with the finalizer, and nothing is created
  before that patch has been accepted.\<close>

theorem finalizer_added_first:
  assumes ec: "k_GetEtcdadmCluster (svc E) (trace s) key = Inr ec"
    and laws: "finalizer_laws (capi E)"
    and missing: "EtcdadmClusterFinalizer \<notin> set (Finalizers (ecMeta ec))"
    and change: "e \<in> set (events (Reconcile E key) s)" "mutates e"
  shows "\<exists>ec' r. e = EvPatchEtcdadmCluster ec ec' r \<and>
     set (Finalizers (ecMeta ec')) = insert EtcdadmClusterFinalizer (set (Finalizers (ecMeta ec))) \<and>
     ecSpec ec' = ecSpec ec \<and> ecStatus ec' = ecStatus ec"
  using assms
  by (auto simp: Reconcile_def reconcileObject_def call_GetEtcdadmCluster_def call_GetOwnerCluster_def
      call_NewPatchHelper_def call_PatchEtcdadmCluster_def run_simps events_def finalizer_laws_def
      split: option.splits sum.splits if_splits)

definition bare_ec :: EtcdadmCluster where
  "bare_ec = ref_ec\<lparr>ecMeta := (ecMeta ref_ec)\<lparr>Finalizers := []\<rparr>\<rparr>"

definition bare_env :: env where
  "bare_env = with_svc (\<lambda>v. v\<lparr>k_GetEtcdadmCluster := (\<lambda>h k. Inr bare_ec),
     k_GetOwnerCluster := (\<lambda>h om. Inr (Some ref_cluster))\<rparr>)"

theorem finalizer_added_first_witness:
  "\<exists>ec' r. EvPatchEtcdadmCluster bare_ec ref_ec None = EvPatchEtcdadmCluster bare_ec ec' r \<and>
     set (Finalizers (ecMeta ec')) = insert EtcdadmClusterFinalizer (set (Finalizers (ecMeta bare_ec))) \<and>
     ecSpec ec' = ecSpec bare_ec \<and> ecStatus ec' = ecStatus bare_ec"
proof (rule finalizer_added_first [where E = bare_env and s = ref_sys and key = "\<lparr>keyNamespace = ''ns'', keyName = ''etcd''\<rparr>"])
  show "EvPatchEtcdadmCluster bare_ec ref_ec None \<in>
      set (events (Reconcile bare_env \<lparr>keyNamespace = ''ns'', keyName = ''etcd''\<rparr>) ref_sys)"
    by (simp add: Reconcile_def reconcileObject_def call_GetEtcdadmCluster_def call_GetOwnerCluster_def
        call_NewPatchHelper_def call_PatchEtcdadmCluster_def run_simps events_def bare_env_def
        bare_ec_def ref_defs)
qed (simp_all add: bare_env_def bare_ec_def)

section \<open>Rolling out\<close>

lemma events_done: "run_state m s = (r, t) \<Longrightarrow> events m s = drop (length (trace s)) (trace t)"
  by (simp add: events_def)

lemma reads_no_change:
  assumes "obeys reads m" and "run_state m s = (r, t)" and "e \<in> set (drop (length (trace s)) (trace t))"
  shows "\<not> mutates e"
  using obeysD [OF assms(1,2)] assms(3) by (auto simp: reads_def extends_def list_all_iff)

context collaborators
begin

lemma reads_waitForNewestMachine: "obeys reads (waitForNewestMachine E cluster ep)"
  unfolding waitForNewestMachine_def call_Now_def
  by (intro read_intros checker.check_reads) simp_all

text \<open>An upgrade in progress goes on only when its newest machine is old enough and healthy.\<close>

lemma waitForNewestMachine_goes_on:
  assumes "run_state (waitForNewestMachine E cluster ep) s = (Done None, t)"
  shows "\<exists>newest. NewestUpToDateMachine E ep = Some newest \<and>
     CreationTimestamp (mMeta newest) + 60 * time_Second \<le> t_Now (svc E) (trace s) \<and>
     getEtcdMachineAddress newest \<noteq> [] \<and>
     fst (run_state (performEndpointHealthCheck E cluster
            (getMemberClientURL (getEtcdMachineAddress newest)) True)
          (s\<lparr>trace := trace s @ [EvNow (t_Now (svc E) (trace s))]\<rparr>)) = Done None"
  using assms
  by (auto simp: waitForNewestMachine_def run_simps call_Now_def Let_def minEtcdMemberReadySeconds_def
      split: option.splits if_splits prod.splits outcome.splits)

end

text \<open>C10: A rollout changes anything outside only when the cluster has
  no more machines than its outdated ones plus the replicas wanted; and when an upgrade is already
  under way and there is a machine with the new spec, only when the newest machine with the new spec is at least 60 seconds old, has an
  address and has just passed a health check. Otherwise it only waits.\<close>

theorem rollout_proceeds_only_when_safe:
  assumes "e \<in> set (events (rolloutCase (SetupWithManager_env E None) cluster ep needRollout
             numAll numOutOfDate desired) s)"
    and "mutates e"
  shows "numAll \<le> numOutOfDate + desired \<and>
     (if IsFalse E (theEC s) EtcdMachinesSpecUpToDateCondition \<and> UpToDateMachines E ep \<noteq> []
      then \<exists>newest. NewestUpToDateMachine E ep = Some newest \<and>
        CreationTimestamp (mMeta newest) + 60 * time_Second \<le> t_Now (svc E) (trace s) \<and>
        getEtcdMachineAddress newest \<noteq> [] \<and>
        fst (run_state (performEndpointHealthCheck (SetupWithManager_env E None) cluster
               (getMemberClientURL (getEtcdMachineAddress newest)) True)
             (s\<lparr>trace := trace s @ [EvNow (t_Now (svc E) (trace s))]\<rparr>)) = Done None
      else True)"
proof -
  let ?E = "SetupWithManager_env E None"
  have fields: "NewestUpToDateMachine ?E ep = NewestUpToDateMachine E ep"
    "UpToDateMachines ?E ep = UpToDateMachines E ep" "IsFalse ?E = IsFalse E"
    by (simp_all add: NewestUpToDateMachine_def UpToDateMachines_def MachinesNeedingRollout_def
        MatchesEtcdadmClusterConfiguration_def MatchesTemplateClonedFrom_def IsFalse_def fun_eq_iff
        cong: option.case_cong)
  have cap: "numAll \<le> numOutOfDate + desired"
    using assms by (auto simp: rolloutCase_def run_simps events_def split: if_splits)
  moreover have "\<exists>newest. NewestUpToDateMachine E ep = Some newest \<and>
        CreationTimestamp (mMeta newest) + 60 * time_Second \<le> t_Now (svc E) (trace s) \<and>
        getEtcdMachineAddress newest \<noteq> [] \<and>
        fst (run_state (performEndpointHealthCheck ?E cluster
               (getMemberClientURL (getEtcdMachineAddress newest)) True)
             (s\<lparr>trace := trace s @ [EvNow (t_Now (svc E) (trace s))]\<rparr>)) = Done None"
    if wait: "IsFalse E (theEC s) EtcdMachinesSpecUpToDateCondition" "UpToDateMachines E ep \<noteq> []"
  proof -
    obtain r t where run: "run_state (waitForNewestMachine ?E cluster ep) s = (r, t)" by fastforce
    have "r = Done None"
    proof (rule ccontr)
      assume "r \<noteq> Done None"
      then have "events (rolloutCase ?E cluster ep needRollout numAll numOutOfDate desired) s =
          drop (length (trace s)) (trace t)"
        using run wait cap
        by (auto simp: rolloutCase_def run_simps events_def fields split: outcome.splits option.splits)
      then show False
        using reads_no_change [OF wired.reads_waitForNewestMachine run] assms by simp
    qed
    with run have "run_state (waitForNewestMachine ?E cluster ep) s = (Done None, t)" by simp
    from wired.waitForNewestMachine_goes_on [OF this] show ?thesis by (simp add: fields)
  qed
  ultimately show ?thesis by simp
qed

definition ref_plane :: "Machines \<Rightarrow> EtcdPlane" where
  "ref_plane ms = \<lparr>EC = ref_ec, epCluster = ref_cluster, epMachines = ms, machinesPatchHelpers = [],
     etcdadmConfigs = Map.empty, infraResources = Map.empty\<rparr>"

definition demo_rollout :: "reconcile_result io" where
  "demo_rollout = rolloutCase (SetupWithManager_env ref_env None) ref_cluster
     (ref_plane [ref_machine ''m1'' ''10.0.0.1'']) [ref_machine ''m1'' ''10.0.0.1''] 1 1 3"

lemma demo_rollout_acts: "list_ex mutates (events demo_rollout ref_sys)"
  by code_simp

theorem rollout_proceeds_only_when_safe_witness:
  "\<exists>e \<in> set (events demo_rollout ref_sys). mutates e \<and> (1::int) \<le> 1 + 3"
proof -
  obtain e where "e \<in> set (events demo_rollout ref_sys)" "mutates e"
    using demo_rollout_acts by (auto simp: list_ex_iff)
  then show ?thesis
    using rollout_proceeds_only_when_safe [of e ref_env ref_cluster
        "ref_plane [ref_machine ''m1'' ''10.0.0.1'']" "[ref_machine ''m1'' ''10.0.0.1'']" 1 1 3 ref_sys]
    unfolding demo_rollout_def by blast
qed

section \<open>What a whole run may change\<close>

text \<open>C7: One pass of \<open>reconcile\<close> creates or disowns at most one
  machine, and when it does, it removes no etcd member and deletes no machine.\<close>

theorem reconcile_changes_at_most_one_machine:
  "single changesMachines (events (reconcile (SetupWithManager_env E None) cluster) s)"
  by (rule appends_events) (rule wired.reconcile_single)

lemma emits_deferredStatus:
  assumes checks: "\<And>e. \<not> mutates e \<Longrightarrow> P e" and "\<And>m r. P (EvUpdateMachine m r)" "\<And>x r. P (EvUpdateSecret x r)"
    "\<And>a b r. P (EvPatchEtcdadmCluster a b r)"
  shows "emits P (deferredStatus (SetupWithManager_env E None) base cluster result)"
  unfolding deferredStatus_def patchEtcdCluster_def setReady_def call_PatchEtcdadmCluster_def
  by (intro stage_intros reads_emits [OF wired.reads_checkOwnedMachines]
      emits_updateMachinesEtcdReadyLabel emits_updateStatus assms) simp_all

lemma safe_deferred:
  "obeys (appends (safe_removals url)) (deferredStatus (SetupWithManager_env E None) base cluster result)"
  by (intro guarded_if_free emits_deferredStatus) simp_all

text \<open>C6: In a reconciliation of a cluster that is not being deleted, whatever
  the API server, etcd and the network answer: an etcd member is removed only from a member list of
  at least two that the same client has just read, and a machine is deleted only right after the
  member at its peer URL was removed without error, or right after a member list without such a
  member.\<close>

theorem Reconcile_removals_safe:
  assumes live: "case k_GetEtcdadmCluster (svc E) (trace s) key of
     Inl _ \<Rightarrow> True | Inr ec \<Rightarrow> DeletionTimestamp (ecMeta ec) = None"
  shows "safe_removals (\<lambda>m. peerURLOf (getEtcdMachineAddress m))
           (events (Reconcile (SetupWithManager_env E None) key) s)"
proof (cases "k_GetEtcdadmCluster (svc E) (trace s) key")
  case (Inl e)
  then show ?thesis
    by (simp add: Reconcile_def reconcileObject_def call_GetEtcdadmCluster_def run_simps events_def safe_removals_def)
next
  case (Inr ec)
  let ?E = "SetupWithManager_env E None"
  let ?s1 = "s\<lparr>trace := trace s @ [EvGetEtcdadmCluster key (Inr ec)]\<rparr>"
  let ?url = "\<lambda>m. peerURLOf (getEtcdMachineAddress m)"
  let ?rest = "seq (modifyEC (\<lambda>_. ec))
         (tryErr (call_GetOwnerCluster ?E (ecMeta ec)) (\<lambda>e. (noResult, Some e)) (\<lambda>c.
          case c of None \<Rightarrow> ret (noResult, None) | Some cluster \<Rightarrow> reconcileObject ?E ec cluster))"
  have run: "run_state (Reconcile ?E key) s = run_state ?rest ?s1"
    using Inr by (simp add: Reconcile_def call_GetEtcdadmCluster_def run_bnd)
  have "obeys (appends (safe_removals ?url)) ?rest"
    using Inr live
    unfolding reconcileObject_def call_GetOwnerCluster_def call_NewPatchHelper_def
      call_PatchEtcdadmCluster_def
    by (intro guarding.prog_intros removals.of_EC safe_deferred guarded_if_free [OF emits_call])
      (simp_all add: wired.reconcile_guarded)
  then have "appends (safe_removals ?url) ?s1 (snd (run_state ?rest ?s1))"
    by (simp add: obeys_def)
  then obtain es where es: "trace (snd (run_state ?rest ?s1)) = trace ?s1 @ es" "safe_removals ?url es"
    by (auto simp: appends_def)
  then have "events (Reconcile ?E key) s = EvGetEtcdadmCluster key (Inr ec) # es"
    using run by (simp add: events_def)
  with es(2) show ?thesis
    by (simp add: safe_removals_def)
qed

definition upgraded_ec :: EtcdadmCluster where
  "upgraded_ec = ref_ec\<lparr>ecMeta := (ecMeta ref_ec)\<lparr>Annotations := Some [''upgrade-complete'' \<mapsto> []]\<rparr>\<rparr>"

definition outdated_machine :: Machine where
  "outdated_machine = (let m = ref_machine ''old'' ''10.0.0.9'' in
     m\<lparr>mMeta := (mMeta m)\<lparr>OwnerReferences := []\<rparr>\<rparr>)"

text \<open>An upgraded cluster with one owned machine and one outdated one, both members of etcd.\<close>

definition upgraded_env :: env where
  "upgraded_env = with_svc (\<lambda>v. v
     \<lparr>k_GetEtcdadmCluster := (\<lambda>h k. Inr upgraded_ec),
      k_GetOwnerCluster := (\<lambda>h om. Inr (Some ref_cluster)),
      k_ExternalGet := (\<lambda>h r. Inr \<lparr>infMeta = ref_meta ''tmpl'', infAPIVersion = [], infKind = []\<rparr>),
      k_ListMachines := (\<lambda>h rd cl f. Inr [ref_machine ''m1'' ''10.0.0.1'', outdated_machine]),
      e_MemberList := (\<lambda>h c. Inr
        [\<lparr>memberID = 1, memberName = ''m1'', memberPeerURLs = [''https://10.0.0.1:2380'']\<rparr>,
         \<lparr>memberID = 9, memberName = ''old'', memberPeerURLs = [''https://10.0.0.9:2380'']\<rparr>])\<rparr>)"

theorem Reconcile_removals_safe_witness:
  "safe_removals (\<lambda>m. peerURLOf (getEtcdMachineAddress m))
     (events (Reconcile (SetupWithManager_env upgraded_env None) \<lparr>keyNamespace = ''ns'', keyName = ''etcd''\<rparr>) ref_sys)"
  by (rule Reconcile_removals_safe) (simp add: upgraded_env_def upgraded_ec_def ref_ec_def ref_meta_def)

text \<open>However it ends, a reconciliation asks for at most one new
  machine, and if it does, it has removed no member and deleted no machine.\<close>

theorem Reconcile_creates_at_most_one:
  "single is_create (events (Reconcile (SetupWithManager_env E None) key) s)"
proof -
  let ?E = "SetupWithManager_env E None"
  have deferred: "emits (harmless is_create) (deferredStatus ?E base cluster result)" for base cluster result
    by (intro emits_deferredStatus) (simp_all add: harmless_if_reads harmless_def)
  have weaken: "single changesMachines es \<Longrightarrow> single is_create es" for es
  proof -
    assume single: "single changesMachines es"
    have "length (filter is_create es) \<le> length (filter changesMachines es)"
      by (induction es) (auto simp: changesMachines_def)
    moreover have "list_ex is_create es \<Longrightarrow> list_ex changesMachines es"
      by (auto simp: list_ex_iff changesMachines_def)
    ultimately show "single is_create es" using single by (auto simp: single_def)
  qed
  have rec: "obeys (appends (single is_create)) (reconcile ?E cluster)" for cluster
    using wired.reconcile_single weaken unfolding obeys_def appends_def by blast
  have del: "emits (\<lambda>e. \<not> is_create e) (deleteMachines ?E errors ms)" for errors ms
    by (induction ms arbitrary: errors) (auto simp: call_DeleteMachine_def intro!: emit_intros)
  have rdel: "obeys (appends (single is_create)) (reconcileDelete ?E cluster)" for cluster
    unfolding reconcileDelete_def call_RecordEvent_def
    by (intro single_if_emits_none emit_intros emits_listEtcdMachines del) simp_all
  have "obeys (appends (single is_create)) (Reconcile ?E key)"
    unfolding Reconcile_def reconcileObject_def call_GetEtcdadmCluster_def call_GetOwnerCluster_def
      call_NewPatchHelper_def call_PatchEtcdadmCluster_def
    by (intro one.tail_intros one.of_withDefer rec rdel deferred stage_intros)
      (simp_all add: harmless_def)
  then show ?thesis by (rule appends_events)
qed

section \<open>The deferred status update\<close>

fun is_patch :: "event \<Rightarrow> bool" where
  "is_patch (EvPatchEtcdadmCluster _ _ _) = True"
| "is_patch _ = False"

lemma kerrors_cons:
  "errors_laws A \<Longrightarrow> kerrors_NewAggregate A [r, Some e] \<noteq> None"
  by (simp add: errors_lawsD)

lemma aggregate_Some: "errors_laws (errs E) \<Longrightarrow> a \<noteq> None \<or> b \<noteq> None \<Longrightarrow> aggregate E a b \<noteq> None"
  by (cases b) (auto simp: aggregate_def errors_lawsD)

lemma aggregate_none: "errors_laws (errs E) \<Longrightarrow> (aggregate E a b = None) = (a = None \<and> b = None)"
  by (cases b) (auto simp: aggregate_def errors_lawsD)

text \<open>Once the machines have been read, the deferred function labels them, updates the status and ends with the patch.\<close>

lemma deferred_patches:
  assumes run: "run_state (deferredStatus E base cluster result) s = (Done (res, err), t)"
    and check: "run_state (checkOwnedMachines E cluster) s = (Done (Inr ms), s1)"
  shows "\<exists>e1 s2 e2 s3 a. run_state (updateMachinesEtcdReadyLabel E ms) s1 = (Done e1, s2) \<and>
     run_state (updateStatus E cluster ms) s2 = (Done e2, s3) \<and> extends (\<lambda>e. \<not> is_patch e) s1 s3 \<and>
     trace t = trace s3 @ [EvPatchEtcdadmCluster base (theEC t) a] \<and>
     err = aggregate E (aggregate E (aggregate E (snd result) e1) e2) a"
proof -
  obtain e1 s2 where l: "run_state (updateMachinesEtcdReadyLabel E ms) s1 = (Done e1, s2)"
    and "\<exists>e2 s3. run_state (updateStatus E cluster ms) s2 = (Done e2, s3)"
    using run check by (auto simp: deferredStatus_def run_simps split: prod.splits outcome.splits)
  then obtain e2 s3 where u: "run_state (updateStatus E cluster ms) s2 = (Done e2, s3)" by blast
  have "extends (\<lambda>e. \<not> is_patch e) s1 s2" "extends (\<lambda>e. \<not> is_patch e) s2 s3"
    using obeysD [OF emits_updateMachinesEtcdReadyLabel l] obeysD [OF emits_updateStatus u] by simp_all
  then have "extends (\<lambda>e. \<not> is_patch e) s1 s3" by (rule emit.trans)
  moreover have "\<exists>a. trace t = trace s3 @ [EvPatchEtcdadmCluster base (theEC t) a] \<and>
      err = aggregate E (aggregate E (aggregate E (snd result) e1) e2) a"
    using run check l u
    by (auto simp: deferredStatus_def patchEtcdCluster_def call_PatchEtcdadmCluster_def
        onlyIf_def setReady_def run_simps deferredRequeue_def split: if_splits)
  ultimately show ?thesis using l u by blast
qed

text \<open>C15: What the deferred function does with the result of a reconciliation, which is
  its argument. Either the owned machines cannot be read: then nothing is changed outside, the result
  stays as it is and an error is returned. Or they are read, labelled, and their status is taken into
  the object; then the last call is the patch of the object to the state it has by then, and the only
  one. In that case no error is lost and none made up: one is returned exactly if the reconciliation,
  the labelling, the status update or the patch returned one.\<close>

theorem status_patched_last:
  assumes run: "run_state (deferredStatus (SetupWithManager_env E None) base cluster result) s = (Done (res, err), t)"
    and laws: "errors_laws (errs E)"
  shows "(\<exists>e. run_state (checkOwnedMachines (SetupWithManager_env E None) cluster) s = (Done (Inl e), t) \<and>
            list_all (\<lambda>e. \<not> mutates e) (events (deferredStatus (SetupWithManager_env E None) base cluster result) s) \<and>
            res = fst result \<and> err \<noteq> None) \<or>
         (\<exists>ms s1 e1 s2 e2 s3 es a.
            run_state (checkOwnedMachines (SetupWithManager_env E None) cluster) s = (Done (Inr ms), s1) \<and>
            run_state (updateMachinesEtcdReadyLabel (SetupWithManager_env E None) ms) s1 = (Done e1, s2) \<and>
            run_state (updateStatus (SetupWithManager_env E None) cluster ms) s2 = (Done e2, s3) \<and>
            events (deferredStatus (SetupWithManager_env E None) base cluster result) s =
              es @ [EvPatchEtcdadmCluster base (theEC t) a] \<and> list_all (\<lambda>e. \<not> is_patch e) es \<and>
            (err = None) = (snd result = None \<and> e1 = None \<and> e2 = None \<and> a = None))"
proof -
  let ?E = "SetupWithManager_env E None"
  obtain c s1 where check: "run_state (checkOwnedMachines ?E cluster) s = (c, s1)" by fastforce
  then have s1: "extends (\<lambda>e. \<not> mutates e) s s1"
    using obeysD [OF wired.reads_checkOwnedMachines] by (simp add: reads_def)
  have not_patch: "\<not> mutates e \<Longrightarrow> \<not> is_patch e" for e by (cases e) simp_all
  consider (panic) msg where "c = Panic msg" | (failed) e where "c = Done (Inl e)" | (read) ms where "c = Done (Inr ms)"
    by (metis outcome.exhaust sum.exhaust)
  then show ?thesis
  proof cases
    case panic
    then show ?thesis using run check by (simp add: deferredStatus_def run_simps)
  next
    case (failed e)
    then have "t = s1" "res = fst result" "err = kerrors_NewAggregate (errs E) [snd result, Some e]"
      using run check by (auto simp: deferredStatus_def run_simps)
    then show ?thesis using s1 run laws check failed
      by (intro disjI1 exI [of _ e]) (auto simp: extends_def events_def kerrors_cons)
  next
    case read
    from deferred_patches [OF run check [unfolded read]] obtain e1 s2 e2 s3 a where
      d: "extends (\<lambda>e. \<not> is_patch e) s1 s3" "trace t = trace s3 @ [EvPatchEtcdadmCluster base (theEC t) a]"
      "err = aggregate ?E (aggregate ?E (aggregate ?E (snd result) e1) e2) a"
      and runs: "run_state (updateMachinesEtcdReadyLabel ?E ms) s1 = (Done e1, s2)"
        "run_state (updateStatus ?E cluster ms) s2 = (Done e2, s3)" by blast
    have "extends (\<lambda>e. \<not> is_patch e) s s3" by (rule emit.trans [OF extends_mono [OF s1 not_patch] d(1)])
    then obtain es where es: "trace s3 = trace s @ es" "list_all (\<lambda>e. \<not> is_patch e) es" by (auto simp: extends_def)
    then have "events (deferredStatus ?E base cluster result) s = es @ [EvPatchEtcdadmCluster base (theEC t) a]"
      using d(2) run by (simp add: events_def)
    moreover have "(err = None) = (snd result = None \<and> e1 = None \<and> e2 = None \<and> a = None)"
      using laws by (simp add: d(3) aggregate_none)
    ultimately show ?thesis using check [unfolded read] runs es(2) by blast
  qed
qed

lemma countReady_Nil [simp]: "countReady [] = 0"
  by (simp add: countReady_def)

lemma deferredStatus_no_machines:
  "\<exists>err t. run_state (deferredStatus (SetupWithManager_env (listing []) None) ref_ec ref_cluster (noResult, None)) ref_sys =
     (Done (requeueAfter (20 * time_Second), err), t)"
  by (simp add: deferredStatus_def checkOwnedMachines_def getCurrentOwnedMachines_def
      run_listEtcdMachines updateMachinesEtcdReadyLabel_def updateStatus_def patchEtcdCluster_def
      call_PatchEtcdadmCluster_def onlyIf_def setReady_def deferredRequeue_def run_simps
      go_range_def ref_sys_def ref_ec_def ref_svc_def ref_collections_def ref_capi_def ref_meta_def
      noResult_def aggregate_def SetConditions_def)

theorem status_patched_last_witness:
  "\<exists>res err t. run_state (deferredStatus (SetupWithManager_env (listing []) None) ref_ec ref_cluster (noResult, None)) ref_sys =
     (Done (res, err), t) \<and>
     (err \<noteq> None \<or>
      (\<exists>es. events (deferredStatus (SetupWithManager_env (listing []) None) ref_ec ref_cluster (noResult, None)) ref_sys =
              es @ [EvPatchEtcdadmCluster ref_ec (theEC t) None]))"
proof -
  obtain err t where run: "run_state (deferredStatus (SetupWithManager_env (listing []) None) ref_ec ref_cluster (noResult, None)) ref_sys =
     (Done (requeueAfter (20 * time_Second), err), t)"
    using deferredStatus_no_machines by blast
  show ?thesis
    using run status_patched_last [OF run] by (cases err) auto
qed

text \<open>The deferred function requeues what it leaves unready.\<close>

lemma deferred_requeues:
  assumes run: "run_state (deferredStatus E base cluster result) s = (Done (res, None), t)"
    and laws: "errors_laws (errs E)"
    and live: "DeletionTimestamp (ecMeta (theEC t)) = None" and unready: "\<not> Ready (ecStatus (theEC t))"
  shows "Requeue res \<or> RequeueAfter res > 0"
proof -
  obtain r s1 where c: "run_state (checkOwnedMachines E cluster) s = (r, s1)" by fastforce
  have "\<exists>r. deferredRequeue (theEC t) r = (res, None)"
    using run c laws
    by (auto simp: deferredStatus_def run_simps kerrors_cons
        split: prod.splits outcome.splits sum.splits)
  then show ?thesis
    using live unready
    by (auto simp: deferredRequeue_def requeueAfter_def time_Second_def split: if_splits prod.splits)
qed

section \<open>Creation is never undone\<close>

text \<open>\<open>CreationComplete\<close>, once set, stays set, in memory and in every patch sent; and nothing marks the
  object in memory as deleted, or takes that mark away.\<close>

definition stays_complete :: "sys \<Rightarrow> sys \<Rightarrow> bool" where
  "stays_complete s s' = (DeletionTimestamp (ecMeta (theEC s')) = DeletionTimestamp (ecMeta (theEC s)) \<and>
     (if CreationComplete (ecStatus (theEC s)) then
     CreationComplete (ecStatus (theEC s')) \<and>
     extends (\<lambda>e. case e of EvPatchEtcdadmCluster _ ec _ \<Rightarrow> CreationComplete (ecStatus ec) | _ \<Rightarrow> True) s s' else True))"

interpretation complete: step_order stays_complete
  by unfold_locales (auto simp: stays_complete_def intro: emit.refl emit.trans split: if_splits)

lemma complete_call: "(\<And>r. \<not> is_patch (ev r)) \<Longrightarrow> obeys stays_complete (call ev f)"
proof (rule obeysI)
  fix s :: sys assume "\<And>r. \<not> is_patch (ev r)"
  then have "\<not> is_patch (ev (f (trace s)))" by blast
  then show "stays_complete s (snd (run_state (call ev f) s))"
    by (cases "ev (f (trace s))") (simp_all add: stays_complete_def extends_def)
qed

lemma complete_if_emits:
  assumes "emits (\<lambda>e. \<not> is_patch e) m" and "obeys (keeps theEC) m" shows "obeys stays_complete m"
proof (rule obeysI)
  fix s :: sys
  obtain r t where run: "run_state m s = (r, t)" by fastforce
  have "extends (\<lambda>e. case e of EvPatchEtcdadmCluster _ ec _ \<Rightarrow> CreationComplete (ecStatus ec) | _ \<Rightarrow> True) s t"
    using obeysD [OF assms(1) run] by (rule extends_mono) (auto split: event.splits)
  then show "stays_complete s (snd (run_state m s))"
    using obeysD [OF assms(2) run] run by (simp add: stays_complete_def keeps_def)
qed

lemma complete_if_reads: "obeys reads m \<Longrightarrow> obeys stays_complete m"
proof -
  assume m: "obeys reads m"
  have "\<not> mutates e \<Longrightarrow> \<not> is_patch e" for e by (cases e) simp_all
  then show ?thesis
    by (intro complete_if_emits reads_emits [OF m] reads_keeps_theEC [OF m])
qed

lemma complete_modify:
  "(\<And>s. trace (g s) = trace s \<and> DeletionTimestamp (ecMeta (theEC (g s))) = DeletionTimestamp (ecMeta (theEC s)) \<and>
     (CreationComplete (ecStatus (theEC s)) \<longrightarrow> CreationComplete (ecStatus (theEC (g s))))) \<Longrightarrow>
   obeys stays_complete (modify g)"
  by (rule obeysI) (simp add: stays_complete_def extends_def)

lemma complete_EC:
  "(\<And>ec. CreationComplete (ecStatus ec) \<Longrightarrow> CreationComplete (ecStatus (g ec))) \<Longrightarrow>
   (\<And>ec. DeletionTimestamp (ecMeta (g ec)) = DeletionTimestamp (ecMeta ec)) \<Longrightarrow> obeys stays_complete (modifyEC g)"
  "(\<And>st. CreationComplete st \<Longrightarrow> CreationComplete (f st)) \<Longrightarrow> obeys stays_complete (modifyStatus f)"
  "obeys stays_complete (MarkTrue E t)" "obeys stays_complete (MarkFalse E t reason severity msg)"
  "obeys stays_complete (SetSummary E ts)"
  by (simp_all add: obeys_def stays_complete_def extends_def)

lemma complete_onlyIf: "obeys stays_complete m \<Longrightarrow> obeys stays_complete (onlyIf b m)"
  unfolding onlyIf_def by (intro complete.prog_intros)

lemma complete_deleteAnnotation: "obeys stays_complete (deleteAnnotation k)"
  unfolding deleteAnnotation_def by (rule complete_EC) simp_all

lemmas complete_intros =
  complete.prog_intros complete_EC complete_onlyIf complete_deleteAnnotation complete_call

lemma complete_patch:
  "obeys stays_complete (bnd (gets theEC) (\<lambda>ec. checkErr (call_PatchEtcdadmCluster E base ec) h (ret x)))"
  "obeys stays_complete (bnd (gets theEC) (\<lambda>ec. call_PatchEtcdadmCluster E base ec))"
  by (auto simp: obeys_def run_simps call_PatchEtcdadmCluster_def stays_complete_def extends_def
      split: option.splits)

lemma complete_certs: "obeys stays_complete (generateCAandClientCertSecrets E cluster)"
  unfolding generateCAandClientCertSecrets_def call_defs by (intro complete_intros) simp_all

lemma complete_clone: "obeys stays_complete (cloneConfigsAndGenerateMachine E cluster fd)"
  unfolding cloneConfigsAndGenerateMachine_def generateEtcdadmConfig_def generateMachine_def call_defs
  by (intro complete_intros) simp_all

lemma complete_upgrade: "obeys stays_complete (upgradeEtcdCluster E cluster ep ms)"
  unfolding upgradeEtcdCluster_def scaleUpEtcdCluster_def withoutResult_def
    removeFromListOfOwnedMachines_def call_UpdateMachine_def
  by (auto split: outcome.splits sum.splits intro!: complete_intros complete_clone)

lemma complete_deleteMachines: "obeys stays_complete (deleteMachines E errors ms)"
  by (induction ms arbitrary: errors) (auto simp: call_DeleteMachine_def intro!: complete_intros)

lemma complete_reconcileDelete: "obeys stays_complete (reconcileDelete E cluster)"
  unfolding reconcileDelete_def call_RecordEvent_def
  by (intro complete_intros complete_deleteMachines complete_if_reads [OF reads_listEtcdMachines]
      complete_if_reads [OF reads_range_over]) simp_all

context collaborators
begin

lemma complete_remove: "obeys stays_complete (removeEtcdMachine E cluster m addr)"
proof (rule complete_if_emits)
  have "is_delete e \<or> is_remove e \<Longrightarrow> \<not> is_patch e" "\<not> mutates e \<Longrightarrow> \<not> is_patch e" for e
    by (cases e; simp)+
  then show "emits (\<lambda>e. \<not> is_patch e) (removeEtcdMachine E cluster m addr)"
    by (intro remover.remove_emits) simp_all
qed (rule remover.remove_keeps_theEC)

lemma complete_scaleDown: "obeys stays_complete (scaleDownEtcdCluster E cluster ep ms)"
  unfolding scaleDownEtcdCluster_def
  by (auto split: outcome.splits sum.splits intro!: complete_intros complete_remove)

lemma complete_outdated: "obeys stays_complete (outdatedStage E cluster ms owned)"
  unfolding outdatedStage_def removeOutdated_def
  by (intro complete_intros complete_remove complete_if_reads [OF reads_range_over])

lemma complete_rollout: "obeys stays_complete (rolloutStage E cluster ep ms n m d)"
  unfolding rolloutStage_def rolloutCase_def rolloutDone_def
  by (intro complete_intros complete_upgrade complete_certs
      complete_if_reads [OF reads_waitForNewestMachine])

lemma complete_scale: "obeys stays_complete (scaleStage E cluster ep n m d)"
  unfolding scaleStage_def intializeEtcdCluster_def scaleUpEtcdCluster_def
  by (intro complete_intros complete_certs complete_clone complete_scaleDown)

lemma complete_reconcile: "obeys stays_complete (reconcile E cluster)"
  unfolding reconcile_def reconcileExternalReference_def call_defs
  by (intro complete_intros complete_outdated complete_rollout complete_scale
      complete_if_reads [OF reads_listEtcdMachines] complete_if_reads [OF reads_NewEtcdPlane]) simp_all

lemma complete_updateStatus: "obeys stays_complete (updateStatus E cluster ms)"
proof -
  have "obeys stays_complete (firstUnhealthy ns)" for ns
    by (induction ns) (auto simp: setReady_def intro!: complete_intros)
  then show ?thesis
    unfolding updateStatus_def updateEndpoints_def updateInitSecret_def setReady_def
      call_GetSecret_def call_UpdateSecret_def
    by (intro complete_intros complete_if_reads [OF reads_range_over]) simp_all
qed

lemma complete_deferred: "obeys stays_complete (deferredStatus E base cluster result)"
  unfolding deferredStatus_def patchEtcdCluster_def setReady_def
  by (intro complete_intros complete_patch complete_updateStatus
      complete_if_reads [OF reads_checkOwnedMachines]
      complete_if_emits [OF emits_updateMachinesEtcdReadyLabel updateMachinesEtcdReadyLabel_keeps_theEC])
    simp_all

lemma complete_reconcileObject: "obeys stays_complete (reconcileObject E ec cluster)"
  unfolding reconcileObject_def call_NewPatchHelper_def
  by (intro complete_intros complete_patch complete_reconcile complete_reconcileDelete complete_deferred)
    simp_all

end

text \<open>C17: When the object read says that its creation is complete, so does
  the object in memory at the end of the reconciliation, and every patch sent during it.\<close>

theorem CreationComplete_never_unset:
  assumes ec: "k_GetEtcdadmCluster (svc E) (trace s) key = Inr ec"
    and complete: "CreationComplete (ecStatus ec)"
  shows "CreationComplete (ecStatus (theEC (snd (run_state (Reconcile (SetupWithManager_env E None) key) s)))) \<and>
     (\<forall>base ec' r. EvPatchEtcdadmCluster base ec' r \<in> set (events (Reconcile (SetupWithManager_env E None) key) s) \<longrightarrow>
        CreationComplete (ecStatus ec'))"
proof -
  let ?E = "SetupWithManager_env E None"
  let ?s1 = "s\<lparr>trace := trace s @ [EvGetEtcdadmCluster key (Inr ec)], theEC := ec\<rparr>"
  let ?rest = "tryErr (call_GetOwnerCluster ?E (ecMeta ec)) (\<lambda>e. (noResult, Some e)) (\<lambda>c.
     case c of None \<Rightarrow> ret (noResult, None) | Some cluster \<Rightarrow> reconcileObject ?E ec cluster)"
  have run: "run_state (Reconcile ?E key) s = run_state ?rest ?s1"
    using ec by (simp add: Reconcile_def call_GetEtcdadmCluster_def run_bnd run_seq)
  have "obeys stays_complete ?rest"
    unfolding call_GetOwnerCluster_def
    by (intro complete_intros wired.complete_reconcileObject) simp_all
  then have "stays_complete ?s1 (snd (run_state ?rest ?s1))" by (simp add: obeys_def)
  then obtain es where "trace (snd (run_state ?rest ?s1)) = trace ?s1 @ es"
      "list_all (\<lambda>e. case e of EvPatchEtcdadmCluster _ ec _ \<Rightarrow> CreationComplete (ecStatus ec) | _ \<Rightarrow> True) es"
      "CreationComplete (ecStatus (theEC (snd (run_state ?rest ?s1))))"
    using complete by (auto simp: stays_complete_def extends_def)
  then show ?thesis
    using run by (fastforce simp: events_def list_all_iff)
qed

theorem CreationComplete_never_unset_witness:
  "CreationComplete (ecStatus (theEC (snd (run_state (Reconcile (SetupWithManager_env upgraded_env None)
      \<lparr>keyNamespace = ''ns'', keyName = ''etcd''\<rparr>) ref_sys))))"
  using CreationComplete_never_unset [of upgraded_env ref_sys "\<lparr>keyNamespace = ''ns'', keyName = ''etcd''\<rparr>" upgraded_ec]
  by (simp add: upgraded_env_def upgraded_ec_def ref_ec_def)

section \<open>Looking again\<close>

text \<open>C20: A reconciliation of an object that is not being deleted and has the finalizer,
  whose Cluster exists and is not paused, that reports no error and leaves the object unready, asks to
  be run again, at once or after a positive delay, however it went.\<close>

theorem unready_is_requeued:
  assumes run: "run_state (Reconcile (SetupWithManager_env E None) key) s = (Done (res, None), t)"
    and laws: "errors_laws (errs E)"
    and ec: "k_GetEtcdadmCluster (svc E) (trace s) key = Inr ec"
    and owner: "k_GetOwnerCluster (svc E) (trace s @ [EvGetEtcdadmCluster key (Inr ec)]) (ecMeta ec) = Inr (Some cluster)"
    and active: "\<not> annotations_IsPaused (capi E) cluster ec"
    and known: "ContainsFinalizer (capi E) (Finalizers (ecMeta ec)) EtcdadmClusterFinalizer"
    and live: "DeletionTimestamp (ecMeta ec) = None" and unready: "\<not> Ready (ecStatus (theEC t))"
  shows "Requeue res \<or> RequeueAfter res > 0"
proof -
  let ?E = "SetupWithManager_env E None" and ?h = "trace s @ [EvGetEtcdadmCluster key (Inr ec)]"
  let ?s = "s\<lparr>theEC := ec, trace := ?h @ [EvGetOwnerCluster (ecMeta ec) (Inr (Some cluster))]\<rparr>"
  have go: "run_state (reconcileObject ?E ec cluster) ?s = (Done (res, None), t)"
    using run ec owner
    by (simp add: Reconcile_def call_GetEtcdadmCluster_def call_GetOwnerCluster_def run_simps)
  have "obeys stays_complete (reconcileObject ?E ec cluster)" by (rule wired.complete_reconcileObject)
  then have "stays_complete ?s t" using go by (rule obeysD)
  then have alive: "DeletionTimestamp (ecMeta (theEC t)) = None" using live by (simp add: stays_complete_def)
  show ?thesis
  proof (cases "cluster_IsTrue (capi ?E) cluster (InfrastructureReadyCondition (capi ?E)) \<and>
      k_NewPatchHelper (svc ?E) (trace ?s) (Name (ecMeta ec)) = None")
    case False
    then show ?thesis using go active
      by (auto simp: reconcileObject_def call_NewPatchHelper_def run_simps requeueAfter_def requeueNow_def
          time_Second_def split: if_splits)
  next
    case True
    then obtain result u where "run_state (deferredStatus ?E ec cluster result) u = (Done (res, None), t)"
      using go active known live
      by (auto simp: reconcileObject_def call_NewPatchHelper_def run_simps split: prod.splits outcome.splits)
    then show ?thesis by (rule deferred_requeues) (simp_all add: laws alive unready)
  qed
qed

text \<open>A new cluster: the object has its finalizer and no machine yet.\<close>

definition new_cluster_env :: env where
  "new_cluster_env = with_svc (\<lambda>v. v
     \<lparr>k_GetEtcdadmCluster := (\<lambda>h k. Inr ref_ec),
      k_GetOwnerCluster := (\<lambda>h om. Inr (Some ref_cluster)),
      k_ExternalGet := (\<lambda>h r. Inr \<lparr>infMeta = ref_meta ''tmpl'', infAPIVersion = [], infKind = []\<rparr>)\<rparr>)"

lemma new_cluster_fields:
  "errs new_cluster_env = ref_errors" "coll new_cluster_env = ref_collections"
  "conds new_cluster_env = ref_conditions ''Ready''" "capi new_cluster_env = ref_capi"
  "svc new_cluster_env = ref_svc\<lparr>k_GetEtcdadmCluster := (\<lambda>h k. Inr ref_ec),
      k_GetOwnerCluster := (\<lambda>h om. Inr (Some ref_cluster)),
      k_ExternalGet := (\<lambda>h r. Inr \<lparr>infMeta = ref_meta ''tmpl'', infAPIVersion = [], infKind = []\<rparr>)\<rparr>"
  by (simp_all add: new_cluster_env_def)

lemma new_cluster_listing:
  "\<exists>t. run_state (listEtcdMachines (SetupWithManager_env new_cluster_env None) rd ref_cluster (Name (ecMeta ref_ec))) s =
     (Done (Inr []), t) \<and> theEC t = theEC s"
  by (simp add: listEtcdMachines_def EtcdMachinesSelectorForCluster_def call_ListMachines_def run_simps
      new_cluster_fields ref_capi_def ref_svc_def ref_ec_def ref_cluster_def ref_meta_def)

lemma new_cluster_template:
  "\<exists>t. run_state (reconcileExternalReference (SetupWithManager_env new_cluster_env None) ref_cluster ref) s = (Done None, t) \<and>
     theEC t = theEC s"
  by (simp add: reconcileExternalReference_def call_defs run_simps new_cluster_fields ref_svc_def)

lemma new_cluster_plane:
  "\<exists>ep t. run_state (NewEtcdPlane (SetupWithManager_env new_cluster_env None) ref_cluster ec []) s = (Done (Inr ep), t) \<and>
     theEC t = theEC s \<and> epMachines ep = []"
  by (simp add: NewEtcdPlane_def getInfraResources_def getEtcdadmConfigs_def newPatchHelpers_def run_simps run_range_over)

text \<open>Another state in which the object has the same metadata and spec, and is as ready.\<close>

definition as_ready :: "sys \<Rightarrow> sys \<Rightarrow> bool" where
  "as_ready s t \<longleftrightarrow> ecMeta (theEC t) = ecMeta (theEC s) \<and> ecSpec (theEC t) = ecSpec (theEC s) \<and>
     Ready (ecStatus (theEC t)) = Ready (ecStatus (theEC s))"

lemma new_cluster_certs:
  "\<exists>t. run_state (generateCAandClientCertSecrets (SetupWithManager_env new_cluster_env None) ref_cluster) s = (Done None, t) \<and>
     as_ready s t"
  by (simp add: as_ready_def SetConditions_def generateCAandClientCertSecrets_def etcdCACertKeyPair_def call_defs run_simps new_cluster_fields ref_svc_def
      ref_capi_def ref_keyPair_def)

lemma new_cluster_clones:
  "\<exists>t. run_state (cloneConfigsAndGenerateMachine (SetupWithManager_env new_cluster_env None) ref_cluster fd) s =
     (Done (noResult, None), t) \<and> as_ready s t"
  by (simp add: as_ready_def clone_defs new_cluster_fields ref_svc_def ref_capi_def)

lemma new_cluster_grows:
  "\<exists>t. run_state (scaleStage (SetupWithManager_env new_cluster_env None) ref_cluster ep 0 0 3) s = (Done (noResult, None), t) \<and>
     as_ready s t"
proof -
  let ?E = "SetupWithManager_env new_cluster_env None"
  have init: "\<exists>t. run_state (intializeEtcdCluster ?E ref_cluster ep) u = (Done (noResult, None), t) \<and> as_ready u t" for u
  proof -
    obtain v where v: "run_state (generateCAandClientCertSecrets ?E ref_cluster) u = (Done None, v)" "as_ready u v"
      using new_cluster_certs by blast
    obtain t where "as_ready (snd (run_state (MarkTrue ?E EtcdCertificatesAvailableCondition) v)) t"
      "run_state (cloneConfigsAndGenerateMachine ?E ref_cluster (NextFailureDomainForScaleUp ?E ep))
        (snd (run_state (MarkTrue ?E EtcdCertificatesAvailableCondition) v)) = (Done (noResult, None), t)"
      using new_cluster_clones by blast
    then show ?thesis using v(2) by (simp add: intializeEtcdCluster_def run_simps v(1) as_ready_def SetConditions_def)
  qed
  let ?u = "snd (run_state (seq (MarkFalse ?E InitializedCondition WaitingForEtcdadmInitReason ConditionSeverityInfo [])
    (MarkFalse ?E EtcdEndpointsAvailable WaitingForEtcdadmEndpointsToPassHealthcheckReason ConditionSeverityInfo [])) s)"
  have "as_ready s ?u" by (simp add: run_simps as_ready_def SetConditions_def)
  then show ?thesis using init [of ?u] by (simp add: scaleStage_def run_simps as_ready_def)
qed

lemma new_cluster_pass:
  assumes ec: "theEC s = ref_ec"
  shows "\<exists>t. run_state (reconcile (SetupWithManager_env new_cluster_env None) ref_cluster) s = (Done (noResult, None), t) \<and>
     as_ready s t"
proof -
  let ?E = "SetupWithManager_env new_cluster_env None"
  obtain s1 where s1: "run_state (reconcileExternalReference ?E ref_cluster (InfrastructureTemplate (ecSpec ref_ec))) s = (Done None, s1)"
    "theEC s1 = ref_ec" using new_cluster_template ec by metis
  obtain s2 where s2: "run_state (listEtcdMachines ?E UncachedClient ref_cluster (Name (ecMeta ref_ec))) s1 = (Done (Inr []), s2)"
    "theEC s2 = ref_ec" using new_cluster_listing s1(2) by metis
  obtain ep s3 where s3: "run_state (NewEtcdPlane ?E ref_cluster ref_ec []) s2 = (Done (Inr ep), s3)" "theEC s3 = ref_ec"
    "epMachines ep = []" using new_cluster_plane s2(2) by metis
  obtain ep2 s4 where s4: "run_state (NewEtcdPlane ?E ref_cluster ref_ec []) s3 = (Done (Inr ep2), s4)" "theEC s4 = ref_ec"
    "epMachines ep2 = []" using new_cluster_plane s3(2) by metis
  have none: "MachinesNeedingRollout ?E ep = []" "ownedBy ?E ref_ec [] = []"
    by (simp_all add: MachinesNeedingRollout_def Let_def s3(3) new_cluster_fields ref_collections_def ownedBy_def)
  have calm: "Conditions (ecStatus ref_ec) = []" "Replicas (ecSpec ref_ec) = Some 3" by (simp_all add: ref_ec_def)
  have stages: "run_state (outdatedStage ?E ref_cluster [] []) u = (Done None, u)"
    "run_state (rolloutStage ?E ref_cluster ep [] a b d) u = (Done None, u)" if "theEC u = ref_ec" for u a b d
    using that calm
    by (simp_all add: outdatedStage_def rolloutStage_def rolloutDone_def onlyIf_def run_simps IsFalse_def HasCondition_def
        GetConditions_def hasAnnotation_def new_cluster_fields ref_conditions_def has_status_def get_condition_def
        ref_ec_def ref_meta_def)
  show ?thesis
    using new_cluster_grows [of ep s4]
    by (simp add: as_ready_def reconcile_def run_simps Let_def ec s1 s2 s3 s4 none stages calm)
qed

lemma new_cluster_status:
  assumes "ecMeta (theEC s) = ecMeta ref_ec" and "ecSpec (theEC s) = ecSpec ref_ec" and "\<not> Ready (ecStatus (theEC s))"
  shows "\<exists>res t. run_state (deferredStatus (SetupWithManager_env new_cluster_env None) ref_ec ref_cluster (noResult, None)) s =
     (Done (res, None), t) \<and> \<not> Ready (ecStatus (theEC t))"
  using assms
  by (simp add: deferredStatus_def checkOwnedMachines_def getCurrentOwnedMachines_def new_cluster_fields
      listEtcdMachines_def EtcdMachinesSelectorForCluster_def updateMachinesEtcdReadyLabel_def updateStatus_def patchEtcdCluster_def
      call_defs onlyIf_def setReady_def deferredRequeue_def run_simps run_range_over
      go_range_def ref_ec_def ref_cluster_def ref_svc_def ref_collections_def ref_capi_def ref_meta_def
      noResult_def aggregate_def SetConditions_def ownedBy_def)

theorem unready_is_requeued_witness:
  "\<exists>res t. run_state (Reconcile (SetupWithManager_env new_cluster_env None) \<lparr>keyNamespace = ''ns'', keyName = ''etcd''\<rparr>) ref_sys =
     (Done (res, None), t) \<and> (Requeue res \<or> RequeueAfter res > 0)"
proof -
  let ?E = "SetupWithManager_env new_cluster_env None" and ?key = "\<lparr>keyNamespace = ''ns'', keyName = ''etcd''\<rparr>"
  let ?s = "ref_sys\<lparr>theEC := ref_ec, trace := [EvGetEtcdadmCluster ?key (Inr ref_ec), EvGetOwnerCluster (ecMeta ref_ec) (Inr (Some ref_cluster)),
    EvNewPatchHelper (Name (ecMeta ref_ec)) None]\<rparr>"
  obtain t where t: "run_state (reconcile ?E ref_cluster) ?s = (Done (noResult, None), t)" "as_ready ?s t"
    using new_cluster_pass [of ?s] by (auto simp: ref_sys_def)
  obtain res u where u: "run_state (deferredStatus ?E ref_ec ref_cluster (noResult, None)) t = (Done (res, None), u)"
    "\<not> Ready (ecStatus (theEC u))"
    using new_cluster_status [of t] t(2) by (auto simp: as_ready_def ref_sys_def) (auto simp: ref_ec_def)
  have gates: "cluster_IsTrue ref_capi ref_cluster (InfrastructureReadyCondition ref_capi)"
    "\<not> annotations_IsPaused ref_capi ref_cluster ref_ec" "k_NewPatchHelper ref_svc h n = None"
    "ContainsFinalizer ref_capi (Finalizers (ecMeta ref_ec)) EtcdadmClusterFinalizer"
    "DeletionTimestamp (ecMeta ref_ec) = None" "trace ref_sys = []" for h n
    by (simp_all add: ref_ec_def ref_meta_def ref_capi_def ref_cluster_def ref_svc_def ref_sys_def)
  have run: "run_state (Reconcile ?E ?key) ref_sys = (Done (res, None), u)"
    using t(1) u(1)
    by (simp add: Reconcile_def reconcileObject_def call_defs run_simps new_cluster_fields gates)
  have "Requeue res \<or> RequeueAfter res > 0"
    by (rule unready_is_requeued [OF run, of ref_ec ref_cluster])
      (simp_all add: new_cluster_fields u(2) gates)
  with run show ?thesis by blast
qed

end
