(* ===== verification/Periodic_Healthcheck.thy ===== *)
theory Periodic_Healthcheck
  imports Members Health_Check "HOL-Library.AList"
begin

text \<open>
  \<open>controllers/periodic_healthcheck.go\<close>: the loop beside the reconciler that checks every etcd member
  on each tick, counts consecutive failures, and removes a member that has failed too often, one
  after the other and only while a quorum is healthy. Its memory of a cluster is an entry of
  \<open>etcdadmClusterMapper\<close>. The two maps of an entry are Go maps shared by every copy of the entry, so
  they are read and written in the mapper itself.
\<close>

definition maxUnhealthyCount :: int where "maxUnhealthyCount = 5"

section \<open>The memory of a cluster\<close>

text \<open>The entry of a cluster; a missing entry reads as Go's zero value, with nil maps.\<close>

definition frequencyOf :: "sys \<Rightarrow> string \<Rightarrow> (string \<times> int) list" where
  "frequencyOf s uid =
     (case etcdadmClusterMapper s uid of None \<Rightarrow> [] | Some c \<Rightarrow> unhealthyMembersFrequency c)"

definition toRemoveOf :: "sys \<Rightarrow> string \<Rightarrow> (string \<times> Machine) list" where
  "toRemoveOf s uid =
     (case etcdadmClusterMapper s uid of None \<Rightarrow> [] | Some c \<Rightarrow> unhealthyMembersToRemove c)"

definition updateEntry :: "string \<Rightarrow> (MemberHealthConfig \<Rightarrow> MemberHealthConfig) \<Rightarrow> unit io" where
  "updateEntry uid g =
     modify (\<lambda>s. s\<lparr>etcdadmClusterMapper :=
       (etcdadmClusterMapper s)(uid := map_option g (etcdadmClusterMapper s uid))\<rparr>)"

text \<open>Writing to a map of a missing entry is a write to a nil map.\<close>

definition writeEntry :: "string \<Rightarrow> (MemberHealthConfig \<Rightarrow> MemberHealthConfig) \<Rightarrow> unit io" where
  "writeEntry uid g =
     bnd (gets (\<lambda>s. etcdadmClusterMapper s uid)) (\<lambda>entry.
     orPanic ''assignment to entry in nil map'' entry (\<lambda>_. updateEntry uid g))"

definition freq_get :: "(string \<times> int) list \<Rightarrow> string \<Rightarrow> int" where
  "freq_get freq endpoint = (case map_of freq endpoint of None \<Rightarrow> 0 | Some n \<Rightarrow> n)"

definition bumpFrequency :: "string \<Rightarrow> MemberHealthConfig \<Rightarrow> MemberHealthConfig" where
  "bumpFrequency endpoint c =
     c\<lparr>unhealthyMembersFrequency :=
        AList.update endpoint (freq_get (unhealthyMembersFrequency c) endpoint + 1)
          (unhealthyMembersFrequency c)\<rparr>"

definition markToRemove :: "string \<Rightarrow> Machine \<Rightarrow> MemberHealthConfig \<Rightarrow> MemberHealthConfig" where
  "markToRemove endpoint m c =
     c\<lparr>unhealthyMembersToRemove := AList.update endpoint m (unhealthyMembersToRemove c)\<rparr>"

definition unmarkToRemove :: "string \<Rightarrow> MemberHealthConfig \<Rightarrow> MemberHealthConfig" where
  "unmarkToRemove endpoint c =
     c\<lparr>unhealthyMembersToRemove := AList.delete endpoint (unhealthyMembersToRemove c)\<rparr>"

definition forgetFrequency :: "string \<Rightarrow> MemberHealthConfig \<Rightarrow> MemberHealthConfig" where
  "forgetFrequency endpoint c =
     c\<lparr>unhealthyMembersFrequency := AList.delete endpoint (unhealthyMembersFrequency c)\<rparr>"

text \<open>The clean-up loop: entries of endpoints that no machine has any more are deleted.\<close>

definition cleanUp :: "Machines \<Rightarrow> MemberHealthConfig \<Rightarrow> MemberHealthConfig" where
  "cleanUp etcdMachines c =
     c\<lparr>unhealthyMembersFrequency :=
        filter (\<lambda>(ip, _). list_ex (\<lambda>m. getMemberClientURL (getEtcdMachineAddress m) = ip) etcdMachines)
          (unhealthyMembersFrequency c)\<rparr>"

section \<open>One round over the members of a cluster\<close>

definition etcdMachinesOrNone :: "env \<Rightarrow> Cluster \<Rightarrow> string \<Rightarrow> Machines io" where
  "etcdMachinesOrNone E cluster etcdClusterName =
     bnd (listEtcdMachines E UncachedClient cluster etcdClusterName)
       (\<lambda>r. ret (case r of Inl _ \<Rightarrow> [] | Inr ms \<Rightarrow> ms))"

definition getOwnedMachines :: "env \<Rightarrow> Cluster \<Rightarrow> EtcdadmCluster \<Rightarrow> Machines io" where
  "getOwnedMachines E cluster ec =
     bnd (etcdMachinesOrNone E cluster (Name (ecMeta ec)))
       (\<lambda>etcdMachines. ret (col_Filter (coll E) (col_OwnedMachines (coll E) ec) etcdMachines))"

text \<open>
  How many failures make a member removable: the annotation's number if it is set. After a failed
  parse \<open>Atoi\<close> still returns a number (0, or the bound that was exceeded), and that is what is used.
\<close>

definition unhealthyCount :: "EtcdadmCluster \<Rightarrow> int" where
  "unhealthyCount ec =
     (case map_get (Annotations (ecMeta ec)) HealthCheckRetriesAnnotation of
        None \<Rightarrow> maxUnhealthyCount
      | Some val \<Rightarrow> (case Atoi val of (retries, _) \<Rightarrow> retries))"

text \<open>The body of the check loop for one machine; \<open>ec\<close> is the cluster's object, \<open>owned\<close> its machines.\<close>

definition memberFailed :: "EtcdadmCluster \<Rightarrow> Machines \<Rightarrow> Machine \<Rightarrow> string \<Rightarrow> unit io" where
  "memberFailed ec owned m endpoint =
     (let uid = UID (ecMeta ec) in
      seq (writeEntry uid (bumpFrequency endpoint))
      (if machines_lookup owned (mName m) \<noteq> None then
         bnd (gets (\<lambda>s. freq_get (frequencyOf s uid) endpoint)) (\<lambda>n.
         if n \<ge> unhealthyCount ec then writeEntry uid (markToRemove endpoint m) else ret ())
       else ret ()))"

definition memberPassed :: "EtcdadmCluster \<Rightarrow> string \<Rightarrow> unit io" where
  "memberPassed ec endpoint =
     (let uid = UID (ecMeta ec) in
      bnd (gets (\<lambda>s. map_of (frequencyOf s uid) endpoint)) (\<lambda>markedUnhealthy.
      seq (if markedUnhealthy \<noteq> None then updateEntry uid (forgetFrequency endpoint) else ret ())
      (bnd (gets (\<lambda>s. map_of (toRemoveOf s uid) endpoint)) (\<lambda>markedToDelete.
       if markedToDelete \<noteq> None then updateEntry uid (unmarkToRemove endpoint) else ret ()))))"

definition checkMember :: "env \<Rightarrow> Cluster \<Rightarrow> EtcdadmCluster \<Rightarrow> Machines \<Rightarrow> Machine \<Rightarrow> unit io" where
  "checkMember E cluster ec owned m =
     (let endpoint = getMachineEtcdEndpoint m in
      if endpoint = [] then ret ()
      else
        bnd (performEndpointHealthCheck E cluster endpoint False) (\<lambda>r.
        if r \<noteq> None then memberFailed ec owned m endpoint else memberPassed ec endpoint))"

text \<open>
  The removal loop. \<open>retErr\<close> gathers the errors; a member whose removal fails stays in the map and is
  tried again on the next tick.
\<close>

definition removeOne ::
  "env \<Rightarrow> Cluster \<Rightarrow> int \<Rightarrow> string \<Rightarrow> Machine \<Rightarrow> err option \<Rightarrow> err option io" where
  "removeOne E cluster desiredReplicas machineEndpoint machineToDelete retErr =
     bnd (gets theEC) (\<lambda>ec.
     bnd (getOwnedMachines E cluster ec) (\<lambda>owned.
     let currentMachines =
           col_Filter (coll E) (col_Not (coll E) (col_HasDeletionTimestamp (coll E))) owned in
     if int (length currentMachines) < desiredReplicas then ret retErr
     else
       bnd (removeEtcdMachine E cluster (Some machineToDelete)
              (getEtcdMachineAddressFromClientURL machineEndpoint)) (\<lambda>r.
       case r of
         Some e \<Rightarrow> ret (multierror_Append (errs E) retErr e)
       | None \<Rightarrow> seq (updateEntry (UID (ecMeta ec)) (unmarkToRemove machineEndpoint)) (ret retErr))))"

fun removeUnhealthy ::
  "env \<Rightarrow> Cluster \<Rightarrow> int \<Rightarrow> (string \<times> Machine) list \<Rightarrow> err option \<Rightarrow> err option io" where
  "removeUnhealthy E cluster desiredReplicas [] retErr = ret retErr"
| "removeUnhealthy E cluster desiredReplicas ((endpoint, m) # rest) retErr =
     bnd (removeOne E cluster desiredReplicas endpoint m retErr)
       (removeUnhealthy E cluster desiredReplicas rest)"

definition quorumPreserved :: "nat \<Rightarrow> nat \<Rightarrow> bool" where
  "quorumPreserved numMachines numUnhealthy =
     (int numMachines - int numUnhealthy \<ge> int (numMachines div 2) + 1)"

definition statusNotReady :: "env \<Rightarrow> err option io" where
  "statusNotReady E =
     seq (modifyStatus (\<lambda>st. st\<lparr>Ready := False\<rparr>))
       (bnd (gets theEC) (\<lambda>ec. call_StatusUpdate E ec))"

text \<open>What follows the check loop.\<close>

definition removalPhase :: "env \<Rightarrow> Cluster \<Rightarrow> int \<Rightarrow> Machines \<Rightarrow> err option io" where
  "removalPhase E cluster desiredReplicas etcdMachines =
     bnd (gets theEC) (\<lambda>ec.
     bnd (gets (\<lambda>s. (frequencyOf s (UID (ecMeta ec)), toRemoveOf s (UID (ecMeta ec))))) (\<lambda>(freq, toRemove).
     if length toRemove = 0 then ret None
     else if quorumPreserved (length etcdMachines) (length freq) then
       bnd (range_over E ''unhealthyMembersToRemove'' toRemove) (\<lambda>entries.
       checkErr (removeUnhealthy E cluster desiredReplicas entries None) Some (statusNotReady E))
     else statusNotReady E))"

text \<open>A round over the machines just listed: clean up, check every member, then remove.\<close>

definition healthRound ::
  "env \<Rightarrow> Cluster \<Rightarrow> EtcdadmCluster \<Rightarrow> int \<Rightarrow> Machines \<Rightarrow> err option io" where
  "healthRound E cluster ec desiredReplicas etcdMachines =
     (let owned = col_Filter (coll E) (col_OwnedMachines (coll E) ec) etcdMachines in
      if length etcdMachines = 0 then ret None
      else
        seq (updateEntry (UID (ecMeta ec)) (cleanUp etcdMachines))
        (bnd (range_over E ''healthchecks'' etcdMachines) (\<lambda>ms.
         seq (forRange (checkMember E cluster ec owned) ms)
         (removalPhase E cluster desiredReplicas etcdMachines))))"

definition periodicEtcdMembersHealthCheck :: "env \<Rightarrow> Cluster \<Rightarrow> err option io" where
  "periodicEtcdMembersHealthCheck E cluster =
     bnd (gets theEC) (\<lambda>ec.
     case Replicas (ecSpec ec) of
       None \<Rightarrow> ret (Some (ErrorNew ''replicas is nil''))
     | Some replicas \<Rightarrow>
         bnd (etcdMachinesOrNone E cluster (Name (ecMeta ec)))
           (healthRound E cluster ec (sint replicas)))"

section \<open>One tick over all clusters\<close>

definition healthChecksDisabled :: "EtcdadmCluster \<Rightarrow> bool" where
  "healthChecksDisabled ec =
     (case map_get (Annotations (ecMeta ec)) HealthCheckRetriesAnnotation of
        None \<Rightarrow> False
      | Some val \<Rightarrow>
          (case Atoi val of (retries, e) \<Rightarrow>
             if e \<noteq> None \<or> retries < 0 then False else retries = 0))"

definition skipHealthCheck :: "env \<Rightarrow> EtcdadmCluster \<Rightarrow> bool" where
  "skipHealthCheck E ec =
     (annotations_HasPaused (capi E) ec \<or>
      healthChecksDisabled ec \<or>
      IsFalse E ec EtcdCertificatesAvailableCondition \<or>
      \<not> CreationComplete (ecStatus ec) \<or>
      IsFalse E ec EtcdMachinesSpecUpToDateCondition)"

text \<open>The cluster an object is checked with, from the memory or looked up and remembered.\<close>

definition enterCluster :: "env \<Rightarrow> EtcdadmCluster \<Rightarrow> Cluster option io" where
  "enterCluster E ec =
     bnd (gets (\<lambda>s. etcdadmClusterMapper s (UID (ecMeta ec)))) (\<lambda>entry.
     case entry of
       None \<Rightarrow>
         tryErr (call_GetOwnerCluster E (ecMeta ec)) (\<lambda>_. None) (\<lambda>c.
         case c of
           None \<Rightarrow> ret None
         | Some cluster \<Rightarrow>
             bnd (getOwnedMachines E cluster ec) (\<lambda>owned.
             seq (modify (\<lambda>s. s\<lparr>etcdadmClusterMapper := (etcdadmClusterMapper s)(UID (ecMeta ec) \<mapsto>
                    \<lparr>unhealthyMembersFrequency = [], unhealthyMembersToRemove = [],
                     hcCluster = cluster, hcEndpoints = [], hcOwnedMachines = owned\<rparr>)\<rparr>))
               (ret (Some cluster))))
     | Some clusterEntry \<Rightarrow>
         let cluster = hcCluster clusterEntry in
         if Endpoints (ecStatus ec) \<noteq> hcEndpoints clusterEntry then
           bnd (getOwnedMachines E cluster ec) (\<lambda>owned.
           seq (updateEntry (UID (ecMeta ec))
                  (\<lambda>c. c\<lparr>hcEndpoints := Endpoints (ecStatus ec), hcOwnedMachines := owned\<rparr>))
             (ret (Some cluster)))
         else ret (Some cluster))"

definition healthCheckCluster :: "env \<Rightarrow> EtcdadmCluster \<Rightarrow> unit io" where
  "healthCheckCluster E ec =
     seq (modifyEC (\<lambda>_. ec))
     (if skipHealthCheck E ec then ret ()
      else
        bnd (enterCluster E ec) (\<lambda>c.
        case c of
          None \<Rightarrow> ret ()
        | Some cluster \<Rightarrow> bnd (periodicEtcdMembersHealthCheck E cluster) (\<lambda>_. ret ())))"

definition startHealthCheck :: "env \<Rightarrow> unit io" where
  "startHealthCheck E =
     bnd (call_ListEtcdadmClusters E) (\<lambda>r.
     case r of
       Inl _ \<Rightarrow> ret ()
     | Inr items \<Rightarrow> forRange (healthCheckCluster E) items)"

section \<open>The loop\<close>

text \<open>What the \<open>select\<close> of the loop receives next.\<close>

datatype signal = DoneSignal | Tick

text \<open>The loop over the signals received: \<open>True\<close> when it has returned, \<open>False\<close> while it still waits.\<close>

fun healthCheckLoop :: "env \<Rightarrow> signal list \<Rightarrow> bool io" where
  "healthCheckLoop E [] = ret False"
| "healthCheckLoop E (DoneSignal # _) = ret True"
| "healthCheckLoop E (Tick # signals) = seq (startHealthCheck E) (healthCheckLoop E signals)"

definition startHealthCheckLoop :: "env \<Rightarrow> signal list \<Rightarrow> bool io" where
  "startHealthCheckLoop E signals =
     seq (modify (\<lambda>s. s\<lparr>etcdadmClusterMapper := Map.empty\<rparr>)) (healthCheckLoop E signals)"

end
