(* ===== verification/Periodic_Correct.thy ===== *)
theory Periodic_Correct
  imports Periodic_Healthcheck
begin

text \<open>
  What holds of the health-check loop: how many failures it takes to mark a member, that members are
  removed only while a quorum is healthy, and how every removal follows a fresh count of the
  machines.
\<close>

section \<open>Counting failures\<close>

text \<open>The effect of one check of a machine on the memory of its cluster.\<close>

definition recordResult :: "EtcdadmCluster \<Rightarrow> Machines \<Rightarrow> Machine \<Rightarrow> string \<Rightarrow> bool \<Rightarrow> unit io" where
  "recordResult ec owned m endpoint passed =
     (if passed then memberPassed ec endpoint else memberFailed ec owned m endpoint)"

text \<open>The same as a function on the entry.\<close>

definition recorded :: "EtcdadmCluster \<Rightarrow> Machines \<Rightarrow> Machine \<Rightarrow> string \<Rightarrow> bool \<Rightarrow> MemberHealthConfig \<Rightarrow> MemberHealthConfig" where
  "recorded ec owned m endpoint passed c =
     (if passed then
        (let c1 = (if map_of (unhealthyMembersFrequency c) endpoint \<noteq> None then forgetFrequency endpoint c else c) in
         if map_of (unhealthyMembersToRemove c1) endpoint \<noteq> None then unmarkToRemove endpoint c1 else c1)
      else
        (let c1 = bumpFrequency endpoint c in
         if machines_lookup owned (mName m) \<noteq> None \<and>
            freq_get (unhealthyMembersFrequency c1) endpoint \<ge> unhealthyCount ec
         then markToRemove endpoint m c1 else c1))"

lemma run_recordResult:
  assumes "etcdadmClusterMapper s (UID (ecMeta ec)) = Some c"
  shows "run_state (recordResult ec owned m endpoint passed) s =
    (Done (), s\<lparr>etcdadmClusterMapper := (etcdadmClusterMapper s)
       (UID (ecMeta ec) \<mapsto> recorded ec owned m endpoint passed c)\<rparr>)"
  using assms
  by (auto simp: recordResult_def memberPassed_def memberFailed_def writeEntry_def updateEntry_def
      frequencyOf_def toRemoveOf_def recorded_def Let_def run_simps bumpFrequency_def
      markToRemove_def forgetFrequency_def unmarkToRemove_def fun_upd_idem)

lemma recorded_frequency:
  "map_of (unhealthyMembersFrequency (recorded ec owned m endpoint passed c)) k =
     (if k = endpoint then if passed then None
        else Some (freq_get (unhealthyMembersFrequency c) endpoint + 1)
      else map_of (unhealthyMembersFrequency c) k)"
  by (auto simp: recorded_def Let_def bumpFrequency_def markToRemove_def forgetFrequency_def
      unmarkToRemove_def AList.update_conv' AList.delete_conv')

lemma recorded_toRemove:
  "map_of (unhealthyMembersToRemove (recorded ec owned m endpoint passed c)) k =
     (if k \<noteq> endpoint then map_of (unhealthyMembersToRemove c) k
      else if passed then None
      else if machines_lookup owned (mName m) \<noteq> None \<and>
              freq_get (unhealthyMembersFrequency c) endpoint + 1 \<ge> unhealthyCount ec then Some m
      else map_of (unhealthyMembersToRemove c) k)"
  by (auto simp: recorded_def Let_def bumpFrequency_def markToRemove_def forgetFrequency_def
      unmarkToRemove_def freq_get_def AList.update_conv' AList.delete_conv')

definition trailing_failures :: "bool list \<Rightarrow> nat" where
  "trailing_failures oks = length (takeWhile Not (rev oks))"

lemma trailing_failures_snoc:
  "trailing_failures (oks @ [ok]) = (if ok then 0 else trailing_failures oks + 1)"
  by (simp add: trailing_failures_def)

lemma recorded_history:
  assumes owned: "machines_lookup owned (mName m) \<noteq> None"
    and fresh: "map_of (unhealthyMembersFrequency c) endpoint = None"
      "map_of (unhealthyMembersToRemove c) endpoint = None"
  shows "freq_get (unhealthyMembersFrequency (fold (recorded ec owned m endpoint) oks c)) endpoint =
      int (trailing_failures oks) \<and>
    map_of (unhealthyMembersToRemove (fold (recorded ec owned m endpoint) oks c)) endpoint =
      (if trailing_failures oks > 0 \<and> int (trailing_failures oks) \<ge> unhealthyCount ec then Some m else None)"
proof (induction oks rule: rev_induct)
  case Nil
  show ?case using fresh by (simp add: freq_get_def trailing_failures_def)
next
  case (snoc ok oks)
  let ?c = "fold (recorded ec owned m endpoint) oks c"
  have "freq_get (unhealthyMembersFrequency (recorded ec owned m endpoint ok ?c)) endpoint =
      (if ok then 0 else freq_get (unhealthyMembersFrequency ?c) endpoint + 1)"
    by (simp add: freq_get_def recorded_frequency)
  then show ?case
    using snoc.IH owned by (auto simp: recorded_toRemove trailing_failures_snoc split: if_splits)
qed

lemma run_recordResults:
  assumes "etcdadmClusterMapper s (UID (ecMeta ec)) = Some c"
  shows "run_state (forRange (recordResult ec owned m endpoint) oks) s =
    (Done (), s\<lparr>etcdadmClusterMapper := (etcdadmClusterMapper s)
       (UID (ecMeta ec) \<mapsto> fold (recorded ec owned m endpoint) oks c)\<rparr>)"
  using assms
proof (induction oks arbitrary: s c)
  case Nil
  then show ?case by (simp add: fun_upd_idem)
next
  case (Cons ok oks)
  let ?c = "recorded ec owned m endpoint ok c"
  let ?s = "s\<lparr>etcdadmClusterMapper := (etcdadmClusterMapper s)(UID (ecMeta ec) \<mapsto> ?c)\<rparr>"
  show ?case
    using Cons.IH [of ?s ?c] Cons.prems
    by (simp add: run_seq run_recordResult del: fun_upd_apply) (simp add: fun_upd_def)
qed

text \<open>C13: From a memory that knows nothing of an endpoint, after any
  sequence of checks of an owned machine the counter of its endpoint is the number of failures since
  the last success, and the machine is marked for removal if and only if there is such a failure and
  their number has reached the configured number of retries.\<close>

theorem marked_after_consecutive_failures:
  assumes entry: "etcdadmClusterMapper s (UID (ecMeta ec)) = Some c"
    and fresh: "map_of (unhealthyMembersFrequency c) endpoint = None"
      "map_of (unhealthyMembersToRemove c) endpoint = None"
    and owned: "machines_lookup owned (mName m) = Some m'"
  shows "\<exists>t. run_state (forRange (recordResult ec owned m endpoint) oks) s = (Done (), t) \<and>
     freq_get (frequencyOf t (UID (ecMeta ec))) endpoint = int (trailing_failures oks) \<and>
     map_of (toRemoveOf t (UID (ecMeta ec))) endpoint =
       (if trailing_failures oks > 0 \<and> int (trailing_failures oks) \<ge> unhealthyCount ec then Some m else None)"
  using recorded_history [OF _ fresh, of owned m ec oks] owned
  by (simp add: run_recordResults [OF entry] frequencyOf_def toRemoveOf_def)

definition fresh_entry :: MemberHealthConfig where
  "fresh_entry = \<lparr>unhealthyMembersFrequency = [], unhealthyMembersToRemove = [],
     hcCluster = ref_cluster, hcEndpoints = [], hcOwnedMachines = []\<rparr>"

definition fresh_sys :: sys where
  "fresh_sys = ref_sys\<lparr>etcdadmClusterMapper := [UID (ecMeta ref_ec) \<mapsto> fresh_entry]\<rparr>"

theorem marked_after_consecutive_failures_witness:
  "\<exists>t. run_state (forRange (recordResult ref_ec [ref_machine ''m1'' ''10.0.0.1'']
        (ref_machine ''m1'' ''10.0.0.1'') ''https://10.0.0.1:2379'')
        [False, True, False, False, False, False, False]) fresh_sys = (Done (), t) \<and>
     freq_get (frequencyOf t (UID (ecMeta ref_ec))) ''https://10.0.0.1:2379'' = 5 \<and>
     map_of (toRemoveOf t (UID (ecMeta ref_ec))) ''https://10.0.0.1:2379'' = Some (ref_machine ''m1'' ''10.0.0.1'')"
proof -
  have count: "unhealthyCount ref_ec = 5"
    by (simp add: unhealthyCount_def ref_ec_def ref_meta_def maxUnhealthyCount_def)
  show ?thesis
    using marked_after_consecutive_failures [of fresh_sys ref_ec fresh_entry "''https://10.0.0.1:2379''"
        "[ref_machine ''m1'' ''10.0.0.1'']" "ref_machine ''m1'' ''10.0.0.1''" "ref_machine ''m1'' ''10.0.0.1''"
        "[False, True, False, False, False, False, False]"]
    by (simp add: fresh_sys_def fresh_entry_def machines_lookup_def trailing_failures_def count)
qed

text \<open>C28: An annotation whose value is not a number, or a negative one, does
  not fall back to the default number of retries: health checks stay on and the number used is 0 or
  less, so that the first failed check of an owned machine marks it for removal.\<close>

theorem invalid_retries_mark_at_once:
  assumes annotated: "map_get (Annotations (ecMeta ec)) HealthCheckRetriesAnnotation = Some val"
    and bad: "snd (Atoi val) = Some ErrSyntax \<or> fst (Atoi val) < 0"
    and entry: "etcdadmClusterMapper s (UID (ecMeta ec)) = Some c"
    and fresh: "map_of (unhealthyMembersFrequency c) endpoint = None"
    and owned: "machines_lookup owned (mName m) = Some m'"
  shows "\<not> healthChecksDisabled ec \<and> unhealthyCount ec < maxUnhealthyCount \<and>
     (\<exists>t. run_state (memberFailed ec owned m endpoint) s = (Done (), t) \<and>
        map_of (toRemoveOf t (UID (ecMeta ec))) endpoint = Some m)"
proof -
  have zero: "fst (Atoi v) = 0" if "snd (Atoi v) = Some ErrSyntax" for v
    using that
    by (auto simp: Atoi_def Atoi_unsigned_def maxInt64_def minInt64_def
        split: list.splits if_splits prod.splits option.splits num_error.splits)
  have "fst (Atoi val) \<le> 0"
    using bad zero [of val] by (cases "Atoi val") auto
  then have count: "unhealthyCount ec \<le> 0"
    using annotated by (simp add: unhealthyCount_def case_prod_beta)
  have "run_state (memberFailed ec owned m endpoint) s = run_state (recordResult ec owned m endpoint False) s"
    by (simp add: recordResult_def)
  moreover have "map_of (unhealthyMembersToRemove (recorded ec owned m endpoint False c)) endpoint = Some m"
    using owned count fresh by (simp add: recorded_toRemove freq_get_def)
  moreover have "\<not> healthChecksDisabled ec"
    using bad annotated by (auto simp: healthChecksDisabled_def split: prod.splits)
  ultimately show ?thesis
    using count by (simp add: run_recordResult [OF entry] toRemoveOf_def maxUnhealthyCount_def)
qed

definition abc_ec :: EtcdadmCluster where
  "abc_ec = ref_ec\<lparr>ecMeta := (ecMeta ref_ec)\<lparr>Annotations :=
     Some [HealthCheckRetriesAnnotation \<mapsto> ''five'']\<rparr>\<rparr>"

theorem invalid_retries_mark_at_once_witness:
  "\<not> healthChecksDisabled abc_ec \<and> unhealthyCount abc_ec < maxUnhealthyCount \<and>
     (\<exists>t. run_state (memberFailed abc_ec [ref_machine ''m1'' ''10.0.0.1''] (ref_machine ''m1'' ''10.0.0.1'')
           ''https://10.0.0.1:2379'') fresh_sys = (Done (), t) \<and>
        map_of (toRemoveOf t (UID (ecMeta abc_ec))) ''https://10.0.0.1:2379'' = Some (ref_machine ''m1'' ''10.0.0.1''))"
proof (rule invalid_retries_mark_at_once [where val = "''five''" and c = fresh_entry])
  show "snd (Atoi ''five'') = Some ErrSyntax \<or> fst (Atoi ''five'') < 0"
    by (simp add: Atoi_def Atoi_unsigned_def parse_uint_def is_digit_def)
qed (simp_all add: abc_ec_def fresh_sys_def fresh_entry_def machines_lookup_def)

section \<open>The memory stays well formed\<close>

text \<open>
  Both maps have distinct keys; a counter is positive and belongs to an endpoint with an address; a
  machine is marked under its own endpoint.
\<close>

definition entry_wf :: "MemberHealthConfig \<Rightarrow> bool" where
  "entry_wf c =
     (distinct (map fst (unhealthyMembersFrequency c)) \<and>
      list_all (\<lambda>(k, n). k \<noteq> getMemberClientURL [] \<and> n > 0) (unhealthyMembersFrequency c) \<and>
      distinct (map fst (unhealthyMembersToRemove c)) \<and>
      list_all (\<lambda>(k, m). k \<noteq> [] \<and> k = getMachineEtcdEndpoint m) (unhealthyMembersToRemove c))"

definition memory_wf :: "sys \<Rightarrow> bool" where
  "memory_wf s = (\<forall>uid. case etcdadmClusterMapper s uid of None \<Rightarrow> True | Some c \<Rightarrow> entry_wf c)"

definition keeps_memory_wf :: "sys \<Rightarrow> sys \<Rightarrow> bool" where
  "keeps_memory_wf s s' = (memory_wf s \<longrightarrow> memory_wf s')"

interpretation wf: step_order keeps_memory_wf
  by unfold_locales (simp_all add: keeps_memory_wf_def)

lemma entry_wf_at: "memory_wf s \<Longrightarrow> etcdadmClusterMapper s uid = Some c \<Longrightarrow> entry_wf c"
  unfolding memory_wf_def by (drule spec [of _ uid]) simp

lemma memory_wf_upd:
  "memory_wf s \<Longrightarrow> (case x of None \<Rightarrow> True | Some c \<Rightarrow> entry_wf c) \<Longrightarrow>
   memory_wf (s\<lparr>etcdadmClusterMapper := (etcdadmClusterMapper s)(uid := x)\<rparr>)"
  by (simp add: memory_wf_def)

lemma wf_if_keeps: "obeys (keeps etcdadmClusterMapper) m \<Longrightarrow> obeys keeps_memory_wf m"
  by (simp add: obeys_def keeps_def keeps_memory_wf_def memory_wf_def)

lemma wf_if_reads: "obeys reads m \<Longrightarrow> obeys keeps_memory_wf m"
  by (intro wf_if_keeps reads_keeps_mapper)

lemma wf_updateEntry:
  assumes g: "\<And>c. entry_wf c \<Longrightarrow> entry_wf (g c)"
  shows "obeys keeps_memory_wf (updateEntry uid g)"
proof (rule obeysI)
  fix s :: sys
  have "memory_wf s \<Longrightarrow> case map_option g (etcdadmClusterMapper s uid) of None \<Rightarrow> True | Some c \<Rightarrow> entry_wf c"
    using g entry_wf_at [of s uid] by (cases "etcdadmClusterMapper s uid") auto
  then show "keeps_memory_wf s (snd (run_state (updateEntry uid g) s))"
    by (simp add: keeps_memory_wf_def updateEntry_def memory_wf_upd)
qed

lemma endpoint_nonempty:
  "getMachineEtcdEndpoint m \<noteq> [] \<Longrightarrow> getMachineEtcdEndpoint m \<noteq> getMemberClientURL []"
  by (auto simp: getMachineEtcdEndpoint_def Let_def getMemberClientURL_def split: if_splits)

lemma list_all_update:
  "list_all P xs \<Longrightarrow> P (k, v) \<Longrightarrow> list_all P (AList.update k v xs)"
  by (induction xs) auto

lemma list_all_delete: "list_all P xs \<Longrightarrow> list_all P (AList.delete k xs)"
  by (induction xs) auto

lemma freq_get_nonneg: "entry_wf c \<Longrightarrow> freq_get (unhealthyMembersFrequency c) k \<ge> 0"
  by (auto simp: entry_wf_def freq_get_def list_all_iff split: option.splits dest!: map_of_SomeD)

lemma wf_recorded:
  assumes "entry_wf c" and "getMachineEtcdEndpoint m \<noteq> []"
  shows "entry_wf (recorded ec owned m (getMachineEtcdEndpoint m) passed c)"
proof -
  have bump: "entry_wf (bumpFrequency (getMachineEtcdEndpoint m) c)"
    using assms endpoint_nonempty freq_get_nonneg [OF assms(1), of "getMachineEtcdEndpoint m"]
    by (simp add: entry_wf_def bumpFrequency_def distinct_update list_all_update)
  have mark: "entry_wf c \<Longrightarrow> entry_wf (markToRemove (getMachineEtcdEndpoint m) m c)" for c
    using assms(2) by (simp add: entry_wf_def markToRemove_def distinct_update list_all_update)
  have forget: "entry_wf c \<Longrightarrow> entry_wf (forgetFrequency k c)" for c k
    by (simp add: entry_wf_def forgetFrequency_def distinct_delete list_all_delete)
  have unmark: "entry_wf c \<Longrightarrow> entry_wf (unmarkToRemove k c)" for c k
    by (simp add: entry_wf_def unmarkToRemove_def distinct_delete list_all_delete)
  show ?thesis
    using assms(1) bump mark forget unmark by (simp add: recorded_def Let_def)
qed

lemma wf_unmark: "entry_wf c \<Longrightarrow> entry_wf (unmarkToRemove k c)"
  by (simp add: entry_wf_def unmarkToRemove_def distinct_delete list_all_delete)

lemma wf_cleanUp: "entry_wf c \<Longrightarrow> entry_wf (cleanUp ms c)"
  unfolding entry_wf_def cleanUp_def
  by (auto simp: list_all_iff distinct_map_filter)

lemma wf_recordResult:
  assumes "getMachineEtcdEndpoint m \<noteq> []"
  shows "obeys keeps_memory_wf (recordResult ec owned m (getMachineEtcdEndpoint m) passed)"
proof (rule obeysI)
  fix s :: sys
  let ?p = "recordResult ec owned m (getMachineEtcdEndpoint m) passed"
  show "keeps_memory_wf s (snd (run_state ?p s))"
  proof (cases "etcdadmClusterMapper s (UID (ecMeta ec))")
    case None
    then have "etcdadmClusterMapper (snd (run_state ?p s)) = etcdadmClusterMapper s"
      by (auto simp: recordResult_def memberPassed_def memberFailed_def writeEntry_def updateEntry_def
          frequencyOf_def toRemoveOf_def Let_def run_simps)
    then show ?thesis by (simp add: keeps_memory_wf_def memory_wf_def)
  next
    case (Some c)
    then show ?thesis
      using wf_recorded [OF _ assms, of c] entry_wf_at [OF _ Some]
      by (auto simp: keeps_memory_wf_def run_recordResult intro!: memory_wf_upd)
  qed
qed

lemma checkMember_recordResult:
  "checkMember E cluster ec owned m =
     (let endpoint = getMachineEtcdEndpoint m in
      if endpoint = [] then ret ()
      else bnd (performEndpointHealthCheck E cluster endpoint False)
             (\<lambda>r. recordResult ec owned m endpoint (r = None)))"
proof -
  have "(if r \<noteq> None then memberFailed ec owned m e else memberPassed ec e) = recordResult ec owned m e (r = None)"
    for r :: "err option" and e by (simp add: recordResult_def)
  then show ?thesis by (simp only: checkMember_def Let_def)
qed

lemma reads_etcdMachinesOrNone: "obeys reads (etcdMachinesOrNone E cluster n)"
  unfolding etcdMachinesOrNone_def by (intro read_intros reads_listEtcdMachines)

lemma reads_getOwnedMachines: "obeys reads (getOwnedMachines E cluster ec)"
  unfolding getOwnedMachines_def by (intro read_intros reads_etcdMachinesOrNone)

lemma wf_modifyEC: "obeys keeps_memory_wf (modifyEC g)"
  by (rule wf_if_keeps) (intro kept_EC, simp)

context collaborators
begin

lemma wf_removeUnhealthy: "obeys keeps_memory_wf (removeUnhealthy E cluster d entries retErr)"
proof (induction entries arbitrary: retErr)
  case Nil
  show ?case by (simp add: wf.prog_ret)
next
  case (Cons a entries)
  obtain endpoint m where a: "a = (endpoint, m)" by fastforce
  have "obeys keeps_memory_wf (removeOne E cluster d endpoint m retErr)"
    unfolding removeOne_def
    by (intro wf.prog_intros wf_if_reads [OF reads_getOwnedMachines]
        wf_if_keeps [OF remover.remove_keeps_mapper] wf_updateEntry wf_unmark)
  then show ?case using Cons by (simp add: a wf.prog_bnd)
qed

lemma wf_removalPhase: "obeys keeps_memory_wf (removalPhase E cluster d ms)"
  unfolding removalPhase_def statusNotReady_def call_StatusUpdate_def
  by (intro wf.prog_intros wf_removeUnhealthy wf_if_keeps [OF kept_call] wf_if_keeps [OF kept_EC(2)]
      wf_if_keeps [OF kept_range_over]) simp_all

lemma wf_periodic: "obeys keeps_memory_wf (periodicEtcdMembersHealthCheck E cluster)"
proof -
  have "obeys keeps_memory_wf (checkMember E cluster ec owned m)" for ec owned m
    unfolding checkMember_recordResult Let_def
    by (intro wf.prog_intros wf_recordResult wf_if_reads [OF checker.check_reads]) simp
  then show ?thesis
    unfolding periodicEtcdMembersHealthCheck_def healthRound_def
    by (intro wf.prog_intros wf_removalPhase wf_updateEntry wf_cleanUp
        wf_if_reads [OF reads_etcdMachinesOrNone] wf_if_keeps [OF kept_range_over])
qed

lemma wf_enterCluster: "obeys keeps_memory_wf (enterCluster E ec)"
proof -
  have new: "obeys keeps_memory_wf (modify (\<lambda>s. s\<lparr>etcdadmClusterMapper := (etcdadmClusterMapper s)(uid \<mapsto>
      \<lparr>unhealthyMembersFrequency = [], unhealthyMembersToRemove = [],
       hcCluster = cl, hcEndpoints = [], hcOwnedMachines = owned\<rparr>)\<rparr>))" for uid cl owned
    by (rule obeysI) (auto simp: keeps_memory_wf_def entry_wf_def intro!: memory_wf_upd)
  have same: "entry_wf c \<Longrightarrow> entry_wf (c\<lparr>hcEndpoints := e, hcOwnedMachines := o'\<rparr>)" for c e o'
    by (simp add: entry_wf_def)
  show ?thesis
    unfolding enterCluster_def call_GetOwnerCluster_def
    by (intro wf.prog_intros new wf_updateEntry same wf_if_reads [OF reads_getOwnedMachines]
        wf_if_keeps [OF kept_call]) simp
qed

lemma wf_startHealthCheck: "obeys keeps_memory_wf (startHealthCheck E)"
  unfolding startHealthCheck_def healthCheckCluster_def call_ListEtcdadmClusters_def
  by (intro wf.prog_intros wf_modifyEC wf_enterCluster wf_periodic wf_if_keeps [OF kept_call]) simp

end

text \<open>From an empty memory, however many ticks the loop has handled and whatever
  happened in them: no endpoint is counted or marked twice, counters are positive and belong to
  endpoints with an address, and every marked machine is filed under its own endpoint.\<close>

theorem memory_stays_wf:
  "memory_wf (snd (run_state (startHealthCheckLoop (SetupWithManager_env E None) signals) s))"
proof -
  have "obeys keeps_memory_wf (healthCheckLoop (SetupWithManager_env E None) signals)"
  proof (induction signals)
    case (Cons sig signals)
    then show ?case
      by (cases sig) (auto intro!: wf.prog_intros wired.wf_startHealthCheck)
  qed (simp add: wf.prog_ret)
  then show ?thesis
    by (simp add: startHealthCheckLoop_def run_simps obeys_def keeps_memory_wf_def memory_wf_def)
qed

section \<open>Quorum\<close>

text \<open>
  The checks of a round with their results: the loop of \<open>healthRound\<close>, returning for each machine
  with an endpoint the endpoint and the error of its check.
\<close>

fun probeRound ::
  "env \<Rightarrow> Cluster \<Rightarrow> EtcdadmCluster \<Rightarrow> Machines \<Rightarrow> Machines \<Rightarrow> (string \<times> err option) list io" where
  "probeRound E cluster ec owned [] = ret []"
| "probeRound E cluster ec owned (m # ms) =
     (let endpoint = getMachineEtcdEndpoint m in
      if endpoint = [] then probeRound E cluster ec owned ms
      else
        bnd (performEndpointHealthCheck E cluster endpoint False) (\<lambda>r.
        seq (recordResult ec owned m endpoint (r = None))
        (bnd (probeRound E cluster ec owned ms) (\<lambda>rs. ret ((endpoint, r) # rs)))))"

lemma run_checkMembers:
  "run_state (forRange (checkMember E cluster ec owned) ms) s =
     (case run_state (probeRound E cluster ec owned ms) s of
        (Panic msg, t) \<Rightarrow> (Panic msg, t) | (Done rs, t) \<Rightarrow> (Done (), t))"
proof (induction ms arbitrary: s)
  case Nil
  show ?case by simp
next
  case (Cons m ms)
  then show ?case
    by (auto simp: run_simps checkMember_recordResult Let_def split: prod.splits outcome.splits)
qed

text \<open>What the checks of the round start from: the memory after the clean-up.\<close>

definition probe ::
  "env \<Rightarrow> Cluster \<Rightarrow> EtcdadmCluster \<Rightarrow> Machines \<Rightarrow> (string \<times> err option) list io" where
  "probe E cluster ec etcdMachines =
     seq (updateEntry (UID (ecMeta ec)) (cleanUp etcdMachines))
     (bnd (range_over E ''healthchecks'' etcdMachines)
       (probeRound E cluster ec (col_Filter (coll E) (col_OwnedMachines (coll E) ec) etcdMachines)))"

text \<open>Machines that have an endpoint have different ones.\<close>

definition distinct_endpoints :: "Machines \<Rightarrow> bool" where
  "distinct_endpoints ms = distinct (filter (\<lambda>e. e \<noteq> []) (map getMachineEtcdEndpoint ms))"

lemma distinct_endpoints_Cons:
  "distinct_endpoints (m # ms) \<Longrightarrow> distinct_endpoints ms \<and>
     (getMachineEtcdEndpoint m \<noteq> [] \<longrightarrow> getMachineEtcdEndpoint m \<notin> getMachineEtcdEndpoint ` set ms)"
  by (auto simp: distinct_endpoints_def split: if_splits)

lemma distinct_endpoints_perm: "mset ms = mset ns \<Longrightarrow> distinct_endpoints ms = distinct_endpoints ns"
proof -
  assume "mset ms = mset ns"
  then have "mset (filter (\<lambda>e. e \<noteq> []) (map getMachineEtcdEndpoint ms)) =
      mset (filter (\<lambda>e. e \<noteq> []) (map getMachineEtcdEndpoint ns))" by simp
  then show ?thesis unfolding distinct_endpoints_def by (rule mset_eq_imp_distinct_iff)
qed

definition known :: "MemberHealthConfig \<Rightarrow> string set" where
  "known c = fst ` set (unhealthyMembersFrequency c)"

lemma known_iff: "k \<in> known c \<longleftrightarrow> map_of (unhealthyMembersFrequency c) k \<noteq> None"
  by (simp add: known_def map_of_eq_None_iff)

context collaborators
begin

lemma probeRound_known:
  assumes "run_state (probeRound E cluster ec owned ms) s = (Done rs, t)"
    and "etcdadmClusterMapper s (UID (ecMeta ec)) = Some c" and "entry_wf c" and "distinct_endpoints ms"
  shows "\<exists>c'. etcdadmClusterMapper t (UID (ecMeta ec)) = Some c' \<and> entry_wf c' \<and>
     fst ` set rs = getMachineEtcdEndpoint ` set ms - {[]} \<and>
     known c' = {k \<in> known c. k \<notin> fst ` set rs} \<union> {k. \<exists>e. (k, Some e) \<in> set rs}"
  using assms
proof (induction ms arbitrary: s c rs)
  case Nil
  then show ?case by simp
next
  case (Cons m ms)
  let ?e = "getMachineEtcdEndpoint m"
  have d: "distinct_endpoints ms" "?e \<noteq> [] \<Longrightarrow> ?e \<notin> getMachineEtcdEndpoint ` set ms"
    using distinct_endpoints_Cons Cons.prems(4) by blast+
  show ?case
  proof (cases "?e = []")
    case True
    then show ?thesis
      using Cons.IH [OF _ Cons.prems(2,3) d(1)] Cons.prems(1) by auto
  next
    case False
    then obtain r s1 rs' where check: "run_state (performEndpointHealthCheck E cluster ?e False) s = (Done r, s1)"
      and rest: "run_state (seq (recordResult ec owned m ?e (r = None)) (probeRound E cluster ec owned ms)) s1 = (Done rs', t)"
      and rs: "rs = (?e, r) # rs'"
      using Cons.prems(1) by (auto simp: run_simps Let_def split: prod.splits outcome.splits)
    have "etcdadmClusterMapper s1 = etcdadmClusterMapper s"
      using checker.check_keeps [OF check] by simp
    then have c1: "etcdadmClusterMapper s1 (UID (ecMeta ec)) = Some c" using Cons.prems(2) by simp
    let ?c = "recorded ec owned m ?e (r = None) c"
    let ?s2 = "s1\<lparr>etcdadmClusterMapper := (etcdadmClusterMapper s1)(UID (ecMeta ec) \<mapsto> ?c)\<rparr>"
    have run: "run_state (probeRound E cluster ec owned ms) ?s2 = (Done rs', t)"
      using rest by (simp add: run_seq run_recordResult [OF c1])
    have "etcdadmClusterMapper ?s2 (UID (ecMeta ec)) = Some ?c" by simp
    from Cons.IH [OF run this wf_recorded [OF Cons.prems(3) False] d(1)]
    obtain c' where c': "etcdadmClusterMapper t (UID (ecMeta ec)) = Some c'" "entry_wf c'"
       "fst ` set rs' = getMachineEtcdEndpoint ` set ms - {[]}"
       "known c' = {k \<in> known ?c. k \<notin> fst ` set rs'} \<union> {k. \<exists>e. (k, Some e) \<in> set rs'}"
      by blast
    have k: "known ?c = (if r = None then known c - {?e} else insert ?e (known c))"
      by (auto simp: known_iff recorded_frequency split: if_splits)
    have new: "?e \<notin> fst ` set rs'" using c'(3) d(2) False by auto
    then have "(?e, x) \<notin> set rs'" for x by force
    then have "known c' = {k \<in> known c. k \<notin> fst ` set rs} \<union> {k. \<exists>e. (k, Some e) \<in> set rs}"
      unfolding c'(4) k rs using new by (cases r) auto
    moreover have "fst ` set rs = getMachineEtcdEndpoint ` set (m # ms) - {[]}"
      using c'(3) rs False by auto
    ultimately show ?thesis using c'(1,2) by blast
  qed
qed

lemma emits_recordResult: "emits P (recordResult ec owned m k ok)"
  unfolding recordResult_def memberPassed_def memberFailed_def writeEntry_def updateEntry_def Let_def
  by (intro emit_intros emits_modify) simp_all

lemma recordResult_keeps_theEC: "obeys (keeps theEC) (recordResult ec owned m k ok)"
  unfolding recordResult_def memberPassed_def memberFailed_def writeEntry_def updateEntry_def Let_def
  by (intro kept_intros kept_modify) simp_all

lemma probeRound_emits: "emits removal_free (probeRound E cluster ec owned ms)"
  by (induction ms)
    (auto simp: Let_def intro!: emit_intros emits_recordResult checker.check_emits)

lemma probeRound_keeps_theEC: "obeys (keeps theEC) (probeRound E cluster ec owned ms)"
  by (induction ms)
    (auto simp: Let_def intro!: kept_intros recordResult_keeps_theEC
      reads_keeps_theEC [OF checker.check_reads])

lemma removal_needs_quorum_state:
  assumes c: "etcdadmClusterMapper s (UID (ecMeta (theEC s))) = Some c"
    and e: "e \<in> set (events (removalPhase E cluster desired ms) s)" "\<not> removal_free e"
  shows "quorumPreserved (length ms) (length (unhealthyMembersFrequency c))"
proof (rule ccontr)
  assume no: "\<not> quorumPreserved (length ms) (length (unhealthyMembersFrequency c))"
  then have "\<forall>e\<in>set (events (removalPhase E cluster desired ms) s). removal_free e"
    using c
    by (auto simp: removalPhase_def statusNotReady_def call_StatusUpdate_def run_simps
        frequencyOf_def events_def)
  then show False using e by blast
qed

lemma removalPhase_extends: "emits (\<lambda>_. True) (removalPhase E cluster d ms)"
proof -
  have "emits (\<lambda>_. True) (removeUnhealthy E cluster d entries retErr)" for entries retErr
  proof (induction entries arbitrary: retErr)
    case Nil
    show ?case by (simp add: emit.prog_ret)
  next
    case (Cons a entries)
    obtain endpoint m where a: "a = (endpoint, m)" by fastforce
    have "emits (\<lambda>_. True) (removeOne E cluster d endpoint m retErr)"
      unfolding removeOne_def updateEntry_def
      by (intro emit_intros emits_modify remover.remove_emits reads_emits [OF reads_getOwnedMachines])
        simp_all
    then show ?case using Cons.IH by (simp add: a emit.prog_bnd)
  qed
  then show ?thesis
    unfolding removalPhase_def statusNotReady_def call_StatusUpdate_def
    by (intro emit_intros) simp_all
qed

end

lemma quorumPreserved_iff: "quorumPreserved n k \<longleftrightarrow> 2 * k < n"
  unfolding quorumPreserved_def by presburger

text \<open>A round starts by forgetting endpoints that have no machine any more.\<close>

lemma run_cleanUp:
  "etcdadmClusterMapper s uid = Some c \<Longrightarrow> run_state (updateEntry uid (cleanUp machines)) s =
     (Done (), s\<lparr>etcdadmClusterMapper := (etcdadmClusterMapper s)(uid \<mapsto> cleanUp machines c)\<rparr>)"
  by (simp add: updateEntry_def)

text \<open>After its checks the memory knows the endpoints that have just failed, and no others.\<close>

lemma probe_knows_failing:
  assumes entry: "etcdadmClusterMapper s (UID (ecMeta (theEC s))) = Some c" and wf: "entry_wf c"
    and distinct: "distinct_endpoints machines"
    and checks: "run_state (probe (SetupWithManager_env E None) cluster (theEC s) machines) s = (Done rs, t)"
  shows "\<exists>c'. etcdadmClusterMapper t (UID (ecMeta (theEC s))) = Some c' \<and> entry_wf c' \<and>
     known c' = {k. \<exists>err. (k, Some err) \<in> set rs}"
proof -
  let ?E = "SetupWithManager_env E None" and ?ec = "theEC s" and ?c = "cleanUp machines c"
  let ?owned = "col_Filter (coll ?E) (col_OwnedMachines (coll ?E) ?ec) machines"
  let ?s1 = "s\<lparr>etcdadmClusterMapper := (etcdadmClusterMapper s)(UID (ecMeta ?ec) \<mapsto> ?c)\<rparr>"
  let ?ms = "go_range (range_order (svc ?E) ''healthchecks'' (trace s) (length machines)) machines"
  have run: "run_state (probeRound ?E cluster ?ec ?owned ?ms) ?s1 = (Done rs, t)"
    using checks by (simp add: probe_def run_seq run_bnd run_cleanUp [OF entry])
  have wf1: "entry_wf ?c" using wf by (rule wf_cleanUp)
  have dist: "distinct_endpoints ?ms" using distinct_endpoints_perm [of ?ms machines] distinct by simp
  obtain c' where c': "etcdadmClusterMapper t (UID (ecMeta ?ec)) = Some c'" "entry_wf c'"
     "fst ` set rs = getMachineEtcdEndpoint ` set ?ms - {[]}"
     "known c' = {k \<in> known ?c. k \<notin> fst ` set rs} \<union> {k. \<exists>e. (k, Some e) \<in> set rs}"
    using wired.probeRound_known [OF run _ wf1 dist] by auto
  have "k \<in> fst ` set rs" if "k \<in> known ?c" for k
  proof -
    from that obtain n m where m: "(k, n) \<in> set (unhealthyMembersFrequency c)" "m \<in> set machines"
      "getMemberClientURL (getEtcdMachineAddress m) = k"
      by (auto simp: known_def cleanUp_def list_ex_iff)
    with wf have "k \<noteq> getMemberClientURL []" by (auto simp: entry_wf_def list_all_iff)
    with m have "getMachineEtcdEndpoint m = k \<and> k \<noteq> []"
      by (auto simp: getMachineEtcdEndpoint_def Let_def getMemberClientURL_def)
    then show ?thesis using c'(3) m(2) by (auto simp flip: set_mset_mset)
  qed
  then show ?thesis using c' by auto
qed

text \<open>What a round removes, it removes after its checks.\<close>

lemma removals_after_probe:
  assumes entry: "etcdadmClusterMapper s (UID (ecMeta (theEC s))) = Some c"
    and checks: "run_state (probe (SetupWithManager_env E None) cluster (theEC s) machines) s = (Done rs, t)"
    and removal: "e \<in> set (events (healthRound (SetupWithManager_env E None) cluster (theEC s) desired machines) s)"
      "\<not> removal_free e"
  shows "theEC t = theEC s \<and> e \<in> set (events (removalPhase (SetupWithManager_env E None) cluster desired machines) t)"
proof -
  let ?E = "SetupWithManager_env E None" and ?ec = "theEC s"
  let ?owned = "col_Filter (coll ?E) (col_OwnedMachines (coll ?E) ?ec) machines"
  let ?s1 = "s\<lparr>etcdadmClusterMapper := (etcdadmClusterMapper s)(UID (ecMeta ?ec) \<mapsto> cleanUp machines c)\<rparr>"
  let ?ms = "go_range (range_order (svc ?E) ''healthchecks'' (trace s) (length machines)) machines"
  note clean = run_cleanUp [OF entry, of machines]
  have run: "run_state (probeRound ?E cluster ?ec ?owned ?ms) ?s1 = (Done rs, t)"
    using checks by (simp add: probe_def run_seq run_bnd clean)
  have same: "theEC t = theEC s"
    using obeysD [OF wired.probeRound_keeps_theEC run] by (simp add: keeps_def)
  obtain es where es: "trace t = trace s @ es" "list_all removal_free es"
    using obeysD [OF wired.probeRound_emits run] by (auto simp: extends_def)
  have "machines \<noteq> []" using removal by (auto simp: healthRound_def events_def)
  then have end_run: "run_state (healthRound ?E cluster ?ec desired machines) s =
      run_state (removalPhase ?E cluster desired machines) t"
    using run by (simp add: healthRound_def run_seq run_bnd clean run_checkMembers)
  obtain fs where "trace (snd (run_state (removalPhase ?E cluster desired machines) t)) = trace t @ fs"
    using wired.removalPhase_extends [of E cluster desired machines] by (auto simp: obeys_def extends_def)
  then have "e \<in> set es \<or> e \<in> set (events (removalPhase ?E cluster desired machines) t)"
    using removal(1) end_run es(1) by (auto simp: events_def)
  then show ?thesis using es(2) removal(2) same by (auto simp: list_all_iff)
qed

text \<open>C1: A round of health checks removes a member or deletes a machine only if
  the checks it has just made have failed for less than half of the machines of the cluster, so that
  a quorum of them is healthy: of 3 machines for at most one, of 5 for at most two. (The machines
  listed have different addresses, and the memory is well formed.)\<close>

theorem removal_needs_quorum:
  assumes entry: "etcdadmClusterMapper s (UID (ecMeta (theEC s))) = Some c" and wf: "entry_wf c"
    and distinct: "distinct_endpoints machines"
    and checks: "run_state (probe (SetupWithManager_env E None) cluster (theEC s) machines) s = (Done rs, t)"
    and removal: "e \<in> set (events (healthRound (SetupWithManager_env E None) cluster (theEC s) desired machines) s)"
      "is_delete e \<or> is_remove e"
  shows "2 * card {endpoint. \<exists>err. (endpoint, Some err) \<in> set rs} < length machines"
proof -
  let ?E = "SetupWithManager_env E None"
  obtain c' where c': "etcdadmClusterMapper t (UID (ecMeta (theEC s))) = Some c'" "entry_wf c'"
     "known c' = {k. \<exists>err. (k, Some err) \<in> set rs}"
    using probe_knows_failing [OF entry wf distinct checks] by blast
  have free: "\<not> removal_free e" using removal(2) by (simp add: removal_free_iff)
  have "length (unhealthyMembersFrequency c') = card (known c')"
    using c'(2) distinct_card [of "map fst (unhealthyMembersFrequency c')"] by (simp add: entry_wf_def known_def)
  moreover have "quorumPreserved (length machines) (length (unhealthyMembersFrequency c'))"
    using removals_after_probe [OF entry checks removal(1) free] wired.removal_needs_quorum_state [of t c' e] c'(1) free
    by auto
  ultimately show ?thesis by (simp add: quorumPreserved_iff c'(3))
qed

text \<open>
  An example: of three machines only the first has an address, its port is closed, and it has failed
  four times before.
\<close>

definition no_address :: "string \<Rightarrow> Machine" where
  "no_address n = (ref_machine n [])\<lparr>mAddresses := []\<rparr>"

definition trio :: Machines where
  "trio = [ref_machine ''m1'' ''10.0.0.1'', no_address ''m2'', no_address ''m3'']"

definition trio_env :: env where
  "trio_env = with_svc (\<lambda>v. v
     \<lparr>k_ListMachines := (\<lambda>h rd cl f. Inr trio), n_Dial := (\<lambda>h host. Inr False),
      e_MemberList := (\<lambda>h c. Inr
        [\<lparr>memberID = 1, memberName = ''m1'', memberPeerURLs = [''https://10.0.0.1:2380'']\<rparr>,
         \<lparr>memberID = 2, memberName = ''m2'', memberPeerURLs = [''https://10.0.0.2:2380'']\<rparr>])\<rparr>)"

definition failing_entry :: MemberHealthConfig where
  "failing_entry = fresh_entry\<lparr>unhealthyMembersFrequency := [(''https://10.0.0.1:2379'', 4)]\<rparr>"

definition failing_sys :: sys where
  "failing_sys = ref_sys\<lparr>etcdadmClusterMapper := [UID (ecMeta ref_ec) \<mapsto> failing_entry],
     clusterToHttpClient := [UID (clMeta ref_cluster) \<mapsto> \<lparr>hcTimeout = 0, hcRootCAs = [], hcCertificate = TlsCertificate [] []\<rparr>]\<rparr>"

lemma trio_checks:
  "case run_state (probe (SetupWithManager_env trio_env None) ref_cluster ref_ec trio) failing_sys of
     (Done rs, t) \<Rightarrow> (case rs of [(ep, Some PortNotOpen)] \<Rightarrow> ep = ''https://10.0.0.1:2379'' | _ \<Rightarrow> False)
   | (Panic _, _) \<Rightarrow> False"
  by code_simp

lemma trio_removes:
  "list_ex is_delete (events (healthRound (SetupWithManager_env trio_env None) ref_cluster ref_ec 3 trio) failing_sys)"
  by code_simp

theorem removal_needs_quorum_witness:
  "\<exists>rs t. run_state (probe (SetupWithManager_env trio_env None) ref_cluster (theEC failing_sys) trio) failing_sys = (Done rs, t) \<and>
     2 * card {endpoint. \<exists>err. (endpoint, Some err) \<in> set rs} < length trio"
proof -
  have ec: "theEC failing_sys = ref_ec" by (simp add: failing_sys_def ref_sys_def)
  obtain rs t where checks: "run_state (probe (SetupWithManager_env trio_env None) ref_cluster ref_ec trio) failing_sys = (Done rs, t)"
    using trio_checks by (auto split: prod.splits outcome.splits)
  obtain e where e: "e \<in> set (events (healthRound (SetupWithManager_env trio_env None) ref_cluster ref_ec 3 trio) failing_sys)"
      "is_delete e"
    using trio_removes by (auto simp: list_ex_iff)
  have entry: "etcdadmClusterMapper failing_sys (UID (ecMeta (theEC failing_sys))) = Some failing_entry"
    by (simp add: ec) (simp add: failing_sys_def)
  have wf: "entry_wf failing_entry"
    by (simp add: entry_wf_def failing_entry_def fresh_entry_def getMemberClientURL_def httpsPrefix_def)
  have dist: "distinct_endpoints trio"
    by (simp add: distinct_endpoints_def trio_def no_address_def getMachineEtcdEndpoint_def Let_def
        getEtcdMachineAddress_def scan_addresses_def)
  have "2 * card {endpoint. \<exists>err. (endpoint, Some err) \<in> set rs} < length trio"
    by (rule removal_needs_quorum [OF entry wf dist, where E = trio_env and e = e and desired = 3])
      (use checks e ec in simp_all)
  then show ?thesis using checks ec by auto
qed

section \<open>Every removal follows a fresh count\<close>

text \<open>
  The monitor knows the machines of the last listing as long as nothing has been deleted since, and
  whether the member of a machine about to be deleted has gone.
\<close>

datatype listing_state = Stale | Fresh Machines | Removing

fun observe_listing :: "listing_state \<Rightarrow> event \<Rightarrow> listing_state" where
  "observe_listing _ (EvListMachines _ _ (Inr ms)) = Fresh ms"
| "observe_listing _ (EvListMachines _ _ (Inl _)) = Fresh []"
| "observe_listing _ (EvMemberRemove _ _ _) = Removing"
| "observe_listing _ (EvDeleteMachine _ _) = Stale"
| "observe_listing st _ = st"

fun allowed_listing :: "(Machines \<Rightarrow> bool) \<Rightarrow> listing_state \<Rightarrow> event \<Rightarrow> bool" where
  "allowed_listing enough (Fresh ms) (EvMemberRemove _ _ _) = enough ms"
| "allowed_listing enough st (EvMemberRemove _ _ _) = False"
| "allowed_listing enough (Fresh ms) (EvDeleteMachine _ _) = enough ms"
| "allowed_listing enough Removing (EvDeleteMachine _ _) = True"
| "allowed_listing enough Stale (EvDeleteMachine _ _) = False"
| "allowed_listing enough _ _ = True"

fun counted :: "(Machines \<Rightarrow> bool) \<Rightarrow> listing_state \<Rightarrow> event list \<Rightarrow> bool" where
  "counted enough st [] = True"
| "counted enough st (e # es) =
     (allowed_listing enough st e \<and> counted enough (observe_listing st e) es)"

lemma counted_append:
  "counted enough st (es @ fs) =
     (counted enough st es \<and> counted enough (fold (\<lambda>e st. observe_listing st e) es st) fs)"
  by (induction es arbitrary: st) simp_all

definition counted_removals :: "(Machines \<Rightarrow> bool) \<Rightarrow> event list \<Rightarrow> bool" where
  "counted_removals enough es = (\<forall>st. counted enough st es)"

interpretation counting: closed_events "counted_removals enough" for enough
  by unfold_locales (simp_all add: counted_removals_def counted_append)

interpretation counting_order: step_order "appends (counted_removals enough)" for enough
  by (rule counting.order)

lemma counted_free: "list_all removal_free es \<Longrightarrow> counted enough st es"
proof (induction es arbitrary: st)
  case (Cons e es)
  then show ?case by (cases e; cases st) simp_all
qed simp

lemma counted_if_free: "emits removal_free m \<Longrightarrow> obeys (appends (counted_removals enough)) m"
  by (erule counting.of_emits) (simp add: counted_removals_def counted_free)

lemma counted_unlisted:
  "list_all (\<lambda>e. \<not> mutates e \<and> \<not> is_list e) es \<Longrightarrow>
   counted enough st es \<and> fold (\<lambda>e st. observe_listing st e) es st = st"
proof (induction es arbitrary: st)
  case (Cons e es)
  then have "allowed_listing enough st e \<and> observe_listing st e = st" by (cases e; cases st) simp_all
  with Cons show ?case by simp
qed simp

lemma deleteMachineIfAny_shape:
  "\<exists>tail. trace (snd (run_state (deleteMachineIfAny E mo) s)) = trace s @ tail \<and>
     (tail = [] \<or> (\<exists>m r. tail = [EvDeleteMachine m r]))"
  by (cases mo)
    (auto simp: deleteMachineIfAny_def deleteMachine_def call_DeleteMachine_def run_bnd
      split: option.splits)

lemma removal_counted_core:
  assumes "enough ms"
  shows "\<exists>es. trace (snd (run_state (removeEtcdMemberAndDeleteMachine E c u mo) s)) = trace s @ es \<and>
     counted enough (Fresh ms) es"
proof -
  let ?lst = "e_MemberList (svc E) (trace s) c"
  let ?s1 = "s\<lparr>trace := trace s @ [EvMemberList c ?lst]\<rparr>"
  show ?thesis
  proof (cases ?lst)
    case (Inl e)
    then show ?thesis
      by (simp add: removal_refines_plan run_tryErr call_MemberList_def)
  next
    case members: (Inr members)
    show ?thesis
    proof (cases "removal_plan members u")
      case LeaveLast
      then show ?thesis using members
        by (simp add: removal_refines_plan run_tryErr call_MemberList_def)
    next
      case JustDelete
      obtain tail where "trace (snd (run_state (deleteMachineIfAny E mo) ?s1)) = trace ?s1 @ tail"
          "tail = [] \<or> (\<exists>m r. tail = [EvDeleteMachine m r])"
        using deleteMachineIfAny_shape by blast
      then show ?thesis using members JustDelete assms
        by (auto simp: removal_refines_plan run_tryErr call_MemberList_def)
    next
      case (RemoveThenDelete i)
      let ?rr = "e_MemberRemove (svc E) (trace ?s1) c i"
      let ?s2 = "?s1\<lparr>trace := trace ?s1 @ [EvMemberRemove c i ?rr]\<rparr>"
      obtain tail where "trace (snd (run_state (deleteMachineIfAny E mo) ?s2)) = trace ?s2 @ tail"
          "tail = [] \<or> (\<exists>m r. tail = [EvDeleteMachine m r])"
        using deleteMachineIfAny_shape by blast
      then show ?thesis using members RemoveThenDelete assms
        by (cases ?rr)
          (auto simp: removal_refines_plan run_tryErr run_checkErr call_MemberList_def call_MemberRemove_def)
    qed
  qed
qed

lemma run_etcdMachinesOrNone:
  "\<exists>r es. run_state (etcdMachinesOrNone E cluster n) s = (r, s\<lparr>trace := trace s @ es\<rparr>) \<and>
     ((\<exists>msg. r = Panic msg \<and> es = []) \<or>
      (\<exists>a. es = [EvListMachines UncachedClient (clName cluster) a] \<and>
           r = Done (case a of Inl _ \<Rightarrow> [] | Inr ms \<Rightarrow> ms)))"
  by (cases "EtcdMachinesSelectorForCluster E (clName cluster) n")
    (auto simp: etcdMachinesOrNone_def listEtcdMachines_def call_ListMachines_def run_simps
      intro: exI [of _ "[]"])

definition enoughFor :: "env \<Rightarrow> EtcdadmCluster \<Rightarrow> int \<Rightarrow> Machines \<Rightarrow> bool" where
  "enoughFor E ec desired ms =
     (int (length (col_Filter (coll E) (col_Not (coll E) (col_HasDeletionTimestamp (coll E)))
       (col_Filter (coll E) (col_OwnedMachines (coll E) ec) ms))) \<ge> desired)"

context collaborators
begin

lemma removal_counted:
  assumes "enough ms"
  shows "\<exists>es. trace (snd (run_state (removeEtcdMachine E cluster mo addr) s)) = trace s @ es \<and>
     counted enough (Fresh ms) es"
proof -
  obtain r s1 where client: "run_state (GetEtcdClient E cluster (Endpoints (ecStatus (theEC s)))) s = (r, s1)"
    by fastforce
  obtain es where es: "trace s1 = trace s @ es" "list_all (\<lambda>e. \<not> mutates e) es"
    using obeysD [OF client_reads client] by (auto simp: reads_def extends_def)
  have "list_all (\<lambda>e. \<not> is_list e) es"
    using obeysD [OF client_lists_nothing client] es(1) by (auto simp: extends_def)
  with es(2) have quiet: "counted enough (Fresh ms) es"
     "fold (\<lambda>e st. observe_listing st e) es (Fresh ms) = Fresh ms"
    using counted_unlisted [of es] by (simp_all add: list_all_iff)
  show ?thesis
  proof (cases "\<exists>c. r = Done (Inr (Some c))")
    case True
    then obtain c where r: "r = Done (Inr (Some c))" by blast
    obtain r' s2 where rm: "run_state (removeEtcdMemberAndDeleteMachine E c (peerURLOf addr) mo) s1 = (r', s2)"
      by fastforce
    obtain fs where fs: "trace s2 = trace s1 @ fs" "counted enough (Fresh ms) fs"
      using removal_counted_core [where enough = enough and ms = ms, OF assms, of E c "peerURLOf addr" mo s1] rm
      by auto
    show ?thesis
    proof (cases r')
      case (Done x)
      have "trace (snd (run_state (removeEtcdMachine E cluster mo addr) s)) = trace s @ (es @ fs @ [EvCloseEtcdClient c])"
        using client r rm Done es fs by (simp add: removeEtcdMachine_def run_simps call_CloseEtcdClient_def)
      moreover have "counted enough (Fresh ms) (es @ fs @ [EvCloseEtcdClient c])"
        using quiet fs by (simp add: counted_append)
      ultimately show ?thesis by blast
    next
      case (Panic msg)
      have "trace (snd (run_state (removeEtcdMachine E cluster mo addr) s)) = trace s @ (es @ fs)"
        using client r rm Panic es fs by (simp add: removeEtcdMachine_def run_simps call_CloseEtcdClient_def)
      moreover have "counted enough (Fresh ms) (es @ fs)"
        using quiet fs by (simp add: counted_append)
      ultimately show ?thesis by blast
    qed
  next
    case False
    then have "trace (snd (run_state (removeEtcdMachine E cluster mo addr) s)) = trace s @ es"
      using client es by (auto simp: removeEtcdMachine_def run_simps split: outcome.splits sum.splits option.splits)
    then show ?thesis using quiet by blast
  qed
qed

lemma removeOne_counted:
  assumes run: "run_state (removeOne E cluster desired endpoint m retErr) s = (r, t)"
  shows "appends (counted_removals (enoughFor E (theEC s) desired)) s t \<and> theEC t = theEC s"
proof -
  have keep: "obeys (keeps theEC) (removeOne E cluster desired endpoint m retErr)"
    unfolding removeOne_def updateEntry_def
    by (intro kept_intros kept_modify remover.remove_keeps_theEC reads_keeps_theEC [OF reads_getOwnedMachines])
      simp_all
  let ?ec = "theEC s" and ?enough = "enoughFor E (theEC s) desired"
  obtain lr es where lst: "run_state (etcdMachinesOrNone E cluster (Name (ecMeta ?ec))) s = (lr, s\<lparr>trace := trace s @ es\<rparr>)"
    and es: "(\<exists>msg. lr = Panic msg \<and> es = []) \<or>
      (\<exists>a. es = [EvListMachines UncachedClient (clName cluster) a] \<and>
           lr = Done (case a of Inl _ \<Rightarrow> [] | Inr ms \<Rightarrow> ms))"
    using run_etcdMachinesOrNone by blast
  have "appends (counted_removals ?enough) s t"
  proof (cases lr)
    case (Panic msg)
    then show ?thesis
      using run lst es
      by (auto simp: removeOne_def getOwnedMachines_def run_simps appends_def counted_removals_def)
  next
    case (Done ms)
    with es obtain a where a: "es = [EvListMachines UncachedClient (clName cluster) a]"
      "ms = (case a of Inl _ \<Rightarrow> [] | Inr ms \<Rightarrow> ms)" by auto
    let ?s1 = "s\<lparr>trace := trace s @ es\<rparr>"
    have listed: "observe_listing st (EvListMachines UncachedClient (clName cluster) a) = Fresh ms" for st
      using a(2) by (cases a) simp_all
    show ?thesis
    proof (cases "?enough ms")
      case False
      then have "t = ?s1"
        using run lst Done
        by (simp add: removeOne_def getOwnedMachines_def run_simps enoughFor_def Let_def)
      then show ?thesis using a(1) by (auto simp: appends_def counted_removals_def)
    next
      case True
      obtain fs where fs: "trace (snd (run_state (removeEtcdMachine E cluster (Some m)
            (getEtcdMachineAddressFromClientURL endpoint)) ?s1)) = trace ?s1 @ fs"
          "counted ?enough (Fresh ms) fs"
        using removal_counted [where enough = ?enough and ms = ms, OF True] by blast
      have "trace t = trace s @ (es @ fs)"
        using run lst Done True fs(1)
        by (auto simp: removeOne_def getOwnedMachines_def run_simps enoughFor_def Let_def updateEntry_def
            split: prod.splits outcome.splits option.splits)
      moreover have "counted_removals ?enough (es @ fs)"
        using fs(2) a(1) listed by (simp add: counted_removals_def)
      ultimately show ?thesis unfolding appends_def by blast
    qed
  qed
  then show ?thesis using obeysD [OF keep run] by (simp add: keeps_def)
qed

lemma removeUnhealthy_counted:
  assumes "run_state (removeUnhealthy E cluster desired entries retErr) s = (r, t)"
  shows "appends (counted_removals (enoughFor E (theEC s) desired)) s t"
  using assms
proof (induction entries arbitrary: retErr s)
  case Nil
  then show ?case by (auto intro: counting_order.refl)
next
  case (Cons a entries)
  obtain endpoint m where a: "a = (endpoint, m)" by fastforce
  obtain x u where one: "run_state (removeOne E cluster desired endpoint m retErr) s = (x, u)" by fastforce
  note step = removeOne_counted [OF one]
  show ?case
  proof (cases x)
    case (Done e)
    then have "run_state (removeUnhealthy E cluster desired entries e) u = (r, t)"
      using Cons.prems one by (simp add: a run_bnd)
    then have "appends (counted_removals (enoughFor E (theEC u) desired)) u t"
      using Cons.IH by blast
    then show ?thesis using step counting_order.trans by metis
  next
    case (Panic msg)
    then show ?thesis using Cons.prems one step by (simp add: a run_bnd)
  qed
qed

lemma removalPhase_counted:
  assumes run: "run_state (removalPhase E cluster desired ms) s = (r, t)"
  shows "appends (counted_removals (enoughFor E (theEC s) desired)) s t"
proof -
  let ?free = "appends (counted_removals (enoughFor E (theEC s) desired))"
  have status: "obeys ?free (statusNotReady E)"
    unfolding statusNotReady_def call_StatusUpdate_def
    by (intro counted_if_free emit_intros) simp_all
  let ?freq = "frequencyOf s (UID (ecMeta (theEC s)))" and ?rm = "toRemoveOf s (UID (ecMeta (theEC s)))"
  show ?thesis
  proof (cases "length ?rm = 0 \<or> \<not> quorumPreserved (length ms) (length ?freq)")
    case True
    then show ?thesis
      using run obeysD [OF status, of s r t] counting_order.refl
      by (auto simp: removalPhase_def run_simps split: if_splits)
  next
    case False
    let ?entries = "go_range (range_order (svc E) ''unhealthyMembersToRemove'' (trace s) (length ?rm)) ?rm"
    obtain x u where loop: "run_state (removeUnhealthy E cluster desired ?entries None) s = (x, u)" by fastforce
    have first: "?free s u" by (rule removeUnhealthy_counted [OF loop])
    have "t = u \<or> run_state (statusNotReady E) u = (r, t)"
      using run False loop
      by (auto simp: removalPhase_def run_simps split: outcome.splits option.splits)
    then show ?thesis using first obeysD [OF status, of u r t] counting_order.trans by metis
  qed
qed

lemma healthRound_counted:
  assumes run: "run_state (healthRound E cluster (theEC s) desired ms) s = (r, t)"
  shows "appends (counted_removals (enoughFor E (theEC s) desired)) s t"
proof (cases "ms = []")
  case True
  then show ?thesis using run counting_order.refl by (simp add: healthRound_def)
next
  case False
  let ?ec = "theEC s" and ?free = "appends (counted_removals (enoughFor E (theEC s) desired))"
  let ?owned = "col_Filter (coll E) (col_OwnedMachines (coll E) ?ec) ms"
  let ?ms = "go_range (range_order (svc E) ''healthchecks'' (trace s) (length ms)) ms"
  obtain u1 where clean: "run_state (updateEntry (UID (ecMeta ?ec)) (cleanUp ms)) s = (Done (), u1)"
    "trace u1 = trace s" "theEC u1 = theEC s"
    by (simp add: updateEntry_def)
  obtain x u2 where probe: "run_state (probeRound E cluster ?ec ?owned ?ms) u1 = (x, u2)" by fastforce
  have "?free u1 u2"
    using obeysD [OF counted_if_free [OF probeRound_emits] probe] .
  then have first: "?free s u2" using clean(2) by (simp add: appends_def)
  have same: "theEC u2 = theEC s"
    using obeysD [OF probeRound_keeps_theEC probe] clean(3) by (simp add: keeps_def)
  have "t = u2 \<or> run_state (removalPhase E cluster desired ms) u2 = (r, t)"
    using run False clean probe
    by (auto simp: healthRound_def run_seq run_bnd run_checkMembers Let_def split: outcome.splits)
  then show ?thesis
    using first removalPhase_counted [of cluster desired ms u2 r t] same counting_order.trans by metis
qed

end

text \<open>C11: In a periodic health check, every member removal and every machine
  deletion follows a listing made since the last deletion, in which at least the desired number of
  machines is owned by the cluster and not being deleted: one listing never justifies two
  deletions.\<close>

theorem removals_follow_fresh_count:
  assumes laws: "collections_laws (coll E)" and replicas: "Replicas (ecSpec (theEC s)) = Some n"
  shows "counted_removals
     (\<lambda>ms. int (length (filter (\<lambda>m. col_OwnedMachines (coll E) (theEC s) m \<and> DeletionTimestamp (mMeta m) = None) ms)) \<ge> sint n)
     (events (periodicEtcdMembersHealthCheck (SetupWithManager_env E None) cluster) s)"
proof -
  let ?E = "SetupWithManager_env E None"
  have enough: "enoughFor ?E (theEC s) (sint n) =
     (\<lambda>ms. int (length (filter (\<lambda>m. col_OwnedMachines (coll E) (theEC s) m \<and> DeletionTimestamp (mMeta m) = None) ms)) \<ge> sint n)"
    using laws by (simp add: enoughFor_def fun_eq_iff length_Filter_Filter collections_lawsD)
  let ?p = "periodicEtcdMembersHealthCheck ?E cluster"
  obtain r u where lst: "run_state (etcdMachinesOrNone ?E cluster (Name (ecMeta (theEC s)))) s = (r, u)" by fastforce
  have rd: "reads s u" using obeysD [OF reads_etcdMachinesOrNone lst] .
  then have first: "appends (counted_removals (enoughFor ?E (theEC s) (sint n))) s u" and same: "theEC u = theEC s"
    using obeysD [OF counted_if_free [OF reads_emits [OF reads_etcdMachinesOrNone]] lst]
    by (simp_all add: reads_def)
  obtain r' t where run: "run_state ?p s = (r', t)" by fastforce
  have "t = u \<or> (\<exists>ms. run_state (healthRound ?E cluster (theEC u) (sint n) ms) u = (r', t))"
    using run lst replicas same
    by (auto simp: periodicEtcdMembersHealthCheck_def run_simps split: outcome.splits)
  then have "appends (counted_removals (enoughFor ?E (theEC s) (sint n))) s t"
    using first same wired.healthRound_counted [of E cluster u "sint n"] counting_order.trans by metis
  then show ?thesis
    using run by (auto simp: appends_def events_def enough)
qed

theorem removals_follow_fresh_count_witness:
  "counted_removals
     (\<lambda>ms. int (length (filter (\<lambda>m. col_OwnedMachines ref_collections ref_ec m \<and> DeletionTimestamp (mMeta m) = None) ms)) \<ge> sint (3 :: 32 word))
     (events (periodicEtcdMembersHealthCheck (SetupWithManager_env trio_env None) ref_cluster) failing_sys)"
  using removals_follow_fresh_count [of trio_env failing_sys 3 ref_cluster]
  by (simp add: trio_env_def failing_sys_def ref_sys_def ref_ec_def)

end
