(* ===== verification/Address_Correct.thy ===== *)
theory Address_Correct
  imports Helpers
begin

text \<open>
  Which address of a machine the controller uses, and how it survives the way into a client URL and
  back, which is the way the health-check loop finds the member of a machine.
\<close>

section \<open>Precedence\<close>

text \<open>The address used for a machine is the first that is not empty among its last
  external DNS name, its last external IP, its last internal DNS name and its last internal IP; other
  types of addresses are never used.\<close>

theorem address_precedence:
  "getEtcdMachineAddress m =
     (case filter (\<lambda>a. a \<noteq> []) (map (\<lambda>t. last_address t (mAddresses m))
        [MachineExternalDNS, MachineExternalIP, MachineInternalDNS, MachineInternalIP]) of
        [] \<Rightarrow> [] | a # _ \<Rightarrow> a)"
  using scan_addresses_last [of "mAddresses m"] by (simp add: getEtcdMachineAddress_def Let_def)

section \<open>Round trip through a client URL\<close>

text \<open>The bytes of DNS names, IPv4 addresses and unbracketed IPv6 addresses.\<close>

definition address_byte :: "char \<Rightarrow> bool" where
  "address_byte c = (is_alnum c \<or> c \<in> set ''-.:'')"

lemma address_byte_not [simp]:
  "\<not> address_byte (CHR ''?'')" "\<not> address_byte (CHR ''/'')" "\<not> address_byte (CHR ''@'')"
  "\<not> address_byte (CHR ''['')" "\<not> address_byte (CHR '']'')"
  by (simp_all add: address_byte_def is_alnum_def is_alpha_def is_digit_def ord_def)

lemma address_byte_host:
  "address_byte c \<Longrightarrow> host_byte c \<and> ord c \<noteq> 37 \<and> \<not> ord c < 32 \<and> ord c \<noteq> 127"
  by (auto simp: address_byte_def host_byte_def is_alnum_def is_alpha_def is_digit_def ord_def)

lemma strings_Cut_notin: "sep \<notin> set s \<Longrightarrow> strings_Cut s sep = (s, [], False)"
  by (induction s) auto

lemma unescape_host: "list_all address_byte s \<Longrightarrow> unescape mode s = Some s"
proof (induction mode s rule: unescape.induct)
  case (2 mode c cs)
  then have "host_byte c" "ord c \<noteq> 37" "unescape mode cs = Some cs"
    using address_byte_host by auto
  then show ?case by simp
qed simp

lemma split_last_port: "c \<notin> set p \<Longrightarrow> split_last (a @ c # p) c = Some (a, p)"
  by (simp add: split_last_def dropWhile_append takeWhile_append)

lemma split_last_None: "c \<notin> set s \<Longrightarrow> split_last s c = None"
  by (simp add: split_last_def)

lemma port_bytes: "list_all address_byte ''2379'' \<and> list_all is_digit ''2379''"
  by (simp add: address_byte_def is_alnum_def is_digit_def ord_def)

lemma url_host:
  assumes a: "list_all address_byte a" "a \<noteq> []"
  shows "url_ParseRequestURI (getMemberClientURL a) = Some (a @ '':2379'')"
proof -
  let ?h = "a @ '':2379''"
  have h: "list_all address_byte ?h"
    using a port_bytes by (simp add: address_byte_def)
  then have notin: "CHR ''?'' \<notin> set ?h" "CHR ''/'' \<notin> set ?h" "CHR ''@'' \<notin> set ?h" "CHR ''['' \<notin> set ?h"
    unfolding list_all_iff using address_byte_not by blast+
  have url: "getMemberClientURL a = ''https://'' @ ?h"
    by (simp add: getMemberClientURL_def httpsPrefix_def etcdClientURLPort_def)
  have ctl: "\<not> list_ex (\<lambda>c. ord c < 32 \<or> ord c = 127) (''https://'' @ ?h)"
    using h address_byte_host by (auto simp: list_ex_iff list_all_iff ord_def)
  have scheme: "getScheme (''https://'' @ ?h) = Some (''https'', ''//'' @ ?h)"
    by (simp add: getScheme_def is_alpha_def is_digit_def ord_def)
  have cut: "strings_Cut (''//'' @ ?h) (CHR ''?'') = (''//'' @ ?h, [], False)"
    "strings_Cut ?h (CHR ''/'') = (?h, [], False)"
    using notin strings_Cut_notin [of "CHR ''?''" "''//'' @ ?h"] strings_Cut_notin [of "CHR ''/''" ?h]
    by simp_all
  have first: "\<not> strings_HasPrefix ?h ''[''"
    using notin(4) a(2) by (cases a) (auto simp: strings_HasPrefix_def)
  have "split_last ?h (CHR '':'') = Some (a, ''2379'')"
    using split_last_port [of "CHR '':''" "''2379''" a] by simp
  then have "parseAuthority ?h = Some ?h"
    using notin(3) first port_bytes unescape_host [OF h]
    by (simp add: parseAuthority_def split_last_None parseHost_def validOptionalPort_def)
  then show ?thesis
    unfolding url url_ParseRequestURI_def url_parse_host_def
    using ctl scheme cut by (simp add: strings_HasPrefix_def)
qed

lemma client_url_address:
  assumes "list_all address_byte a" and "a \<noteq> []"
  shows "getEtcdMachineAddressFromClientURL (getMemberClientURL a) = (if CHR '':'' \<in> set a then [] else a)"
proof -
  have notin: "CHR ''['' \<notin> set a" "CHR '']'' \<notin> set a"
    using assms(1) address_byte_not unfolding list_all_iff by blast+
  then have first: "\<not> strings_HasPrefix (a @ '':2379'') ''[''"
    using assms(2) by (cases a) (auto simp: strings_HasPrefix_def)
  have "split_last (a @ '':2379'') (CHR '':'') = Some (a, ''2379'')"
    using split_last_port [of "CHR '':''" "''2379''" a] by simp
  then show ?thesis
    using notin first
    by (simp add: getEtcdMachineAddressFromClientURL_def url_host [OF assms] net_SplitHostPort_def)
qed

text \<open>C31: The address of a client URL the controller has built is the address it was
  built from, for every host name and IPv4 address; an IPv6 address without brackets comes back
  empty.\<close>

theorem client_url_roundtrip:
  assumes "list_all address_byte a" and "a \<noteq> []"
  shows "getEtcdMachineAddressFromClientURL (getMemberClientURL a) = (if CHR '':'' \<in> set a then [] else a)"
  by (rule client_url_address [OF assms])

theorem client_url_roundtrip_witness:
  "getEtcdMachineAddressFromClientURL (getMemberClientURL ''etcd-0.example.com'') = ''etcd-0.example.com''"
  using client_url_roundtrip [of "''etcd-0.example.com''"]
  by (simp add: address_byte_def is_alnum_def is_alpha_def is_digit_def ord_def)

end
