(* ===== verification/Status_Correct.thy ===== *)
theory Status_Correct
  imports Status
begin

text \<open>
  What a health check says about a member, and what the status of the cluster says about its
  machines.
\<close>

section \<open>One health check\<close>

text \<open>C25: With a client, a well-formed endpoint, an open port and an answer, a health
  check passes exactly when the status is 200 and the body is JSON whose health is "true", or the
  status is anything but 200: the error built for another status wraps a nil error, and so is nil.\<close>

theorem health_check_verdict:
  assumes laws: "errors_laws (errs E)"
    and client: "run_state (getEtcdHttpClient E cluster) s = (Done (Inr client), s1)"
    and url: "url_Parse endpoint = Some host" "url_Parse (getMemberHealthCheckEndpoint endpoint) \<noteq> None"
    and port: "run_state (r_isPortOpen E host) s1 = (Done True, s2)"
    and answer: "n_HttpGet (svc E) (trace s2) client (getMemberHealthCheckEndpoint endpoint) = Inr resp"
  shows "\<exists>r. fst (run_state (performEndpointHealthCheck E cluster endpoint verbose) s) = Done r \<and>
     (r = None) = (if respStatusCode resp = 200
       then \<exists>body. respBody resp = Inr body \<and> json_Unmarshal_health body = Some ''true'' else True)"
  using assms errors_lawsD(1,2) [OF laws]
  by (auto simp: performEndpointHealthCheck_def run_simps Let_def call_HttpGet_def
      parseEtcdHealthCheckOutput_def split: sum.splits option.splits if_splits)

definition busy_env :: env where
  "busy_env = with_svc (\<lambda>v. v\<lparr>n_HttpGet := (\<lambda>h c url. Inr \<lparr>respStatusCode = 503, respBody = Inr []\<rparr>)\<rparr>)"

definition busy_client :: HttpClient where
  "busy_client = \<lparr>hcTimeout = httpClientTimeout, hcRootCAs = ''cert'', hcCertificate = TlsCertificate ''cert'' ''key''\<rparr>"

definition busy_sys :: sys where
  "busy_sys = ref_sys\<lparr>clusterToHttpClient := [UID (clMeta ref_cluster) \<mapsto> busy_client]\<rparr>"

lemma url_example:
  "url_Parse ''https://a:2379'' = Some ''a:2379''"
  "url_Parse ''https://a:2379/health'' \<noteq> None"
  by code_simp+

theorem health_check_verdict_witness:
  "fst (run_state (performEndpointHealthCheck busy_env ref_cluster ''https://a:2379'' True) busy_sys) = Done None"
proof -
  have "run_state (getEtcdHttpClient busy_env ref_cluster) busy_sys = (Done (Inr busy_client), busy_sys)"
    by (simp add: getEtcdHttpClient_def run_simps busy_sys_def)
  moreover have "run_state (r_isPortOpen busy_env ''a:2379'') busy_sys = (Done True, busy_sys)"
    by (simp add: busy_env_def with_svc_def ref_env_def)
  ultimately show ?thesis
    using health_check_verdict [of busy_env ref_cluster busy_sys busy_client busy_sys "''https://a:2379''" "''a:2379''"
        busy_sys "\<lparr>respStatusCode = 503, respBody = Inr []\<rparr>" True] url_example
    by (simp add: busy_env_def getMemberHealthCheckEndpoint_def)
qed

text \<open>Once a cluster has an HTTP client, every later check of a cluster with
  that UID uses the same client and reads no certificate, whatever the Secrets hold by then.\<close>

theorem http_client_never_renewed:
  assumes "run_state (getEtcdHttpClient E cluster) s = (Done (Inr client), t)"
    and "clusterToHttpClient u = clusterToHttpClient t" and "UID (clMeta cluster') = UID (clMeta cluster)"
  shows "run_state (getEtcdHttpClient E' cluster') u = (Done (Inr client), u)"
proof -
  have "clusterToHttpClient t (UID (clMeta cluster)) = Some client"
    using assms(1)
    by (auto simp: getEtcdHttpClient_def run_simps Let_def
        split: option.splits prod.splits outcome.splits sum.splits)
  then show ?thesis
    using assms(2,3) by (simp add: getEtcdHttpClient_def run_simps)
qed

theorem http_client_never_renewed_witness:
  "run_state (getEtcdHttpClient ref_env ref_cluster) busy_sys = (Done (Inr busy_client), busy_sys)"
proof -
  have first: "run_state (getEtcdHttpClient ref_env ref_cluster) ref_sys =
      (Done (Inr busy_client), snd (run_state (getEtcdHttpClient ref_env ref_cluster) ref_sys))"
    "clusterToHttpClient (snd (run_state (getEtcdHttpClient ref_env ref_cluster) ref_sys)) = clusterToHttpClient busy_sys"
    by (simp_all add: getEtcdHttpClient_def getCACert_def getClientCerts_def call_LookupCerts_def
        lookupCert_def run_simps ref_env_def ref_svc_def ref_capi_def ref_keyPair_def ref_sys_def
        busy_sys_def busy_client_def Let_def)
  show ?thesis by (rule http_client_never_renewed [OF first(1)]) (simp_all add: first(2))
qed

section \<open>Counting healthy machines\<close>

definition healthyCount :: "etcdMachines \<Rightarrow> nat" where
  "healthyCount ms = length (filter (\<lambda>(_, m). healthy m) ms)"

lemma countReady_from: "fold (\<lambda>(_, m) n. if healthy m then n + 1 else n) ms (w :: 32 word) = w + of_nat (healthyCount ms)"
  by (induction ms arbitrary: w) (auto simp: healthyCount_def)

lemma countReady: "countReady ms = of_nat (healthyCount ms)"
  by (simp add: countReady_def countReady_from)

lemma healthyCount_le: "healthyCount ms \<le> length ms"
  by (simp add: healthyCount_def)

lemma healthyCount_all: "healthyCount ms = length ms \<longleftrightarrow> list_all (\<lambda>(_, m). healthy m) ms"
  unfolding healthyCount_def list_all_iff by (metis (lifting) filter_True length_filter_less nat_neq_iff)

lemma sint_of_nat32: "n < 2 ^ 31 \<Longrightarrow> sint (of_nat n :: 32 word) = int n"
  by (simp add: signed_of_nat signed_take_bit_int_eq_self)

lemma run_firstUnhealthy:
  "run_state (firstUnhealthy ms) s =
     (case dropWhile (\<lambda>(_, m). healthy m) ms of
        [] \<Rightarrow> (Done None, s)
      | (_, m) # _ \<Rightarrow>
          if emListening m
          then (Done (Some (emHealthError m)),
                s\<lparr>theEC := (theEC s)\<lparr>ecStatus := (ecStatus (theEC s))\<lparr>Ready := False\<rparr>\<rparr>\<rparr>)
          else (Done (Some None), s))"
  by (induction ms) (auto simp: run_simps setReady_def)

lemma firstUnhealthy_None: "dropWhile (\<lambda>(_, m). healthy m) ms = [] \<longleftrightarrow> list_all (\<lambda>(_, m). healthy m) ms"
  by (auto simp: dropWhile_eq_Nil_conv list_all_iff)

lemma list_all_go_range [simp]: "list_all P (go_range p xs) = list_all P xs"
  by (simp add: list_all_iff)

lemma sorted_endpoints_perm:
  "sort_Strings (etcd_endpoints (go_range p ms)) = sort_Strings (etcd_endpoints ms)"
  unfolding sort_Strings_def
proof (rule properties_for_sort)
  show "mset (sort (etcd_endpoints ms)) = mset (etcd_endpoints (go_range p ms))"
    by (simp add: etcd_endpoints_def)
qed simp

lemma updateEndpoints_frame:
  assumes "run_state (updateEndpoints E cluster ms) s = (r, t)"
  shows "Ready (ecStatus (theEC t)) = Ready (ecStatus (theEC s)) \<and>
    ReadyReplicas (ecStatus (theEC t)) = ReadyReplicas (ecStatus (theEC s)) \<and>
    Endpoints (ecStatus (theEC t)) = strings_Join (sort_Strings (etcd_endpoints ms)) '',''"
proof -
  have keep: "obeys (keeps theEC) (updateInitSecret E cluster eps cur)" for eps cur
    unfolding updateInitSecret_def call_GetSecret_def call_UpdateSecret_def
    by (intro kept_intros) simp_all
  show ?thesis
    using assms keptD [OF keep]
    by (auto simp: updateEndpoints_def run_simps Let_def sorted_endpoints_perm split: if_splits)
qed

text \<open>C16: A status update that turns Ready on has found that every owned
  machine is healthy and that there are exactly as many of them as replicas are wanted, and reports
  that number.\<close>

theorem ready_only_when_all_healthy:
  assumes run: "run_state (updateStatus E cluster ms) s = (Done r, t)"
    and turned: "\<not> Ready (ecStatus (theEC s))" "Ready (ecStatus (theEC t))"
    and small: "length ms < 2 ^ 31"
  shows "list_all (\<lambda>(_, m). emListening m \<and> emHealthError m = None) ms \<and>
     (\<exists>n. Replicas (ecSpec (theEC s)) = Some n \<and> sint n = int (length ms) \<and>
          ReadyReplicas (ecStatus (theEC t)) = n)"
proof -
  obtain sel where sel: "EtcdMachinesSelectorForCluster E (clName cluster) (Name (ecMeta (theEC s))) = Some sel"
    using run by (cases "EtcdMachinesSelectorForCluster E (clName cluster) (Name (ecMeta (theEC s)))")
      (auto simp: updateStatus_def run_simps)
  obtain n where n: "Replicas (ecSpec (theEC s)) = Some n"
    using run sel by (cases "Replicas (ecSpec (theEC s))") (auto simp: updateStatus_def run_simps)
  let ?ms = "go_range (range_order (svc E) ''updateStatus'' (trace s) (length ms)) ms"
  have all: "dropWhile (\<lambda>(_, m). healthy m) ?ms = []"
  proof (rule ccontr)
    assume "dropWhile (\<lambda>(_, m). healthy m) ?ms \<noteq> []"
    then obtain k m rest where d: "dropWhile (\<lambda>(_, m). healthy m) ?ms = (k, m) # rest"
      by (metis neq_Nil_conv surj_pair)
    show False
      using run turned sel n d
      by (auto simp: updateStatus_def run_simps run_firstUnhealthy setReady_def Let_def
          split: if_splits)
  qed
  then have healthy: "list_all (\<lambda>(_, m). healthy m) ms"
    using firstUnhealthy_None [of ?ms] by simp
  then have count: "healthyCount ms = length ms" using healthyCount_all by blast
  have eq: "sint (countReady ms) = sint n"
  proof (rule ccontr)
    assume "sint (countReady ms) \<noteq> sint n"
    then show False
      using run turned sel n
      by (auto simp: updateStatus_def run_simps setReady_def Let_def split: if_splits)
  qed
  then have same: "countReady ms = n" by (rule signed_word_eqI)
  have pass: "run_state (firstUnhealthy ?ms) u = (Done None, u)" for u
    by (simp only: run_firstUnhealthy all list.case)
  have "ReadyReplicas (ecStatus (theEC t)) = countReady ms"
    using run sel n eq
    by (auto simp: updateStatus_def run_simps pass setReady_def Let_def
        split: if_splits prod.splits outcome.splits option.splits dest!: updateEndpoints_frame)
  moreover have "sint n = int (length ms)"
    using eq count small by (simp add: countReady sint_of_nat32)
  ultimately show ?thesis
    using healthy same n by (simp add: healthy_def)
qed

definition well :: EtcdMachine where
  "well = \<lparr>emMachine = ref_machine ''m1'' ''a'', emEndpoint = ''https://a:2379'', emListening = True,
     emHealthError = None\<rparr>"

definition one_ec :: EtcdadmCluster where
  "one_ec = ref_ec\<lparr>ecSpec := (ecSpec ref_ec)\<lparr>Replicas := Some 1\<rparr>,
     ecStatus := (ecStatus ref_ec)\<lparr>Endpoints := ''https://a:2379''\<rparr>\<rparr>"

theorem ready_only_when_all_healthy_witness:
  "\<exists>t. run_state (updateStatus ref_env ref_cluster [(''m1'', well)]) (ref_sys\<lparr>theEC := one_ec\<rparr>) = (Done None, t) \<and>
     Ready (ecStatus (theEC t)) \<and>
     (\<exists>n. Replicas (ecSpec one_ec) = Some n \<and> sint n = int (length [(''m1'', well)]) \<and>
          ReadyReplicas (ecStatus (theEC t)) = n)"
proof -
  have "\<exists>t. run_state (updateStatus ref_env ref_cluster [(''m1'', well)]) (ref_sys\<lparr>theEC := one_ec\<rparr>) = (Done None, t) \<and>
     Ready (ecStatus (theEC t))"
    by (simp add: updateStatus_def updateEndpoints_def run_simps setReady_def Let_def go_range_def
        countReady_def healthy_def etcd_endpoints_def sort_Strings_def well_def one_ec_def
        ref_env_def ref_sys_def ref_ec_def ref_meta_def SetConditions_def)
  then obtain t where t: "run_state (updateStatus ref_env ref_cluster [(''m1'', well)]) (ref_sys\<lparr>theEC := one_ec\<rparr>) = (Done None, t)"
     "Ready (ecStatus (theEC t))" by blast
  have "\<not> Ready (ecStatus (theEC (ref_sys\<lparr>theEC := one_ec\<rparr>)))"
    by (simp add: one_ec_def ref_ec_def)
  from ready_only_when_all_healthy [OF t(1) this t(2)] t show ?thesis by auto
qed

text \<open>C26: For an object that is not being deleted: while the number of healthy machines is
  not the number of replicas wanted, a status update calls nothing outside and returns no error; it reports the healthy
  machines, says not Ready, and marks the resize as scaling up or down.\<close>

theorem status_when_count_differs:
  assumes sel: "EtcdMachinesSelectorForCluster E (clName cluster) (Name (ecMeta (theEC s))) = Some sel"
    and n: "Replicas (ecSpec (theEC s)) = Some n" and live: "DeletionTimestamp (ecMeta (theEC s)) = None"
    and laws: "conditions_laws (conds E) r"
    and small: "length ms < 2 ^ 31" and differs: "int (healthyCount ms) \<noteq> sint n"
  shows "\<exists>t. run_state (updateStatus E cluster ms) s = (Done None, t) \<and> trace t = trace s \<and>
     \<not> Ready (ecStatus (theEC t)) \<and> sint (ReadyReplicas (ecStatus (theEC t))) = int (healthyCount ms) \<and>
     IsFalse E (theEC t) EtcdClusterResizeCompleted \<and>
     GetReason E (theEC t) EtcdClusterResizeCompleted =
       (if int (healthyCount ms) < sint n then EtcdScaleUpInProgressReason else EtcdScaleDownInProgressReason)"
proof -
  have "healthyCount ms < 2 ^ 31" using healthyCount_le [of ms] small by simp
  then have k: "sint (countReady ms) = int (healthyCount ms)" by (simp add: countReady sint_of_nat32)
  note marks = conditions_lawsD(3,4) [OF laws]
  show ?thesis
  proof (cases "int (healthyCount ms) < sint n")
    case True
    then show ?thesis
      using sel n live k marks
      by (simp add: updateStatus_def run_simps setReady_def Let_def condition_reads GetConditions_def
          SetConditions_def)
  next
    case False
    then show ?thesis
      using sel n live k marks differs
      by (simp add: updateStatus_def run_simps setReady_def Let_def condition_reads GetConditions_def
          SetConditions_def)
  qed
qed

theorem status_when_count_differs_witness:
  "\<exists>t. run_state (updateStatus ref_env ref_cluster [(''m1'', well)]) ref_sys = (Done None, t) \<and>
     sint (ReadyReplicas (ecStatus (theEC t))) = 1 \<and> \<not> Ready (ecStatus (theEC t)) \<and>
     GetReason ref_env (theEC t) EtcdClusterResizeCompleted = EtcdScaleUpInProgressReason"
proof -
  have "healthyCount [(''m1'', well)] = 1"
    by (simp add: healthyCount_def healthy_def well_def)
  moreover have "capi ref_env = ref_capi" "conds ref_env = ref_conditions ''Ready''"
    by (simp_all add: ref_env_def)
  ultimately show ?thesis
    using status_when_count_differs [of ref_env ref_cluster ref_sys
        "ref_selector (clName ref_cluster) (Name (ecMeta (theEC ref_sys)))" 3 "''Ready''" "[(''m1'', well)]"]
    by (auto simp: ref_sys_def ref_ec_def ref_meta_def)
qed

text \<open>C27: Once the endpoints have been recomputed, computing them again for
  the same machines does nothing and reports nothing, also when the first time the Secret that new
  members join through could not be read or updated: the new endpoints are already in the status.\<close>

theorem endpoints_secret_never_retried:
  "run_state (updateEndpoints E cluster ms) (snd (run_state (updateEndpoints E cluster ms) s)) =
     (Done None, snd (run_state (updateEndpoints E cluster ms) s))"
proof -
  obtain r t where run: "run_state (updateEndpoints E cluster ms) s = (r, t)" by fastforce
  have "Endpoints (ecStatus (theEC t)) = strings_Join (sort_Strings (etcd_endpoints ms)) '',''"
    using updateEndpoints_frame [OF run] by blast
  then have "run_state (updateEndpoints E cluster ms) t = (Done None, t)"
    by (simp add: updateEndpoints_def run_simps Let_def sorted_endpoints_perm)
  then show ?thesis by (simp only: run snd_conv)
qed

text \<open>The etcd-ready label is put on healthy machines that do not have it
  yet and on no others, and putting it on changes nothing else of the machine.\<close>

theorem ready_label_only_when_healthy:
  assumes "e \<in> set (events (updateMachinesEtcdReadyLabel E ms) s)"
  shows "\<exists>n m r. (n, m) \<in> set ms \<and> healthy m \<and>
     map_get (Labels (mMeta (emMachine m))) MachineEtcdReadyLabelName = None \<and>
     e = EvUpdateMachine (withLabels (emMachine m)
           (Some ((the (Labels (mMeta (emMachine m))))(MachineEtcdReadyLabelName \<mapsto> ''true'')))) r"
proof -
  define P where "P e = (\<exists>n m r. (n, m) \<in> set ms \<and> healthy m \<and>
     map_get (Labels (mMeta (emMachine m))) MachineEtcdReadyLabelName = None \<and>
     e = EvUpdateMachine (withLabels (emMachine m)
           (Some ((the (Labels (mMeta (emMachine m))))(MachineEtcdReadyLabelName \<mapsto> ''true'')))) r)" for e
  have one: "emits P (labelIfHealthy E m)" if "(n, m) \<in> set ms" for n m
    unfolding labelIfHealthy_def call_UpdateMachine_def
    by (intro emit_intros) (use that in \<open>fastforce simp: map_put_def P_def split: option.splits\<close>)
  have "emits P (updateMachinesEtcdReadyLabel E ms)"
    unfolding updateMachinesEtcdReadyLabel_def
    by (rule obeys_range_over) (auto intro!: emit_intros one)
  then have "P e" using assms by (rule emits_events)
  then show ?thesis by (simp only: P_def)
qed

theorem ready_label_only_when_healthy_witness:
  "\<exists>n m r. (n, m) \<in> set [(''m1'', well)] \<and> healthy m \<and>
     map_get (Labels (mMeta (emMachine m))) MachineEtcdReadyLabelName = None \<and>
     EvUpdateMachine (withLabels (emMachine well) (Some [MachineEtcdReadyLabelName \<mapsto> ''true''])) None =
       EvUpdateMachine (withLabels (emMachine m)
           (Some ((the (Labels (mMeta (emMachine m))))(MachineEtcdReadyLabelName \<mapsto> ''true'')))) r"
proof (rule ready_label_only_when_healthy [where E = ref_env and s = ref_sys])
  show "EvUpdateMachine (withLabels (emMachine well) (Some [MachineEtcdReadyLabelName \<mapsto> ''true''])) None
      \<in> set (events (updateMachinesEtcdReadyLabel ref_env [(''m1'', well)]) ref_sys)"
    by (simp add: updateMachinesEtcdReadyLabel_def labelIfHealthy_def call_UpdateMachine_def run_simps
        events_def go_range_def healthy_def well_def ref_machine_def ref_meta_def ref_env_def
        ref_svc_def ref_sys_def map_put_def withLabels_def)
qed

end
