(* ===== verification/Plane_Correct.thy ===== *)
theory Plane_Correct
  imports Upgrade
begin

text \<open>
  Which machines are out of date, which one goes first, what one step of an upgrade may do, and what
  a machine is created with.
\<close>

section \<open>Out-of-date machines\<close>

text \<open>The specification: the bootstrap config or the infrastructure was made from another template.\<close>

definition outdated :: "env \<Rightarrow> EtcdPlane \<Rightarrow> Machine \<Rightarrow> bool" where
  "outdated E ep m \<longleftrightarrow>
     (\<exists>c. etcdadmConfigs ep (mName m) = Some c \<and> cfgSpec c \<noteq> etcdadmConfigSpec (ecSpec (EC ep))) \<or>
     (\<exists>i name gk. infraResources ep (mName m) = Some i \<and>
        map_get (Annotations (infMeta i)) (TemplateClonedFromNameAnnotation (capi E)) = Some name \<and>
        map_get (Annotations (infMeta i)) (TemplateClonedFromGroupKindAnnotation (capi E)) = Some gk \<and>
        (name \<noteq> oName (InfrastructureTemplate (ecSpec (EC ep))) \<or>
         gk \<noteq> groupKindString (capi E) (InfrastructureTemplate (ecSpec (EC ep)))))"

lemma matches_iff:
  assumes "collections_laws (coll E)"
  shows "MatchesEtcdadmClusterConfiguration E (infraResources ep) (etcdadmConfigs ep) (EC ep) m = (\<not> outdated E ep m)"
  using collections_lawsD(6) [OF assms]
  by (auto simp: MatchesEtcdadmClusterConfiguration_def MatchesEtcdadmConfig_def
      MatchesTemplateClonedFrom_def outdated_def split: option.splits)

text \<open>C21: With machines that have different names: the machines needing a rollout are
  those that are outdated and not being deleted, and every other machine counts as up to date, also
  an outdated one that is being deleted; out of date are all outdated machines.\<close>

theorem rollout_partition:
  assumes laws: "collections_laws (coll E)" and names: "machines_wf (epMachines ep)"
  shows "set (MachinesNeedingRollout E ep) =
      {m \<in> set (epMachines ep). outdated E ep m \<and> DeletionTimestamp (mMeta m) = None} \<and>
    set (OutOfDateMachines E ep) = {m \<in> set (epMachines ep). outdated E ep m} \<and>
    set (UpToDateMachines E ep) =
      {m \<in> set (epMachines ep). \<not> outdated E ep m \<or> DeletionTimestamp (mMeta m) \<noteq> None}"
proof -
  have need: "set (MachinesNeedingRollout E ep) =
      {m \<in> set (epMachines ep). outdated E ep m \<and> DeletionTimestamp (mMeta m) = None}"
    using laws by (auto simp: MachinesNeedingRollout_def Let_def set_col collections_lawsD matches_iff)
  have inj: "m = m'" if "m \<in> set (epMachines ep)" "m' \<in> set (epMachines ep)" "mName m = mName m'" for m m'
    using names that unfolding machines_wf_def by (auto simp: distinct_map dest: inj_onD)
  have "machines_lookup (MachinesNeedingRollout E ep) (mName m) = None \<longleftrightarrow> m \<notin> set (MachinesNeedingRollout E ep)"
    if "m \<in> set (epMachines ep)" for m
  proof -
    have "machines_lookup (MachinesNeedingRollout E ep) (mName m) = None \<longleftrightarrow>
        (\<forall>m'\<in>set (MachinesNeedingRollout E ep). mName m' \<noteq> mName m)"
      by (auto simp: machines_lookup_def find_None_iff)
    also have "\<dots> \<longleftrightarrow> m \<notin> set (MachinesNeedingRollout E ep)"
      using inj that need by blast
    finally show ?thesis .
  qed
  then have "set (UpToDateMachines E ep) = set (epMachines ep) - set (MachinesNeedingRollout E ep)"
    using laws by (auto simp: UpToDateMachines_def set_Difference)
  moreover have "set (OutOfDateMachines E ep) = {m \<in> set (epMachines ep). outdated E ep m}"
    using laws by (auto simp: OutOfDateMachines_def set_col collections_lawsD matches_iff)
  ultimately show ?thesis using need by (intro conjI) (auto simp only: mem_Collect_eq Diff_iff)
qed

text \<open>A plane with a current machine, an outdated one, and an outdated one that is being deleted.\<close>

definition old_config :: "string \<Rightarrow> EtcdadmConfig" where
  "old_config n = \<lparr>cfgMeta = ref_meta n, cfgSpec = OpaqueEtcdadmConfigSpec ''old''\<rparr>"

definition newM :: Machine where "newM = ref_machine ''new'' ''10.0.0.1''"

definition oldM :: Machine where "oldM = ref_machine ''old'' ''10.0.0.2''"

definition goneM :: Machine where
  "goneM = (ref_machine ''gone'' ''10.0.0.3'')\<lparr>mMeta := (ref_meta ''gone'')\<lparr>DeletionTimestamp := Some 7\<rparr>\<rparr>"

definition demo_plane :: EtcdPlane where
  "demo_plane = \<lparr>EC = ref_ec, epCluster = ref_cluster, epMachines = [newM, oldM, goneM],
     machinesPatchHelpers = [],
     etcdadmConfigs = [''old'' \<mapsto> old_config ''old'', ''gone'' \<mapsto> old_config ''gone''],
     infraResources = Map.empty\<rparr>"

lemmas demo_plane_defs = demo_plane_def newM_def oldM_def goneM_def old_config_def ref_meta_def
  ref_machine_def ref_ec_def ref_cluster_def

lemma demo_plane_outdated:
  "outdated ref_env demo_plane oldM" "outdated ref_env demo_plane goneM" "\<not> outdated ref_env demo_plane newM"
  by (simp_all add: outdated_def demo_plane_defs)

lemma demo_plane_going:
  "DeletionTimestamp (mMeta oldM) = None" "DeletionTimestamp (mMeta newM) = None"
  "DeletionTimestamp (mMeta goneM) = Some 7" "epMachines demo_plane = [newM, oldM, goneM]"
  by (simp_all add: demo_plane_defs)

theorem rollout_partition_witness:
  "set (MachinesNeedingRollout ref_env demo_plane) = {oldM} \<and>
   set (UpToDateMachines ref_env demo_plane) = {newM, goneM}"
proof -
  have laws: "collections_laws (coll ref_env)" by (simp add: ref_env_def)
  have names: "machines_wf (epMachines demo_plane)" by (simp add: machines_wf_def demo_plane_defs)
  show ?thesis
    using rollout_partition [OF laws names] unfolding set_filter [symmetric]
    by (simp add: demo_plane_outdated demo_plane_going)
qed

section \<open>The machine to scale down\<close>

text \<open>The specification of the candidates, in the order of preference.\<close>

definition annotated :: "env \<Rightarrow> Machines \<Rightarrow> Machines" where
  "annotated E ms = filter (\<lambda>m. map_get (Annotations (mMeta m)) (DeleteMachineAnnotation (capi E)) \<noteq> None) ms"

definition candidates :: "env \<Rightarrow> EtcdPlane \<Rightarrow> Machines \<Rightarrow> Machines" where
  "candidates E ep outs =
     (case filter (\<lambda>ms. ms \<noteq> []) [annotated E outs, annotated E (epMachines ep), outs] of
        [] \<Rightarrow> epMachines ep | ms # _ \<Rightarrow> ms)"

lemma set_scaleDownCandidates:
  assumes laws: "collections_laws (coll E)"
  shows "set (scaleDownCandidates E ep outs) = set (candidates E ep outs)"
proof -
  have key: "col_HasAnnotationKey (coll E) k = (\<lambda>m. map_get (Annotations (mMeta m)) k \<noteq> None)" for k
    using laws by (simp add: fun_eq_iff collections_lawsD)
  have sets: "set (MachineWithDeleteAnnotation E ms) = set (annotated E ms)"
    and lens: "length (MachineWithDeleteAnnotation E ms) = length (annotated E ms)" for ms
    using laws by (simp_all add: MachineWithDeleteAnnotation_def annotated_def set_col key)
  show ?thesis
    using laws by (simp add: scaleDownCandidates_def candidates_def Let_def collections_lawsD sets lens)
qed

lemma chosen_candidate:
  assumes laws: "collections_laws (coll E)" "choice_laws (coll E)" and some: "candidates E ep outs \<noteq> []"
  shows "\<exists>m. selectMachineForScaleDown E ep outs = Done (Inr m) \<and> m \<in> set (candidates E ep outs) \<and>
     (\<forall>m'\<in>set (candidates E ep outs). mFailureDomain m' = mFailureDomain m \<longrightarrow>
        CreationTimestamp (mMeta m) \<le> CreationTimestamp (mMeta m')) \<and>
     ((\<exists>m'\<in>set (candidates E ep outs). mFailureDomain m' \<notin> set (map fdName (FailureDomains ep))) \<longrightarrow>
        mFailureDomain m \<notin> set (map fdName (FailureDomains ep)))"
proof -
  let ?ms = "scaleDownCandidates E ep outs" and ?fds = "map fdName (FailureDomains ep)"
  note same = set_scaleDownCandidates [OF laws(1), of ep outs]
  have ne: "?ms \<noteq> []" using some same by (metis set_empty)
  let ?out = "col_Filter (coll E) (col_Not (coll E) (col_InFailureDomains (coll E) ?fds)) ?ms"
  have out: "set ?out = {m \<in> set ?ms. mFailureDomain m \<notin> set ?fds}"
    using laws(1) by (auto simp: set_col collections_lawsD)
  have "\<exists>fd. FailureDomainWithMostMachines E ep ?ms = Done fd \<and> (\<exists>m\<in>set ?ms. mFailureDomain m = fd) \<and>
      (?out \<noteq> [] \<longrightarrow> fd \<notin> set ?fds)"
  proof (cases "?out = []")
    case True
    then have "\<forall>m\<in>set ?ms. mFailureDomain m \<in> set ?fds" using out by auto
    then have "\<exists>m\<in>set ?ms. fd_PickMost (coll E) (FailureDomains ep) (epMachines ep) ?ms = mFailureDomain m"
      using laws(2) ne unfolding choice_laws_def by blast
    then show ?thesis using True by (auto simp: FailureDomainWithMostMachines_def Let_def)
  next
    case False
    then obtain m0 where m0: "col_Oldest (coll E) ?out = Some m0" using oldest_exists [OF laws(2)] by blast
    then have "m0 \<in> set ?out" using oldestD(1) [OF laws(2)] by blast
    then show ?thesis
      using out m0 False by (auto simp: FailureDomainWithMostMachines_def Let_def)
  qed
  then obtain fd where fd: "FailureDomainWithMostMachines E ep ?ms = Done fd"
    "\<exists>m\<in>set ?ms. mFailureDomain m = fd" "?out \<noteq> [] \<Longrightarrow> fd \<notin> set ?fds" by blast
  let ?in = "col_Filter (coll E) (col_InFailureDomains (coll E) [fd]) ?ms"
  have inset: "set ?in = {m \<in> set ?ms. mFailureDomain m = fd}"
    using laws(1) by (auto simp: set_col collections_lawsD)
  then have "?in \<noteq> []" using fd(2) by (metis (mono_tags, lifting) empty_Collect_eq empty_set mem_Collect_eq)
  then obtain m where m: "col_Oldest (coll E) ?in = Some m" using oldest_exists [OF laws(2)] by blast
  have mem: "m \<in> set ?ms \<and> mFailureDomain m = fd" using oldestD(1) [OF laws(2) m] inset by blast
  have least: "\<forall>m'\<in>set ?ms. mFailureDomain m' = fd \<longrightarrow> CreationTimestamp (mMeta m) \<le> CreationTimestamp (mMeta m')"
    using oldestD(2) [OF laws(2) m] inset by blast
  have "selectMachineForScaleDown E ep outs = Done (Inr m)"
    using fd(1) m by (simp add: selectMachineForScaleDown_def MachineInFailureDomainWithMostMachines_def Let_def)
  moreover have "(\<exists>m'\<in>set ?ms. mFailureDomain m' \<notin> set ?fds) \<longrightarrow> fd \<notin> set ?fds"
    using fd(3) out by (metis (mono_tags, lifting) empty_iff empty_set mem_Collect_eq)
  ultimately show ?thesis using mem least by (auto simp: same)
qed

text \<open>C22: When there is any candidate, a machine is chosen: annotated outdated machines
  come before annotated machines, these before outdated ones, these before all others; among the
  candidates, those outside the cluster's failure domains come first; and the one chosen is the
  oldest candidate of its failure domain.\<close>

theorem scale_down_choice:
  assumes laws: "collections_laws (coll E)" "choice_laws (coll E)" and some: "candidates E ep outs \<noteq> []"
  shows "\<exists>m. selectMachineForScaleDown E ep outs = Done (Inr m) \<and> m \<in> set (candidates E ep outs) \<and>
     (\<forall>m'\<in>set (candidates E ep outs). mFailureDomain m' = mFailureDomain m \<longrightarrow>
        CreationTimestamp (mMeta m) \<le> CreationTimestamp (mMeta m')) \<and>
     ((\<exists>m'\<in>set (candidates E ep outs). mFailureDomain m' \<notin> set (map fdName (FailureDomains ep))) \<longrightarrow>
        mFailureDomain m \<notin> set (map fdName (FailureDomains ep)))"
  by (rule chosen_candidate [OF assms])

lemma demo_candidates: "candidates ref_env demo_plane [oldM] = [oldM]"
  by (simp add: candidates_def annotated_def demo_plane_defs)

theorem scale_down_choice_witness: "selectMachineForScaleDown ref_env demo_plane [oldM] = Done (Inr oldM)"
proof -
  have laws: "collections_laws (coll ref_env)" "choice_laws (coll ref_env)" by (simp_all add: ref_env_def)
  have some: "candidates ref_env demo_plane [oldM] \<noteq> []" by (simp add: demo_candidates)
  show ?thesis using scale_down_choice [OF laws some] by (auto simp: demo_candidates)
qed

section \<open>One step of an upgrade\<close>

lemma selectMachine_demo: "selectMachineForScaleDown ref_env demo_plane [oldM] = Done (Inr oldM)"
  by (simp add: selectMachineForScaleDown_def scaleDownCandidates_def MachineWithDeleteAnnotation_def
      MachineInFailureDomainWithMostMachines_def FailureDomainWithMostMachines_def FailureDomains_def
      ref_env_def ref_collections_def demo_plane_defs)

lemma upgrade_branches:
  assumes "collections_laws (coll E)" and "Replicas (ecSpec (theEC s)) = Some n" and "length (epMachines ep) < 2 ^ 31"
  shows "run_state (upgradeEtcdCluster E cluster ep ms) s =
    (if sint n = 1 \<and> length (epMachines ep) = 1 \<or> sint n \<noteq> 1 \<and> int (length (epMachines ep)) < sint n
     then run_state (scaleUpEtcdCluster E cluster ep) s
     else run_state (withoutResult (removeFromListOfOwnedMachines E ep ms)) s)"
proof -
  let ?len = "word_of_int (int (length (epMachines ep))) :: 32 word"
  have len: "sint ?len = int (length (epMachines ep))"
    using assms(3) by (simp add: signed_of_nat signed_take_bit_int_eq_self)
  have one: "n = 1 \<longleftrightarrow> sint n = 1"
  proof -
    have "sint (1 :: 32 word) = 1" by simp
    then show ?thesis by (metis signed_word_eqI)
  qed
  have eq: "?len = n \<longleftrightarrow> int (length (epMachines ep)) = sint n"
    by (metis len signed_word_eqI)
  show ?thesis
    using assms(1,2) len one eq
    by (auto simp: upgradeEtcdCluster_def run_simps Let_def collections_lawsD)
qed

lemma withoutResult_events: "events (withoutResult m) s = events m s"
  by (auto simp: events_def withoutResult_def run_simps split: prod.splits outcome.splits)

text \<open>C14: A step of an upgrade creates a machine only while fewer machines than wanted are
  owned, or as the one extra machine of a cluster of one, and disowns a machine only when at least as
  many as wanted are owned, and more than one in a cluster of one: of three members, two are always
  left. Disowning clears the owner references and nothing else, and no step removes a member or
  deletes a machine.\<close>

theorem upgrade_surge:
  assumes laws: "collections_laws (coll E)" and n: "Replicas (ecSpec (theEC s)) = Some n"
    and size: "0 < length (epMachines ep)" "length (epMachines ep) < 2 ^ 31" and wanted: "sint n > 0"
    and e: "e \<in> set (events (upgradeEtcdCluster E cluster ep needRollout) s)"
  shows "removal_free e \<and>
     (if is_create e then int (length (epMachines ep)) < sint n \<or> sint n = 1 \<and> length (epMachines ep) = 1 else True) \<and>
     (if is_update e then int (length (epMachines ep)) \<ge> sint n \<and> (if sint n = 1 then length (epMachines ep) > 1 else True) \<and>
        (\<exists>m r. e = EvUpdateMachine (m\<lparr>mMeta := (mMeta m)\<lparr>OwnerReferences := []\<rparr>\<rparr>) r) else True)"
proof -
  have free: "removal_free e"
    using upgrade.adds_quietly e by (rule emits_events)
  show ?thesis
  proof (cases "sint n = 1 \<and> length (epMachines ep) = 1 \<or> sint n \<noteq> 1 \<and> int (length (epMachines ep)) < sint n")
    case True
    then have "e \<in> set (events (scaleUpEtcdCluster E cluster ep) s)"
      using e upgrade_branches [OF laws n size(2)] by (simp add: events_def)
    moreover have "emits provision_event (scaleUpEtcdCluster E cluster ep)"
      unfolding scaleUpEtcdCluster_def by (rule emits_cloneConfigsAndGenerateMachine)
    ultimately have "provision_event e" by (metis emits_events)
    then have "\<not> is_update e" by (cases e) simp_all
    then show ?thesis using True free by auto
  next
    case False
    then have "run_state (upgradeEtcdCluster E cluster ep needRollout) s =
        run_state (withoutResult (removeFromListOfOwnedMachines E ep needRollout)) s"
      by (simp only: upgrade_branches [OF laws n size(2)] if_False)
    then have mem: "e \<in> set (events (removeFromListOfOwnedMachines E ep needRollout) s)"
      using e by (simp add: events_def [of "upgradeEtcdCluster E cluster ep needRollout"]
          flip: withoutResult_events) (simp add: events_def)
    have "emits (\<lambda>e. \<exists>m r. e = EvUpdateMachine (disowned m) r) (removeFromListOfOwnedMachines E ep needRollout)"
      by (rule emits_removeFromListOfOwnedMachines) blast
    from emits_events [OF this mem] have "\<exists>m r. e = EvUpdateMachine (disowned m) r" .
    moreover have "int (length (epMachines ep)) \<ge> sint n \<and> (if sint n = 1 then length (epMachines ep) > 1 else True)"
      using False size(1) wanted by (cases "length (epMachines ep)") auto
    ultimately show ?thesis using free by (auto simp: disowned_def)
  qed
qed

lemma demo_upgrade_disowns: "EvUpdateMachine (disowned oldM) None \<in> set (events (upgradeEtcdCluster ref_env ref_cluster demo_plane [oldM]) ref_sys)"
proof -
  have laws: "collections_laws (coll ref_env)" by (simp add: ref_env_def)
  have n: "Replicas (ecSpec (theEC ref_sys)) = Some 3" by (simp add: ref_sys_def ref_ec_def)
  have "length (epMachines demo_plane) = 3" by (simp add: demo_plane_going)
  then have "run_state (upgradeEtcdCluster ref_env ref_cluster demo_plane [oldM]) ref_sys =
      run_state (withoutResult (removeFromListOfOwnedMachines ref_env demo_plane [oldM])) ref_sys"
    using upgrade_branches [OF laws n, of demo_plane] by simp
  moreover have "selectMachineForScaleDown ref_env demo_plane [oldM] = Done (Inr oldM)"
    using selectMachine_demo .
  ultimately show ?thesis
    by (simp add: events_def withoutResult_def removeFromListOfOwnedMachines_def run_simps
        call_UpdateMachine_def ref_env_def ref_svc_def)
qed

theorem upgrade_surge_witness:
  "\<exists>e \<in> set (events (upgradeEtcdCluster ref_env ref_cluster demo_plane [oldM]) ref_sys).
     is_update e \<and> removal_free e \<and> int (length (epMachines demo_plane)) \<ge> sint (3 :: 32 word)"
proof -
  have laws: "collections_laws (coll ref_env)" by (simp add: ref_env_def)
  have n: "Replicas (ecSpec (theEC ref_sys)) = Some 3" by (simp add: ref_sys_def ref_ec_def)
  have len: "length (epMachines demo_plane) = 3" by (simp add: demo_plane_going)
  note surge = upgrade_surge [OF laws n _ _ _ demo_upgrade_disowns]
  have "removal_free (EvUpdateMachine (disowned oldM) None) \<and> int (length (epMachines demo_plane)) \<ge> sint (3 :: 32 word)"
    using surge by (simp add: len)
  then show ?thesis
    by (intro bexI [OF _ demo_upgrade_disowns]) simp
qed

section \<open>New machines\<close>

text \<open>The one run that gets as far as creating the machine.\<close>

lemma created_machine_run:
  assumes created: "EvCreateMachine m r \<in> set (events (cloneConfigsAndGenerateMachine E cluster fd) s)"
  shows "\<exists>infra gv name name'.
     EvCreateFromTemplate (infraInput E cluster (theEC s)) (Inr (Some infra))
       \<in> set (events (cloneConfigsAndGenerateMachine E cluster fd) s) \<and>
     EvCreateEtcdadmConfig (configNamed E cluster (theEC s) name) None
       \<in> set (events (cloneConfigsAndGenerateMachine E cluster fd) s) \<and>
     m = \<lparr>mMeta = childMeta E (theEC s) cluster name' (controllerRefOf E (theEC s)), mClusterName = clName cluster,
          mInfrastructureRef = \<lparr>crKind = infKind infra, crName = Name (infMeta infra), crAPIGroup = gv\<rparr>,
          mConfigRef = \<lparr>crKind = ''EtcdadmConfig'', crName = name, crAPIGroup = BootstrapGroup (capi E)\<rparr>,
          mFailureDomain = (case fd of None \<Rightarrow> [] | Some d \<Rightarrow> d), mAddresses = []\<rparr>"
proof -
  let ?i = "infraInput E cluster (theEC s)"
  obtain a where a: "k_CreateFromTemplate (svc E) (trace s) ?i = a" by simp
  show ?thesis
  proof (cases a)
    case (Inl e)
    then show ?thesis using created a by (simp add: clone_defs)
  next
    case (Inr ro)
    show ?thesis
    proof (cases ro)
      case None
      then show ?thesis using created a Inr by (simp add: clone_defs)
    next
      case (Some infra)
      show ?thesis
      proof (cases "schema_ParseGroupVersion (capi E) (infAPIVersion infra)")
        case (Inl e)
        then show ?thesis using created a Inr Some by (simp add: clone_defs)
      next
        case parsed: (Inr gv)
        let ?tr = "trace s @ [EvCreateFromTemplate ?i (Inr (Some infra))]"
        let ?base = "Name (ecMeta (theEC s)) @ ''-''"
        let ?name = "k_GenerateName (svc E) ?tr ?base"
        let ?cfg = "configNamed E cluster (theEC s) ?name"
        obtain c where c: "k_CreateEtcdadmConfig (svc E) (?tr @ [EvGenerateName ?base ?name]) ?cfg = c" by simp
        show ?thesis
        proof (cases c)
          case None
          note run = clone_defs a Inr Some parsed c None
          show ?thesis
            using created
            by (intro exI [of _ infra] exI [of _ gv] exI [of _ ?name] exI conjI)
              (simp_all add: run split: option.splits if_splits)
        next
          case (Some e)
          then show ?thesis using created a Inr \<open>ro = Some infra\<close> parsed c by (simp add: clone_defs)
        qed
      qed
    qed
  qed
qed

text \<open>C23: A machine the controller creates carries the labels it is listed by, is
  owned by the EtcdadmCluster, lies in its namespace and in the failure domain chosen, and refers to a
  bootstrap config just created from the current spec and to infrastructure just cloned from the
  current template.\<close>

theorem created_machine_is_current:
  assumes "EvCreateMachine m r \<in> set (events (cloneConfigsAndGenerateMachine E cluster fd) s)"
  shows "Labels (mMeta m) = EtcdLabelsForCluster E (clName cluster) (Name (ecMeta (theEC s))) \<and>
     Namespace (mMeta m) = Namespace (ecMeta (theEC s)) \<and>
     OwnerReferences (mMeta m) = [controllerRefOf E (theEC s)] \<and>
     mClusterName m = clName cluster \<and> mFailureDomain m = (case fd of None \<Rightarrow> [] | Some d \<Rightarrow> d) \<and>
     (\<exists>cfg. EvCreateEtcdadmConfig cfg None \<in> set (events (cloneConfigsAndGenerateMachine E cluster fd) s) \<and>
        cfgSpec cfg = etcdadmConfigSpec (ecSpec (theEC s)) \<and> crName (mConfigRef m) = Name (cfgMeta cfg)) \<and>
     (\<exists>i infra. EvCreateFromTemplate i (Inr (Some infra)) \<in> set (events (cloneConfigsAndGenerateMachine E cluster fd) s) \<and>
        cftTemplateRef i = InfrastructureTemplate (ecSpec (theEC s)) \<and>
        crName (mInfrastructureRef m) = Name (infMeta infra) \<and> crKind (mInfrastructureRef m) = infKind infra)"
  using created_machine_run [OF assms]
  by (fastforce simp: infraInput_def configNamed_def childMeta_def)

definition scale_up_example :: history where
  "scale_up_example = events (cloneConfigsAndGenerateMachine ref_env ref_cluster None) ref_sys"

lemma scale_up_creates: "\<exists>m r. EvCreateMachine m r \<in> set scale_up_example"
  by (auto simp: scale_up_example_def cloneConfigsAndGenerateMachine_def generateEtcdadmConfig_def
      generateMachine_def run_simps call_defs events_def ref_env_def ref_svc_def ref_capi_def ref_sys_def)

theorem created_machine_is_current_witness:
  "\<exists>m r. EvCreateMachine m r \<in> set (events (cloneConfigsAndGenerateMachine ref_env ref_cluster None) ref_sys) \<and>
     Labels (mMeta m) = EtcdLabelsForCluster ref_env (clName ref_cluster) (Name (ecMeta (theEC ref_sys))) \<and>
     OwnerReferences (mMeta m) = [controllerRefOf ref_env (theEC ref_sys)]"
proof -
  obtain m r where "EvCreateMachine m r \<in> set (events (cloneConfigsAndGenerateMachine ref_env ref_cluster None) ref_sys)"
    using scale_up_creates unfolding scale_up_example_def by blast
  with created_machine_is_current [OF this] show ?thesis by blast
qed

text \<open>The CA certificate has been saved, or was there already.\<close>

fun saved_ca :: "env \<Rightarrow> event \<Rightarrow> bool" where
  "saved_ca E (EvCreateSecret _ None) = True"
| "saved_ca E (EvCreateSecret _ (Some e)) = IsAlreadyExists (errs E) e"
| "saved_ca E _ = False"

lemma saved_ca_answer:
  "saved_ca E (EvCreateSecret x a) \<longleftrightarrow> a = None \<or> IsAlreadyExists (errs E) (the a)"
  by (cases a) simp_all

lemma certs_saved:
  assumes "run_state (generateCAandClientCertSecrets E cluster) s = (Done None, t)"
  shows "\<exists>pre client. trace t = trace s @ pre \<and>
     EvCreateOrPatchSecret client None \<in> set pre \<and> list_ex (saved_ca E) pre \<and> list_all cert_event pre"
  using assms
  by (auto simp: generateCAandClientCertSecrets_def run_simps call_defs saved_ca_answer
      split: sum.splits option.splits if_splits)

text \<open>C24: The first machine of a cluster is asked for only after the client
  certificate of the API server has been saved and the etcd CA certificate has been saved or was
  there already.\<close>

theorem certs_before_first_machine:
  assumes "EvCreateMachine m r \<in> set (events (intializeEtcdCluster E cluster ep) s)"
  shows "\<exists>pre post client. events (intializeEtcdCluster E cluster ep) s = pre @ post \<and>
     EvCreateOrPatchSecret client None \<in> set pre \<and> list_ex (saved_ca E) pre \<and>
     EvCreateMachine m r \<in> set post \<and> list_all (\<lambda>e. \<not> is_create e) pre"
proof -
  obtain x t where certs: "run_state (generateCAandClientCertSecrets E cluster) s = (x, t)" by fastforce
  obtain es where es: "trace t = trace s @ es" "list_all cert_event es"
    using obeysD [OF emits_generateCAandClientCertSecrets certs, of cert_event] by (auto simp: extends_def)
  have no_create: "cert_event e \<Longrightarrow> \<not> is_create e" for e by (cases e) simp_all
  show ?thesis
  proof (cases "x = Done None")
    case False
    then have "events (intializeEtcdCluster E cluster ep) s = es"
      using certs es by (cases x) (auto simp: intializeEtcdCluster_def run_simps events_def split: option.splits)
    then show ?thesis using assms es(2) by (auto simp: list_all_iff)
  next
    case True
    then obtain pre client where pre: "trace t = trace s @ pre"
      "EvCreateOrPatchSecret client None \<in> set pre" "list_ex (saved_ca E) pre" "list_all cert_event pre"
      using certs_saved certs by blast
    let ?rest = "seq (MarkTrue E EtcdCertificatesAvailableCondition)
         (cloneConfigsAndGenerateMachine E cluster (NextFailureDomainForScaleUp E ep))"
    have run: "run_state (intializeEtcdCluster E cluster ep) s = run_state ?rest t"
      using certs True by (simp add: intializeEtcdCluster_def run_checkErr)
    have "emits provision_event ?rest"
      by (intro emit_intros emits_cloneConfigsAndGenerateMachine)
    then obtain post where post: "trace (snd (run_state ?rest t)) = trace t @ post"
      by (auto simp: obeys_def extends_def)
    have ev: "events (intializeEtcdCluster E cluster ep) s = pre @ post"
      using run post pre(1) by (simp add: events_def)
    have quiet: "list_all (\<lambda>e. \<not> is_create e) pre"
      using pre(4) no_create by (auto simp: list_all_iff)
    then have "EvCreateMachine m r \<in> set post"
      using assms ev by (auto simp: list_all_iff)
    then show ?thesis using ev pre(2,3) quiet by blast
  qed
qed

definition first_machine :: history where
  "first_machine = events (intializeEtcdCluster ref_env ref_cluster demo_plane) ref_sys"

lemma first_machine_created: "list_ex is_create first_machine"
  by (simp add: first_machine_def intializeEtcdCluster_def generateCAandClientCertSecrets_def
      etcdCACertKeyPair_def clientCertConfig_def MarkTrue_def
      cloneConfigsAndGenerateMachine_def generateEtcdadmConfig_def generateMachine_def
      run_simps call_defs events_def ref_env_def ref_svc_def ref_capi_def ref_sys_def ref_keyPair_def)

theorem certs_before_first_machine_witness:
  "\<exists>client pre post. first_machine = pre @ post \<and> EvCreateOrPatchSecret client None \<in> set pre \<and>
     list_ex (saved_ca ref_env) pre \<and> list_ex is_create post"
proof -
  obtain e where e: "e \<in> set first_machine" "is_create e"
    using first_machine_created by (auto simp: list_ex_iff)
  have "\<exists>m r. e = EvCreateMachine m r" using e(2) by (cases e) simp_all
  then obtain m r where "e = EvCreateMachine m r" by blast
  with e have "EvCreateMachine m r \<in> set (events (intializeEtcdCluster ref_env ref_cluster demo_plane) ref_sys)"
    by (simp add: first_machine_def)
  from certs_before_first_machine [OF this] obtain pre post client where
    "first_machine = pre @ post" "EvCreateOrPatchSecret client None \<in> set pre"
    "list_ex (saved_ca ref_env) pre" "EvCreateMachine m r \<in> set post"
    unfolding first_machine_def by blast
  moreover have "list_ex is_create post"
    unfolding list_ex_iff using calculation(4) by (rule bexI [rotated]) simp
  ultimately show ?thesis by blast
qed

end
