(* ===== verification/Removal_Correct.thy ===== *)
theory Removal_Correct
  imports Members
begin

text \<open>
  What removing one member does, call by call, and with which client.
\<close>

text \<open>The answer of a deletion that counts as success: the machine is gone, now or already.\<close>

definition gone_after :: "env \<Rightarrow> err option \<Rightarrow> bool" where
  "gone_after E r \<longleftrightarrow> (case r of None \<Rightarrow> True | Some e \<Rightarrow> IsNotFound (errs E) e \<or> IsGone (errs E) e)"

lemma run_deleteMachineIfAny:
  "run_state (deleteMachineIfAny E (Some m)) s =
     (let r = k_DeleteMachine (svc E) (trace s) m in
      (Done (if gone_after E r then None
             else Some (Errorf (''failed to delete etcd machine '' @ mName m) [the r])),
       s\<lparr>trace := trace s @ [EvDeleteMachine m r]\<rparr>))"
  by (simp add: deleteMachineIfAny_def deleteMachine_def call_DeleteMachine_def run_simps gone_after_def
      Let_def split: option.splits)

text \<open>C8: After etcd has listed its members: the last member is left alone, and so is
  its machine; a machine whose member is not listed is deleted at once; otherwise the member listed
  under exactly this peer URL is removed first, and the machine is deleted only if etcd accepted that.
  A failed removal or deletion is returned as an error, a machine that was gone already is not.\<close>

theorem removal_follows_plan:
  assumes ms: "e_MemberList (svc E) (trace s) c = Inr ms"
  shows "\<exists>outcome. fst (run_state (removeEtcdMemberAndDeleteMachine E c u (Some m)) s) = Done outcome \<and>
    (case removal_plan ms u of
       LeaveLast \<Rightarrow>
         outcome = None \<and>
         events (removeEtcdMemberAndDeleteMachine E c u (Some m)) s = [EvMemberList c (Inr ms)]
     | JustDelete \<Rightarrow>
         (\<exists>r. (outcome = None) = gone_after E r \<and>
            events (removeEtcdMemberAndDeleteMachine E c u (Some m)) s =
              [EvMemberList c (Inr ms), EvDeleteMachine m r])
     | RemoveThenDelete i \<Rightarrow>
         (\<exists>a r. (outcome = None) = (a = None \<and> gone_after E r) \<and>
            events (removeEtcdMemberAndDeleteMachine E c u (Some m)) s =
              [EvMemberList c (Inr ms), EvMemberRemove c i a] @
              (if a = None then [EvDeleteMachine m r] else [])))"
proof (cases "removal_plan ms u")
  case LeaveLast
  then show ?thesis using ms
    by (simp add: removal_refines_plan run_simps call_MemberList_def events_def)
next
  case JustDelete
  then show ?thesis using ms
    by (auto simp: removal_refines_plan run_simps call_MemberList_def events_def run_deleteMachineIfAny Let_def)
next
  case (RemoveThenDelete i)
  then show ?thesis using ms
    by (cases "e_MemberRemove (svc E) (trace s @ [EvMemberList c (Inr ms)]) c i")
      (auto simp: removal_refines_plan run_simps call_MemberList_def call_MemberRemove_def events_def
        run_deleteMachineIfAny Let_def gone_after_def)
qed

definition member :: "nat \<Rightarrow> string \<Rightarrow> Member" where
  "member i u = \<lparr>memberID = word_of_nat i, memberName = u, memberPeerURLs = [u]\<rparr>"

definition two_members :: env where
  "two_members = with_svc (\<lambda>v. v\<lparr>e_MemberList := (\<lambda>h c. Inr [member 7 ''a'', member 8 ''b''])\<rparr>)"

theorem removal_follows_plan_witness:
  "\<exists>a r. events (removeEtcdMemberAndDeleteMachine two_members 1 ''b'' (Some (ref_machine ''m'' ''b''))) ref_sys =
     [EvMemberList 1 (Inr [member 7 ''a'', member 8 ''b'']), EvMemberRemove 1 8 a] @
     (if a = None then [EvDeleteMachine (ref_machine ''m'' ''b'') r] else [])"
proof -
  have "e_MemberList (svc two_members) (trace ref_sys) 1 = Inr [member 7 ''a'', member 8 ''b'']"
    by (simp add: two_members_def)
  moreover have "removal_plan [member 7 ''a'', member 8 ''b''] ''b'' = RemoveThenDelete 8"
    by (simp add: removal_plan_def member_def)
  ultimately show ?thesis
    using removal_follows_plan [of two_members ref_sys 1 _ "''b''" "ref_machine ''m'' ''b''"] by auto
qed

section \<open>The etcd client\<close>

text \<open>A client for etcd is created for the endpoints given, split at the commas,
  and only with the CA certificate and the API server's client key pair that were looked up before,
  in this order.\<close>

theorem client_uses_cluster_certs:
  assumes run: "run_state (generateEtcdClient E cluster endpoints) s = (Done (Inr (Some c)), t)"
  shows "\<exists>cas clients cfg ca kp.
     trace t = trace s @
       [EvLookupCerts (clusterKey cluster) (ManagedExternalEtcdCA (capi E)) (Inr cas),
        EvLookupCerts (clusterKey cluster) (APIServerEtcdClient (capi E)) (Inr clients),
        EvNewEtcdClient cfg (Inr c)] \<and>
     etcdEndpoints cfg = strings_Split endpoints (CHR '','') \<and> etcdDialTimeout cfg = etcdClientTimeout \<and>
     (\<exists>cert. certs_GetByPurpose (capi E) cas (ManagedExternalEtcdCA (capi E)) = Some cert \<and>
        certKeyPair cert = Some ca \<and> etcdRootCAs cfg = kpCert ca) \<and>
     (\<exists>cert. certs_GetByPurpose (capi E) clients (APIServerEtcdClient (capi E)) = Some cert \<and>
        certKeyPair cert = Some kp \<and> tls_X509KeyPair (capi E) (kpCert kp) (kpKey kp) = Inr (etcdCertificate cfg))"
  using run
  by (auto simp: generateEtcdClient_def lookupCert_def getCACert_def getClientCerts_def run_simps call_defs
      split: sum.splits option.splits)

theorem client_uses_cluster_certs_witness:
  "\<exists>cas clients cfg. trace (snd (run_state (generateEtcdClient ref_env ref_cluster ''a,b'') ref_sys)) =
     [EvLookupCerts (clusterKey ref_cluster) ''managed-etcd'' (Inr cas),
      EvLookupCerts (clusterKey ref_cluster) ''apiserver-etcd-client'' (Inr clients),
      EvNewEtcdClient cfg (Inr 1)] \<and> etcdEndpoints cfg = strings_Split ''a,b'' (CHR '','')"
proof -
  obtain t where t: "run_state (generateEtcdClient ref_env ref_cluster ''a,b'') ref_sys = (Done (Inr (Some 1)), t)"
    by (simp add: generateEtcdClient_def lookupCert_def getCACert_def getClientCerts_def run_simps call_defs
        ref_env_def ref_svc_def ref_capi_def ref_keyPair_def)
  have "trace ref_sys = []" "ManagedExternalEtcdCA (capi ref_env) = ''managed-etcd''"
    "APIServerEtcdClient (capi ref_env) = ''apiserver-etcd-client''"
    by (simp_all add: ref_sys_def ref_env_def ref_capi_def)
  with client_uses_cluster_certs [OF t] t show ?thesis by auto
qed

end
