(* ===== verification/Webhook.thy ===== *)
theory Webhook
  imports Api_Types "HOL-Library.Signed_Division"
begin

text \<open>
  \<open>api/v1beta1/etcdadmcluster_webhook.go\<close>: what the admission webhooks fill in and what they refuse.
  A refusal, \<open>apierrors.NewInvalid\<close>, is kept with its arguments.
\<close>

text \<open>\<open>field.Error\<close>: the kinds of error the webhook builds, with path, value and detail.\<close>

datatype FieldError =
    FieldRequired "string list" string
  | FieldForbidden "string list" string
  | FieldInvalid "string list" string string

datatype admission_error = NewInvalid string string "FieldError list"

text \<open>\<open>Default\<close>: the object with its defaults; the function never returns an error.\<close>

definition defaultReplicas :: "EtcdadmCluster \<Rightarrow> EtcdadmCluster" where
  "defaultReplicas obj =
     (if Replicas (ecSpec obj) = None
      then obj\<lparr>ecSpec := (ecSpec obj)\<lparr>Replicas := Some 1\<rparr>\<rparr> else obj)"

definition defaultNamespace :: "EtcdadmCluster \<Rightarrow> EtcdadmCluster" where
  "defaultNamespace obj =
     (if oNamespace (InfrastructureTemplate (ecSpec obj)) = []
      then obj\<lparr>ecSpec := (ecSpec obj)\<lparr>InfrastructureTemplate :=
             (InfrastructureTemplate (ecSpec obj))\<lparr>oNamespace := Namespace (ecMeta obj)\<rparr>\<rparr>\<rparr>
      else obj)"

definition Default :: "EtcdadmCluster \<Rightarrow> EtcdadmCluster" where
  "Default obj = defaultNamespace (defaultReplicas obj)"

definition replicaErrors :: "EtcdadmCluster \<Rightarrow> FieldError list" where
  "replicaErrors r =
     (case Replicas (ecSpec r) of
        None \<Rightarrow> [FieldRequired [''spec'', ''replicas''] ''is required'']
      | Some n \<Rightarrow>
          if sint n \<le> 0 then
            [FieldForbidden [''spec'', ''replicas''] ''cannot be less than or equal to 0'']
          else if sint n smod 2 = 0 then
            [FieldForbidden [''spec'', ''replicas''] ''etcd cluster cannot have an even number of nodes'']
          else [])"

definition validateCommon :: "EtcdadmCluster \<Rightarrow> FieldError list" where
  "validateCommon r =
     replicaErrors r @
     (if oNamespace (InfrastructureTemplate (ecSpec r)) \<noteq> Namespace (ecMeta r) then
        [FieldInvalid [''spec'', ''infrastructureTemplate'', ''namespace'']
           (oNamespace (InfrastructureTemplate (ecSpec r))) ''must match metadata.namespace'']
      else [])"

text \<open>A validation returns no warnings, and an error or nil.\<close>

definition ValidateCreate :: "EtcdadmCluster \<Rightarrow> admission_error option" where
  "ValidateCreate obj =
     (let allErrs = validateCommon obj in
      if length allErrs > 0 then Some (NewInvalid ''EtcdadmCluster'' (Name (ecMeta obj)) allErrs) else None)"

definition ValidateUpdate :: "EtcdadmCluster \<Rightarrow> EtcdadmCluster \<Rightarrow> admission_error option" where
  "ValidateUpdate oldObj newObj =
     (let allErrs = validateCommon newObj in
      if length allErrs > 0 then Some (NewInvalid ''EtcdadmCluster'' (Name (ecMeta newObj)) allErrs) else None)"

definition ValidateDelete :: "EtcdadmCluster \<Rightarrow> admission_error option" where
  "ValidateDelete obj = None"

end
