(* ===== verification/Conversion.thy ===== *)
theory Conversion
  imports Api_Types
begin

text \<open>
  \<open>api/v1alpha3\<close>: the old version of the API and its conversion to and from the hub version
  \<open>v1beta1\<close> (\<open>zz_generated.conversion.go\<close>, \<open>conversion.go\<close>). The conversions of the bootstrap
  provider's EtcdadmConfigSpec live in another repository: they are the parameters \<open>toHub\<close> and
  \<open>fromHub\<close>. A conversion writes into an object \<open>out\<close> the caller passes, and stops at the first
  error, leaving in \<open>out\<close> what it has written so far; so it maps \<open>in\<close> and \<open>out\<close> to the new \<open>out\<close> and
  an error.
\<close>

section \<open>Types of \<open>v1alpha3\<close>\<close>

datatype EtcdadmConfigSpec_v1alpha3 = OpaqueEtcdadmConfigSpec_v1alpha3 string

record EtcdadmClusterSpec_v1alpha3 =
  a3Replicas :: "32 word option"
  a3InfrastructureTemplate :: ObjectReference
  a3EtcdadmConfigSpec :: EtcdadmConfigSpec_v1alpha3

record EtcdadmClusterStatus_v1alpha3 =
  a3ReadyReplicas :: "32 word"
  a3InitMachineAddress :: string
  a3Initialized :: bool
  a3Ready :: bool
  a3CreationComplete :: bool
  a3Endpoints :: string
  a3Selector :: string
  a3ObservedGeneration :: "64 word"
  a3Conditions :: "Condition list"

record EtcdadmCluster_v1alpha3 =
  a3Meta :: ObjectMeta
  a3Spec :: EtcdadmClusterSpec_v1alpha3
  a3Status :: EtcdadmClusterStatus_v1alpha3

text \<open>
  The list types of both versions. \<open>ListMeta\<close> is opaque (a string); \<open>Items\<close> is a slice, nil as \<open>None\<close>.
\<close>

record EtcdadmClusterList =
  listMeta :: string
  Items :: "EtcdadmCluster list option"

record EtcdadmClusterList_v1alpha3 =
  a3ListMeta :: string
  a3Items :: "EtcdadmCluster_v1alpha3 list option"

text \<open>The zero values \<open>make\<close> fills a slice with.\<close>

definition zeroMeta :: ObjectMeta where
  "zeroMeta = \<lparr>Name = [], Namespace = [], UID = [], Labels = None, Annotations = None, Finalizers = [],
     OwnerReferences = [], CreationTimestamp = 0, DeletionTimestamp = None\<rparr>"

definition zeroObjectReference :: ObjectReference where
  "zeroObjectReference = \<lparr>oAPIVersion = [], oKind = [], oNamespace = [], oName = []\<rparr>"

definition zeroCluster :: EtcdadmCluster where
  "zeroCluster = \<lparr>ecMeta = zeroMeta,
     ecSpec = \<lparr>Replicas = None, InfrastructureTemplate = zeroObjectReference,
               etcdadmConfigSpec = OpaqueEtcdadmConfigSpec []\<rparr>,
     ecStatus = \<lparr>ReadyReplicas = 0, InitMachineAddress = [], Initialized = False, Ready = False,
                 CreationComplete = False, Endpoints = [], Selector = [], ObservedGeneration = 0,
                 Conditions = []\<rparr>\<rparr>"

definition zeroCluster_v1alpha3 :: EtcdadmCluster_v1alpha3 where
  "zeroCluster_v1alpha3 = \<lparr>a3Meta = zeroMeta,
     a3Spec = \<lparr>a3Replicas = None, a3InfrastructureTemplate = zeroObjectReference,
               a3EtcdadmConfigSpec = OpaqueEtcdadmConfigSpec_v1alpha3 []\<rparr>,
     a3Status = \<lparr>a3ReadyReplicas = 0, a3InitMachineAddress = [], a3Initialized = False,
                 a3Ready = False, a3CreationComplete = False, a3Endpoints = [], a3Selector = [],
                 a3ObservedGeneration = 0, a3Conditions = []\<rparr>\<rparr>"

section \<open>Generated conversions\<close>

type_synonym ('a, 'b) converter = "'a \<Rightarrow> 'b \<Rightarrow> 'b \<times> err option"

type_synonym toHub_spec = "(EtcdadmConfigSpec_v1alpha3, EtcdadmConfigSpec) converter"
type_synonym fromHub_spec = "(EtcdadmConfigSpec, EtcdadmConfigSpec_v1alpha3) converter"

definition autoConvert_Spec_toHub ::
  "toHub_spec \<Rightarrow> (EtcdadmClusterSpec_v1alpha3, EtcdadmClusterSpec) converter" where
  "autoConvert_Spec_toHub toHub inp out =
     (let out1 = out\<lparr>Replicas := a3Replicas inp,
                     InfrastructureTemplate := a3InfrastructureTemplate inp\<rparr>;
          (cfg, e) = toHub (a3EtcdadmConfigSpec inp) (etcdadmConfigSpec out1) in
      (out1\<lparr>etcdadmConfigSpec := cfg\<rparr>, e))"

definition autoConvert_Spec_fromHub ::
  "fromHub_spec \<Rightarrow> (EtcdadmClusterSpec, EtcdadmClusterSpec_v1alpha3) converter" where
  "autoConvert_Spec_fromHub fromHub inp out =
     (let out1 = out\<lparr>a3Replicas := Replicas inp,
                     a3InfrastructureTemplate := InfrastructureTemplate inp\<rparr>;
          (cfg, e) = fromHub (etcdadmConfigSpec inp) (a3EtcdadmConfigSpec out1) in
      (out1\<lparr>a3EtcdadmConfigSpec := cfg\<rparr>, e))"

text \<open>The two types of conditions have one layout: the code casts a pointer from one to the other.\<close>

definition autoConvert_Status_toHub ::
  "(EtcdadmClusterStatus_v1alpha3, EtcdadmClusterStatus) converter" where
  "autoConvert_Status_toHub inp out =
     (\<lparr>ReadyReplicas = a3ReadyReplicas inp, InitMachineAddress = a3InitMachineAddress inp,
       Initialized = a3Initialized inp, Ready = a3Ready inp,
       CreationComplete = a3CreationComplete inp, Endpoints = a3Endpoints inp,
       Selector = a3Selector inp, ObservedGeneration = a3ObservedGeneration inp,
       Conditions = a3Conditions inp\<rparr>, None)"

definition autoConvert_Status_fromHub ::
  "(EtcdadmClusterStatus, EtcdadmClusterStatus_v1alpha3) converter" where
  "autoConvert_Status_fromHub inp out =
     (\<lparr>a3ReadyReplicas = ReadyReplicas inp, a3InitMachineAddress = InitMachineAddress inp,
       a3Initialized = Initialized inp, a3Ready = Ready inp,
       a3CreationComplete = CreationComplete inp, a3Endpoints = Endpoints inp,
       a3Selector = Selector inp, a3ObservedGeneration = ObservedGeneration inp,
       a3Conditions = Conditions inp\<rparr>, None)"

definition autoConvert_EtcdadmCluster_toHub ::
  "toHub_spec \<Rightarrow> (EtcdadmCluster_v1alpha3, EtcdadmCluster) converter" where
  "autoConvert_EtcdadmCluster_toHub toHub inp out =
     (let out1 = out\<lparr>ecMeta := a3Meta inp\<rparr>;
          (spec, e) = autoConvert_Spec_toHub toHub (a3Spec inp) (ecSpec out1);
          out2 = out1\<lparr>ecSpec := spec\<rparr> in
      if e \<noteq> None then (out2, e)
      else (let (st, e') = autoConvert_Status_toHub (a3Status inp) (ecStatus out2) in
            (out2\<lparr>ecStatus := st\<rparr>, e')))"

definition autoConvert_EtcdadmCluster_fromHub ::
  "fromHub_spec \<Rightarrow> (EtcdadmCluster, EtcdadmCluster_v1alpha3) converter" where
  "autoConvert_EtcdadmCluster_fromHub fromHub inp out =
     (let out1 = out\<lparr>a3Meta := ecMeta inp\<rparr>;
          (spec, e) = autoConvert_Spec_fromHub fromHub (ecSpec inp) (a3Spec out1);
          out2 = out1\<lparr>a3Spec := spec\<rparr> in
      if e \<noteq> None then (out2, e)
      else (let (st, e') = autoConvert_Status_fromHub (ecStatus inp) (a3Status out2) in
            (out2\<lparr>a3Status := st\<rparr>, e')))"

text \<open>
  \<open>for i := range *in { ... }\<close> over a slice made of zero values: after an error the rest stays zero.
\<close>

fun convertItems :: "('a, 'b) converter \<Rightarrow> 'b \<Rightarrow> 'a list \<Rightarrow> 'b list \<times> err option" where
  "convertItems conv zero [] = ([], None)"
| "convertItems conv zero (x # xs) =
     (case conv x zero of
        (y, Some e) \<Rightarrow> (y # replicate (length xs) zero, Some e)
      | (y, None) \<Rightarrow> (case convertItems conv zero xs of (ys, e) \<Rightarrow> (y # ys, e)))"

definition autoConvert_List_toHub ::
  "toHub_spec \<Rightarrow> (EtcdadmClusterList_v1alpha3, EtcdadmClusterList) converter" where
  "autoConvert_List_toHub toHub inp out =
     (case a3Items inp of
        Some xs \<Rightarrow>
          (case convertItems (autoConvert_EtcdadmCluster_toHub toHub) zeroCluster xs of
             (ys, e) \<Rightarrow> (out\<lparr>listMeta := a3ListMeta inp, Items := Some ys\<rparr>, e))
      | None \<Rightarrow> (out\<lparr>listMeta := a3ListMeta inp, Items := None\<rparr>, None))"

definition autoConvert_List_fromHub ::
  "fromHub_spec \<Rightarrow> (EtcdadmClusterList, EtcdadmClusterList_v1alpha3) converter" where
  "autoConvert_List_fromHub fromHub inp out =
     (case Items inp of
        Some xs \<Rightarrow>
          (case convertItems (autoConvert_EtcdadmCluster_fromHub fromHub) zeroCluster_v1alpha3 xs of
             (ys, e) \<Rightarrow> (out\<lparr>a3ListMeta := listMeta inp, a3Items := Some ys\<rparr>, e))
      | None \<Rightarrow> (out\<lparr>a3ListMeta := listMeta inp, a3Items := None\<rparr>, None))"

section \<open>\<open>ConvertTo\<close> and \<open>ConvertFrom\<close>\<close>

text \<open>A value of the interface \<open>conversion.Hub\<close>: one of the two types \<open>v1beta1\<close> marks as a hub.\<close>

datatype hub = HubCluster EtcdadmCluster | HubClusterList EtcdadmClusterList

text \<open>The type assertion of the wrong kind of hub panics.\<close>

definition ConvertTo :: "toHub_spec \<Rightarrow> EtcdadmCluster_v1alpha3 \<Rightarrow> hub \<Rightarrow> (hub \<times> err option) outcome" where
  "ConvertTo toHub src dstRaw =
     (case dstRaw of
        HubCluster dst \<Rightarrow>
          (case autoConvert_EtcdadmCluster_toHub toHub src dst of (dst', e) \<Rightarrow> Done (HubCluster dst', e))
      | HubClusterList _ \<Rightarrow> Panic ''interface conversion'')"

definition ConvertFrom ::
  "fromHub_spec \<Rightarrow> EtcdadmCluster_v1alpha3 \<Rightarrow> hub \<Rightarrow> (EtcdadmCluster_v1alpha3 \<times> err option) outcome" where
  "ConvertFrom fromHub dst srcRaw =
     (case srcRaw of
        HubCluster src \<Rightarrow> Done (autoConvert_EtcdadmCluster_fromHub fromHub src dst)
      | HubClusterList _ \<Rightarrow> Panic ''interface conversion'')"

definition ConvertTo_List ::
  "toHub_spec \<Rightarrow> EtcdadmClusterList_v1alpha3 \<Rightarrow> hub \<Rightarrow> (hub \<times> err option) outcome" where
  "ConvertTo_List toHub src dstRaw =
     (case dstRaw of
        HubClusterList dst \<Rightarrow>
          (case autoConvert_List_toHub toHub src dst of (dst', e) \<Rightarrow> Done (HubClusterList dst', e))
      | HubCluster _ \<Rightarrow> Panic ''interface conversion'')"

definition ConvertFrom_List ::
  "fromHub_spec \<Rightarrow> EtcdadmClusterList_v1alpha3 \<Rightarrow> hub \<Rightarrow> (EtcdadmClusterList_v1alpha3 \<times> err option) outcome" where
  "ConvertFrom_List fromHub dst srcRaw =
     (case srcRaw of
        HubClusterList src \<Rightarrow> Done (autoConvert_List_fromHub fromHub src dst)
      | HubCluster _ \<Rightarrow> Panic ''interface conversion'')"

section \<open>Registering the conversions\<close>

text \<open>The objects the API server may ask to convert, of either version, and their Go types.\<close>

datatype api_object =
    OldCluster EtcdadmCluster_v1alpha3 | NewCluster EtcdadmCluster
  | OldList EtcdadmClusterList_v1alpha3 | NewList EtcdadmClusterList
  | OldSpec EtcdadmClusterSpec_v1alpha3 | NewSpec EtcdadmClusterSpec
  | OldStatus EtcdadmClusterStatus_v1alpha3 | NewStatus EtcdadmClusterStatus

datatype api_type =
    OldClusterType | NewClusterType | OldListType | NewListType
  | OldSpecType | NewSpecType | OldStatusType | NewStatusType

fun typeOf :: "api_object \<Rightarrow> api_type" where
  "typeOf (OldCluster _) = OldClusterType"
| "typeOf (NewCluster _) = NewClusterType"
| "typeOf (OldList _) = OldListType"
| "typeOf (NewList _) = NewListType"
| "typeOf (OldSpec _) = OldSpecType"
| "typeOf (NewSpec _) = NewSpecType"
| "typeOf (OldStatus _) = OldStatusType"
| "typeOf (NewStatus _) = NewStatusType"

text \<open>
  A registered function asserts the types of its two objects, and panics when they are others. The
  last argument of \<open>asserting\<close> says how both are taken out and the second put back.
\<close>

type_synonym conversion_func = "api_object \<Rightarrow> api_object \<Rightarrow> (api_object \<times> err option) outcome"

definition asserting ::
  "('a, 'b) converter \<Rightarrow> (api_object \<Rightarrow> 'a option) \<Rightarrow> (api_object \<Rightarrow> 'b option) \<Rightarrow> ('b \<Rightarrow> api_object) \<Rightarrow> conversion_func" where
  "asserting conv takeA takeB put a b =
     (case takeA a of
        None \<Rightarrow> Panic ''interface conversion''
      | Some x \<Rightarrow>
          (case takeB b of
             None \<Rightarrow> Panic ''interface conversion''
           | Some y \<Rightarrow> (case conv x y of (y', e) \<Rightarrow> Done (put y', e))))"

fun asOldCluster where "asOldCluster (OldCluster x) = Some x" | "asOldCluster _ = None"

fun asNewCluster where "asNewCluster (NewCluster x) = Some x" | "asNewCluster _ = None"

fun asOldList where "asOldList (OldList x) = Some x" | "asOldList _ = None"

fun asNewList where "asNewList (NewList x) = Some x" | "asNewList _ = None"

fun asOldSpec where "asOldSpec (OldSpec x) = Some x" | "asOldSpec _ = None"

fun asNewSpec where "asNewSpec (NewSpec x) = Some x" | "asNewSpec _ = None"

fun asOldStatus where "asOldStatus (OldStatus x) = Some x" | "asOldStatus _ = None"

fun asNewStatus where "asNewStatus (NewStatus x) = Some x" | "asNewStatus _ = None"

text \<open>
  The scheme's generated conversions, the latest first. \<open>AddGeneratedConversionFunc\<close> is apimachinery's:
  it may refuse a pair, and otherwise remembers it.
\<close>

type_synonym scheme = "((api_type \<times> api_type) \<times> conversion_func) list"
type_synonym refusals = "scheme \<Rightarrow> api_type \<Rightarrow> api_type \<Rightarrow> err option"

definition AddGeneratedConversionFunc ::
  "refusals \<Rightarrow> api_type \<Rightarrow> api_type \<Rightarrow> conversion_func \<Rightarrow> (scheme, err option) prog" where
  "AddGeneratedConversionFunc A a b f =
     bnd (gets (\<lambda>s. A s a b)) (\<lambda>r.
     case r of
       Some e \<Rightarrow> ret (Some e)
     | None \<Rightarrow> seq (modify (\<lambda>s. ((a, b), f) # s)) (ret None))"

definition RegisterConversions :: "refusals \<Rightarrow> toHub_spec \<Rightarrow> fromHub_spec \<Rightarrow> (scheme, err option) prog" where
  "RegisterConversions A toHub fromHub =
     checkErr (AddGeneratedConversionFunc A OldClusterType NewClusterType
       (asserting (autoConvert_EtcdadmCluster_toHub toHub) asOldCluster asNewCluster NewCluster)) Some
     (checkErr (AddGeneratedConversionFunc A NewClusterType OldClusterType
       (asserting (autoConvert_EtcdadmCluster_fromHub fromHub) asNewCluster asOldCluster OldCluster)) Some
     (checkErr (AddGeneratedConversionFunc A OldListType NewListType
       (asserting (autoConvert_List_toHub toHub) asOldList asNewList NewList)) Some
     (checkErr (AddGeneratedConversionFunc A NewListType OldListType
       (asserting (autoConvert_List_fromHub fromHub) asNewList asOldList OldList)) Some
     (checkErr (AddGeneratedConversionFunc A OldSpecType NewSpecType
       (asserting (autoConvert_Spec_toHub toHub) asOldSpec asNewSpec NewSpec)) Some
     (checkErr (AddGeneratedConversionFunc A NewSpecType OldSpecType
       (asserting (autoConvert_Spec_fromHub fromHub) asNewSpec asOldSpec OldSpec)) Some
     (checkErr (AddGeneratedConversionFunc A OldStatusType NewStatusType
       (asserting autoConvert_Status_toHub asOldStatus asNewStatus NewStatus)) Some
     (checkErr (AddGeneratedConversionFunc A NewStatusType OldStatusType
       (asserting autoConvert_Status_fromHub asNewStatus asOldStatus OldStatus)) Some
     (ret None))))))))"

section \<open>Conditions of the old version\<close>

definition GetConditions_v1alpha3 :: "EtcdadmCluster_v1alpha3 \<Rightarrow> Condition list" where
  "GetConditions_v1alpha3 c = a3Conditions (a3Status c)"

definition SetConditions_v1alpha3 :: "EtcdadmCluster_v1alpha3 \<Rightarrow> Condition list \<Rightarrow> EtcdadmCluster_v1alpha3" where
  "SetConditions_v1alpha3 c cs = c\<lparr>a3Status := (a3Status c)\<lparr>a3Conditions := cs\<rparr>\<rparr>"

text \<open>The types and reasons as the old version spells them.\<close>

definition v1alpha3_EtcdMachinesSpecUpToDateCondition :: ConditionType where
  "v1alpha3_EtcdMachinesSpecUpToDateCondition = ''EtcdMachinesSpecUpToDate''"

definition v1alpha3_EtcdRollingUpdateInProgressReason :: string where
  "v1alpha3_EtcdRollingUpdateInProgressReason = ''EtcdRollingUpdateInProgress''"

definition v1alpha3_EtcdCertificatesAvailableCondition :: ConditionType where
  "v1alpha3_EtcdCertificatesAvailableCondition = ''EtcdCertificatesAvailable''"

definition v1alpha3_EtcdClusterResizeCompleted :: ConditionType where
  "v1alpha3_EtcdClusterResizeCompleted = ''EtcdClusterResizeCompleted''"

definition v1alpha3_EtcdScaleUpInProgressReason :: string where
  "v1alpha3_EtcdScaleUpInProgressReason = ''ScalingUp''"

definition v1alpha3_EtcdScaleDownInProgressReason :: string where
  "v1alpha3_EtcdScaleDownInProgressReason = ''ScalingDown''"

definition v1alpha3_InitializedCondition :: ConditionType where
  "v1alpha3_InitializedCondition = ''Initialized''"

definition v1alpha3_WaitingForEtcdadmInitReason :: string where
  "v1alpha3_WaitingForEtcdadmInitReason = ''WaitingForEtcdadmInit''"

definition v1alpha3_EtcdMachinesReadyCondition :: ConditionType where
  "v1alpha3_EtcdMachinesReadyCondition = ''EtcdMachinesReady''"

definition v1alpha3_EtcdClusterHasNoOutdatedMembersCondition :: ConditionType where
  "v1alpha3_EtcdClusterHasNoOutdatedMembersCondition = ''EtcdClusterHasNoOutdatedMachines''"

definition v1alpha3_EtcdClusterHasOutdatedMembersReason :: string where
  "v1alpha3_EtcdClusterHasOutdatedMembersReason = ''EtcdClusterHasOutdatedMachines''"

definition v1alpha3_UpgradeInProgressAnnotation :: string where
  "v1alpha3_UpgradeInProgressAnnotation = ''etcdcluster.cluster.x-k8s.io/upgrading''"

lemmas v1alpha3_names = v1alpha3_UpgradeInProgressAnnotation_def
  v1alpha3_EtcdMachinesSpecUpToDateCondition_def
  v1alpha3_EtcdRollingUpdateInProgressReason_def
  v1alpha3_EtcdCertificatesAvailableCondition_def
  v1alpha3_EtcdClusterResizeCompleted_def
  v1alpha3_EtcdScaleUpInProgressReason_def
  v1alpha3_EtcdScaleDownInProgressReason_def
  v1alpha3_InitializedCondition_def
  v1alpha3_WaitingForEtcdadmInitReason_def
  v1alpha3_EtcdMachinesReadyCondition_def
  v1alpha3_EtcdClusterHasNoOutdatedMembersCondition_def
  v1alpha3_EtcdClusterHasOutdatedMembersReason_def

section \<open>Round trips\<close>

text \<open>A converter that succeeds on \<open>x\<close> with \<open>y\<close>, whatever the object it writes into held before.\<close>

definition converts :: "('a, 'b) converter \<Rightarrow> 'a \<Rightarrow> 'b \<Rightarrow> bool" where
  "converts conv x y = (\<forall>out. conv x out = (y, None))"

lemma convertItems_ok:
  "list_all2 (converts conv) xs ys \<Longrightarrow> convertItems conv zero xs = (ys, None)"
  by (induction xs ys rule: list_all2_induct) (simp_all add: converts_def)

end
