(* ===== verification/Api_Correct.thy ===== *)
theory Api_Correct
  imports Webhook Conversion
begin

text \<open>
  What the admission webhooks accept, and what survives a conversion between the API versions.
\<close>

section \<open>Admission\<close>

text \<open>The specification: an odd, positive number of members, and a template in the cluster's namespace.\<close>

definition acceptable_replicas :: "32 word \<Rightarrow> bool" where
  "acceptable_replicas n \<longleftrightarrow> 0 < sint n \<and> odd (sint n)"

lemma smod_2_pos: "0 < (n :: int) \<Longrightarrow> n smod 2 = n mod 2"
  by (simp add: signed_modulo_int_def)

lemma replicaErrors_none:
  "replicaErrors obj = [] \<longleftrightarrow> (\<exists>n. Replicas (ecSpec obj) = Some n \<and> acceptable_replicas n)"
  by (auto simp: replicaErrors_def acceptable_replicas_def smod_2_pos not_le even_iff_mod_2_eq_zero
      split: option.splits)

lemma validateCommon_none:
  "validateCommon obj = [] \<longleftrightarrow> (\<exists>n. Replicas (ecSpec obj) = Some n \<and> acceptable_replicas n) \<and>
     oNamespace (InfrastructureTemplate (ecSpec obj)) = Namespace (ecMeta obj)"
  by (simp add: validateCommon_def replicaErrors_none)

lemma validate_none:
  "ValidateCreate obj = None \<longleftrightarrow> validateCommon obj = []"
  "ValidateUpdate old obj = None \<longleftrightarrow> validateCommon obj = []"
  by (simp_all add: ValidateCreate_def ValidateUpdate_def Let_def)

text \<open>C32: An object is admitted, when created and as the new version in an update alike,
  exactly if its number of replicas is given, positive and odd, and its infrastructure template is in
  its own namespace; an object that fails both tests is refused with both complaints, the one about
  the replicas first.\<close>

theorem admission_criterion:
  "(ValidateCreate obj = None) =
     ((\<exists>n. Replicas (ecSpec obj) = Some n \<and> 0 < sint n \<and> odd (sint n)) \<and>
      oNamespace (InfrastructureTemplate (ecSpec obj)) = Namespace (ecMeta obj)) \<and>
   (ValidateUpdate old obj = None) = (ValidateCreate obj = None) \<and>
   ((ValidateCreate obj = Some (NewInvalid ''EtcdadmCluster'' (Name (ecMeta obj))
           [FieldForbidden [''spec'', ''replicas''] ''cannot be less than or equal to 0'',
            FieldInvalid [''spec'', ''infrastructureTemplate'', ''namespace'']
              (oNamespace (InfrastructureTemplate (ecSpec obj))) ''must match metadata.namespace''])) =
        (\<exists>n. Replicas (ecSpec obj) = Some n \<and> sint n \<le> 0 \<and>
           oNamespace (InfrastructureTemplate (ecSpec obj)) \<noteq> Namespace (ecMeta obj)))"
proof (intro conjI)
  show "(ValidateCreate obj = Some (NewInvalid ''EtcdadmCluster'' (Name (ecMeta obj))
           [FieldForbidden [''spec'', ''replicas''] ''cannot be less than or equal to 0'',
            FieldInvalid [''spec'', ''infrastructureTemplate'', ''namespace'']
              (oNamespace (InfrastructureTemplate (ecSpec obj))) ''must match metadata.namespace''])) =
        (\<exists>n. Replicas (ecSpec obj) = Some n \<and> sint n \<le> 0 \<and>
           oNamespace (InfrastructureTemplate (ecSpec obj)) \<noteq> Namespace (ecMeta obj))"
    by (auto simp: ValidateCreate_def validateCommon_def replicaErrors_def split: option.splits)
qed (simp_all add: validate_none validateCommon_none acceptable_replicas_def)

text \<open>C33: Defaulting gives the object with these two fields set and every other field as
  it was: a missing number of replicas becomes 1, and a missing namespace of the template becomes the
  object's. So defaulting twice is defaulting once, and what it gives is admitted exactly if the replicas are missing or positive and odd, and
  the template's namespace is missing or the object's.\<close>

theorem defaults_are_admitted:
  "Default obj = obj\<lparr>ecSpec := (ecSpec obj)\<lparr>
     Replicas := Some (case Replicas (ecSpec obj) of None \<Rightarrow> 1 | Some n \<Rightarrow> n),
     InfrastructureTemplate := (InfrastructureTemplate (ecSpec obj))\<lparr>
       oNamespace := (if oNamespace (InfrastructureTemplate (ecSpec obj)) = [] then Namespace (ecMeta obj)
                      else oNamespace (InfrastructureTemplate (ecSpec obj)))\<rparr>\<rparr>\<rparr> \<and>
   Default (Default obj) = Default obj \<and>
   ecMeta (Default obj) = ecMeta obj \<and> ecStatus (Default obj) = ecStatus obj \<and>
   Replicas (ecSpec (Default obj)) = Some (case Replicas (ecSpec obj) of None \<Rightarrow> 1 | Some n \<Rightarrow> n) \<and>
   (ValidateCreate (Default obj) = None) =
     ((case Replicas (ecSpec obj) of None \<Rightarrow> True | Some n \<Rightarrow> 0 < sint n \<and> odd (sint n)) \<and>
      oNamespace (InfrastructureTemplate (ecSpec obj)) \<in> {[], Namespace (ecMeta obj)})"
  by (auto simp: Default_def defaultNamespace_def defaultReplicas_def validate_none validateCommon_none
      acceptable_replicas_def split: option.splits)

section \<open>Conversion\<close>

text \<open>The specification of a conversion that succeeds: field by field, the spec given.\<close>

definition hubImage :: "EtcdadmConfigSpec \<Rightarrow> EtcdadmCluster_v1alpha3 \<Rightarrow> EtcdadmCluster" where
  "hubImage cfg src =
     \<lparr>ecMeta = a3Meta src,
      ecSpec = \<lparr>Replicas = a3Replicas (a3Spec src),
                InfrastructureTemplate = a3InfrastructureTemplate (a3Spec src), etcdadmConfigSpec = cfg\<rparr>,
      ecStatus = \<lparr>ReadyReplicas = a3ReadyReplicas (a3Status src),
        InitMachineAddress = a3InitMachineAddress (a3Status src), Initialized = a3Initialized (a3Status src),
        Ready = a3Ready (a3Status src), CreationComplete = a3CreationComplete (a3Status src),
        Endpoints = a3Endpoints (a3Status src), Selector = a3Selector (a3Status src),
        ObservedGeneration = a3ObservedGeneration (a3Status src), Conditions = a3Conditions (a3Status src)\<rparr>\<rparr>"

definition oldImage :: "EtcdadmConfigSpec_v1alpha3 \<Rightarrow> EtcdadmCluster \<Rightarrow> EtcdadmCluster_v1alpha3" where
  "oldImage cfg src =
     \<lparr>a3Meta = ecMeta src,
      a3Spec = \<lparr>a3Replicas = Replicas (ecSpec src),
                a3InfrastructureTemplate = InfrastructureTemplate (ecSpec src), a3EtcdadmConfigSpec = cfg\<rparr>,
      a3Status = \<lparr>a3ReadyReplicas = ReadyReplicas (ecStatus src),
        a3InitMachineAddress = InitMachineAddress (ecStatus src), a3Initialized = Initialized (ecStatus src),
        a3Ready = Ready (ecStatus src), a3CreationComplete = CreationComplete (ecStatus src),
        a3Endpoints = Endpoints (ecStatus src), a3Selector = Selector (ecStatus src),
        a3ObservedGeneration = ObservedGeneration (ecStatus src), a3Conditions = Conditions (ecStatus src)\<rparr>\<rparr>"

lemma images:
  "oldImage (a3EtcdadmConfigSpec (a3Spec src)) (hubImage cfg src) = src"
  "hubImage (etcdadmConfigSpec (ecSpec h)) (oldImage cfg' h) = h"
  "etcdadmConfigSpec (ecSpec (hubImage cfg src)) = cfg"
  "a3EtcdadmConfigSpec (a3Spec (oldImage cfg' h)) = cfg'"
  by (simp_all add: hubImage_def oldImage_def)

lemma cluster_toHub:
  assumes "converts toHub (a3EtcdadmConfigSpec (a3Spec src)) cfg"
  shows "converts (autoConvert_EtcdadmCluster_toHub toHub) src (hubImage cfg src)"
  using assms unfolding converts_def
  by (simp add: hubImage_def autoConvert_EtcdadmCluster_toHub_def autoConvert_Spec_toHub_def autoConvert_Status_toHub_def)

lemma cluster_fromHub:
  assumes "converts fromHub (etcdadmConfigSpec (ecSpec src)) cfg"
  shows "converts (autoConvert_EtcdadmCluster_fromHub fromHub) src (oldImage cfg src)"
  using assms unfolding converts_def
  by (simp add: oldImage_def autoConvert_EtcdadmCluster_fromHub_def autoConvert_Spec_fromHub_def autoConvert_Status_fromHub_def)

text \<open>Two converters undo each other at \<open>x\<close>.\<close>

definition undoes :: "('a, 'b) converter \<Rightarrow> ('b, 'a) converter \<Rightarrow> 'a \<Rightarrow> bool" where
  "undoes there back x = (\<exists>y. converts there x y \<and> converts back y x)"

lemma cluster_there_and_back:
  assumes "undoes toHub fromHub (a3EtcdadmConfigSpec (a3Spec src))"
  shows "undoes (autoConvert_EtcdadmCluster_toHub toHub) (autoConvert_EtcdadmCluster_fromHub fromHub) src"
  using assms cluster_toHub cluster_fromHub unfolding undoes_def by (metis images(1,3))

lemma cluster_back_and_there:
  assumes "undoes fromHub toHub (etcdadmConfigSpec (ecSpec src))"
  shows "undoes (autoConvert_EtcdadmCluster_fromHub fromHub) (autoConvert_EtcdadmCluster_toHub toHub) src"
  using assms cluster_toHub cluster_fromHub unfolding undoes_def by (metis images(2,4))

lemma items_there_and_back:
  assumes "list_all (undoes there back) xs"
  shows "\<exists>ys. \<forall>zero zero'. convertItems there zero xs = (ys, None) \<and> convertItems back zero' ys = (xs, None)"
proof -
  have "\<exists>ys. list_all2 (converts there) xs ys \<and> list_all2 (converts back) ys xs"
    using assms
  proof (induction xs)
    case (Cons x xs)
    then obtain ys y where "list_all2 (converts there) xs ys" "list_all2 (converts back) ys xs"
      "converts there x y" "converts back y x"
      unfolding undoes_def by auto
    then show ?case by (intro exI [of _ "y # ys"]) simp
  qed simp
  then obtain ys where "list_all2 (converts there) xs ys" "list_all2 (converts back) ys xs" by blast
  then show ?thesis by (intro exI [of _ ys] allI conjI convertItems_ok)
qed

lemma length_convertItems: "length (fst (convertItems conv zero xs)) = length xs"
  by (induction conv zero xs rule: convertItems.induct) (auto split: prod.splits option.splits)

text \<open>C34: When the conversions of the bootstrap provider's spec undo each other, an
  object of the old version survives the way to the hub and back, into whatever objects the API server
  passes, and so does a hub object on its way through the old version.\<close>

theorem conversion_roundtrip:
  assumes "undoes toHub fromHub (a3EtcdadmConfigSpec (a3Spec src))"
    and "undoes fromHub toHub (etcdadmConfigSpec (ecSpec hubSrc))"
  shows "(\<exists>h. ConvertTo toHub src (HubCluster d) = Done (HubCluster h, None) \<and>
           ConvertFrom fromHub d' (HubCluster h) = Done (src, None)) \<and>
         (\<exists>old. ConvertFrom fromHub d' (HubCluster hubSrc) = Done (old, None) \<and>
           ConvertTo toHub old (HubCluster d) = Done (HubCluster hubSrc, None))"
  using cluster_there_and_back [OF assms(1)] cluster_back_and_there [OF assms(2)]
  unfolding undoes_def converts_def ConvertTo_def ConvertFrom_def by fastforce

definition demo_toHub :: toHub_spec where
  "demo_toHub inp out = (case inp of OpaqueEtcdadmConfigSpec_v1alpha3 s \<Rightarrow> (OpaqueEtcdadmConfigSpec s, None))"

definition demo_fromHub :: fromHub_spec where
  "demo_fromHub inp out = (case inp of OpaqueEtcdadmConfigSpec s \<Rightarrow> (OpaqueEtcdadmConfigSpec_v1alpha3 s, None))"

lemma demo_undoes: "undoes demo_toHub demo_fromHub c" "undoes demo_fromHub demo_toHub c'"
  unfolding undoes_def converts_def demo_toHub_def demo_fromHub_def
  by (cases c, force) (cases c', force)

theorem conversion_roundtrip_witness:
  "\<exists>h. ConvertTo demo_toHub zeroCluster_v1alpha3 (HubCluster zeroCluster) = Done (HubCluster h, None) \<and>
     ConvertFrom demo_fromHub zeroCluster_v1alpha3 (HubCluster h) = Done (zeroCluster_v1alpha3, None)"
  using conversion_roundtrip [of demo_toHub demo_fromHub zeroCluster_v1alpha3 zeroCluster zeroCluster zeroCluster_v1alpha3]
  by (simp add: demo_undoes)

text \<open>The same for lists, a nil list of items included.\<close>

theorem list_conversion_roundtrip:
  assumes "list_all (\<lambda>c. undoes toHub fromHub (a3EtcdadmConfigSpec (a3Spec c)))
             (case a3Items src of None \<Rightarrow> [] | Some xs \<Rightarrow> xs)"
  shows "\<exists>h. ConvertTo_List toHub src (HubClusterList d) = Done (HubClusterList h, None) \<and>
     ConvertFrom_List fromHub d' (HubClusterList h) = Done (src, None) \<and>
     map_option length (Items h) = map_option length (a3Items src)"
proof (cases "a3Items src")
  case None
  then show ?thesis
    by (simp add: ConvertTo_List_def ConvertFrom_List_def autoConvert_List_toHub_def autoConvert_List_fromHub_def)
next
  case (Some xs)
  with assms have "list_all (undoes (autoConvert_EtcdadmCluster_toHub toHub) (autoConvert_EtcdadmCluster_fromHub fromHub)) xs"
    by (auto simp: list_all_iff intro: cluster_there_and_back)
  from items_there_and_back [OF this] obtain ys where ys:
    "convertItems (autoConvert_EtcdadmCluster_toHub toHub) zeroCluster xs = (ys, None)"
    "convertItems (autoConvert_EtcdadmCluster_fromHub fromHub) zeroCluster_v1alpha3 ys = (xs, None)" by blast
  have "length ys = length xs" using length_convertItems [of "autoConvert_EtcdadmCluster_toHub toHub" zeroCluster xs] ys(1) by simp
  with ys show ?thesis using Some
    by (simp add: ConvertTo_List_def ConvertFrom_List_def autoConvert_List_toHub_def autoConvert_List_fromHub_def)
qed

theorem list_conversion_roundtrip_witness:
  "\<exists>h. ConvertTo_List demo_toHub \<lparr>a3ListMeta = ''7'', a3Items = Some [zeroCluster_v1alpha3]\<rparr>
       (HubClusterList \<lparr>listMeta = [], Items = None\<rparr>) = Done (HubClusterList h, None) \<and>
     map_option length (Items h) = Some 1"
proof -
  have "list_all (\<lambda>c. undoes demo_toHub demo_fromHub (a3EtcdadmConfigSpec (a3Spec c)))
     (case a3Items \<lparr>a3ListMeta = ''7'', a3Items = Some [zeroCluster_v1alpha3]\<rparr> of None \<Rightarrow> [] | Some xs \<Rightarrow> xs)"
    by (simp add: demo_undoes)
  from list_conversion_roundtrip [OF this, of "\<lparr>listMeta = [], Items = None\<rparr>" "\<lparr>a3ListMeta = [], a3Items = None\<rparr>"]
  show ?thesis by auto
qed

text \<open>The items a conversion reaches: up to and with the first that fails.\<close>

definition fails :: "('a, 'b) converter \<Rightarrow> 'b \<Rightarrow> 'a \<Rightarrow> bool" where
  "fails conv zero x = (snd (conv x zero) \<noteq> None)"

lemma convertItems_append:
  "list_all (\<lambda>x. \<not> fails conv zero x) xs \<Longrightarrow> fails conv zero y \<Longrightarrow>
   convertItems conv zero (xs @ y # zs) =
     (map (\<lambda>x. fst (conv x zero)) (xs @ [y]) @ replicate (length zs) zero, snd (conv y zero))"
  by (induction xs) (auto simp: fails_def split: prod.splits option.splits)

text \<open>C35: Converting a list stops at the first item whose spec cannot be converted:
  the error is returned, the list keeps its length, the items before are converted, that item has its
  metadata but a zero status, and those after it are zero objects.\<close>

theorem conversion_stops_at_error:
  assumes items: "a3Items src = Some (xs @ bad # ys)"
    and ok: "list_all (\<lambda>c. \<not> fails (autoConvert_EtcdadmCluster_toHub toHub) zeroCluster c) xs"
    and err: "snd (toHub (a3EtcdadmConfigSpec (a3Spec bad)) (etcdadmConfigSpec (ecSpec zeroCluster))) = Some e"
  shows "\<exists>h done part. ConvertTo_List toHub src (HubClusterList d) = Done (HubClusterList h, Some e) \<and>
     Items h = Some (done @ part # replicate (length ys) zeroCluster) \<and>
     done = map (\<lambda>c. fst (autoConvert_EtcdadmCluster_toHub toHub c zeroCluster)) xs \<and>
     ecMeta part = a3Meta bad \<and> ecStatus part = ecStatus zeroCluster"
proof -
  let ?conv = "autoConvert_EtcdadmCluster_toHub toHub"
  have bad: "snd (?conv bad zeroCluster) = Some e" "ecMeta (fst (?conv bad zeroCluster)) = a3Meta bad"
    "ecStatus (fst (?conv bad zeroCluster)) = ecStatus zeroCluster"
    using err by (auto simp: autoConvert_EtcdadmCluster_toHub_def autoConvert_Spec_toHub_def Let_def
        split: prod.splits)
  have "fails ?conv zeroCluster bad" using bad(1) by (simp add: fails_def)
  from convertItems_append [OF ok this, of ys] bad
  show ?thesis
    by (simp add: ConvertTo_List_def autoConvert_List_toHub_def items)
qed

definition strict_toHub :: toHub_spec where
  "strict_toHub inp out =
     (case inp of OpaqueEtcdadmConfigSpec_v1alpha3 s \<Rightarrow>
        (OpaqueEtcdadmConfigSpec s, if s = [] then Some (External ''empty'') else None))"

theorem conversion_stops_at_error_witness:
  "\<exists>h. ConvertTo_List strict_toHub
       \<lparr>a3ListMeta = [], a3Items = Some [zeroCluster_v1alpha3, zeroCluster_v1alpha3]\<rparr>
       (HubClusterList \<lparr>listMeta = [], Items = None\<rparr>) = Done (HubClusterList h, Some (External ''empty'')) \<and>
     map_option length (Items h) = Some 2"
proof -
  let ?src = "\<lparr>a3ListMeta = [], a3Items = Some [zeroCluster_v1alpha3, zeroCluster_v1alpha3]\<rparr>"
  have "a3Items ?src = Some ([] @ zeroCluster_v1alpha3 # [zeroCluster_v1alpha3])" by simp
  moreover have "list_all (\<lambda>c. \<not> fails (autoConvert_EtcdadmCluster_toHub strict_toHub) zeroCluster c) []" by simp
  moreover have "snd (strict_toHub (a3EtcdadmConfigSpec (a3Spec zeroCluster_v1alpha3))
      (etcdadmConfigSpec (ecSpec zeroCluster))) = Some (External ''empty'')"
    by (simp add: strict_toHub_def zeroCluster_v1alpha3_def)
  ultimately show ?thesis
    using conversion_stops_at_error [of ?src "[]" zeroCluster_v1alpha3 "[zeroCluster_v1alpha3]" strict_toHub
        "External ''empty''" "\<lparr>listMeta = [], Items = None\<rparr>"] by auto
qed

section \<open>Registered conversions\<close>

text \<open>The type of the other version.\<close>

fun counterpart :: "api_type \<Rightarrow> api_type" where
  "counterpart OldClusterType = NewClusterType" | "counterpart NewClusterType = OldClusterType"
| "counterpart OldListType = NewListType" | "counterpart NewListType = OldListType"
| "counterpart OldSpecType = NewSpecType" | "counterpart NewSpecType = OldSpecType"
| "counterpart OldStatusType = NewStatusType" | "counterpart NewStatusType = OldStatusType"

lemma run_register:
  "run_state (checkErr (AddGeneratedConversionFunc A a b f) Some m) s =
     (case A s a b of Some e \<Rightarrow> (Done (Some e), s) | None \<Rightarrow> run_state m (((a, b), f) # s))"
  by (simp add: AddGeneratedConversionFunc_def run_simps split: option.split)

lemma registered_all:
  "run_state (RegisterConversions A toHub fromHub) s = (Done None, t) \<Longrightarrow>
   t = [((NewStatusType, OldStatusType), asserting autoConvert_Status_fromHub asNewStatus asOldStatus OldStatus),
        ((OldStatusType, NewStatusType), asserting autoConvert_Status_toHub asOldStatus asNewStatus NewStatus),
        ((NewSpecType, OldSpecType), asserting (autoConvert_Spec_fromHub fromHub) asNewSpec asOldSpec OldSpec),
        ((OldSpecType, NewSpecType), asserting (autoConvert_Spec_toHub toHub) asOldSpec asNewSpec NewSpec),
        ((NewListType, OldListType), asserting (autoConvert_List_fromHub fromHub) asNewList asOldList OldList),
        ((OldListType, NewListType), asserting (autoConvert_List_toHub toHub) asOldList asNewList NewList),
        ((NewClusterType, OldClusterType), asserting (autoConvert_EtcdadmCluster_fromHub fromHub) asNewCluster asOldCluster OldCluster),
        ((OldClusterType, NewClusterType), asserting (autoConvert_EtcdadmCluster_toHub toHub) asOldCluster asNewCluster NewCluster)] @ s"
  by (simp add: RegisterConversions_def run_register split: option.splits)

text \<open>Once the conversions are registered, the scheme has one for every object and the type of the other
  version, and given an object of that type to write into it returns one, without a failed type
  assertion.\<close>

theorem conversions_registered:
  assumes run: "run_state (RegisterConversions A toHub fromHub) s = (Done None, t)"
    and pair: "counterpart (typeOf a) = typeOf b"
  shows "\<exists>f b' e. map_of t (typeOf a, typeOf b) = Some f \<and> f a b = Done (b', e) \<and> typeOf b' = typeOf b"
  using pair unfolding registered_all [OF run]
  by (cases a; cases b) (simp_all add: asserting_def split: prod.split)

theorem conversions_registered_witness:
  "\<exists>f b'. map_of (snd (run_state (RegisterConversions (\<lambda>_ _ _. None) demo_toHub demo_fromHub) []))
     (OldClusterType, NewClusterType) = Some f \<and>
     f (OldCluster zeroCluster_v1alpha3) (NewCluster zeroCluster) = Done (b', None)"
proof -
  have run: "run_state (RegisterConversions (\<lambda>_ _ _. None) demo_toHub demo_fromHub) [] =
      (Done None, snd (run_state (RegisterConversions (\<lambda>_ _ _. None) demo_toHub demo_fromHub) []))"
    by (simp add: RegisterConversions_def run_register)
  obtain f b' e where f: "map_of (snd (run_state (RegisterConversions (\<lambda>_ _ _. None) demo_toHub demo_fromHub) []))
      (OldClusterType, NewClusterType) = Some f"
    "f (OldCluster zeroCluster_v1alpha3) (NewCluster zeroCluster) = Done (b', e)"
    using conversions_registered [OF run, of "OldCluster zeroCluster_v1alpha3" "NewCluster zeroCluster"] by auto
  have "f = asserting (autoConvert_EtcdadmCluster_toHub demo_toHub) asOldCluster asNewCluster NewCluster"
    using f(1) by (simp add: RegisterConversions_def run_register)
  then show ?thesis using f
    by (simp add: asserting_def autoConvert_EtcdadmCluster_toHub_def autoConvert_Spec_toHub_def
        autoConvert_Status_toHub_def demo_toHub_def
        split: prod.splits EtcdadmConfigSpec_v1alpha3.splits)
qed

text \<open>Conditions keep their meaning: a conversion that succeeds hands them on as they are, and both
  versions have the same names for their types and reasons, and for the annotation.\<close>

theorem conditions_keep_meaning:
  "snd (autoConvert_EtcdadmCluster_toHub toHub src d) = None \<Longrightarrow>
   GetConditions (fst (autoConvert_EtcdadmCluster_toHub toHub src d)) = GetConditions_v1alpha3 src"
  "v1alpha3_UpgradeInProgressAnnotation = UpgradeInProgressAnnotation"
  "[v1alpha3_EtcdMachinesSpecUpToDateCondition, v1alpha3_EtcdCertificatesAvailableCondition,
    v1alpha3_EtcdClusterResizeCompleted, v1alpha3_InitializedCondition, v1alpha3_EtcdMachinesReadyCondition,
    v1alpha3_EtcdClusterHasNoOutdatedMembersCondition] =
   [EtcdMachinesSpecUpToDateCondition, EtcdCertificatesAvailableCondition, EtcdClusterResizeCompleted,
    InitializedCondition, EtcdMachinesReadyCondition, EtcdClusterHasNoOutdatedMembersCondition]"
  "[v1alpha3_EtcdRollingUpdateInProgressReason, v1alpha3_EtcdScaleUpInProgressReason,
    v1alpha3_EtcdScaleDownInProgressReason, v1alpha3_WaitingForEtcdadmInitReason, v1alpha3_EtcdClusterHasOutdatedMembersReason] =
   [EtcdRollingUpdateInProgressReason, EtcdScaleUpInProgressReason, EtcdScaleDownInProgressReason,
    WaitingForEtcdadmInitReason, EtcdClusterHasOutdatedMembersReason]"
  by (auto simp: GetConditions_def GetConditions_v1alpha3_def autoConvert_EtcdadmCluster_toHub_def Let_def
      autoConvert_Status_toHub_def split: prod.splits if_splits)
    (simp_all add: v1alpha3_names condition_type_defs condition_reason_defs UpgradeInProgressAnnotation_def)

end
