(* ===== verification/Process.thy ===== *)
theory Process
  imports Laws Periodic_Healthcheck
begin

text \<open>
  \<open>main.go\<close> and the rest of \<open>SetupWithManager\<close>: how the process starts, as a program over the calls
  into controller-runtime, and how it shuts down, as a step relation of the goroutines that take
  part: the signal handler, the manager and the health-check loop.
\<close>

section \<open>Starting\<close>

text \<open>The flags \<open>main\<close> defines; an \<open>int\<close> has 64 bits. The flags of cluster-api are left to the outside.\<close>

record Flags =
  enableLeaderElection :: bool
  watchNamespace :: string
  maxConcurrentReconciles :: "64 word"
  healthcheckInterval :: "64 word"

definition defaultFlags :: Flags where
  "defaultFlags = \<lparr>enableLeaderElection = False, watchNamespace = [],
     maxConcurrentReconciles = 10, healthcheckInterval = 30\<rparr>"

text \<open>\<open>ctrl.Options\<close>, as far as \<open>main\<close> fills it in; \<open>DefaultNamespaces\<close> is a set of keys, nil as \<open>None\<close>.\<close>

record ManagerConfig =
  LeaderElection :: bool
  LeaderElectionID :: string
  DefaultNamespaces :: "string list option"

definition managerConfig :: "Flags \<Rightarrow> ManagerConfig" where
  "managerConfig f =
     \<lparr>LeaderElection = enableLeaderElection f, LeaderElectionID = ''cc88008e.cluster.x-k8s.io'',
      DefaultNamespaces = (if watchNamespace f \<noteq> [] then Some [watchNamespace f] else None)\<rparr>"

text \<open>\<open>time.Second * time.Duration(n)\<close>: a product of 64-bit integers.\<close>

definition healthInterval :: "64 word \<Rightarrow> 64 word" where
  "healthInterval n = 1000000000 * n"

text \<open>\<open>time.NewTicker\<close>, the first call of the loop that may fail, panics unless its period is positive.\<close>

definition newTicker :: "64 word \<Rightarrow> unit outcome" where
  "newTicker d = (if sint d \<le> 0 then Panic ''non-positive interval for NewTicker'' else Done ())"

datatype start_event =
    StGetManagerOptions "err option"
  | StGetConfig "err option"
  | StNewManager ManagerConfig "err option"
  | StNotifySignals
  | StBuildController "64 word" "err option"
  | StWatchClusters "err option"
  | StGoHealthCheckLoop "64 word"
  | StSetupWebhook "err option"
  | StStartManager "err option"

record start_state =
  startTrace :: "start_event list"
  onlyOneSignalHandler :: bool  \<comment> \<open>the channel is closed\<close>

text \<open>What the libraries answer, given what has happened.\<close>

record start_api =
  a_GetManagerOptions :: "start_event list \<Rightarrow> err option"
  a_GetConfig :: "start_event list \<Rightarrow> err option"
  a_NewManager :: "start_event list \<Rightarrow> ManagerConfig \<Rightarrow> err option"
  a_BuildController :: "start_event list \<Rightarrow> 64 word \<Rightarrow> err option"
  a_WatchClusters :: "start_event list \<Rightarrow> err option"
  a_SetupWebhook :: "start_event list \<Rightarrow> err option"
  a_StartManager :: "start_event list \<Rightarrow> err option"

definition startCall ::
  "(err option \<Rightarrow> start_event) \<Rightarrow> (start_event list \<Rightarrow> err option) \<Rightarrow> (start_state, err option) prog" where
  "startCall ev answer =
     bnd (gets (\<lambda>s. answer (startTrace s))) (\<lambda>r.
     seq (modify (\<lambda>s. s\<lparr>startTrace := startTrace s @ [ev r]\<rparr>)) (ret r))"

definition startNote :: "start_event \<Rightarrow> (start_state, unit) prog" where
  "startNote e = modify (\<lambda>s. s\<lparr>startTrace := startTrace s @ [e]\<rparr>)"

text \<open>\<open>setupSignalHandler\<close>; its goroutine is the handler of the step relation below.\<close>

definition setupSignalHandler :: "(start_state, unit) prog" where
  "setupSignalHandler =
     bnd (gets onlyOneSignalHandler) (\<lambda>closed.
     if closed then panic ''close of closed channel''
     else seq (modify (\<lambda>s. s\<lparr>onlyOneSignalHandler := True\<rparr>)) (startNote StNotifySignals))"

text \<open>
  What the controller is told of Clusters: the events cluster-api's predicate lets through, wrapped
  for every kind of event.
\<close>

datatype cluster_event =
    CreateEvent Cluster | UpdateEvent Cluster Cluster | DeleteEvent Cluster | GenericEvent Cluster

record cluster_predicate =
  p_Create :: "Cluster \<Rightarrow> bool"
  p_Update :: "Cluster \<Rightarrow> Cluster \<Rightarrow> bool"
  p_Delete :: "Cluster \<Rightarrow> bool"
  p_Generic :: "Cluster \<Rightarrow> bool"

fun typedPred :: "cluster_predicate \<Rightarrow> cluster_event \<Rightarrow> bool" where
  "typedPred untypedPred (CreateEvent c) = p_Create untypedPred c"
| "typedPred untypedPred (UpdateEvent old new) = p_Update untypedPred old new"
| "typedPred untypedPred (DeleteEvent c) = p_Delete untypedPred c"
| "typedPred untypedPred (GenericEvent c) = p_Generic untypedPred c"

text \<open>\<open>SetupWithManager\<close>, the assignments to the reconciler apart (\<open>SetupWithManager_env\<close>). It starts by
  building the controller; \<open>k\<close> is the rest.\<close>

definition buildController ::
  "start_api \<Rightarrow> errors_api \<Rightarrow> 64 word \<Rightarrow> (start_state, err option) prog \<Rightarrow> (start_state, err option) prog" where
  "buildController A X maxConcurrent k =
     bnd (startCall (StBuildController maxConcurrent) (\<lambda>h. a_BuildController A h maxConcurrent)) (\<lambda>r.
     if r \<noteq> None then ret (errors_Wrap X r ''failed setting up with a controller manager'') else k)"

definition SetupWithManager ::
  "start_api \<Rightarrow> errors_api \<Rightarrow> 64 word \<Rightarrow> 64 word \<Rightarrow> (start_state, err option) prog" where
  "SetupWithManager A X maxConcurrent interval =
     buildController A X maxConcurrent
       (bnd (startCall StWatchClusters (a_WatchClusters A)) (\<lambda>r.
        if r \<noteq> None then ret (errors_Wrap X r ''failed adding Watch for Clusters to controller manager'')
        else seq (startNote (StGoHealthCheckLoop interval)) (ret None)))"

text \<open>\<open>main\<close>: the exit code; \<open>GetConfigOrDie\<close> exits with 1 as well.\<close>

definition main_program :: "start_api \<Rightarrow> errors_api \<Rightarrow> Flags \<Rightarrow> (start_state, nat) prog" where
  "main_program A X f =
     checkErr (startCall StGetManagerOptions (a_GetManagerOptions A)) (\<lambda>_. 1)
     (checkErr (startCall StGetConfig (a_GetConfig A)) (\<lambda>_. 1)
     (checkErr (startCall (StNewManager (managerConfig f)) (\<lambda>h. a_NewManager A h (managerConfig f))) (\<lambda>_. 1)
     (seq setupSignalHandler
     (checkErr (SetupWithManager A X (maxConcurrentReconciles f) (healthInterval (healthcheckInterval f))) (\<lambda>_. 1)
     (checkErr (startCall StSetupWebhook (a_SetupWebhook A)) (\<lambda>_. 1)
     (checkErr (startCall StStartManager (a_StartManager A)) (\<lambda>_. 1)
     (ret 0)))))))"

section \<open>Shutting down\<close>

text \<open>
  The signal handler waits for a first signal, cancels the context, closes the channel \<open>stop\<close>, waits
  for a second signal and exits. Signals wait in a channel that holds two; more are dropped.
\<close>

datatype handler_pc = AwaitFirst | Cancelling | Closing | AwaitSecond | Exiting

datatype loop_state = Waiting | Checking | Returned

datatype exit_reason = MainReturned | ManagerFailed | SecondSignal

record process =
  received :: nat  \<comment> \<open>signals sent to the process so far\<close>
  pending :: nat
  handler :: handler_pc
  ctxDone :: bool
  stopClosed :: bool
  loopState :: loop_state
  exited :: "exit_reason option"

definition started :: process where
  "started = \<lparr>received = 0, pending = 0, handler = AwaitFirst, ctxDone = False, stopClosed = False,
     loopState = Waiting, exited = None\<rparr>"

text \<open>
  The manager returns nil once its context is cancelled, and may fail at any time. A ready \<open>select\<close>
  picks any of its cases, so the loop may start another round after \<open>stop\<close> has been closed.
\<close>

inductive process_step :: "process \<Rightarrow> process \<Rightarrow> bool" where
  signal_arrives: "exited p = None \<Longrightarrow>
    process_step p (p\<lparr>received := received p + 1, pending := min 2 (pending p + 1)\<rparr>)"
| first_signal: "exited p = None \<Longrightarrow> handler p = AwaitFirst \<Longrightarrow> pending p > 0 \<Longrightarrow>
    process_step p (p\<lparr>pending := pending p - 1, handler := Cancelling\<rparr>)"
| cancel_context: "exited p = None \<Longrightarrow> handler p = Cancelling \<Longrightarrow>
    process_step p (p\<lparr>ctxDone := True, handler := Closing\<rparr>)"
| close_stop: "exited p = None \<Longrightarrow> handler p = Closing \<Longrightarrow>
    process_step p (p\<lparr>stopClosed := True, handler := AwaitSecond\<rparr>)"
| second_signal: "exited p = None \<Longrightarrow> handler p = AwaitSecond \<Longrightarrow> pending p > 0 \<Longrightarrow>
    process_step p (p\<lparr>pending := pending p - 1, handler := Exiting\<rparr>)"
| handler_exits: "exited p = None \<Longrightarrow> handler p = Exiting \<Longrightarrow>
    process_step p (p\<lparr>exited := Some SecondSignal\<rparr>)"
| tick: "exited p = None \<Longrightarrow> loopState p = Waiting \<Longrightarrow>
    process_step p (p\<lparr>loopState := Checking\<rparr>)"
| check_done: "exited p = None \<Longrightarrow> loopState p = Checking \<Longrightarrow>
    process_step p (p\<lparr>loopState := Waiting\<rparr>)"
| loop_returns: "exited p = None \<Longrightarrow> loopState p = Waiting \<Longrightarrow> stopClosed p \<Longrightarrow>
    process_step p (p\<lparr>loopState := Returned\<rparr>)"
| manager_returns: "exited p = None \<Longrightarrow> ctxDone p \<Longrightarrow>
    process_step p (p\<lparr>exited := Some MainReturned\<rparr>)"
| manager_fails: "exited p = None \<Longrightarrow> process_step p (p\<lparr>exited := Some ManagerFailed\<rparr>)"

code_pred process_step .

inductive_cases process_stepE: "process_step p q"

abbreviation reachable :: "process \<Rightarrow> bool" where
  "reachable \<equiv> process_step\<^sup>*\<^sup>* started"

end
