(* ===== verification/Process_Correct.thy ===== *)
theory Process_Correct
  imports Process Reference
begin

text \<open>
  The order in which the process is set up, the bounds of the health-check interval, and the
  protocol of its shutdown.
\<close>

section \<open>Start\<close>

lemma run_startCall [run_simps]:
  "run_state (startCall ev answer) s =
     (Done (answer (startTrace s)), s\<lparr>startTrace := startTrace s @ [ev (answer (startTrace s))]\<rparr>)"
  by (simp add: startCall_def run_simps)

text \<open>The program ends, and \<open>Q\<close> holds of its exit code and what has happened.\<close>

definition ends :: "(nat \<Rightarrow> start_event list \<Rightarrow> bool) \<Rightarrow> (start_state, nat) prog \<Rightarrow> start_state \<Rightarrow> bool" where
  "ends Q m s \<longleftrightarrow> (\<exists>code t. run_state m s = (Done code, t) \<and> Q code (startTrace t))"

lemma ends_ret: "Q c (startTrace s) \<Longrightarrow> ends Q (ret c) s"
  by (simp add: ends_def run_simps)

lemma ends_call:
  assumes "\<And>e. Q 1 (startTrace s @ [ev (Some e)])"
    and "ends Q k (s\<lparr>startTrace := startTrace s @ [ev None]\<rparr>)"
  shows "ends Q (checkErr (startCall ev answer) (\<lambda>_. 1) k) s"
  using assms by (cases "answer (startTrace s)") (simp_all add: ends_def run_simps)

lemma ends_handler:
  assumes "\<not> onlyOneSignalHandler s"
    and "ends Q k (s\<lparr>onlyOneSignalHandler := True, startTrace := startTrace s @ [StNotifySignals]\<rparr>)"
  shows "ends Q (seq setupSignalHandler k) s"
  using assms by (simp add: ends_def setupSignalHandler_def startNote_def run_simps)

lemma ends_setup:
  assumes laws: "errors_laws X"
    and "\<And>e. Q 1 (startTrace s @ [StBuildController n (Some e)])"
    and "\<And>e. Q 1 (startTrace s @ [StBuildController n None, StWatchClusters (Some e)])"
    and "ends Q k (s\<lparr>startTrace := startTrace s @
           [StBuildController n None, StWatchClusters None, StGoHealthCheckLoop d]\<rparr>)"
  shows "ends Q (checkErr (SetupWithManager A X n d) (\<lambda>_. 1) k) s"
proof (cases "a_BuildController A (startTrace s) n")
  case (Some e)
  obtain e' where "errors_Wrap X (Some e) ''failed setting up with a controller manager'' = Some e'"
    using errors_lawsD(2) [OF laws] by blast
  then show ?thesis using Some assms(2)
    by (simp add: ends_def SetupWithManager_def buildController_def run_simps)
next
  case None
  show ?thesis
  proof (cases "a_WatchClusters A (startTrace s @ [StBuildController n None])")
    case (Some e)
    obtain e' where "errors_Wrap X (Some e) ''failed adding Watch for Clusters to controller manager'' = Some e'"
      using errors_lawsD(2) [OF laws] by blast
    then show ?thesis using None Some assms(3)
      by (simp add: ends_def SetupWithManager_def buildController_def run_simps)
  next
    case inner: None
    then show ?thesis using None assms(4)
      by (simp add: ends_def SetupWithManager_def buildController_def startNote_def run_simps)
  qed
qed

text \<open>A start in which everything up to the manager succeeds.\<close>

definition full_start :: "Flags \<Rightarrow> err option \<Rightarrow> start_event list" where
  "full_start f r =
     [StGetManagerOptions None, StGetConfig None, StNewManager (managerConfig f) None, StNotifySignals,
      StBuildController (maxConcurrentReconciles f) None, StWatchClusters None,
      StGoHealthCheckLoop (healthInterval (healthcheckInterval f)), StSetupWebhook None, StStartManager r]"

text \<open>C39: A fresh process ends with exit code 0 exactly if the manager was started and
  returned no error. The manager is started only after everything else has succeeded, in this order;
  the health-check loop is running by then, whether or not leader election is on, so it does not
  wait for the process to become the leader.\<close>

theorem manager_starts_last:
  assumes laws: "errors_laws X" and fresh: "startTrace s = []" "\<not> onlyOneSignalHandler s"
  shows "\<exists>code t. run_state (main_program A X f) s = (Done code, t) \<and> code \<le> 1 \<and>
     (code = 0) = (startTrace t = full_start f None) \<and>
     (if list_ex (\<lambda>e. \<exists>r. e = StStartManager r) (startTrace t)
      then \<exists>r. startTrace t = full_start f r else code = 1)"
proof -
  let ?Q = "\<lambda>code es. code \<le> 1 \<and> (code = 0) = (es = full_start f None) \<and>
     (if list_ex (\<lambda>e. \<exists>r. e = StStartManager r) es then \<exists>r. es = full_start f r else code = 1)"
  have "ends ?Q (main_program A X f) s"
    unfolding main_program_def
    by (intro ends_call ends_handler ends_setup [OF laws] ends_ret)
      (simp_all add: fresh full_start_def)
  then show ?thesis by (simp add: ends_def)
qed

definition demo_start :: start_api where
  "demo_start = \<lparr>a_GetManagerOptions = (\<lambda>_. None), a_GetConfig = (\<lambda>_. None), a_NewManager = (\<lambda>_ _. None),
     a_BuildController = (\<lambda>_ _. None), a_WatchClusters = (\<lambda>_. None), a_SetupWebhook = (\<lambda>_. None),
     a_StartManager = (\<lambda>_. None)\<rparr>"

definition fresh_start :: start_state where
  "fresh_start = \<lparr>startTrace = [], onlyOneSignalHandler = False\<rparr>"

theorem manager_starts_last_witness:
  "\<exists>code t. run_state (main_program demo_start ref_errors (defaultFlags\<lparr>enableLeaderElection := True\<rparr>)) fresh_start
     = (Done code, t) \<and> code \<le> 1"
proof -
  have "startTrace fresh_start = []" "\<not> onlyOneSignalHandler fresh_start" by (simp_all add: fresh_start_def)
  from manager_starts_last [OF ref_errors_laws this] show ?thesis by blast
qed

text \<open>C40: An interval of 1 to 9223372036 seconds is the period of the ticker, in
  nanoseconds, without wrapping around. For 0 seconds, and for a negative number down to -9223372036,
  creating the ticker panics, in a goroutine of its own, which ends the process. (Beyond these bounds
  the product wraps around.)\<close>

theorem health_interval_bounds:
  "if 0 < sint n \<and> sint n \<le> 9223372036
   then sint (healthInterval n) = sint n * time_Second \<and> newTicker (healthInterval n) = Done ()
   else if - 9223372036 \<le> sint n \<and> sint n \<le> 0
   then newTicker (healthInterval n) = Panic ''non-positive interval for NewTicker''
   else True"
proof -
  have exact: "sint (healthInterval n) = sint n * 1000000000"
    if "- 9223372036 \<le> sint n" "sint n \<le> 9223372036"
  proof -
    have "sint (healthInterval n) = signed_take_bit 63 (1000000000 * sint n)"
      by (simp add: healthInterval_def sint_word_ariths(3))
    also have "\<dots> = 1000000000 * sint n"
      using that by (intro signed_take_bit_int_eq_self) simp_all
    finally show ?thesis by simp
  qed
  then show ?thesis by (auto simp: newTicker_def time_Second_def)
qed

section \<open>Shutdown\<close>

text \<open>How many signals the handler has taken.\<close>

fun taken :: "handler_pc \<Rightarrow> nat" where
  "taken AwaitFirst = 0" | "taken Cancelling = 1" | "taken Closing = 1" | "taken AwaitSecond = 1"
| "taken Exiting = 2"

definition process_wf :: "process \<Rightarrow> bool" where
  "process_wf p \<longleftrightarrow>
     ctxDone p = (handler p \<in> {Closing, AwaitSecond, Exiting}) \<and>
     stopClosed p = (handler p \<in> {AwaitSecond, Exiting}) \<and>
     pending p \<le> 2 \<and> taken (handler p) + pending p \<le> received p \<and>
     (handler p = AwaitFirst \<and> pending p = 0 \<longrightarrow> received p = 0) \<and>
     (loopState p = Returned \<longrightarrow> stopClosed p) \<and>
     (exited p = Some MainReturned \<longrightarrow> ctxDone p) \<and> (exited p = Some SecondSignal \<longrightarrow> handler p = Exiting)"

lemma started_wf: "process_wf started"
  by (simp add: process_wf_def started_def)

lemma step_keeps_wf: "process_step p q \<Longrightarrow> process_wf p \<Longrightarrow> process_wf q"
  by (induction rule: process_step.induct) (auto simp: process_wf_def)

lemma reachable_wf: "reachable p \<Longrightarrow> process_wf p"
  by (induction rule: rtranclp_induct) (auto intro: started_wf step_keeps_wf)

text \<open>C37: In every reachable state: the context is cancelled and the loop told to stop
  only after a signal, the context first; the loop has returned only if it was told to; \<open>main\<close> has
  returned only if the context was cancelled; the handler exits by itself only after two signals and
  after it has cancelled the context and closed the channel; and nothing happens after the exit.\<close>

theorem shutdown_protocol:
  assumes "reachable p"
  shows "(if ctxDone p then received p \<ge> 1 else \<not> stopClosed p \<and> exited p \<noteq> Some MainReturned) \<and>
     (if loopState p = Returned then stopClosed p \<and> ctxDone p else True) \<and>
     (if exited p = Some SecondSignal then received p \<ge> 2 \<and> ctxDone p \<and> stopClosed p else True) \<and>
     (if exited p \<noteq> None then (\<nexists>q. process_step p q) else True)"
proof -
  have "exited p \<noteq> None \<Longrightarrow> \<nexists>q. process_step p q" by (auto elim: process_stepE)
  with reachable_wf [OF assms] show ?thesis
    by (cases "handler p") (auto simp: process_wf_def)
qed

lemma demo_shutdown:
  "reachable (started\<lparr>received := 1, handler := AwaitSecond, ctxDone := True, stopClosed := True, loopState := Returned\<rparr>)"
proof -
  let ?p1 = "started\<lparr>received := 1, pending := 1\<rparr>"
  let ?p2 = "?p1\<lparr>pending := 0, handler := Cancelling\<rparr>"
  let ?p3 = "?p2\<lparr>ctxDone := True, handler := Closing\<rparr>"
  let ?p4 = "?p3\<lparr>stopClosed := True, handler := AwaitSecond\<rparr>"
  have "process_step started ?p1"
    using signal_arrives [of started] by (simp add: started_def)
  moreover have "process_step ?p1 ?p2"
    using first_signal [of ?p1] by (simp add: started_def)
  moreover have "process_step ?p2 ?p3" using cancel_context [of ?p2] by (simp add: started_def)
  moreover have "process_step ?p3 ?p4" using close_stop [of ?p3] by (simp add: started_def)
  moreover have "process_step ?p4 (?p4\<lparr>loopState := Returned\<rparr>)"
    using loop_returns [of ?p4] by (simp add: started_def)
  ultimately have "reachable (?p4\<lparr>loopState := Returned\<rparr>)"
    by (meson rtranclp.rtrancl_into_rtrancl rtranclp.rtrancl_refl)
  then show ?thesis by (simp add: started_def)
qed

theorem shutdown_protocol_witness:
  "reachable (started\<lparr>received := 1, handler := AwaitSecond, ctxDone := True, stopClosed := True, loopState := Returned\<rparr>)
   \<and> (1::nat) \<ge> 1"
  using shutdown_protocol [OF demo_shutdown] demo_shutdown by (simp add: started_def)

text \<open>Steps without a further signal, tick or failure.\<close>

lemma handler_reaches_stop:
  assumes "process_wf p" "exited p = None" "received p \<ge> 1" "handler p \<noteq> Exiting"
  shows "\<exists>q. process_step\<^sup>*\<^sup>* p q \<and> handler q = AwaitSecond \<and> exited q = None \<and>
    loopState q = loopState p \<and> received q = received p \<and> process_wf q"
proof -
  have close: "\<exists>q. process_step\<^sup>*\<^sup>* r q \<and> handler q = AwaitSecond \<and> exited q = None \<and> loopState q = loopState r \<and>
      received q = received r \<and> process_wf q"
    if "process_wf r" "exited r = None" "handler r = Closing" for r
    using close_stop [OF that(2,3)] step_keeps_wf [OF _ that(1)] that
    by (intro exI [of _ "r\<lparr>stopClosed := True, handler := AwaitSecond\<rparr>"]) auto
  have cancel: "\<exists>q. process_step\<^sup>*\<^sup>* r q \<and> handler q = AwaitSecond \<and> exited q = None \<and> loopState q = loopState r \<and>
      received q = received r \<and> process_wf q"
    if r: "process_wf r" "exited r = None" "handler r = Cancelling" for r
  proof -
    let ?r = "r\<lparr>ctxDone := True, handler := Closing\<rparr>"
    have step: "process_step r ?r" by (rule cancel_context [OF r(2,3)])
    obtain q where "process_step\<^sup>*\<^sup>* ?r q" "handler q = AwaitSecond" "exited q = None" "loopState q = loopState ?r"
      "received q = received ?r" "process_wf q"
      using close [of ?r] step_keeps_wf [OF step r(1)] r(2) by auto
    then show ?thesis using converse_rtranclp_into_rtranclp [of process_step, OF step] by auto
  qed
  show ?thesis
  proof (cases "handler p")
    case AwaitFirst
    then have pos: "pending p > 0" using assms(1,3) by (auto simp: process_wf_def)
    let ?r = "p\<lparr>pending := pending p - 1, handler := Cancelling\<rparr>"
    have step: "process_step p ?r" by (rule first_signal [OF assms(2) AwaitFirst pos])
    obtain q where "process_step\<^sup>*\<^sup>* ?r q" "handler q = AwaitSecond" "exited q = None" "loopState q = loopState ?r"
      "received q = received ?r" "process_wf q"
      using cancel [of ?r] step_keeps_wf [OF step assms(1)] assms(2) by auto
    then show ?thesis using converse_rtranclp_into_rtranclp [of process_step, OF step] by auto
  qed (use assms cancel close in auto)
qed

text \<open>C38: However far the process has come, once a signal was sent and as long as it
  has not exited, it can go on to cancel the context, tell the loop to stop and see it return, and the
  signals sent by then are those sent already: no further one is needed. Only a handler that has
  taken a second signal goes on to exit instead.\<close>

theorem one_signal_is_enough:
  assumes reach: "reachable p" and running: "exited p = None" and signal: "received p \<ge> 1"
  shows "\<exists>q. process_step\<^sup>*\<^sup>* p q \<and> received q = received p \<and>
     (if handler p = Exiting then exited q = Some SecondSignal
      else ctxDone q \<and> stopClosed q \<and> loopState q = Returned \<and> exited q = None)"
proof (cases "handler p = Exiting")
  case True
  have "process_step\<^sup>*\<^sup>* p (p\<lparr>exited := Some SecondSignal\<rparr>)"
    using handler_exits [OF running True] by (rule r_into_rtranclp)
  then show ?thesis using True by (intro exI) auto
next
  case False
  obtain q where q: "process_step\<^sup>*\<^sup>* p q" "handler q = AwaitSecond" "exited q = None" "received q = received p"
      "process_wf q"
    using handler_reaches_stop [OF reachable_wf [OF reach] running signal False] by blast
  then have told: "ctxDone q" "stopClosed q" by (simp_all add: process_wf_def)
  have "\<exists>r. process_step\<^sup>*\<^sup>* q r \<and> received r = received q \<and> ctxDone r \<and> stopClosed r \<and> loopState r = Returned \<and>
      exited r = None"
  proof (cases "loopState q")
    case Waiting
    then have "process_step q (q\<lparr>loopState := Returned\<rparr>)" using loop_returns q(3) told by blast
    then show ?thesis using told q(3) by (intro exI [of _ "q\<lparr>loopState := Returned\<rparr>"]) auto
  next
    case Checking
    let ?r = "q\<lparr>loopState := Waiting\<rparr>"
    have "process_step q ?r" using check_done q(3) Checking by blast
    moreover have "process_step ?r (?r\<lparr>loopState := Returned\<rparr>)"
      using loop_returns [of ?r] q(3) told by simp
    ultimately have "process_step\<^sup>*\<^sup>* q (?r\<lparr>loopState := Returned\<rparr>)"
      by (meson converse_rtranclp_into_rtranclp r_into_rtranclp)
    then show ?thesis using told q(3) by (intro exI [of _ "?r\<lparr>loopState := Returned\<rparr>"]) auto
  next
    case Returned
    then show ?thesis using told q(3) by (intro exI [of _ q]) auto
  qed
  then show ?thesis using q(1,4) False by (metis rtranclp_trans)
qed

theorem one_signal_is_enough_witness:
  "\<exists>q. process_step\<^sup>*\<^sup>* (started\<lparr>received := 1, handler := AwaitSecond, ctxDone := True, stopClosed := True, loopState := Returned\<rparr>) q
     \<and> loopState q = Returned \<and> received q = 1"
  using one_signal_is_enough [OF demo_shutdown] by (auto simp: started_def)

end
