(* ===== verification/Deepcopy.thy ===== *)
theory Deepcopy
  imports Api_Types "HOL-Library.Sublist"
begin

text \<open>
  The generated deep copies: \<open>zz_generated.deepcopy.go\<close> of both API versions, and of the conditions
  vendored for the old one. Elsewhere in this development objects are values; here they are what Go
  has, structs with pointers and slices into a heap, and a copy is an operation on the heap.

  The two API versions have the same generated code over their own types. The definitions are written
  once, over structs with a parameter for every kind of reference, and take as parameters the copies
  that live in other repositories: of \<open>ObjectMeta\<close>, of \<open>ListMeta\<close>, of the bootstrap provider's
  \<open>EtcdadmConfigSpec\<close>, and, for \<open>v1beta1\<close> only, of cluster-api's \<open>Condition\<close>.
\<close>

section \<open>Structs and the heap\<close>

type_synonym addr = nat

text \<open>A slice: its array, the first element, and how many; nil is \<open>None\<close>.\<close>

record slice =
  sliceArray :: addr
  sliceOffset :: nat
  sliceLen :: nat

text \<open>
  \<open>'r\<close> stands for \<open>*int32\<close>, \<open>'s\<close> for the slice of conditions: addresses in a struct of the heap, and
  what they point to in the value of a struct.
\<close>

record ('r, 'c) SpecStruct =
  sReplicas :: 'r
  sTemplate :: ObjectReference
  sConfigSpec :: 'c

record 's StatusStruct =
  sReadyReplicas :: "32 word"
  sInitMachineAddress :: string
  sInitialized :: bool
  sReady :: bool
  sCreationComplete :: bool
  sEndpoints :: string
  sSelector :: string
  sObservedGeneration :: "64 word"
  sConditions :: 's

record ('m, 'r, 'c, 's) ClusterStruct =
  sTypeMeta :: "string \<times> string"
  sMeta :: 'm
  sSpec :: "('r, 'c) SpecStruct"
  sStatus :: "'s StatusStruct"

record ('l, 'i) ListStruct =
  sListTypeMeta :: "string \<times> string"
  sListMeta :: 'l
  sItems :: 'i

type_synonym ('m, 'c) clusterRef = "('m, addr option, 'c, slice option) ClusterStruct"
type_synonym 'l listRef = "('l, slice option) ListStruct"

text \<open>What a cell holds: a variable, an array, or something only foreign code allocates.\<close>

datatype ('m, 'c, 'l, 'f) cell =
    Int32Cell "32 word"
  | ConditionArray "Condition list"
  | ClusterArray "('m, 'c) clusterRef list"
  | SpecCell "(addr option, 'c) SpecStruct"
  | StatusCell "slice option StatusStruct"
  | ClusterCell "('m, 'c) clusterRef"
  | ListCell "'l listRef"
  | ConditionCell Condition
  | ForeignCell 'f

text \<open>A heap; allocating appends a cell.\<close>

type_synonym ('m, 'c, 'l, 'f) heap = "('m, 'c, 'l, 'f) cell list"

type_synonym ('a, 'h) copier = "'h list \<Rightarrow> 'a \<Rightarrow> 'a \<times> 'h list"

fun int32At :: "('m, 'c, 'l, 'f) heap \<Rightarrow> addr \<Rightarrow> 32 word" where
  "int32At h a = (case h ! a of Int32Cell n \<Rightarrow> n | _ \<Rightarrow> 0)"

fun conditionsAt :: "('m, 'c, 'l, 'f) heap \<Rightarrow> slice \<Rightarrow> Condition list" where
  "conditionsAt h s =
     (case h ! sliceArray s of ConditionArray cs \<Rightarrow> take (sliceLen s) (drop (sliceOffset s) cs) | _ \<Rightarrow> [])"

fun clustersAt :: "('m, 'c, 'l, 'f) heap \<Rightarrow> slice \<Rightarrow> ('m, 'c) clusterRef list" where
  "clustersAt h s =
     (case h ! sliceArray s of ClusterArray xs \<Rightarrow> take (sliceLen s) (drop (sliceOffset s) xs) | _ \<Rightarrow> [])"

section \<open>Conditions\<close>

text \<open>\<open>Condition.DeepCopyInto\<close> as vendored for \<open>v1alpha3\<close>; \<open>copyTime\<close> is that of \<open>metav1.Time\<close>.\<close>

definition DeepCopyInto_Condition :: "(int \<Rightarrow> int) \<Rightarrow> Condition \<Rightarrow> Condition" where
  "DeepCopyInto_Condition copyTime c = c\<lparr>cLastTransitionTime := copyTime (cLastTransitionTime c)\<rparr>"

definition zeroCondition :: Condition where
  "zeroCondition = \<lparr>cType = [], cStatus = ConditionUnknown, cSeverity = ConditionSeverityNone,
     cLastTransitionTime = 0, cReason = [], cMessage = []\<rparr>"

text \<open>\<open>for i := range *in { (*in)[i].DeepCopyInto(&(*out)[i]) }\<close>, from index \<open>i\<close> on.\<close>

fun storeCondition :: "('m, 'c, 'l, 'f) heap \<Rightarrow> addr \<Rightarrow> nat \<Rightarrow> Condition \<Rightarrow> ('m, 'c, 'l, 'f) heap" where
  "storeCondition h a i c = (case h ! a of ConditionArray cs \<Rightarrow> h[a := ConditionArray (cs[i := c])] | _ \<Rightarrow> h)"

fun copyConditions_from ::
  "(Condition \<Rightarrow> Condition) \<Rightarrow> ('m, 'c, 'l, 'f) heap \<Rightarrow> slice \<Rightarrow> addr \<Rightarrow> nat \<Rightarrow> nat \<Rightarrow> ('m, 'c, 'l, 'f) heap" where
  "copyConditions_from copyCond h inp out i 0 = h"
| "copyConditions_from copyCond h inp out i (Suc n) =
     copyConditions_from copyCond (storeCondition h out i (copyCond (conditionsAt h inp ! i))) inp out (Suc i) n"

text \<open>\<open>make\<close> and the loop: a new array of zero values, filled one by one.\<close>

definition makeConditions ::
  "(Condition \<Rightarrow> Condition) \<Rightarrow> ('m, 'c, 'l, 'f) heap \<Rightarrow> slice \<Rightarrow> slice \<times> ('m, 'c, 'l, 'f) heap" where
  "makeConditions copyCond h inp =
     (let n = length (conditionsAt h inp) in
      (\<lparr>sliceArray = length h, sliceOffset = 0, sliceLen = n\<rparr>,
       copyConditions_from copyCond (h @ [ConditionArray (replicate n zeroCondition)]) inp (length h) 0 n))"

text \<open>The copy of a field of type \<open>Conditions\<close>: a nil slice stays the nil slice \<open>*out = *in\<close> has made.\<close>

definition copyConditionsField ::
  "(Condition \<Rightarrow> Condition) \<Rightarrow> (slice option, ('m, 'c, 'l, 'f) cell) copier" where
  "copyConditionsField copyCond h inp =
     (case inp of
        None \<Rightarrow> (None, h)
      | Some s \<Rightarrow> (case makeConditions copyCond h s of (s', h') \<Rightarrow> (Some s', h')))"

text \<open>
  The vendored methods on \<open>Conditions\<close>. \<open>DeepCopyInto\<close> has no test for nil: of a nil slice it makes
  an empty one; \<open>DeepCopy\<close> returns nil first.
\<close>

definition DeepCopyInto_Conditions ::
  "(int \<Rightarrow> int) \<Rightarrow> ('m, 'c, 'l, 'f) heap \<Rightarrow> slice option \<Rightarrow> slice option \<times> ('m, 'c, 'l, 'f) heap" where
  "DeepCopyInto_Conditions copyTime h inp =
     (case inp of
        None \<Rightarrow> (Some \<lparr>sliceArray = length h, sliceOffset = 0, sliceLen = 0\<rparr>, h @ [ConditionArray []])
      | Some s \<Rightarrow>
          (case makeConditions (DeepCopyInto_Condition copyTime) h s of (s', h') \<Rightarrow> (Some s', h')))"

definition DeepCopy_Conditions ::
  "(int \<Rightarrow> int) \<Rightarrow> ('m, 'c, 'l, 'f) heap \<Rightarrow> slice option \<Rightarrow> slice option \<times> ('m, 'c, 'l, 'f) heap" where
  "DeepCopy_Conditions copyTime h inp =
     (if inp = None then (None, h) else DeepCopyInto_Conditions copyTime h inp)"

section \<open>Structs\<close>

text \<open>\<open>*out = new(int32); **out = **in\<close>\<close>

definition copyReplicas :: "(addr option, ('m, 'c, 'l, 'f) cell) copier" where
  "copyReplicas h inp =
     (case inp of
        None \<Rightarrow> (None, h)
      | Some p \<Rightarrow> (Some (length h), (h @ [Int32Cell 0])[length h := Int32Cell (int32At h p)]))"

definition DeepCopyInto_Spec ::
  "('c, ('m, 'c, 'l, 'f) cell) copier \<Rightarrow> ((addr option, 'c) SpecStruct, ('m, 'c, 'l, 'f) cell) copier" where
  "DeepCopyInto_Spec copyConfig h inp =
     (let out = inp;
          (r, h1) = copyReplicas h (sReplicas inp);
          out = out\<lparr>sReplicas := r\<rparr>;
          out = out\<lparr>sTemplate := sTemplate inp\<rparr>;
          (c, h2) = copyConfig h1 (sConfigSpec inp) in
      (out\<lparr>sConfigSpec := c\<rparr>, h2))"

definition DeepCopyInto_Status ::
  "(Condition \<Rightarrow> Condition) \<Rightarrow> (slice option StatusStruct, ('m, 'c, 'l, 'f) cell) copier" where
  "DeepCopyInto_Status copyCond h inp =
     (let out = inp; (s, h1) = copyConditionsField copyCond h (sConditions inp) in
      (out\<lparr>sConditions := s\<rparr>, h1))"

definition DeepCopyInto_Cluster ::
  "('m, ('m, 'c, 'l, 'f) cell) copier \<Rightarrow> ('c, ('m, 'c, 'l, 'f) cell) copier \<Rightarrow> (Condition \<Rightarrow> Condition) \<Rightarrow>
   (('m, 'c) clusterRef, ('m, 'c, 'l, 'f) cell) copier" where
  "DeepCopyInto_Cluster copyMeta copyConfig copyCond h inp =
     (let out = inp;
          out = out\<lparr>sTypeMeta := sTypeMeta inp\<rparr>;
          (m, h1) = copyMeta h (sMeta inp);
          out = out\<lparr>sMeta := m\<rparr>;
          (sp, h2) = DeepCopyInto_Spec copyConfig h1 (sSpec inp);
          out = out\<lparr>sSpec := sp\<rparr>;
          (st, h3) = DeepCopyInto_Status copyCond h2 (sStatus inp) in
      (out\<lparr>sStatus := st\<rparr>, h3))"

fun storeCluster ::
  "('m, 'c, 'l, 'f) heap \<Rightarrow> addr \<Rightarrow> nat \<Rightarrow> ('m, 'c) clusterRef \<Rightarrow> ('m, 'c, 'l, 'f) heap" where
  "storeCluster h a i x = (case h ! a of ClusterArray xs \<Rightarrow> h[a := ClusterArray (xs[i := x])] | _ \<Rightarrow> h)"

fun copyItems_from ::
  "(('m, 'c) clusterRef, ('m, 'c, 'l, 'f) cell) copier \<Rightarrow> ('m, 'c, 'l, 'f) heap \<Rightarrow> slice \<Rightarrow> addr \<Rightarrow> nat \<Rightarrow> nat \<Rightarrow>
   ('m, 'c, 'l, 'f) heap" where
  "copyItems_from copy h inp out i 0 = h"
| "copyItems_from copy h inp out i (Suc n) =
     (case copy h (clustersAt h inp ! i) of
        (y, h1) \<Rightarrow> copyItems_from copy (storeCluster h1 out i y) inp out (Suc i) n)"

text \<open>\<open>make\<close> fills an array with zero values: \<open>zero\<close>.\<close>

definition copyItems ::
  "('m, 'c) clusterRef \<Rightarrow> (('m, 'c) clusterRef, ('m, 'c, 'l, 'f) cell) copier \<Rightarrow>
   (slice option, ('m, 'c, 'l, 'f) cell) copier" where
  "copyItems zero copy h inp =
     (case inp of
        None \<Rightarrow> (None, h)
      | Some s \<Rightarrow>
          (let n = length (clustersAt h s) in
           (Some \<lparr>sliceArray = length h, sliceOffset = 0, sliceLen = n\<rparr>,
            copyItems_from copy (h @ [ClusterArray (replicate n zero)]) s (length h) 0 n)))"

definition DeepCopyInto_List ::
  "('l, ('m, 'c, 'l, 'f) cell) copier \<Rightarrow> ('m, 'c) clusterRef \<Rightarrow> (('m, 'c) clusterRef, ('m, 'c, 'l, 'f) cell) copier \<Rightarrow>
   ('l listRef, ('m, 'c, 'l, 'f) cell) copier" where
  "DeepCopyInto_List copyListMeta zero copy h inp =
     (let out = inp;
          out = out\<lparr>sListTypeMeta := sListTypeMeta inp\<rparr>;
          (l, h1) = copyListMeta h (sListMeta inp);
          out = out\<lparr>sListMeta := l\<rparr>;
          (is, h2) = copyItems zero copy h1 (sItems inp) in
      (out\<lparr>sItems := is\<rparr>, h2))"

section \<open>\<open>DeepCopy\<close> and \<open>DeepCopyObject\<close>\<close>

text \<open>
  \<open>if in == nil { return nil }; out := new(T); in.DeepCopyInto(out); return out\<close>, the same for every
  type: \<open>put\<close> and \<open>val\<close> write and read a cell of that type.
\<close>

definition newCopy ::
  "('x \<Rightarrow> 'h) \<Rightarrow> ('h \<Rightarrow> 'x) \<Rightarrow> 'x \<Rightarrow> ('x, 'h) copier \<Rightarrow> (addr option, 'h) copier" where
  "newCopy put val zero copyInto h inp =
     (case inp of
        None \<Rightarrow> (None, h)
      | Some p \<Rightarrow>
          (case copyInto (h @ [put zero]) (val (h ! p)) of
             (y, h') \<Rightarrow> (Some (length h), h'[length h := put y])))"

fun specOf :: "('m, 'c, 'l, 'f) cell \<Rightarrow> (addr option, 'c) SpecStruct" where "specOf (SpecCell x) = x"

fun statusOf :: "('m, 'c, 'l, 'f) cell \<Rightarrow> slice option StatusStruct" where "statusOf (StatusCell x) = x"

fun clusterOf :: "('m, 'c, 'l, 'f) cell \<Rightarrow> ('m, 'c) clusterRef" where "clusterOf (ClusterCell x) = x"

fun listOf :: "('m, 'c, 'l, 'f) cell \<Rightarrow> 'l listRef" where "listOf (ListCell x) = x"

fun conditionOf :: "('m, 'c, 'l, 'f) cell \<Rightarrow> Condition" where "conditionOf (ConditionCell x) = x"

definition DeepCopy_Spec where
  "DeepCopy_Spec zero copyConfig = newCopy SpecCell specOf zero (DeepCopyInto_Spec copyConfig)"

definition DeepCopy_Status where
  "DeepCopy_Status zero copyCond = newCopy StatusCell statusOf zero (DeepCopyInto_Status copyCond)"

definition DeepCopy_Cluster where
  "DeepCopy_Cluster zero copyMeta copyConfig copyCond =
     newCopy ClusterCell clusterOf zero (DeepCopyInto_Cluster copyMeta copyConfig copyCond)"

definition DeepCopy_List where
  "DeepCopy_List zeroList copyListMeta zero copy =
     newCopy ListCell listOf zeroList (DeepCopyInto_List copyListMeta zero copy)"

definition DeepCopy_Condition where
  "DeepCopy_Condition copyTime =
     newCopy ConditionCell conditionOf zeroCondition (\<lambda>h c. (DeepCopyInto_Condition copyTime c, h))"

text \<open>A \<open>runtime.Object\<close>: nil, or a value of one of the two types; never a nil pointer in an interface.\<close>

datatype object = ClusterObject addr | ListObject addr

definition DeepCopyObject_Cluster where
  "DeepCopyObject_Cluster zero copyMeta copyConfig copyCond h inp =
     (case DeepCopy_Cluster zero copyMeta copyConfig copyCond h inp of
        (Some c, h') \<Rightarrow> (Some (ClusterObject c), h')
      | (None, h') \<Rightarrow> (None, h'))"

definition DeepCopyObject_List where
  "DeepCopyObject_List zeroList copyListMeta zero copy h inp =
     (case DeepCopy_List zeroList copyListMeta zero copy h inp of
        (Some c, h') \<Rightarrow> (Some (ListObject c), h')
      | (None, h') \<Rightarrow> (None, h'))"

section \<open>\<open>v1alpha3\<close>\<close>

text \<open>
  The old version copies its conditions with the vendored method; that of \<open>v1beta1\<close> is cluster-api's,
  the parameter \<open>copyCond\<close> above.
\<close>

definition DeepCopyInto_Spec_v1alpha3 where
  "DeepCopyInto_Spec_v1alpha3 copyConfig = DeepCopyInto_Spec copyConfig"

definition DeepCopy_Spec_v1alpha3 where
  "DeepCopy_Spec_v1alpha3 zero copyConfig = newCopy SpecCell specOf zero (DeepCopyInto_Spec_v1alpha3 copyConfig)"

definition DeepCopyInto_Status_v1alpha3 where
  "DeepCopyInto_Status_v1alpha3 copyTime = DeepCopyInto_Status (DeepCopyInto_Condition copyTime)"

definition DeepCopy_Status_v1alpha3 where
  "DeepCopy_Status_v1alpha3 zero copyTime = newCopy StatusCell statusOf zero (DeepCopyInto_Status_v1alpha3 copyTime)"

definition DeepCopyInto_Cluster_v1alpha3 where
  "DeepCopyInto_Cluster_v1alpha3 copyMeta copyConfig copyTime =
     DeepCopyInto_Cluster copyMeta copyConfig (DeepCopyInto_Condition copyTime)"

definition DeepCopyObject_Cluster_v1alpha3 where
  "DeepCopyObject_Cluster_v1alpha3 zero copyMeta copyConfig copyTime =
     DeepCopyObject_Cluster zero copyMeta copyConfig (DeepCopyInto_Condition copyTime)"

definition DeepCopyObject_List_v1alpha3 where
  "DeepCopyObject_List_v1alpha3 zeroList copyListMeta zero copyMeta copyConfig copyTime =
     DeepCopyObject_List zeroList copyListMeta zero (DeepCopyInto_Cluster_v1alpha3 copyMeta copyConfig copyTime)"

end
