(* ===== verification/Deepcopy_Correct.thy ===== *)
theory Deepcopy_Correct
  imports Deepcopy
begin

text \<open>
  A deep copy has the same value as the original and shares no cell with it. The interface
  \<open>deep_copier\<close> says this of a copy function; the copies of the fields meet it, and a struct's copy
  meets it when those of its fields do.
\<close>

section \<open>The interface\<close>

text \<open>The cells at these addresses are there in both heaps, and the same.\<close>

definition same_at :: "'h list \<Rightarrow> 'h list \<Rightarrow> addr set \<Rightarrow> bool" where
  "same_at h h' A \<longleftrightarrow> (\<forall>a\<in>A. a < length h \<and> a < length h' \<and> h' ! a = h ! a)"

lemma same_at_mono: "same_at h h' B \<Longrightarrow> A \<subseteq> B \<Longrightarrow> same_at h h' A"
  by (auto simp: same_at_def)

lemma same_at_prefix: "prefix h h' \<Longrightarrow> A \<subseteq> {..<length h} \<Longrightarrow> same_at h h' A"
  by (auto simp: same_at_def prefix_def nth_append)

lemma same_at_update: "A \<subseteq> {..<length h} \<Longrightarrow> b \<notin> A \<Longrightarrow> same_at h (h[b := c]) A"
  unfolding same_at_def by (metis length_list_update lessThan_iff nth_list_update_neq subsetD)

lemma prefix_update: "prefix h h' \<Longrightarrow> length h \<le> a \<Longrightarrow> prefix h (h'[a := c])"
  by (auto simp: prefix_def list_update_append)

lemma prefix_lengthD: "prefix h h' \<Longrightarrow> length h \<le> length h'"
  by (rule prefix_length_le)

text \<open>
  \<open>reach h x\<close> are the cells the value of \<open>x\<close> depends on, \<open>view h x\<close> is this value.
\<close>

locale deep_copier =
  fixes copy :: "('a, 'h) copier" and view :: "'h list \<Rightarrow> 'a \<Rightarrow> 'v" and reach :: "'h list \<Rightarrow> 'a \<Rightarrow> addr set"
  assumes copies: "reach h x \<subseteq> {..<length h} \<Longrightarrow> copy h x = (y, h') \<Longrightarrow>
      prefix h h' \<and> view h' y = view h x \<and> reach h' y \<subseteq> {length h..<length h'}"
    and local: "same_at h h' (reach h x) \<Longrightarrow> view h' x = view h x \<and> reach h' x = reach h x"
begin

lemma moves: "prefix h h' \<Longrightarrow> reach h x \<subseteq> {..<length h} \<Longrightarrow> view h' x = view h x \<and> reach h' x = reach h x"
  by (intro local same_at_prefix)

text \<open>Neither a write through the copy changes the original, nor one through the original the copy.\<close>

lemma copy_independent:
  assumes x: "reach h x \<subseteq> {..<length h}" and y: "copy h x = (y, h')"
  shows "view h' x = view h x \<and> reach h' x \<inter> reach h' y = {} \<and>
    (a \<notin> reach h' x \<longrightarrow> view (h'[a := c]) x = view h x) \<and>
    (a \<notin> reach h' y \<longrightarrow> view (h'[a := c]) y = view h x)"
proof -
  have new: "prefix h h'" "view h' y = view h x" "reach h' y \<subseteq> {length h..<length h'}"
    using copies [OF x y] by auto
  have old: "view h' x = view h x" "reach h' x = reach h x" using moves [OF new(1) x] by auto
  have in_h': "reach h' x \<subseteq> {..<length h'}" "reach h' y \<subseteq> {..<length h'}"
    using x old(2) new(3) prefix_lengthD [OF new(1)] by auto
  have "reach h' x \<inter> reach h' y = {}" using x old(2) new(3) by fastforce
  then show ?thesis
    using old new(2) local [OF same_at_update [OF in_h'(1)]] local [OF same_at_update [OF in_h'(2)]] by auto
qed

end

section \<open>Fields\<close>

definition viewReplicas :: "('m, 'c, 'l, 'f) heap \<Rightarrow> addr option \<Rightarrow> 32 word option" where
  "viewReplicas h r = map_option (int32At h) r"

definition reachReplicas :: "('m, 'c, 'l, 'f) heap \<Rightarrow> addr option \<Rightarrow> addr set" where
  "reachReplicas h r = set_option r"

interpretation replicas: deep_copier "copyReplicas :: (addr option, ('m, 'c, 'l, 'f) cell) copier" viewReplicas reachReplicas
proof
  show "prefix h h' \<and> viewReplicas h' y = viewReplicas h x \<and> reachReplicas h' y \<subseteq> {length h..<length h'}"
    if "reachReplicas h x \<subseteq> {..<length h}" "copyReplicas h x = (y, h')"
    for h h' :: "('m, 'c, 'l, 'f) heap" and x y
    using that
    by (cases x) (auto simp: copyReplicas_def viewReplicas_def reachReplicas_def list_update_append)
  show "viewReplicas h' x = viewReplicas h x \<and> reachReplicas h' x = reachReplicas h x"
    if "same_at h h' (reachReplicas h x)" for h h' :: "('m, 'c, 'l, 'f) heap" and x
    using that by (cases x) (auto simp: viewReplicas_def reachReplicas_def same_at_def)
qed

definition viewConditions :: "('m, 'c, 'l, 'f) heap \<Rightarrow> slice option \<Rightarrow> Condition list option" where
  "viewConditions h s = map_option (conditionsAt h) s"

definition reachSlice :: "('m, 'c, 'l, 'f) heap \<Rightarrow> slice option \<Rightarrow> addr set" where
  "reachSlice h s = sliceArray ` set_option s"

lemma copyConditions_from:
  assumes "sliceArray inp < length h" and "i + n = length (conditionsAt h inp)" and "length cs = i + n"
  shows "copyConditions_from copyCond (h @ [ConditionArray cs]) inp (length h) i n =
    h @ [ConditionArray (take i cs @ map copyCond (drop i (conditionsAt h inp)))]"
  using assms
proof (induction n arbitrary: i cs)
  case (Suc n)
  let ?xs = "conditionsAt h inp"
  have same: "conditionsAt (h @ [ConditionArray cs']) inp = ?xs" for cs'
    using Suc.prems(1) by (simp add: nth_append)
  have "copyConditions_from copyCond (h @ [ConditionArray cs]) inp (length h) i (Suc n) =
      h @ [ConditionArray (take (Suc i) (cs[i := copyCond (?xs ! i)]) @ map copyCond (drop (Suc i) ?xs))]"
    using Suc.prems by (simp del: conditionsAt.simps add: same Suc.IH)
  moreover have "take (Suc i) (cs[i := copyCond (?xs ! i)]) = take i cs @ [copyCond (?xs ! i)]"
    using Suc.prems(3) by (simp add: take_Suc_conv_app_nth)
  moreover have "drop i ?xs = ?xs ! i # drop (Suc i) ?xs"
    using Suc.prems(2) by (intro Cons_nth_drop_Suc [symmetric]) simp
  ultimately show ?case by simp
qed simp

lemma makeConditions_result:
  "sliceArray inp < length h \<Longrightarrow>
   makeConditions copyCond h inp =
     (\<lparr>sliceArray = length h, sliceOffset = 0, sliceLen = length (conditionsAt h inp)\<rparr>,
      h @ [ConditionArray (map copyCond (conditionsAt h inp))])"
  by (simp add: makeConditions_def copyConditions_from Let_def del: conditionsAt.simps)

lemma conditionsAt_new:
  "conditionsAt (h @ [ConditionArray cs]) \<lparr>sliceArray = length h, sliceOffset = 0, sliceLen = length cs\<rparr> = cs"
  by (simp add: nth_append)

lemma conditionsAt_same: "h' ! sliceArray s = h ! sliceArray s \<Longrightarrow> conditionsAt h' s = conditionsAt h s"
  by simp

lemma conditions_copier:
  assumes id: "\<And>c. copyCond c = c"
  shows "deep_copier (copyConditionsField copyCond :: (slice option, ('m, 'c, 'l, 'f) cell) copier)
    viewConditions reachSlice"
proof
  have copy: "map copyCond cs = cs" for cs by (simp add: id map_idI)
  show "prefix h h' \<and> viewConditions h' y = viewConditions h x \<and> reachSlice h' y \<subseteq> {length h..<length h'}"
    if "reachSlice h x \<subseteq> {..<length h}" "copyConditionsField copyCond h x = (y, h')"
    for h h' :: "('m, 'c, 'l, 'f) heap" and x y
  proof (cases x)
    case (Some s)
    with that have "sliceArray s < length h" by (simp add: reachSlice_def)
    then have "y = Some \<lparr>sliceArray = length h, sliceOffset = 0, sliceLen = length (conditionsAt h s)\<rparr>"
      and "h' = h @ [ConditionArray (conditionsAt h s)]"
      using that(2) Some
      by (simp_all add: copyConditionsField_def makeConditions_result copy del: conditionsAt.simps)
    then show ?thesis using Some
      by (simp add: viewConditions_def reachSlice_def conditionsAt_new del: conditionsAt.simps)
  qed (use that in \<open>simp add: copyConditionsField_def viewConditions_def reachSlice_def\<close>)
  show "viewConditions h' x = viewConditions h x \<and> reachSlice h' x = reachSlice h x"
    if "same_at h h' (reachSlice h x)" for h h' :: "('m, 'c, 'l, 'f) heap" and x
    using that
    by (cases x)
      (auto simp: viewConditions_def reachSlice_def same_at_def simp del: conditionsAt.simps intro: conditionsAt_same)
qed

lemma vendored_condition: "(\<And>t. copyTime t = t) \<Longrightarrow> DeepCopyInto_Condition copyTime c = c"
  by (simp add: DeepCopyInto_Condition_def)

interpretation conditions: deep_copier "copyConditionsField (DeepCopyInto_Condition (\<lambda>t. t))" viewConditions reachSlice
  by (rule conditions_copier) (simp add: vendored_condition)

section \<open>Structs\<close>

text \<open>Two copies, one after the other, of two parts of a struct.\<close>

lemma copy_two:
  assumes f: "deep_copier copyF viewF reachF" and g: "deep_copier copyG viewG reachG"
    and alloc: "reachF h x \<subseteq> {..<length h}" "reachG h z \<subseteq> {..<length h}"
    and run: "copyF h x = (x', h1)" "copyG h1 z = (z', h2)"
  shows "prefix h h2 \<and> viewF h2 x' = viewF h x \<and> viewG h2 z' = viewG h z \<and>
    reachF h2 x' \<subseteq> {length h..<length h2} \<and> reachG h2 z' \<subseteq> {length h..<length h2}"
proof -
  have one: "prefix h h1" "viewF h1 x' = viewF h x" "reachF h1 x' \<subseteq> {length h..<length h1}"
    using deep_copier.copies [OF f alloc(1) run(1)] by auto
  have z: "viewG h1 z = viewG h z" "reachG h1 z = reachG h z"
    using deep_copier.moves [OF g one(1) alloc(2)] by auto
  have "reachG h1 z \<subseteq> {..<length h1}" using z(2) alloc(2) prefix_lengthD [OF one(1)] by auto
  from deep_copier.copies [OF g this run(2)]
  have two: "prefix h1 h2" "viewG h2 z' = viewG h1 z" "reachG h2 z' \<subseteq> {length h1..<length h2}" by auto
  have "reachF h1 x' \<subseteq> {..<length h1}" using one(3) by auto
  from deep_copier.moves [OF f two(1) this] one(2)
  have "viewF h2 x' = viewF h x" "reachF h2 x' = reachF h1 x'" by auto
  moreover have "prefix h h2" using one(1) two(1) by (rule prefix_order.trans)
  ultimately show ?thesis
    using two z(1) one(3) prefix_lengthD [OF one(1)] prefix_lengthD [OF two(1)] by fastforce
qed

text \<open>Two fields as one part.\<close>

lemma pair_copier:
  fixes copyF :: "('a, 'h) copier" and copyG :: "('b, 'h) copier"
  assumes f: "deep_copier copyF viewF reachF" and g: "deep_copier copyG viewG reachG"
  shows "deep_copier (\<lambda>h (x, z). case copyF h x of (x', h1) \<Rightarrow> case copyG h1 z of (z', h2) \<Rightarrow> ((x', z'), h2))
    (\<lambda>h (x, z). (viewF h x, viewG h z)) (\<lambda>h (x, z). reachF h x \<union> reachG h z)"
proof
  fix h h' :: "'h list" and p q :: "'a \<times> 'b"
  obtain x z where p: "p = (x, z)" by fastforce
  let ?reach = "\<lambda>h (x, z). reachF h x \<union> reachG h z"
  show "prefix h h' \<and> (case q of (x, z) \<Rightarrow> (viewF h' x, viewG h' z)) = (case p of (x, z) \<Rightarrow> (viewF h x, viewG h z)) \<and>
      ?reach h' q \<subseteq> {length h..<length h'}"
    if "?reach h p \<subseteq> {..<length h}"
      and "(case p of (x, z) \<Rightarrow> case copyF h x of (x', h1) \<Rightarrow> case copyG h1 z of (z', h2) \<Rightarrow> ((x', z'), h2)) = (q, h')"
    using that copy_two [OF f g, of h x z] by (auto simp: p split: prod.splits)
  show "(case p of (x, z) \<Rightarrow> (viewF h' x, viewG h' z)) = (case p of (x, z) \<Rightarrow> (viewF h x, viewG h z)) \<and>
      ?reach h' p = ?reach h p" if same: "same_at h h' (?reach h p)"
    using deep_copier.local [OF f same_at_mono [OF same], of x] deep_copier.local [OF g same_at_mono [OF same], of z]
    by (simp add: p)
qed

text \<open>A struct is copied when the tuple of its fields is: \<open>parts\<close> takes it apart, \<open>build\<close> puts it together.\<close>

lemma struct_copier:
  assumes f: "deep_copier copyF viewF reachF"
    and copy: "\<And>h x. copy h x = (case copyF h (parts x) of (p, h') \<Rightarrow> (build x p, h'))"
    and view: "\<And>h x. view h x = buildV x (viewF h (parts x))" and reach: "\<And>h x. reach h x = reachF h (parts x)"
    and build: "\<And>x p. parts (build x p) = p" "\<And>x p. buildV (build x p) = buildV x"
  shows "deep_copier copy view reach"
proof
  show "prefix h h' \<and> view h' y = view h x \<and> reach h' y \<subseteq> {length h..<length h'}"
    if "reach h x \<subseteq> {..<length h}" "copy h x = (y, h')" for h h' x y
    using that deep_copier.copies [OF f, of h "parts x"]
    by (auto simp: copy view reach build split: prod.splits)
  show "view h' x = view h x \<and> reach h' x = reach h x" if "same_at h h' (reach h x)" for h h' x
    using that deep_copier.local [OF f] by (simp add: view reach)
qed

definition viewSpec ::
  "(('m, 'c, 'l, 'f) heap \<Rightarrow> 'c \<Rightarrow> 'cv) \<Rightarrow> ('m, 'c, 'l, 'f) heap \<Rightarrow> (addr option, 'c) SpecStruct \<Rightarrow>
   (32 word option, 'cv) SpecStruct" where
  "viewSpec viewConfig h x =
     \<lparr>sReplicas = viewReplicas h (sReplicas x), sTemplate = sTemplate x, sConfigSpec = viewConfig h (sConfigSpec x)\<rparr>"

definition reachSpec where
  "reachSpec reachConfig h x = reachReplicas h (sReplicas x) \<union> reachConfig h (sConfigSpec x)"

lemma spec_copier:
  assumes c: "deep_copier copyConfig viewConfig reachConfig"
  shows "deep_copier (DeepCopyInto_Spec copyConfig) (viewSpec viewConfig) (reachSpec reachConfig)"
proof (rule struct_copier [OF pair_copier [OF replicas.deep_copier_axioms c],
      where parts = "\<lambda>x. (sReplicas x, sConfigSpec x)"
        and build = "\<lambda>x (r, c). \<lparr>sReplicas = r, sTemplate = sTemplate x, sConfigSpec = c\<rparr>"
        and buildV = "\<lambda>x (r, c). \<lparr>sReplicas = r, sTemplate = sTemplate x, sConfigSpec = c\<rparr>"])
qed (auto simp: DeepCopyInto_Spec_def viewSpec_def reachSpec_def split: prod.splits)

definition viewStatus :: "('m, 'c, 'l, 'f) heap \<Rightarrow> slice option StatusStruct \<Rightarrow> Condition list option StatusStruct" where
  "viewStatus h x =
     \<lparr>sReadyReplicas = sReadyReplicas x, sInitMachineAddress = sInitMachineAddress x,
      sInitialized = sInitialized x, sReady = sReady x, sCreationComplete = sCreationComplete x,
      sEndpoints = sEndpoints x, sSelector = sSelector x, sObservedGeneration = sObservedGeneration x,
      sConditions = viewConditions h (sConditions x)\<rparr>"

definition reachStatus :: "('m, 'c, 'l, 'f) heap \<Rightarrow> slice option StatusStruct \<Rightarrow> addr set" where
  "reachStatus h x = reachSlice h (sConditions x)"

lemma status_copier:
  assumes "\<And>c. copyCond c = c"
  shows "deep_copier (DeepCopyInto_Status copyCond) viewStatus reachStatus"
proof (rule struct_copier [OF conditions_copier [OF assms],
      where parts = sConditions
        and build = "\<lambda>x s. x\<lparr>sConditions := s\<rparr>"
        and buildV = "\<lambda>x s. \<lparr>sReadyReplicas = sReadyReplicas x, sInitMachineAddress = sInitMachineAddress x,
          sInitialized = sInitialized x, sReady = sReady x, sCreationComplete = sCreationComplete x,
          sEndpoints = sEndpoints x, sSelector = sSelector x, sObservedGeneration = sObservedGeneration x,
          sConditions = s\<rparr>"])
qed (auto simp: DeepCopyInto_Status_def viewStatus_def reachStatus_def split: prod.splits)

definition viewCluster where
  "viewCluster viewMeta viewConfig h x =
     \<lparr>sTypeMeta = sTypeMeta x, sMeta = viewMeta h (sMeta x), sSpec = viewSpec viewConfig h (sSpec x),
      sStatus = viewStatus h (sStatus x)\<rparr>"

definition reachCluster where
  "reachCluster reachMeta reachConfig h x =
     reachMeta h (sMeta x) \<union> (reachSpec reachConfig h (sSpec x) \<union> reachStatus h (sStatus x))"

lemma cluster_copier:
  assumes m: "deep_copier copyMeta viewMeta reachMeta" and c: "deep_copier copyConfig viewConfig reachConfig"
    and id: "\<And>c. copyCond c = c"
  shows "deep_copier (DeepCopyInto_Cluster copyMeta copyConfig copyCond) (viewCluster viewMeta viewConfig)
    (reachCluster reachMeta reachConfig)"
proof (rule struct_copier [OF pair_copier [OF m pair_copier [OF spec_copier [OF c] status_copier [OF id]]],
      where parts = "\<lambda>x. (sMeta x, sSpec x, sStatus x)"
        and build = "\<lambda>x (m, sp, st). \<lparr>sTypeMeta = sTypeMeta x, sMeta = m, sSpec = sp, sStatus = st\<rparr>"
        and buildV = "\<lambda>x (m, sp, st). \<lparr>sTypeMeta = sTypeMeta x, sMeta = m, sSpec = sp, sStatus = st\<rparr>"])
qed (auto simp: DeepCopyInto_Cluster_def viewCluster_def reachCluster_def split: prod.splits)

section \<open>Lists\<close>

lemma clustersAt_same: "h' ! sliceArray s = h ! sliceArray s \<Longrightarrow> clustersAt h' s = clustersAt h s"
  by simp

lemma prefix_nth: "prefix h h' \<Longrightarrow> a < length h \<Longrightarrow> h' ! a = h ! a"
  by (auto simp: prefix_def nth_append)

text \<open>The items the loop has copied so far: equal to the originals, and in cells after the array.\<close>

definition items_done where
  "items_done view reach h0 xs a h ys i \<longleftrightarrow>
     (\<forall>j<i. view h (ys ! j) = view h0 (xs ! j) \<and> reach h (ys ! j) \<subseteq> {Suc a..<length h})"

lemma items_done_step:
  assumes copier: "deep_copier copy view reach"
    and prev: "items_done view reach h0 xs a h ys i"
    and copied: "prefix h h1" "view h1 y = view h0 (xs ! i)" "reach h1 y \<subseteq> {length h..<length h1}"
    and a: "a < length h" and i: "i < length ys"
  shows "items_done view reach h0 xs a (h1[a := c]) (ys[i := y]) (Suc i)"
  unfolding items_done_def
proof (intro allI impI)
  fix j assume "j < Suc i"
  let ?z = "ys[i := y] ! j"
  have h1: "view h1 ?z = view h0 (xs ! j) \<and> reach h1 ?z \<subseteq> {Suc a..<length h1}"
  proof (cases "j = i")
    case True
    then show ?thesis using copied(2,3) a i by auto
  next
    case False
    then have old: "view h (ys ! j) = view h0 (xs ! j)" "reach h (ys ! j) \<subseteq> {Suc a..<length h}"
      using prev \<open>j < Suc i\<close> by (auto simp: items_done_def)
    moreover have "reach h (ys ! j) \<subseteq> {..<length h}" using old(2) by auto
    from deep_copier.moves [OF copier copied(1) this]
    have "view h1 (ys ! j) = view h (ys ! j)" "reach h1 (ys ! j) = reach h (ys ! j)" by auto
    ultimately show ?thesis using False prefix_lengthD [OF copied(1)] by auto
  qed
  then have "same_at h1 (h1[a := c]) (reach h1 ?z)"
    by (intro same_at_update) auto
  from deep_copier.local [OF copier this] h1
  show "view (h1[a := c]) ?z = view h0 (xs ! j) \<and> reach (h1[a := c]) ?z \<subseteq> {Suc a..<length (h1[a := c])}"
    by simp
qed

lemma copyItems_from:
  fixes h0 :: "('m, 'c, 'l, 'f) heap"
  assumes copier: "deep_copier copy view reach"
    and inp: "sliceArray inp < length h0" "xs = clustersAt h0 inp"
    and alloc: "\<forall>x\<in>set xs. reach h0 x \<subseteq> {..<length h0}"
    and h: "prefix h0 h" "length h0 < length h" "h ! length h0 = ClusterArray ys" "length ys = length xs"
    and n: "i + n = length xs" and prev: "items_done view reach h0 xs (length h0) h ys i"
  shows "\<exists>zs. let h' = copyItems_from copy h inp (length h0) i n in
     prefix h0 h' \<and> length h0 < length h' \<and> h' ! length h0 = ClusterArray zs \<and> length zs = length xs \<and>
     items_done view reach h0 xs (length h0) h' zs (length xs)"
  using h n prev
proof (induction n arbitrary: h ys i)
  case 0
  then show ?case by (auto simp: Let_def)
next
  case (Suc n)
  let ?a = "length h0"
  have xs: "clustersAt h inp = xs"
    using clustersAt_same [OF prefix_nth [OF Suc.prems(1) inp(1)]] inp(2) by simp
  obtain y h1 where y: "copy h (xs ! i) = (y, h1)" by fastforce
  have "i < length xs" using Suc.prems(5) by simp
  then have x: "reach h0 (xs ! i) \<subseteq> {..<length h0}" using alloc by simp
  from deep_copier.moves [OF copier Suc.prems(1) x]
  have "view h (xs ! i) = view h0 (xs ! i)" "reach h (xs ! i) \<subseteq> {..<length h}"
    using x prefix_lengthD [OF Suc.prems(1)] by auto
  with deep_copier.copies [OF copier _ y]
  have copied: "prefix h h1" "view h1 y = view h0 (xs ! i)" "reach h1 y \<subseteq> {length h..<length h1}" by auto
  let ?h2 = "h1[?a := ClusterArray (ys[i := y])]"
  have h1a: "h1 ! ?a = ClusterArray ys" using prefix_nth [OF copied(1) Suc.prems(2)] Suc.prems(3) by simp
  have len: "length h0 < length h1" using Suc.prems(2) prefix_lengthD [OF copied(1)] by simp
  have "items_done view reach h0 xs ?a ?h2 (ys[i := y]) (Suc i)"
    using items_done_step [OF copier Suc.prems(6) copied Suc.prems(2)] \<open>i < length xs\<close> Suc.prems(4) by simp
  moreover have "prefix h0 ?h2"
    using prefix_order.trans [OF Suc.prems(1) copied(1)] by (rule prefix_update) simp
  ultimately have "\<exists>zs. let h' = copyItems_from copy ?h2 inp ?a (Suc i) n in
     prefix h0 h' \<and> length h0 < length h' \<and> h' ! ?a = ClusterArray zs \<and> length zs = length xs \<and>
     items_done view reach h0 xs ?a h' zs (length xs)"
    using len Suc.prems(4,5) by (intro Suc.IH [of ?h2 "ys[i := y]"]) simp_all
  moreover have "copyItems_from copy h inp ?a i (Suc n) = copyItems_from copy ?h2 inp ?a (Suc i) n"
    by (simp add: xs y h1a del: clustersAt.simps)
  ultimately show ?case by simp
qed

definition viewItems where
  "viewItems view h s = map_option (\<lambda>s. map (view h) (clustersAt h s)) s"

definition reachItems where
  "reachItems reach h s = (\<Union>s\<in>set_option s. insert (sliceArray s) (\<Union>x\<in>set (clustersAt h s). reach h x))"

lemma items_copier:
  fixes copy :: "(('m, 'c) clusterRef, ('m, 'c, 'l, 'f) cell) copier"
  assumes copier: "deep_copier copy view reach"
  shows "deep_copier (copyItems zero copy) (viewItems view) (reachItems reach)"
proof
  fix h h' :: "('m, 'c, 'l, 'f) heap" and x y
  show "prefix h h' \<and> viewItems view h' y = viewItems view h x \<and> reachItems reach h' y \<subseteq> {length h..<length h'}"
    if alloc: "reachItems reach h x \<subseteq> {..<length h}" and run: "copyItems zero copy h x = (y, h')"
  proof (cases x)
    case (Some s)
    let ?xs = "clustersAt h s"
    let ?n = "length ?xs"
    let ?h1 = "h @ [ClusterArray (replicate ?n zero)]"
    let ?out = "\<lparr>sliceArray = length h, sliceOffset = 0, sliceLen = ?n\<rparr>"
    have y: "y = Some ?out" and h': "h' = copyItems_from copy ?h1 s (length h) 0 ?n"
      using run Some by (simp_all add: copyItems_def Let_def del: clustersAt.simps)
    have "sliceArray s < length h" "\<forall>z\<in>set ?xs. reach h z \<subseteq> {..<length h}"
      using alloc Some by (auto simp: reachItems_def simp del: clustersAt.simps)
    from copyItems_from [OF copier this(1) refl this(2), of ?h1 "replicate ?n zero" 0 ?n]
    obtain zs where zs: "prefix h h'" "length h < length h'" "h' ! length h = ClusterArray zs" "length zs = ?n"
      "items_done view reach h ?xs (length h) h' zs ?n"
      unfolding h' by (auto simp: items_done_def Let_def simp del: clustersAt.simps)
    have at: "clustersAt h' ?out = zs" using zs(3,4) by simp
    have "map (view h') zs = map (view h) ?xs"
      using zs(4,5) by (intro nth_equalityI) (auto simp: items_done_def simp del: clustersAt.simps)
    moreover have "(\<Union>z\<in>set zs. reach h' z) \<subseteq> {Suc (length h)..<length h'}"
    proof (intro UN_least)
      fix z assume "z \<in> set zs"
      then obtain j where "j < ?n" "z = zs ! j" using zs(4) by (metis in_set_conv_nth)
      then show "reach h' z \<subseteq> {Suc (length h)..<length h'}" using zs(5) by (simp only: items_done_def)
    qed
    ultimately show ?thesis
      using zs(1,2) y Some by (auto simp: viewItems_def reachItems_def at simp del: clustersAt.simps)
  qed (use run in \<open>simp add: copyItems_def viewItems_def reachItems_def\<close>)
  show "viewItems view h' x = viewItems view h x \<and> reachItems reach h' x = reachItems reach h x"
    if same: "same_at h h' (reachItems reach h x)"
  proof (cases x)
    case (Some s)
    have "h' ! sliceArray s = h ! sliceArray s"
      using same Some by (auto simp: same_at_def reachItems_def)
    then have at: "clustersAt h' s = clustersAt h s" by (rule clustersAt_same)
    have "view h' z = view h z \<and> reach h' z = reach h z" if "z \<in> set (clustersAt h s)" for z
      using that Some by (intro deep_copier.local [OF copier] same_at_mono [OF same]) (auto simp: reachItems_def)
    then show ?thesis using Some by (simp add: viewItems_def reachItems_def at del: clustersAt.simps)
  qed (simp add: viewItems_def reachItems_def)
qed

definition viewList where
  "viewList viewListMeta view h x =
     \<lparr>sListTypeMeta = sListTypeMeta x, sListMeta = viewListMeta h (sListMeta x), sItems = viewItems view h (sItems x)\<rparr>"

definition reachList where
  "reachList reachListMeta reach h x = reachListMeta h (sListMeta x) \<union> reachItems reach h (sItems x)"

lemma list_copier:
  assumes l: "deep_copier copyListMeta viewListMeta reachListMeta" and copier: "deep_copier copy view reach"
  shows "deep_copier (DeepCopyInto_List copyListMeta zero copy) (viewList viewListMeta view) (reachList reachListMeta reach)"
proof (rule struct_copier [OF pair_copier [OF l items_copier [OF copier, of zero]],
      where parts = "\<lambda>x. (sListMeta x, sItems x)"
        and build = "\<lambda>x (l, is). \<lparr>sListTypeMeta = sListTypeMeta x, sListMeta = l, sItems = is\<rparr>"
        and buildV = "\<lambda>x (l, is). \<lparr>sListTypeMeta = sListTypeMeta x, sListMeta = l, sItems = is\<rparr>"])
qed (auto simp: DeepCopyInto_List_def viewList_def reachList_def split: prod.splits)

section \<open>Pointers\<close>

definition viewPtr where
  "viewPtr val view h p = map_option (\<lambda>p. view h (val (h ! p))) p"

definition reachPtr where
  "reachPtr val reach h p = (\<Union>p\<in>set_option p. insert p (reach h (val (h ! p))))"

lemma newCopy_copier:
  fixes put :: "'x \<Rightarrow> 'h" and copyInto :: "('x, 'h) copier"
  assumes copier: "deep_copier copyInto view reach" and val: "\<And>x. val (put x) = x"
  shows "deep_copier (newCopy put val zero copyInto) (viewPtr val view) (reachPtr val reach)"
proof
  fix h h' :: "'h list" and x y
  show "prefix h h' \<and> viewPtr val view h' y = viewPtr val view h x \<and> reachPtr val reach h' y \<subseteq> {length h..<length h'}"
    if alloc: "reachPtr val reach h x \<subseteq> {..<length h}" and run: "newCopy put val zero copyInto h x = (y, h')"
  proof (cases x)
    case (Some p)
    let ?h1 = "h @ [put zero]" and ?v = "val (h ! p)"
    have v: "reach h ?v \<subseteq> {..<length h}" using alloc Some by (simp add: reachPtr_def)
    have "prefix h ?h1" by simp
    from deep_copier.moves [OF copier this v]
    have v1: "view ?h1 ?v = view h ?v" "reach ?h1 ?v \<subseteq> {..<length ?h1}" using v by auto
    obtain z h2 where z: "copyInto ?h1 ?v = (z, h2)" by fastforce
    from deep_copier.copies [OF copier v1(2) z] v1(1)
    have z2: "prefix ?h1 h2" "view h2 z = view h ?v" "reach h2 z \<subseteq> {Suc (length h)..<length h2}" by auto
    have res: "y = Some (length h)" "h' = h2[length h := put z]"
      using run Some z by (simp_all add: newCopy_def)
    have len: "length h < length h2" using prefix_lengthD [OF z2(1)] by simp
    have "same_at h2 h' (reach h2 z)"
      unfolding res(2) using z2(3) by (intro same_at_update) auto
    from deep_copier.local [OF copier this] z2
    have "view h' z = view h ?v" "reach h' z \<subseteq> {Suc (length h)..<length h'}" by (simp_all add: res(2))
    moreover have "prefix h h'"
      unfolding res(2) using prefix_order.trans [OF \<open>prefix h ?h1\<close> z2(1)] by (rule prefix_update) simp
    moreover have "val (h' ! length h) = z" using res(2) len val by simp
    ultimately show ?thesis using Some res len by (auto simp: viewPtr_def reachPtr_def)
  qed (use run in \<open>simp add: newCopy_def viewPtr_def reachPtr_def\<close>)
  show "viewPtr val view h' x = viewPtr val view h x \<and> reachPtr val reach h' x = reachPtr val reach h x"
    if same: "same_at h h' (reachPtr val reach h x)"
  proof (cases x)
    case (Some p)
    have at: "h' ! p = h ! p" using same Some by (auto simp: same_at_def reachPtr_def)
    have "view h' (val (h ! p)) = view h (val (h ! p)) \<and> reach h' (val (h ! p)) = reach h (val (h ! p))"
      using Some by (intro deep_copier.local [OF copier] same_at_mono [OF same]) (auto simp: reachPtr_def)
    then show ?thesis using Some at by (simp add: viewPtr_def reachPtr_def)
  qed (simp add: viewPtr_def reachPtr_def)
qed

section \<open>Objects\<close>

lemma list_pointer_copier:
  assumes "deep_copier copyMeta viewMeta reachMeta" "deep_copier copyConfig viewConfig reachConfig"
    and "deep_copier copyListMeta viewListMeta reachListMeta" and "\<And>c. copyCond c = c"
  shows "deep_copier (DeepCopy_List zeroList copyListMeta zero (DeepCopyInto_Cluster copyMeta copyConfig copyCond))
    (viewPtr listOf (viewList viewListMeta (viewCluster viewMeta viewConfig)))
    (reachPtr listOf (reachList reachListMeta (reachCluster reachMeta reachConfig)))"
  unfolding DeepCopy_List_def
  by (intro newCopy_copier list_copier cluster_copier assms) simp

text \<open>C36: Copying a list of EtcdadmClusters through \<open>DeepCopyObject\<close>, when the copies
  of the foreign parts do what a deep copy does: the result is a list object of the same value, down
  to the replicas and conditions of every item, nil slices included; no cell that was there is
  touched; copy and original share no cell, so whatever is written into the one leaves the value of
  the other alone.\<close>

theorem deep_copy_shares_nothing:
  fixes h :: "('m, 'c, 'l, 'f) heap"
  assumes foreign: "deep_copier copyMeta viewMeta reachMeta" "deep_copier copyConfig viewConfig reachConfig"
      "deep_copier copyListMeta viewListMeta reachListMeta" "\<And>c. copyCond c = c"
    and reach: "reach = reachPtr listOf (reachList reachListMeta (reachCluster reachMeta reachConfig))"
    and view: "view = viewPtr listOf (viewList viewListMeta (viewCluster viewMeta viewConfig))"
    and allocated: "reach h (Some p) \<subseteq> {..<length h}"
    and run: "DeepCopyObject_List zeroList copyListMeta zero (DeepCopyInto_Cluster copyMeta copyConfig copyCond)
                h (Some p) = (res, h')"
  shows "\<exists>q. res = Some (ListObject q) \<and> take (length h) h' = h \<and> view h' (Some q) = view h (Some p) \<and>
     reach h' (Some p) \<inter> reach h' (Some q) = {} \<and>
     (\<forall>a\<in>reach h' (Some q). \<forall>c. view (h'[a := c]) (Some p) = view h (Some p)) \<and>
     (\<forall>a\<in>reach h' (Some p). \<forall>c. view (h'[a := c]) (Some q) = view h (Some p))"
proof -
  note copier = list_pointer_copier [OF foreign, of zeroList zero, folded reach view]
  obtain q where q: "DeepCopy_List zeroList copyListMeta zero (DeepCopyInto_Cluster copyMeta copyConfig copyCond)
      h (Some p) = (Some q, h')" and res: "res = Some (ListObject q)"
    using run by (auto simp: DeepCopyObject_List_def DeepCopy_List_def newCopy_def split: prod.splits)
  have new: "prefix h h'" "view h' (Some q) = view h (Some p)"
    using deep_copier.copies [OF copier allocated q] by auto
  have apart: "reach h' (Some p) \<inter> reach h' (Some q) = {}"
    "a \<notin> reach h' (Some p) \<Longrightarrow> view (h'[a := c]) (Some p) = view h (Some p)"
    "a \<notin> reach h' (Some q) \<Longrightarrow> view (h'[a := c]) (Some q) = view h (Some p)" for a c
    using deep_copier.copy_independent [OF copier allocated q, of a c] by auto
  have other: "a \<in> reach h' (Some q) \<Longrightarrow> a \<notin> reach h' (Some p)" for a using apart(1) by blast
  show ?thesis
  proof (intro exI [of _ q] conjI ballI allI)
    show "take (length h) h' = h" using new(1) by (auto simp: prefix_def)
    show "view (h'[a := c]) (Some p) = view h (Some p)" if "a \<in> reach h' (Some q)" for a c
      using apart(2) other [OF that] by blast
    show "view (h'[a := c]) (Some q) = view h (Some p)" if "a \<in> reach h' (Some p)" for a c
      using apart(3) other that by blast
  qed (use res new(2) apart(1) in simp_all)
qed

text \<open>Foreign parts that hold no references, and a heap with a list of one cluster.\<close>

interpretation flat: deep_copier "\<lambda>h x. (x, h)" "\<lambda>h x. x" "\<lambda>h x. {}"
  by unfold_locales (auto simp: same_at_def)

definition demo_item :: "(string, string) clusterRef" where
  "demo_item = \<lparr>sTypeMeta = ([], []), sMeta = ''etcd'',
     sSpec = \<lparr>sReplicas = Some 0, sTemplate = \<lparr>oAPIVersion = [], oKind = [], oNamespace = [], oName = ''t''\<rparr>,
              sConfigSpec = ''cfg''\<rparr>,
     sStatus = \<lparr>sReadyReplicas = 0, sInitMachineAddress = [], sInitialized = False, sReady = False,
       sCreationComplete = False, sEndpoints = [], sSelector = [], sObservedGeneration = 0,
       sConditions = Some \<lparr>sliceArray = 1, sliceOffset = 0, sliceLen = 1\<rparr>\<rparr>\<rparr>"

definition demo_heap :: "(string, string, string, unit) heap" where
  "demo_heap = [Int32Cell 3, ConditionArray [zeroCondition], ClusterArray [demo_item],
     ListCell \<lparr>sListTypeMeta = ([], []), sListMeta = [],
       sItems = Some \<lparr>sliceArray = 2, sliceOffset = 0, sliceLen = 1\<rparr>\<rparr>]"

theorem deep_copy_shares_nothing_witness:
  "\<exists>q h'. DeepCopyObject_List \<lparr>sListTypeMeta = ([], []), sListMeta = [], sItems = None\<rparr> (\<lambda>h x. (x, h)) demo_item
       (DeepCopyInto_Cluster (\<lambda>h x. (x, h)) (\<lambda>h x. (x, h)) (\<lambda>c. c)) demo_heap (Some 3) = (Some (ListObject q), h') \<and>
     take 4 h' = demo_heap"
proof -
  let ?reach = "reachPtr listOf (reachList (\<lambda>h x. {}) (reachCluster (\<lambda>h x. {}) (\<lambda>h x. {})))"
  let ?copy = "DeepCopyObject_List \<lparr>sListTypeMeta = ([], []), sListMeta = [], sItems = None\<rparr> (\<lambda>h x. (x, h)) demo_item
       (DeepCopyInto_Cluster (\<lambda>h x. (x, h)) (\<lambda>h x. (x, h)) (\<lambda>c. c)) demo_heap (Some 3)"
  obtain res h' where run: "?copy = (res, h')" by fastforce
  have "?reach demo_heap (Some 3) \<subseteq> {..<length demo_heap}"
    by (auto simp: reachPtr_def reachList_def reachItems_def reachCluster_def reachSpec_def reachStatus_def
        reachReplicas_def reachSlice_def demo_heap_def demo_item_def)
  from deep_copy_shares_nothing [OF flat.deep_copier_axioms flat.deep_copier_axioms flat.deep_copier_axioms
      refl refl refl this run]
  have "\<exists>q. res = Some (ListObject q) \<and> take (length demo_heap) h' = demo_heap" by blast
  moreover have "length demo_heap = 4" by (simp add: demo_heap_def)
  ultimately show ?thesis using run by auto
qed

end
