(* ===== verification/Convergence.thy ===== *)
theory Convergence
  imports Reconcile Reference
begin

text \<open>
  Reconciliations against an API server that stores what it is told: however many machines a cluster
  has, pass after pass it grows to the size its object asks for, and stays there.
\<close>

section \<open>An API server that stores machines\<close>

text \<open>The machines there are after an event, and after a trace. Nobody else changes them.\<close>

fun store_event :: "Machines \<Rightarrow> event \<Rightarrow> Machines" where
  "store_event ms (EvCreateMachine m None) = ms @ [m]"
| "store_event ms (EvDeleteMachine m None) = filter (\<lambda>x. mName x \<noteq> mName m) ms"
| "store_event ms (EvUpdateMachine m None) = map (\<lambda>x. if mName x = mName m then m else x) ms"
| "store_event ms _ = ms"

definition stored :: "Machines \<Rightarrow> history \<Rightarrow> Machines" where
  "stored init h = foldl store_event init h"

lemma stored_snoc [simp]: "stored init (h @ [e]) = store_event (stored init h) e"
  by (simp add: stored_def)

lemma stored_append: "stored init (h @ es) = foldl store_event (stored init h) es"
  by (simp add: stored_def)

text \<open>The machines of a cluster among them: those its label selector matches.\<close>

definition membersOf :: "env \<Rightarrow> Cluster \<Rightarrow> EtcdadmCluster \<Rightarrow> Machines \<Rightarrow> Machines" where
  "membersOf E cluster ec ms =
     (case EtcdMachinesSelectorForCluster E (clName cluster) (Name (ecMeta ec)) of
        None \<Rightarrow> [] | Some sel \<Rightarrow> filter (\<lambda>m. EtcdClusterMachines E sel (Some m)) ms)"

text \<open>
  An object cloned from a template carries the name and the kind of the template as annotations. This
  one was cloned from another template than the one the spec names; an object that lacks one of the
  annotations was not, as far as the code can tell.
\<close>

definition cloned_from_other :: "env \<Rightarrow> EtcdadmCluster \<Rightarrow> InfraObject \<Rightarrow> bool" where
  "cloned_from_other E ec i \<longleftrightarrow>
     (case (map_get (Annotations (infMeta i)) (TemplateClonedFromNameAnnotation (capi E)),
            map_get (Annotations (infMeta i)) (TemplateClonedFromGroupKindAnnotation (capi E))) of
        (Some name, Some kind) \<Rightarrow>
          name \<noteq> oName (InfrastructureTemplate (ecSpec ec)) \<or>
          kind \<noteq> groupKindString (capi E) (InfrastructureTemplate (ecSpec ec))
      | _ \<Rightarrow> False)"

text \<open>An API server that refuses nothing: templates and infrastructure are found, creations succeed.\<close>

definition serving :: "env \<Rightarrow> bool" where
  "serving E \<longleftrightarrow>
     collections_laws (coll E) \<and>
     (\<forall>h r. \<exists>i. k_ExternalGet (svc E) h r = Inr i) \<and>
     (\<forall>h n. k_NewPatchHelper (svc E) h n = None) \<and> (\<forall>h x. k_PatchTemplate (svc E) h x = None) \<and>
     (\<forall>h i. \<exists>infra gv. k_CreateFromTemplate (svc E) h i = Inr (Some infra) \<and>
        schema_ParseGroupVersion (capi E) (infAPIVersion infra) = Inr gv) \<and>
     (\<forall>h c. k_CreateEtcdadmConfig (svc E) h c = None) \<and> (\<forall>h m. k_CreateMachine (svc E) h m = None)"

text \<open>The labels of a new machine are recognised by the library that wrote them.\<close>

definition selects_own :: "env \<Rightarrow> Cluster \<Rightarrow> EtcdadmCluster \<Rightarrow> bool" where
  "selects_own E cluster ec \<longleftrightarrow>
     (\<exists>sel. EtcdMachinesSelectorForCluster E (clName cluster) (Name (ecMeta ec)) = Some sel \<and>
        (\<forall>m. Labels (mMeta m) = EtcdLabelsForCluster E (clName cluster) (Name (ecMeta ec)) \<longrightarrow>
           EtcdClusterMachines E sel (Some m)))"

text \<open>
  A world in which nothing fails: listings give what is stored, creations succeed, every machine's
  config is current and its infrastructure was cloned from the template of the spec, if it says from
  which, and the labels and the owner reference of a new machine are
  recognised by the libraries that wrote them.
\<close>

definition friendly :: "env \<Rightarrow> Cluster \<Rightarrow> EtcdadmCluster \<Rightarrow> Machines \<Rightarrow> bool" where
  "friendly E cluster ec init \<longleftrightarrow>
     serving E \<and> selects_own E cluster ec \<and>
     (\<forall>h rd f. k_ListMachines (svc E) h rd cluster f = Inr (filter f (stored init h))) \<and>
     (\<forall>h k. \<exists>c. k_GetEtcdadmConfig (svc E) h k = Inr c \<and> cfgSpec c = etcdadmConfigSpec (ecSpec ec)) \<and>
     (\<forall>h r i. k_ExternalGet (svc E) h r = Inr i \<longrightarrow> \<not> cloned_from_other E ec i) \<and>
     (\<forall>m. OwnerReferences (mMeta m) = [controllerRefOf E ec] \<longrightarrow> col_OwnedMachines (coll E) ec m)"

text \<open>An object that asks for \<open>n\<close> machines and was never upgraded; and one that was initialised, too.\<close>

definition tranquil :: "env \<Rightarrow> EtcdadmCluster \<Rightarrow> 32 word \<Rightarrow> bool" where
  "tranquil E ec n \<longleftrightarrow>
     Replicas (ecSpec ec) = Some n \<and>
     \<not> HasCondition E ec EtcdMachinesSpecUpToDateCondition \<and>
     \<not> IsFalse E ec EtcdCertificatesAvailableCondition \<and>
     \<not> IsFalse E ec EtcdClusterHasNoOutdatedMembersCondition \<and>
     \<not> hasAnnotation ec (ControlPlaneUpgradeCompletedAnnotation (capi E)) \<and>
     \<not> hasAnnotation ec UpgradeInProgressAnnotation"

definition settled :: "env \<Rightarrow> EtcdadmCluster \<Rightarrow> 32 word \<Rightarrow> bool" where
  "settled E ec n \<longleftrightarrow> tranquil E ec n \<and> \<not> IsFalse E ec InitializedCondition"

lemma settledD: "settled E ec n \<Longrightarrow> tranquil E ec n"
  by (simp add: settled_def)

section \<open>What leaves object and machines alone\<close>

definition unchanged :: "Machines \<Rightarrow> sys \<Rightarrow> EtcdadmCluster \<times> Machines" where
  "unchanged init s = (theEC s, stored init (trace s))"

lemma stored_if_reads: "list_all (\<lambda>e. \<not> mutates e) es \<Longrightarrow> stored init (h @ es) = stored init h"
proof (induction es rule: rev_induct)
  case (snoc e es)
  then have "store_event (stored init (h @ es)) e = stored init (h @ es)"
    by (cases e rule: mutates.cases) auto
  then show ?case using snoc stored_snoc [of init "h @ es" e] by simp
qed simp

lemma reads_unchanged: "obeys reads m \<Longrightarrow> obeys (keeps (unchanged init)) m"
  unfolding obeys_def keeps_def unchanged_def reads_def extends_def
  by (metis stored_if_reads)

lemma unchangedD:
  "obeys (keeps (unchanged init)) m \<Longrightarrow> run_state m s = (r, t) \<Longrightarrow>
   theEC t = theEC s \<and> stored init (trace t) = stored init (trace s)"
  by (auto simp: obeys_def keeps_def unchanged_def dest!: spec [of _ s])

section \<open>One pass\<close>

lemma servingD:
  assumes "serving E"
  shows "collections_laws (coll E)"
    "\<exists>i. k_ExternalGet (svc E) h r = Inr i"
    "k_NewPatchHelper (svc E) h n = None" "k_PatchTemplate (svc E) h x = None"
    "\<exists>infra gv. k_CreateFromTemplate (svc E) h i = Inr (Some infra) \<and>
       schema_ParseGroupVersion (capi E) (infAPIVersion infra) = Inr gv"
    "k_CreateEtcdadmConfig (svc E) h cfg = None" "k_CreateMachine (svc E) h m = None"
  using assms unfolding serving_def by simp_all

lemma friendlyD:
  assumes "friendly E cluster ec init"
  shows "serving E" "collections_laws (coll E)" "selects_own E cluster ec"
    "k_ListMachines (svc E) h rd cluster f = Inr (filter f (stored init h))"
    "\<exists>c. k_GetEtcdadmConfig (svc E) h k = Inr c \<and> cfgSpec c = etcdadmConfigSpec (ecSpec ec)"
    "OwnerReferences (mMeta m) = [controllerRefOf E ec] \<Longrightarrow> col_OwnedMachines (coll E) ec m"
    "k_ExternalGet (svc E) h r = Inr i \<Longrightarrow> \<not> cloned_from_other E ec i"
  using assms servingD(1) unfolding friendly_def by simp_all

lemma own_selector:
  assumes "selects_own E cluster ec"
  obtains sel where "EtcdMachinesSelectorForCluster E (clName cluster) (Name (ecMeta ec)) = Some sel"
    "\<And>m. Labels (mMeta m) = EtcdLabelsForCluster E (clName cluster) (Name (ecMeta ec)) \<Longrightarrow>
       EtcdClusterMachines E sel (Some m)"
    "\<And>ms. membersOf E cluster ec ms = filter (\<lambda>m. EtcdClusterMachines E sel (Some m)) ms"
  using assms unfolding selects_own_def membersOf_def by auto

lemmas friendly_selector = own_selector [OF friendlyD(3)]

text \<open>A program that returns \<open>x\<close> and leaves the object and the machines alone.\<close>

definition gives :: "Machines \<Rightarrow> 'a io \<Rightarrow> sys \<Rightarrow> 'a \<Rightarrow> bool" where
  "gives init m s x \<longleftrightarrow> (\<exists>t. run_state m s = (Done x, t) \<and> unchanged init t = unchanged init s)"

lemma givesI: "run_state m s = (Done x, t) \<Longrightarrow> unchanged init t = unchanged init s \<Longrightarrow> gives init m s x"
  by (auto simp: gives_def)

lemma unchanged_snoc [simp]:
  "store_event (stored init (trace s)) e = stored init (trace s) \<Longrightarrow>
   unchanged init (s\<lparr>trace := trace s @ [e]\<rparr>) = unchanged init s"
  by (simp add: unchanged_def)

lemma gives_externalReference:
  assumes f: "serving E"
  shows "gives init (reconcileExternalReference E cluster ref) s None"
proof -
  obtain i where "k_ExternalGet (svc E) (trace s) ref = Inr i" using servingD(2) [OF f] by blast
  then show ?thesis
    by (auto simp: gives_def reconcileExternalReference_def call_defs run_simps unchanged_def stored_append
        servingD(3,4) [OF f])
qed

lemma gives_listing:
  assumes f: "friendly E cluster ec init" and ec: "theEC s = ec"
  shows "gives init (listEtcdMachines E rd cluster (Name (ecMeta ec))) s
    (Inr (membersOf E cluster ec (stored init (trace s))))"
  using f
proof (rule friendly_selector)
  fix sel
  assume "EtcdMachinesSelectorForCluster E (clName cluster) (Name (ecMeta ec)) = Some sel"
    and "\<And>ms. membersOf E cluster ec ms = filter (\<lambda>m. EtcdClusterMachines E sel (Some m)) ms"
  then show ?thesis
    by (simp add: gives_def listEtcdMachines_def call_ListMachines_def run_simps unchanged_def
        friendlyD(4) [OF f])
qed

text \<open>A plane whose machines' configs and infrastructure are current, as far as they are known.\<close>

definition current_plane :: "env \<Rightarrow> EtcdadmCluster \<Rightarrow> EtcdPlane \<Rightarrow> bool" where
  "current_plane E ec ep \<longleftrightarrow> EC ep = ec \<and>
     (\<forall>c\<in>ran (etcdadmConfigs ep). cfgSpec c = etcdadmConfigSpec (ecSpec ec)) \<and>
     (\<forall>i\<in>ran (infraResources ep). \<not> cloned_from_other E ec i)"

lemma ran_upd_subset: "ran (m(k \<mapsto> v)) \<subseteq> insert v (ran m)"
  by (auto simp: ran_def split: if_splits)

text \<open>What the API server answered when it was asked for the infrastructure of these machines.\<close>

definition answered :: "env \<Rightarrow> Machines \<Rightarrow> (string \<rightharpoonup> InfraObject) \<Rightarrow> bool" where
  "answered E ms ir \<longleftrightarrow>
     (\<forall>n i. ir n = Some i \<longrightarrow> (\<exists>m\<in>set ms. mName m = n \<and> (\<exists>h. k_ExternalGet (svc E) h (infraRefOf m) = Inr i))) \<and>
     (\<forall>m\<in>set ms. ir (mName m) \<noteq> None)"

lemma answered_upd:
  assumes a: "answered E ms ir" and i: "k_ExternalGet (svc E) h (infraRefOf m) = Inr i"
  shows "answered E (ms @ [m]) (ir(mName m \<mapsto> i))"
proof -
  have "\<exists>x\<in>set (ms @ [m]). mName x = n \<and> (\<exists>h. k_ExternalGet (svc E) h (infraRefOf x) = Inr j)"
    if j: "(ir(mName m \<mapsto> i)) n = Some j" for n j
  proof (cases "n = mName m")
    case True
    then show ?thesis using i j by (intro bexI [of _ m]) auto
  next
    case False
    then have "ir n = Some j" using j by simp
    then show ?thesis using a unfolding answered_def by (metis Un_iff set_append)
  qed
  then show ?thesis using a by (auto simp: answered_def)
qed

lemma infra_loop:
  assumes f: "serving E"
  shows "answered E done result \<Longrightarrow>
    \<exists>r t. run_state (getInfraResources_loop E result ms) s = (Done (Inr r), t) \<and> answered E (done @ ms) r"
proof (induction ms arbitrary: "done" result s)
  case (Cons m ms)
  obtain i where i: "k_ExternalGet (svc E) (trace s) (infraRefOf m) = Inr i" using servingD(2) [OF f] by blast
  have "answered E (done @ [m]) (result(mName m \<mapsto> i))"
    using Cons.prems i by (rule answered_upd)
  from Cons.IH [OF this] show ?case
    by (simp add: call_ExternalGet_def run_simps i del: fun_upd_apply)
qed (simp add: run_simps)

lemma config_loop:
  assumes f: "friendly E cluster ec init"
  shows "\<forall>c\<in>ran result. cfgSpec c = etcdadmConfigSpec (ecSpec ec) \<Longrightarrow>
    \<exists>r t. run_state (getEtcdadmConfigs_loop E result ms) s = (Done (Inr r), t) \<and>
      (\<forall>c\<in>ran r. cfgSpec c = etcdadmConfigSpec (ecSpec ec))"
proof (induction ms arbitrary: result s)
  case (Cons m ms)
  let ?key = "\<lparr>keyNamespace = Namespace (mMeta m), keyName = crName (mConfigRef m)\<rparr>"
  obtain c where c: "k_GetEtcdadmConfig (svc E) (trace s) ?key = Inr c" "cfgSpec c = etcdadmConfigSpec (ecSpec ec)"
    using friendlyD(5) [OF f] by blast
  have "\<forall>j\<in>ran (result(mName m \<mapsto> c)). cfgSpec j = etcdadmConfigSpec (ecSpec ec)"
    using Cons.prems c(2) ran_upd_subset [of result "mName m" c] by blast
  from Cons.IH [OF this] Cons.IH [OF Cons.prems] show ?case
    by (simp add: call_GetEtcdadmConfig_def run_simps c(1) del: fun_upd_apply)
qed (simp add: run_simps)

lemma run_over_range:
  "run_state (bnd (range_over E site xs) g) s =
     run_state (g (go_range (range_order (svc E) site (trace s) (length xs)) xs)) s"
  by (simp add: run_bnd)

lemma helpers_none:
  assumes f: "serving E"
  shows "\<exists>t. run_state (newPatchHelpers E ms) s = (Done None, t)"
proof -
  have "\<exists>t. run_state (forReturn (\<lambda>m. bnd (call_NewPatchHelper E (mName m)) (\<lambda>r.
      case r of None \<Rightarrow> ret None | Some e \<Rightarrow>
        ret (Some (wrapErr E e (''failed to create patch helper for machine '' @ mName m))))) xs) s = (Done None, t)"
    for xs s
    by (induction xs arbitrary: s) (simp_all add: call_NewPatchHelper_def run_simps servingD(3) [OF f])
  then show ?thesis unfolding newPatchHelpers_def run_over_range .
qed

text \<open>The plane, for configs that turn out to have some property.\<close>

lemma gives_plane_with:
  assumes f: "serving E"
    and configs: "\<And>t. reads s t \<Longrightarrow> \<exists>cs t'. run_state (getEtcdadmConfigs E ms) t = (Done (Inr cs), t') \<and> P cs"
  shows "\<exists>ep. gives init (NewEtcdPlane E cluster ec ms) s (Inr ep) \<and> EC ep = ec \<and> epMachines ep = ms \<and>
     P (etcdadmConfigs ep) \<and> answered E ms (infraResources ep)"
proof -
  obtain ir t1 where ir: "run_state (getInfraResources E ms) s = (Done (Inr ir), t1)"
    "answered E (go_range (range_order (svc E) ''getInfraResources'' (trace s) (length ms)) ms) ir"
    using infra_loop [OF f, of "[]" Map.empty "go_range (range_order (svc E) ''getInfraResources'' (trace s) (length ms)) ms" s]
    unfolding getInfraResources_def run_over_range by (auto simp: answered_def)
  have "obeys reads (getInfraResources E ms)"
    unfolding getInfraResources_def by (intro read_intros reads_getInfraResources_loop)
  then have "reads s t1" using ir(1) by (rule obeysD)
  then obtain cs t2 where cs: "run_state (getEtcdadmConfigs E ms) t1 = (Done (Inr cs), t2)" "P cs"
    using configs by blast
  obtain t3 where t3: "run_state (newPatchHelpers E ms) t2 = (Done None, t3)" using helpers_none [OF f] by blast
  let ?ep = "\<lparr>EC = ec, epCluster = cluster, epMachines = ms, machinesPatchHelpers = map mName ms,
     etcdadmConfigs = cs, infraResources = ir\<rparr>"
  have run: "run_state (NewEtcdPlane E cluster ec ms) s = (Done (Inr ?ep), t3)"
    by (simp add: NewEtcdPlane_def run_simps ir(1) cs(1) t3)
  have "unchanged init t3 = unchanged init s"
    using unchangedD [OF reads_unchanged [OF reads_NewEtcdPlane] run] by (simp add: unchanged_def)
  then have "gives init (NewEtcdPlane E cluster ec ms) s (Inr ?ep)" using run by (rule givesI [rotated])
  moreover have "answered E ms ir" using ir(2) by (simp add: answered_def)
  ultimately show ?thesis using cs(2) by (intro exI [of _ ?ep]) simp
qed

lemma gives_plane:
  assumes f: "friendly E cluster ec init"
  shows "\<exists>ep. gives init (NewEtcdPlane E cluster ec ms) s (Inr ep) \<and> current_plane E ec ep \<and> epMachines ep = ms"
proof -
  have "\<exists>cs t'. run_state (getEtcdadmConfigs E ms) t = (Done (Inr cs), t') \<and>
      (\<forall>c\<in>ran cs. cfgSpec c = etcdadmConfigSpec (ecSpec ec))" for t
    using config_loop [OF f, of Map.empty "go_range (range_order (svc E) ''getEtcdadmConfigs'' (trace t) (length ms)) ms" t]
    unfolding getEtcdadmConfigs_def run_over_range by auto
  from gives_plane_with [OF friendlyD(1) [OF f] this, where init = init and cluster = cluster and ec = ec and s = s] obtain ep where
    ep: "gives init (NewEtcdPlane E cluster ec ms) s (Inr ep)" "EC ep = ec" "epMachines ep = ms"
    "\<forall>c\<in>ran (etcdadmConfigs ep). cfgSpec c = etcdadmConfigSpec (ecSpec ec)" "answered E ms (infraResources ep)" by blast
  have "\<forall>i\<in>ran (infraResources ep). \<not> cloned_from_other E ec i"
    using ep(5) friendlyD(7) [OF f] unfolding answered_def ran_def by blast
  then show ?thesis using ep unfolding current_plane_def by blast
qed

lemma current_needs_no_rollout:
  assumes laws: "collections_laws (coll E)" and current: "current_plane E ec ep"
  shows "MachinesNeedingRollout E ep = []"
proof -
  have "MatchesEtcdadmClusterConfiguration E (infraResources ep) (etcdadmConfigs ep) (EC ep) m" for m
  proof -
    have "MatchesEtcdadmConfig (etcdadmConfigs ep) ec (Some m)"
      using current ranI [of "etcdadmConfigs ep" "mName m"]
      by (cases "etcdadmConfigs ep (mName m)") (simp_all add: MatchesEtcdadmConfig_def current_plane_def)
    moreover have "MatchesTemplateClonedFrom E (infraResources ep) ec (Some m)"
      using current ranI [of "infraResources ep" "mName m"]
      by (cases "infraResources ep (mName m)") (auto simp: MatchesTemplateClonedFrom_def current_plane_def cloned_from_other_def
          split: option.splits)
    moreover have "EC ep = ec" using current by (simp add: current_plane_def)
    ultimately show ?thesis
      by (simp add: MatchesEtcdadmClusterConfiguration_def collections_lawsD(6) [OF laws])
  qed
  then have "set (MachinesNeedingRollout E ep) = {}"
    using laws by (simp add: MachinesNeedingRollout_def Let_def set_col(2) collections_lawsD(5))
  then show ?thesis by simp
qed

text \<open>The stages of a pass over such an object whose machines are all owned and current.\<close>

lemma run_stages:
  assumes "tranquil E ec n" and "theEC s = ec" and "length owned = length ms"
  shows "run_state (outdatedStage E cluster ms owned) s = (Done None, s)"
    and "run_state (rolloutStage E cluster ep [] a b d) s = (Done None, s)"
  using assms
  by (simp_all add: outdatedStage_def rolloutStage_def rolloutDone_def onlyIf_def tranquil_def run_simps)

lemma gives_bind: "gives init m s x \<Longrightarrow> \<exists>t. run_state m s = (Done x, t) \<and> theEC t = theEC s \<and> stored init (trace t) = stored init (trace s)"
  by (auto simp: gives_def unchanged_def)

lemma pass_reaches_scaling:
  assumes f: "friendly E cluster ec init" and set: "tranquil E ec n" and ec: "theEC s = ec"
    and ms: "ms = membersOf E cluster ec (stored init (trace s))" and owned: "\<forall>m\<in>set ms. col_OwnedMachines (coll E) ec m"
  shows "\<exists>ep t. theEC t = ec \<and> stored init (trace t) = stored init (trace s) \<and> epMachines ep = ownedBy E ec ms \<and>
     run_state (reconcile E cluster) s = run_state (scaleStage E cluster ep (int (length ms)) 0 (sint n)) t"
proof -
  let ?ref = "InfrastructureTemplate (ecSpec ec)"
  note laws = friendlyD(2) [OF f]
  obtain s1 where s1: "run_state (reconcileExternalReference E cluster ?ref) s = (Done None, s1)" "theEC s1 = ec"
    "stored init (trace s1) = stored init (trace s)"
    using gives_bind [OF gives_externalReference [OF friendlyD(1) [OF f]]] ec by metis
  obtain s2 where s2: "run_state (listEtcdMachines E UncachedClient cluster (Name (ecMeta ec))) s1 = (Done (Inr ms), s2)"
    "theEC s2 = ec" "stored init (trace s2) = stored init (trace s)"
    using gives_bind [OF gives_listing [OF f s1(2)]] s1 ms by metis
  have len: "length (ownedBy E ec ms) = length ms"
    using owned by (simp add: ownedBy_def set_col(3) [OF laws])
  obtain ep s3 where s3: "run_state (NewEtcdPlane E cluster ec (ownedBy E ec ms)) s2 = (Done (Inr ep), s3)"
    "theEC s3 = ec" "stored init (trace s3) = stored init (trace s)" "current_plane E ec ep"
    "epMachines ep = ownedBy E ec ms"
    using gives_plane [OF f, of "ownedBy E ec ms" s2] gives_bind s2 by metis
  obtain ep2 s4 where s4: "run_state (NewEtcdPlane E cluster ec ms) s3 = (Done (Inr ep2), s4)"
    "theEC s4 = ec" "stored init (trace s4) = stored init (trace s)"
    using gives_plane [OF f, of ms s3] gives_bind s3 by metis
  have n: "Replicas (ecSpec ec) = Some n" using set by (simp add: tranquil_def)
  have "run_state (reconcile E cluster) s = run_state (scaleStage E cluster ep (int (length ms)) 0 (sint n)) s4"
    by (simp add: reconcile_def run_simps Let_def ec s1 s2 s3 s4 n run_stages [OF set _ len]
        current_needs_no_rollout [OF laws s3(4)] len)
  then show ?thesis using s4 s3(5) by blast
qed

lemma run_clone:
  assumes f: "serving E" and ec: "theEC s = ec"
  shows "\<exists>m t. run_state (cloneConfigsAndGenerateMachine E cluster fd) s = (Done (noResult, None), t) \<and> theEC t = ec \<and>
     stored init (trace t) = stored init (trace s) @ [m] \<and>
     Labels (mMeta m) = EtcdLabelsForCluster E (clName cluster) (Name (ecMeta ec)) \<and>
     OwnerReferences (mMeta m) = [controllerRefOf E ec]"
proof -
  obtain infra gv where a: "k_CreateFromTemplate (svc E) (trace s) (infraInput E cluster ec) = Inr (Some infra)"
    "schema_ParseGroupVersion (capi E) (infAPIVersion infra) = Inr gv"
    using servingD(5) [OF f] by blast
  then show ?thesis
    by (simp add: clone_defs ec servingD(6,7) [OF f] stored_append)
      (simp add: childMeta_def)
qed

lemma run_scaleUp:
  assumes f: "friendly E cluster ec init" and ec: "theEC s = ec"
  shows "\<exists>m t. run_state (scaleUpEtcdCluster E cluster ep) s = (Done (noResult, None), t) \<and> theEC t = ec \<and>
     stored init (trace t) = stored init (trace s) @ [m] \<and>
     Labels (mMeta m) = EtcdLabelsForCluster E (clName cluster) (Name (ecMeta ec)) \<and>
     OwnerReferences (mMeta m) = [controllerRefOf E ec]"
  unfolding scaleUpEtcdCluster_def by (rule run_clone [OF friendlyD(1) [OF f] ec])

text \<open>One pass: one machine more, or nothing when there are enough.\<close>

lemma one_pass:
  assumes f: "friendly E cluster ec init" and set: "settled E ec n" and ec: "theEC s = ec"
    and ms: "ms = membersOf E cluster ec (stored init (trace s))" and owned: "\<forall>m\<in>set ms. col_OwnedMachines (coll E) ec m"
    and size: "ms \<noteq> []" "int (length ms) \<le> sint n"
  shows "\<exists>t new. run_state (reconcile E cluster) s = (Done (noResult, None), t) \<and> theEC t = ec \<and>
     membersOf E cluster ec (stored init (trace t)) = ms @ new \<and>
     (\<forall>m\<in>set new. col_OwnedMachines (coll E) ec m) \<and>
     length new = (if int (length ms) < sint n then 1 else 0)"
proof -
  obtain ep s' where s': "theEC s' = ec" "stored init (trace s') = stored init (trace s)"
    "run_state (reconcile E cluster) s = run_state (scaleStage E cluster ep (int (length ms)) 0 (sint n)) s'"
    using pass_reaches_scaling [OF f settledD [OF set] ec ms owned] by blast
  have calm: "\<not> IsFalse E ec InitializedCondition" "\<not> hasAnnotation ec UpgradeInProgressAnnotation"
    using set by (simp_all add: settled_def tranquil_def)
  have pos: "int (length ms) > 0" using size(1) by simp
  show ?thesis
  proof (cases "int (length ms) < sint n")
    case True
    then have up: "run_state (reconcile E cluster) s = run_state (scaleUpEtcdCluster E cluster ep) s'"
      using pos by (simp add: s'(1,3) scaleStage_def run_simps calm)
    obtain m t where m: "run_state (scaleUpEtcdCluster E cluster ep) s' = (Done (noResult, None), t)" "theEC t = ec"
      "stored init (trace t) = stored init (trace s) @ [m]"
      "Labels (mMeta m) = EtcdLabelsForCluster E (clName cluster) (Name (ecMeta ec))"
      "OwnerReferences (mMeta m) = [controllerRefOf E ec]"
      using run_scaleUp [OF f s'(1)] s'(2) by metis
    have "membersOf E cluster ec (stored init (trace t)) = ms @ [m]"
      using f by (rule friendly_selector) (simp add: m(3,4) ms)
    then show ?thesis using up m friendlyD(6) [OF f] True
      by (intro exI [of _ t] exI [of _ "[m]"]) simp
  next
    case False
    then have "run_state (reconcile E cluster) s = (Done (noResult, None), s')"
      using pos size(2) by (simp add: s'(1,3) scaleStage_def run_simps calm onlyIf_def)
    then show ?thesis using s'(1,2) ms False by (intro exI [of _ s'] exI [of _ "[]"]) simp
  qed
qed

section \<open>Pass after pass\<close>

fun passes :: "env \<Rightarrow> Cluster \<Rightarrow> nat \<Rightarrow> sys \<Rightarrow> sys" where
  "passes E cluster 0 s = s"
| "passes E cluster (Suc k) s = passes E cluster k (snd (run_state (reconcile E cluster) s))"

text \<open>A cluster that is too small: after \<open>k\<close> passes it has \<open>k\<close> machines more, or as many as it asks for.
  The machines it had stay, and all that were added are its own.\<close>

theorem cluster_grows_to_size:
  assumes f: "friendly E cluster ec init" and set: "settled E ec n" and ec: "theEC s = ec"
    and ms: "ms = membersOf E cluster ec (stored init (trace s))" and owned: "\<forall>m\<in>set ms. col_OwnedMachines (coll E) ec m"
    and size: "ms \<noteq> []" "int (length ms) \<le> sint n"
  shows "\<exists>new. membersOf E cluster ec (stored init (trace (passes E cluster k s))) = ms @ new \<and>
     int (length (ms @ new)) = min (sint n) (int (length ms) + int k) \<and>
     list_all (col_OwnedMachines (coll E) ec) new \<and> theEC (passes E cluster k s) = ec"
  using ec ms owned size
proof (induction k arbitrary: s ms)
  case 0
  then show ?case by simp
next
  case (Suc k)
  obtain t new where t: "run_state (reconcile E cluster) s = (Done (noResult, None), t)" "theEC t = ec"
    "membersOf E cluster ec (stored init (trace t)) = ms @ new" "\<forall>m\<in>set new. col_OwnedMachines (coll E) ec m"
    "length new = (if int (length ms) < sint n then 1 else 0)"
    using one_pass [OF f set Suc.prems] by blast
  have "int (length (ms @ new)) \<le> sint n" using t(5) Suc.prems(5) by simp
  with Suc.IH [OF t(2) t(3) [symmetric]] t(4) Suc.prems(3,4) obtain more where more:
    "membersOf E cluster ec (stored init (trace (passes E cluster k t))) = (ms @ new) @ more"
    "int (length ((ms @ new) @ more)) = min (sint n) (int (length (ms @ new)) + int k)"
    "list_all (col_OwnedMachines (coll E) ec) more" "theEC (passes E cluster k t) = ec" by auto
  moreover have "list_all (col_OwnedMachines (coll E) ec) (new @ more)"
    using t(4) more(3) by (auto simp: list_all_iff)
  ultimately show ?case using t(1,5) by (intro exI [of _ "new @ more"]) auto
qed

definition first_member :: Machine where
  "first_member = (ref_machine ''m1'' ''10.0.0.1'')\<lparr>mMeta := (mMeta (ref_machine ''m1'' ''10.0.0.1''))
     \<lparr>Labels := EtcdLabelsForCluster ref_env ''c1'' ''etcd''\<rparr>\<rparr>"

text \<open>Infrastructure that was cloned from the template of \<open>ref_ec\<close>, or from another one.\<close>

definition clone_meta :: "string \<Rightarrow> ObjectMeta" where
  "clone_meta template = (ref_meta ''infra'')\<lparr>Annotations := Some [''cloned-from-name'' \<mapsto> template,
     ''cloned-from-groupkind'' \<mapsto> ''InfraMachineTemplate.infra.x-k8s.io'']\<rparr>"

definition demo_infra :: InfraObject where
  "demo_infra = \<lparr>infMeta = clone_meta ''tmpl'', infAPIVersion = ''infra.x-k8s.io/v1'', infKind = ''InfraMachine''\<rparr>"

text \<open>The controller as the manager sets it up, in a world that starts with these machines; every
  machine is a member of etcd.\<close>

definition memberOf :: "Machine \<Rightarrow> Member" where
  "memberOf m = \<lparr>memberID = word_of_nat (length (mName m)), memberName = mName m,
     memberPeerURLs = [peerURLOf (getEtcdMachineAddress m)]\<rparr>"

definition friendly_svc :: "Machines \<Rightarrow> service_api" where
  "friendly_svc init = ref_svc\<lparr>k_ListMachines := (\<lambda>h rd cl f. Inr (filter f (stored init h))),
     k_ExternalGet := (\<lambda>h r. Inr demo_infra),
     k_GetEtcdadmConfig := (\<lambda>h k. Inr \<lparr>cfgMeta = ref_meta ''cfg'', cfgSpec = etcdadmConfigSpec (ecSpec ref_ec)\<rparr>),
     e_MemberList := (\<lambda>h c. Inr (map memberOf (stored init h)))\<rparr>"

definition friendly_env :: "Machines \<Rightarrow> env" where
  "friendly_env init = SetupWithManager_env (with_svc (\<lambda>_. friendly_svc init)) None"

lemma friendly_fields:
  "coll (friendly_env init) = ref_collections" "conds (friendly_env init) = ref_conditions ''Ready''"
  "capi (friendly_env init) = ref_capi" "svc (friendly_env init) = friendly_svc init"
  "GetEtcdClient (friendly_env init) = generateEtcdClient (with_svc (\<lambda>_. friendly_svc init))"
  by (simp_all add: friendly_env_def)

lemma friendly_selects:
  "EtcdMachinesSelectorForCluster (friendly_env init) (clName ref_cluster) (Name (ecMeta ref_ec)) =
     Some (ref_selector ''c1'' ''etcd'')"
  "Labels (mMeta m) = EtcdLabelsForCluster (friendly_env init) (clName ref_cluster) (Name (ecMeta ref_ec)) \<Longrightarrow>
     EtcdClusterMachines (friendly_env init) (ref_selector ''c1'' ''etcd'') (Some m)"
  by (simp_all add: EtcdMachinesSelectorForCluster_def EtcdClusterMachines_def EtcdLabelsForCluster_def
      friendly_fields ref_selector_def ref_capi_def ref_cluster_def ref_ec_def ref_meta_def)

lemma demo_infra_marked:
  "capi E = ref_capi \<Longrightarrow> ecSpec ec = ecSpec ref_ec \<Longrightarrow> \<not> cloned_from_other E ec demo_infra"
  by (simp add: cloned_from_other_def demo_infra_def clone_meta_def ref_capi_def ref_ec_def)

lemma friendly_world: "friendly (friendly_env init) ref_cluster ref_ec init"
  using friendly_selects demo_infra_marked [of "friendly_env init" ref_ec] unfolding friendly_def serving_def selects_own_def
  by (simp add: friendly_fields friendly_svc_def)
    (simp add: ref_svc_def ref_capi_def ref_collections_def controllerRefOf_def friendly_fields
      ref_meta_def ref_cluster_def)

lemma friendly_settled: "settled (friendly_env init) ref_ec 3"
  by (simp add: settled_def tranquil_def HasCondition_def IsFalse_def hasAnnotation_def friendly_fields GetConditions_def
      ref_conditions_def has_status_def get_condition_def ref_ec_def ref_meta_def)

lemma first_member_mine:
  "EtcdClusterMachines (friendly_env init) (ref_selector ''c1'' ''etcd'') (Some first_member)"
  "col_OwnedMachines (coll (friendly_env init)) ref_ec first_member"
  by (simp_all add: EtcdClusterMachines_def friendly_fields first_member_def EtcdLabelsForCluster_def
      ref_selector_def ref_capi_def ref_env_def ref_collections_def ref_machine_def ref_meta_def ref_ec_def)

lemma friendly_start:
  "membersOf (friendly_env init) ref_cluster ref_ec (stored init (trace ref_sys)) =
     filter (\<lambda>m. EtcdClusterMachines (friendly_env init) (ref_selector ''c1'' ''etcd'') (Some m)) init"
  by (simp add: membersOf_def friendly_selects(1) stored_def ref_sys_def)

theorem cluster_grows_to_size_witness:
  "length (membersOf (friendly_env [first_member]) ref_cluster ref_ec
     (stored [first_member] (trace (passes (friendly_env [first_member]) ref_cluster 7 ref_sys)))) = 3"
proof -
  let ?E = "friendly_env [first_member]"
  have ec: "theEC ref_sys = ref_ec" by (simp add: ref_sys_def)
  have ms: "[first_member] = membersOf ?E ref_cluster ref_ec (stored [first_member] (trace ref_sys))"
    by (simp add: friendly_start first_member_mine)
  have owned: "\<forall>m\<in>set [first_member]. col_OwnedMachines (coll ?E) ref_ec m"
    using first_member_mine(2) by simp
  have size: "int (length [first_member]) \<le> sint (3 :: 32 word)" by simp
  from cluster_grows_to_size [OF friendly_world friendly_settled ec ms owned _ size, of 7]
  obtain new where "membersOf ?E ref_cluster ref_ec (stored [first_member] (trace (passes ?E ref_cluster 7 ref_sys))) =
      [first_member] @ new"
    "int (length ([first_member] @ new)) = min (sint (3 :: 32 word)) (int (length [first_member]) + int 7)" by auto
  moreover have "min (sint (3 :: 32 word)) (int (length [first_member]) + int 7) = 3" by simp
  ultimately show ?thesis by simp
qed

end
