(* ===== verification/Scaling_Correct.thy ===== *)
theory Scaling_Correct
  imports Convergence Plane_Correct
begin

text \<open>
  Scaling down against the same API server, and with it the whole claim: from any size but zero a
  settled cluster reaches the size its object asks for, one machine per pass, and stays there.
\<close>

text \<open>
  What removing a member needs of the world: a client for etcd, members that can be listed, more than
  one of them while there is more than one machine, removals and deletions that succeed.
\<close>

definition removable :: "env \<Rightarrow> Cluster \<Rightarrow> EtcdadmCluster \<Rightarrow> Machines \<Rightarrow> bool" where
  "removable E cluster ec init \<longleftrightarrow>
     choice_laws (coll E) \<and>
     (\<forall>s eps. \<exists>c. gives init (GetEtcdClient E cluster eps) s (Inr (Some c))) \<and>
     (\<forall>h c. \<exists>ms. e_MemberList (svc E) h c = Inr ms \<and>
        (length (membersOf E cluster ec (stored init h)) > 1 \<longrightarrow> length ms > 1)) \<and>
     (\<forall>h c i. e_MemberRemove (svc E) h c i = None) \<and> (\<forall>h m. k_DeleteMachine (svc E) h m = None)"

lemma removableD:
  assumes "removable E cluster ec init"
  shows "choice_laws (coll E)" "\<exists>c. gives init (GetEtcdClient E cluster eps) s (Inr (Some c))"
    "\<exists>ms. e_MemberList (svc E) h c = Inr ms \<and>
       (length (membersOf E cluster ec (stored init h)) > 1 \<longrightarrow> length ms > 1)"
    "e_MemberRemove (svc E) h c i = None" "k_DeleteMachine (svc E) h m = None"
  using assms unfolding removable_def by simp_all

text \<open>The listing changes nothing, so the plan is never to leave the machine.\<close>

lemma run_removal:
  assumes r: "removable E cluster ec init"
    and more: "length (membersOf E cluster ec (stored init (trace s))) > 1"
  shows "\<exists>t. run_state (removeEtcdMemberAndDeleteMachine E c u (Some m)) s = (Done None, t) \<and> theEC t = theEC s \<and>
     stored init (trace t) = filter (\<lambda>x. mName x \<noteq> mName m) (stored init (trace s))"
proof -
  obtain mems where mems: "e_MemberList (svc E) (trace s) c = Inr mems" "length mems > 1"
    using removableD(3) [OF r] more by blast
  then show ?thesis
    by (cases "find (\<lambda>x. memberPeerURLs x = [u]) mems")
      (simp_all add: removal_refines_plan removal_plan_def run_simps call_defs deleteMachineIfAny_def
        deleteMachine_def removableD(4,5) [OF r] stored_append)
qed

lemma run_removeEtcdMachine:
  assumes r: "removable E cluster ec init"
    and more: "length (membersOf E cluster ec (stored init (trace s))) > 1"
  shows "\<exists>t. run_state (removeEtcdMachine E cluster (Some m) address) s = (Done None, t) \<and> theEC t = theEC s \<and>
     stored init (trace t) = filter (\<lambda>x. mName x \<noteq> mName m) (stored init (trace s))"
proof -
  obtain c s1 where s1: "run_state (GetEtcdClient E cluster (Endpoints (ecStatus (theEC s)))) s = (Done (Inr (Some c)), s1)"
    "theEC s1 = theEC s" "stored init (trace s1) = stored init (trace s)"
    using removableD(2) [OF r] gives_bind by metis
  obtain t where t: "run_state (removeEtcdMemberAndDeleteMachine E c (peerURLOf address) (Some m)) s1 = (Done None, t)"
    "theEC t = theEC s" "stored init (trace t) = filter (\<lambda>x. mName x \<noteq> mName m) (stored init (trace s))"
    using run_removal [OF r, of s1 c "peerURLOf address" m] more s1(2,3) by auto
  then show ?thesis
    by (simp add: removeEtcdMachine_def run_simps s1 call_CloseEtcdClient_def stored_append)
qed

lemma run_scaleDown:
  assumes laws: "collections_laws (coll E)" and r: "removable E cluster ec init"
    and more: "length (membersOf E cluster ec (stored init (trace s))) > 1" and ne: "epMachines ep \<noteq> []"
  shows "\<exists>m\<in>set (epMachines ep). \<exists>t. run_state (scaleDownEtcdCluster E cluster ep []) s = (Done (noResult, None), t) \<and>
     theEC t = theEC s \<and> stored init (trace t) = filter (\<lambda>x. mName x \<noteq> mName m) (stored init (trace s))"
proof -
  have "candidates E ep [] \<noteq> []" and sub: "set (candidates E ep []) \<subseteq> set (epMachines ep)"
    using ne by (auto simp: candidates_def annotated_def)
  then obtain m where m: "selectMachineForScaleDown E ep [] = Done (Inr m)" "m \<in> set (candidates E ep [])"
    using chosen_candidate [OF laws removableD(1) [OF r]] by blast
  obtain t where "run_state (removeEtcdMachine E cluster (Some m) (getEtcdMachineAddress m)) s = (Done None, t)"
    "theEC t = theEC s" "stored init (trace t) = filter (\<lambda>x. mName x \<noteq> mName m) (stored init (trace s))"
    using run_removeEtcdMachine [OF r more] by blast
  then show ?thesis using m sub
    by (intro bexI [of _ m]) (auto simp: scaleDownEtcdCluster_def run_simps)
qed

text \<open>One pass over a cluster that is too big: one of its machines goes, the others stay.\<close>

lemma one_pass_down:
  assumes f: "friendly E cluster ec init" and r: "removable E cluster ec init" and set: "settled E ec n"
    and ec: "theEC s = ec" and ms: "ms = membersOf E cluster ec (stored init (trace s))"
    and owned: "\<forall>m\<in>set ms. col_OwnedMachines (coll E) ec m"
    and size: "sint n < int (length ms)" "1 \<le> sint n"
  shows "\<exists>t. \<exists>m\<in>set ms. run_state (reconcile E cluster) s = (Done (noResult, None), t) \<and> theEC t = ec \<and>
     membersOf E cluster ec (stored init (trace t)) = filter (\<lambda>x. mName x \<noteq> mName m) ms"
proof -
  note laws = friendlyD(2) [OF f]
  obtain ep s' where s': "theEC s' = ec" "stored init (trace s') = stored init (trace s)"
    "epMachines ep = ownedBy E ec ms"
    "run_state (reconcile E cluster) s = run_state (scaleStage E cluster ep (int (length ms)) 0 (sint n)) s'"
    using pass_reaches_scaling [OF f settledD [OF set] ec ms owned] by blast
  have calm: "\<not> IsFalse E ec InitializedCondition" using set by (simp add: settled_def)
  have more: "length (membersOf E cluster ec (stored init (trace s'))) > 1"
    using size by (simp add: s'(2) ms [symmetric])
  have eps: "set (epMachines ep) = set ms"
    using owned by (auto simp: s'(3) ownedBy_def set_col(1) [OF laws])
  then have "epMachines ep \<noteq> []" using size by auto
  with run_scaleDown [OF laws r more, of ep] obtain m t where m: "m \<in> set ms" "theEC t = ec"
    "run_state (scaleDownEtcdCluster E cluster ep []) s' = (Done (noResult, None), t)"
    "stored init (trace t) = filter (\<lambda>x. mName x \<noteq> mName m) (stored init (trace s))"
    using eps s'(1,2) by auto
  have "run_state (reconcile E cluster) s = run_state (scaleDownEtcdCluster E cluster ep []) s'"
    using size by (simp add: s'(1,4) scaleStage_def run_simps calm)
  moreover have "membersOf E cluster ec (stored init (trace t)) = filter (\<lambda>x. mName x \<noteq> mName m) ms"
    using f by (rule friendly_selector) (simp add: m(4) ms conj_commute)
  ultimately show ?thesis using m(1,2,3) by auto
qed

lemma length_without_name:
  "distinct (map mName ms) \<Longrightarrow> m \<in> set ms \<Longrightarrow> length (filter (\<lambda>x. mName x \<noteq> mName m) ms) = length ms - 1"
proof (induction ms)
  case (Cons x ms)
  show ?case
  proof (cases "x = m")
    case True
    then have "filter (\<lambda>x. mName x \<noteq> mName m) ms = ms"
      using Cons.prems(1) by (auto simp: filter_id_conv) (metis imageI)
    then show ?thesis using True by simp
  next
    case False
    then have m: "m \<in> set ms" using Cons.prems(2) by simp
    then have "mName x \<noteq> mName m" "length ms > 0" using Cons.prems(1) by (auto intro: rev_image_eqI)
    then show ?thesis using Cons m by simp
  qed
qed simp

lemma distinct_names_filter: "distinct (map f ms) \<Longrightarrow> distinct (map f (filter P ms))"
  by (induction ms) auto

lemma cluster_shrinks_to_size:
  assumes f: "friendly E cluster ec init" and r: "removable E cluster ec init" and set: "settled E ec n"
    and n: "1 \<le> sint n"
  shows "theEC s = ec \<Longrightarrow> ms = membersOf E cluster ec (stored init (trace s)) \<Longrightarrow>
     \<forall>m\<in>set ms. col_OwnedMachines (coll E) ec m \<Longrightarrow> distinct (map mName ms) \<Longrightarrow> sint n \<le> int (length ms) \<Longrightarrow>
     \<exists>P. membersOf E cluster ec (stored init (trace (passes E cluster k s))) = filter P ms \<and>
       int (length (filter P ms)) = max (sint n) (int (length ms) - int k) \<and> theEC (passes E cluster k s) = ec"
proof (induction k arbitrary: s ms)
  case 0
  then show ?case by (intro exI [of _ "\<lambda>_. True"]) simp
next
  case (Suc k)
  show ?case
  proof (cases "sint n = int (length ms)")
    case True
    then have "ms \<noteq> []" "int (length ms) \<le> sint n" using n by auto
    then show ?thesis
      using cluster_grows_to_size [OF f set Suc.prems(1,2,3), of "Suc k"] True
      by (auto intro: exI [of _ "\<lambda>_. True"])
  next
    case False
    then have "sint n < int (length ms)" using Suc.prems(5) by simp
    with one_pass_down [OF f r set Suc.prems(1,2,3) _ n] obtain t m where m: "m \<in> set ms" "theEC t = ec"
      "run_state (reconcile E cluster) s = (Done (noResult, None), t)"
      "membersOf E cluster ec (stored init (trace t)) = filter (\<lambda>x. mName x \<noteq> mName m) ms" by blast
    let ?ms = "filter (\<lambda>x. mName x \<noteq> mName m) ms"
    have len: "int (length ?ms) = int (length ms) - 1"
      using length_without_name [OF Suc.prems(4) m(1)] length_pos_if_in_set [OF m(1)] by linarith
    have "\<forall>m\<in>set ?ms. col_OwnedMachines (coll E) ec m" "distinct (map mName ?ms)" "sint n \<le> int (length ?ms)"
      using Suc.prems(3,4) len \<open>sint n < int (length ms)\<close> by (auto intro: distinct_names_filter)
    from Suc.IH [OF m(2) m(4) [symmetric] this] obtain P where P:
      "membersOf E cluster ec (stored init (trace (passes E cluster k t))) = filter P ?ms"
      "int (length (filter P ?ms)) = max (sint n) (int (length ?ms) - int k)" "theEC (passes E cluster k t) = ec"
      by blast
    then show ?thesis using m(3) len
      by (intro exI [of _ "\<lambda>x. mName x \<noteq> mName m \<and> P x"]) simp
  qed
qed

text \<open>C2: Against an API server that stores what it is told and an etcd that
  removes the members it is told to, a settled cluster whose machines are current (made from the
  config of the spec, and their infrastructure cloned from its template, where it says from which) with any number of machines but none has,
  after \<open>k\<close> passes of \<open>reconcile\<close>, come \<open>k\<close> machines closer to the number it asks for, or has that
  number and keeps it. On the way up no machine goes, and on the way down none is added; all are the
  cluster's own, and the object stays as it is.\<close>

theorem cluster_reaches_its_size:
  assumes f: "friendly E cluster ec init" and r: "removable E cluster ec init" and set: "settled E ec n"
    and n: "1 \<le> sint n" and ec: "theEC s = ec" and ms: "ms = membersOf E cluster ec (stored init (trace s))"
    and owned: "\<forall>m\<in>set ms. col_OwnedMachines (coll E) ec m" and names: "distinct (map mName ms)" and some: "ms \<noteq> []"
  shows "\<exists>ms'. membersOf E cluster ec (stored init (trace (passes E cluster k s))) = ms' \<and>
     int (length ms') = (if int (length ms) \<le> sint n then min (sint n) (int (length ms) + int k)
       else max (sint n) (int (length ms) - int k)) \<and>
     (if int (length ms) \<le> sint n then set ms \<subseteq> set ms' else set ms' \<subseteq> set ms) \<and>
     (\<forall>m\<in>set ms'. col_OwnedMachines (coll E) ec m) \<and> theEC (passes E cluster k s) = ec"
proof (cases "int (length ms) \<le> sint n")
  case True
  then show ?thesis
    using cluster_grows_to_size [OF f set ec ms owned some True, of k] owned by (auto simp: list_all_iff)
next
  case False
  then obtain P where
    "membersOf E cluster ec (stored init (trace (passes E cluster k s))) = filter P ms"
    "int (length (filter P ms)) = max (sint n) (int (length ms) - int k)" "theEC (passes E cluster k s) = ec"
    using cluster_shrinks_to_size [OF f r set n ec ms owned names] by (auto simp: not_le)
  then show ?thesis using False owned by (intro exI [of _ "filter P ms"]) auto
qed

text \<open>Five machines, three of them asked for, and the etcd client the manager sets up.\<close>

definition named_member :: "string \<Rightarrow> Machine" where
  "named_member n = first_member\<lparr>mMeta := (mMeta first_member)\<lparr>Name := n\<rparr>\<rparr>"

definition five_members :: Machines where
  "five_members = map named_member [''a'', ''b'', ''c'', ''d'', ''e'']"

lemma five_members_mine:
  "EtcdClusterMachines (friendly_env init) (ref_selector ''c1'' ''etcd'') (Some (named_member n))"
  "col_OwnedMachines (coll (friendly_env init)) ref_ec (named_member n)"
  using first_member_mine [of init]
  by (simp_all add: EtcdClusterMachines_def named_member_def friendly_fields ref_collections_def)

lemma friendly_client:
  "\<exists>c. gives init (GetEtcdClient (friendly_env init) ref_cluster eps) s (Inr (Some c))"
  by (simp add: gives_def friendly_fields generateEtcdClient_def lookupCert_def getCACert_def getClientCerts_def
      run_simps call_defs friendly_svc_def ref_svc_def ref_capi_def ref_keyPair_def unchanged_def stored_append)

lemma friendly_removable: "removable (friendly_env init) ref_cluster ref_ec init"
proof -
  have "length (membersOf (friendly_env init) ref_cluster ref_ec ms) \<le> length ms" for ms
    by (simp add: membersOf_def friendly_selects(1))
  then have "length (membersOf (friendly_env init) ref_cluster ref_ec (stored init h)) > 1 \<longrightarrow>
      length (map memberOf (stored init h)) > 1" for h
    using order_less_le_trans by auto
  then show ?thesis using friendly_client unfolding removable_def
    by (auto simp: friendly_fields friendly_svc_def ref_svc_def)
qed

theorem cluster_reaches_its_size_witness:
  "length (membersOf (friendly_env five_members) ref_cluster ref_ec
     (stored five_members (trace (passes (friendly_env five_members) ref_cluster 1 ref_sys)))) = 4 \<and>
   length (membersOf (friendly_env five_members) ref_cluster ref_ec
     (stored five_members (trace (passes (friendly_env five_members) ref_cluster 9 ref_sys)))) = 3"
proof -
  let ?E = "friendly_env five_members"
  have ec: "theEC ref_sys = ref_ec" by (simp add: ref_sys_def)
  have ms: "five_members = membersOf ?E ref_cluster ref_ec (stored five_members (trace ref_sys))"
    using five_members_mine(1) by (simp add: friendly_start five_members_def)
  have owned: "\<forall>m\<in>set five_members. col_OwnedMachines (coll ?E) ref_ec m"
    using five_members_mine(2) by (simp add: five_members_def)
  have names: "distinct (map mName five_members)" by (simp add: five_members_def named_member_def)
  have n: "1 \<le> sint (3 :: 32 word)" and some: "five_members \<noteq> []" by (simp_all add: five_members_def)
  note reaches = cluster_reaches_its_size
    [OF friendly_world friendly_removable friendly_settled n ec ms owned names some]
  show ?thesis using reaches [of 1] reaches [of 9] by (simp add: five_members_def)
qed

end
