(* ===== verification/Panic_Free.thy ===== *)
theory Panic_Free
  imports Reconcile Reference
begin

text \<open>
  When a reconciliation returns: rules for programs that return from every state with an invariant,
  in the manner of a logic of total correctness, and with them every operation of the reconciler. The
  places where the code could panic become side conditions, and the property says what the outside
  and the object must give for none of them to happen.
\<close>

section \<open>Programs that return\<close>

text \<open>From every state with \<open>I\<close> the program returns a value with \<open>Q\<close>, in a state with \<open>I\<close>.\<close>

definition returns :: "('s \<Rightarrow> bool) \<Rightarrow> ('a \<Rightarrow> bool) \<Rightarrow> ('s, 'a) prog \<Rightarrow> bool" where
  "returns I Q m \<longleftrightarrow> (\<forall>s. I s \<longrightarrow> (\<exists>x t. run_state m s = (Done x, t) \<and> Q x \<and> I t))"

abbreviation quiet :: "('s \<Rightarrow> bool) \<Rightarrow> ('s, 'a) prog \<Rightarrow> bool" where
  "quiet I m \<equiv> returns I (\<lambda>_. True) m"

lemma returnsE:
  assumes "returns I Q m" and "I s"
  obtains x t where "run_state m s = (Done x, t)" "Q x" "I t"
  using assms unfolding returns_def by blast

lemma returns_quiet: "returns I Q m \<Longrightarrow> quiet I m"
  unfolding returns_def by blast

lemma returns_ret: "Q x \<Longrightarrow> returns I Q (ret x)"
  by (simp add: returns_def)

lemma returns_bnd: "returns I P m \<Longrightarrow> (\<And>x. P x \<Longrightarrow> returns I Q (f x)) \<Longrightarrow> returns I Q (bnd m f)"
  unfolding returns_def by (fastforce simp: run_bnd)

lemma returns_read: "(\<And>s. I s \<Longrightarrow> returns I Q (f (g s))) \<Longrightarrow> returns I Q (bnd (gets g) f)"
  unfolding returns_def by (fastforce simp: run_bnd)

lemma returns_tryErr:
  assumes "returns I P m" and "\<And>e. P (Inl e) \<Longrightarrow> Q (h e)" and "\<And>x. P (Inr x) \<Longrightarrow> returns I Q (k x)"
  shows "returns I Q (tryErr m h k)"
  unfolding tryErr_def
  by (rule returns_bnd [OF assms(1)]) (auto intro: returns_ret assms(2,3) split: sum.split)

lemma quiet_ret: "quiet I (ret x)" and quiet_gets: "quiet I (gets g)"
  by (simp_all add: returns_def)

lemma quiet_modify: "(\<And>s. I s \<Longrightarrow> I (g s)) \<Longrightarrow> quiet I (modify g)"
  by (simp add: returns_def)

lemma quiet_bnd: "quiet I m \<Longrightarrow> (\<And>x. quiet I (f x)) \<Longrightarrow> quiet I (bnd m f)"
  by (rule returns_bnd)

lemma quiet_seq: "quiet I m \<Longrightarrow> quiet I k \<Longrightarrow> quiet I (seq m k)"
  unfolding seq_def by (rule quiet_bnd)

lemma quiet_tryErr: "quiet I m \<Longrightarrow> (\<And>x. quiet I (k x)) \<Longrightarrow> quiet I (tryErr m h k)"
  by (rule returns_tryErr)

lemma quiet_checkErr: "quiet I m \<Longrightarrow> quiet I k \<Longrightarrow> quiet I (checkErr m h k)"
  unfolding checkErr_def by (rule quiet_bnd) (auto intro: quiet_ret split: option.split)

lemma quiet_orPanic: "x \<noteq> None \<Longrightarrow> (\<And>y. x = Some y \<Longrightarrow> quiet I (k y)) \<Longrightarrow> quiet I (orPanic msg x k)"
  by (auto simp: orPanic_def)

lemma quiet_orElse: "quiet I m \<Longrightarrow> quiet I k \<Longrightarrow> quiet I (orElse m k)"
  unfolding orElse_def by (rule quiet_bnd) (auto intro: quiet_ret split: option.split)

lemma quiet_forReturn: "(\<And>x. x \<in> set xs \<Longrightarrow> quiet I (f x)) \<Longrightarrow> quiet I (forReturn f xs)"
proof (induction xs)
  case (Cons x xs)
  then show ?case by (auto intro!: quiet_bnd quiet_ret split: option.split)
qed (simp add: quiet_ret)

lemma quiet_withDefer: "quiet I body \<Longrightarrow> (\<And>x. quiet I (d x)) \<Longrightarrow> quiet I (withDefer zero body d)"
  unfolding returns_def by (fastforce simp: run_withDefer)

lemma quiet_if: "(b \<Longrightarrow> quiet I m) \<Longrightarrow> (\<not> b \<Longrightarrow> quiet I n) \<Longrightarrow> quiet I (if b then m else n)"
  by simp

lemma quiet_case_option:
  "quiet I f \<Longrightarrow> (\<And>y. x = Some y \<Longrightarrow> quiet I (g y)) \<Longrightarrow> quiet I (case x of None \<Rightarrow> f | Some y \<Rightarrow> g y)"
  by (cases x) simp_all

lemma quiet_case_sum:
  "(\<And>e. x = Inl e \<Longrightarrow> quiet I (f e)) \<Longrightarrow> (\<And>y. x = Inr y \<Longrightarrow> quiet I (g y)) \<Longrightarrow>
   quiet I (case x of Inl e \<Rightarrow> f e | Inr y \<Rightarrow> g y)"
  by (cases x) simp_all

lemma quiet_let: "(\<And>y. y = x \<Longrightarrow> quiet I (f y)) \<Longrightarrow> quiet I (let y = x in f y)"
  by simp

lemmas quiet_intros =
  quiet_ret quiet_gets quiet_bnd quiet_seq quiet_tryErr quiet_checkErr quiet_orPanic quiet_orElse
  quiet_forReturn quiet_withDefer quiet_if quiet_case_option quiet_case_sum quiet_let

section \<open>What a reconciliation needs\<close>

text \<open>
  Of the outside: the libraries' laws about collections; listings give only what the filter admits,
  and a selector with requirements admits no machine without labels; a CA that was looked up or
  generated has its key pair, in PEM; a Secret that was read has data.
\<close>

definition usable :: "env \<Rightarrow> Certificate \<Rightarrow> bool" where
  "usable E c \<longleftrightarrow> (case certKeyPair c of None \<Rightarrow> False
     | Some kp \<Rightarrow> pem_Decode (capi E) (kpCert kp) \<noteq> None \<and> pem_Decode (capi E) (kpKey kp) \<noteq> None)"

definition sound :: "env \<Rightarrow> Cluster \<Rightarrow> bool" where
  "sound E cluster \<longleftrightarrow>
     collections_laws (coll E) \<and> choice_laws (coll E) \<and>
     (\<forall>h rd f ms. k_ListMachines (svc E) h rd cluster f = Inr ms \<longrightarrow> list_all f ms) \<and>
     (\<forall>rs. rs \<noteq> [] \<longrightarrow> \<not> labels_Matches (capi E) rs None) \<and>
     (\<forall>h cs k own certs p c. k_LookupOrGenerateCerts (svc E) h cs k own = Inr certs \<and>
        certs_GetByPurpose (capi E) certs p = Some c \<longrightarrow> usable E c) \<and>
     (\<forall>h k secret. k_GetSecret (svc E) h k = Inr secret \<longrightarrow> secData secret \<noteq> None)"

lemma soundD:
  assumes "sound E cluster"
  shows "collections_laws (coll E)" "choice_laws (coll E)"
    "k_ListMachines (svc E) h rd cluster f = Inr ms \<Longrightarrow> list_all f ms"
    "rs \<noteq> [] \<Longrightarrow> \<not> labels_Matches (capi E) rs None"
    "k_LookupOrGenerateCerts (svc E) h cs k own = Inr certs \<Longrightarrow>
     certs_GetByPurpose (capi E) certs p = Some c \<Longrightarrow> usable E c"
    "k_GetSecret (svc E) h key = Inr secret \<Longrightarrow> secData secret \<noteq> None"
  using assms unfolding sound_def by blast+

text \<open>Of the object, as it is in memory: it says how many machines it wants, and its name and that of
  its Cluster are valid values of labels. Nothing the reconciler writes into it touches these.\<close>

definition fit :: "env \<Rightarrow> Cluster \<Rightarrow> sys \<Rightarrow> bool" where
  "fit E cluster s \<longleftrightarrow> Replicas (ecSpec (theEC s)) \<noteq> None \<and>
     EtcdMachinesSelectorForCluster E (clName cluster) (Name (ecMeta (theEC s))) \<noteq> None"

lemma fit_frame [simp]:
  "fit E cl (s\<lparr>trace := h\<rparr>) = fit E cl s" "fit E cl (s\<lparr>clusterToHttpClient := c\<rparr>) = fit E cl s"
  by (simp_all add: fit_def)

lemma fit_call: "quiet (fit E' cl) (call ev f)"
  by (simp add: returns_def)

lemma fit_answer: "(\<And>h. Q (f h)) \<Longrightarrow> returns (fit E' cl) Q (call ev f)"
  by (simp add: returns_def)

lemma fit_range_over: "returns (fit E' cl) (\<lambda>ys. set ys = set xs) (range_over E site xs)"
  by (simp add: returns_def)

lemma fit_EC:
  "(\<And>ec. Replicas (ecSpec (g ec)) = Replicas (ecSpec ec) \<and> Name (ecMeta (g ec)) = Name (ecMeta ec)) \<Longrightarrow>
   quiet (fit E' cl) (modifyEC g)"
  "quiet (fit E' cl) (modifyStatus f)" "quiet (fit E' cl) (MarkTrue E t)"
  "quiet (fit E' cl) (MarkFalse E t reason severity msg)" "quiet (fit E' cl) (SetSummary E ts)"
  by (simp_all add: modifyEC_def modifyStatus_def MarkTrue_def MarkFalse_def SetSummary_def returns_def fit_def)

lemmas fit_intros = quiet_intros fit_call returns_quiet [OF fit_range_over] fit_EC

section \<open>The operations\<close>

text \<open>A listing, with what the filter says of the machines it gives.\<close>

lemma fit_listing:
  assumes "sound E cluster" and "EtcdMachinesSelectorForCluster E (clName cluster) n \<noteq> None"
  shows "returns (fit E' cl) (\<lambda>r. case r of Inl _ \<Rightarrow> True
     | Inr ms \<Rightarrow> \<forall>m\<in>set ms. Labels (mMeta m) \<noteq> None) (listEtcdMachines E rd cluster n)"
proof -
  obtain sel where sel: "EtcdMachinesSelectorForCluster E (clName cluster) n = Some sel" using assms(2) by auto
  then have "sel \<noteq> []" by (auto simp: EtcdMachinesSelectorForCluster_def split: sum.splits)
  then have "EtcdClusterMachines E sel (Some m) \<Longrightarrow> Labels (mMeta m) \<noteq> None" for m
    using soundD(4) [OF assms(1)] by (cases "Labels (mMeta m)") (auto simp: EtcdClusterMachines_def)
  moreover have "list_all f ms" if "k_ListMachines (svc E) h rd cluster f = Inr ms" for h f ms
    using soundD(3) [OF assms(1) that] .
  ultimately show ?thesis
    unfolding listEtcdMachines_def call_ListMachines_def sel orPanic_def option.case
    by (intro fit_answer) (fastforce simp: list_all_iff split: sum.split)
qed

lemma fit_infra_loop: "quiet (fit E' cl) (getInfraResources_loop E result ms)"
  by (induction E result ms rule: getInfraResources_loop.induct)
    (auto simp: call_ExternalGet_def simp del: fun_upd_apply intro!: fit_intros)

lemma fit_config_loop: "quiet (fit E' cl) (getEtcdadmConfigs_loop E result ms)"
  by (induction E result ms rule: getEtcdadmConfigs_loop.induct)
    (auto simp: call_GetEtcdadmConfig_def simp del: fun_upd_apply intro!: fit_intros)

lemma fit_NewEtcdPlane: "quiet (fit E' cl) (NewEtcdPlane E cluster ec ms)"
  unfolding NewEtcdPlane_def getInfraResources_def getEtcdadmConfigs_def newPatchHelpers_def call_NewPatchHelper_def
  by (intro fit_intros fit_infra_loop fit_config_loop)

lemma fit_externalReference: "quiet (fit E' cl) (reconcileExternalReference E cluster ref)"
  unfolding reconcileExternalReference_def call_defs by (intro fit_intros)

lemma fit_getCACert: "quiet (fit E' cl) (getCACert E cluster)"
  and fit_getClientCerts: "quiet (fit E' cl) (getClientCerts E cluster)"
  unfolding getCACert_def getClientCerts_def call_LookupCerts_def by (intro fit_intros)+

lemma fit_clone: "quiet (fit E' cl) (cloneConfigsAndGenerateMachine E cluster fd)"
  unfolding cloneConfigsAndGenerateMachine_def generateEtcdadmConfig_def generateMachine_def call_defs
  by (intro fit_intros)

lemma fit_certs:
  assumes "sound E cluster"
  shows "quiet (fit E' cl) (generateCAandClientCertSecrets E cluster)"
proof -
  let ?P = "\<lambda>r. \<forall>certs p c. r = Inr certs \<and> certs_GetByPurpose (capi E) certs p = Some c \<longrightarrow> usable E c"
  have answer: "returns (fit E' cl) ?P (call_LookupOrGenerateCerts E cs k own)" for cs k own
    unfolding call_LookupOrGenerateCerts_def using soundD(5) [OF assms] by (intro fit_answer) blast
  have parts: "usable E c \<Longrightarrow> certKeyPair c \<noteq> None"
    "usable E c \<Longrightarrow> certKeyPair c = Some kp \<Longrightarrow> pem_Decode (capi E) (kpCert kp) \<noteq> None"
    "usable E c \<Longrightarrow> certKeyPair c = Some kp \<Longrightarrow> pem_Decode (capi E) (kpKey kp) \<noteq> None" for c kp
    by (auto simp: usable_def split: option.splits)
  show ?thesis
    unfolding generateCAandClientCertSecrets_def call_NewCertAndKey_def call_CreateOrPatchSecret_def
      call_CreateSecret_def
    by (rule quiet_bnd [OF quiet_gets], rule returns_tryErr [OF answer])
      (auto intro!: fit_intros dest: parts)
qed

text \<open>Choosing a machine to scale down does not panic: among some machines there is an oldest one.\<close>

lemma select_returns:
  assumes "choice_laws (coll E)"
  shows "\<exists>r. selectMachineForScaleDown E ep outs = Done r"
proof -
  have "\<exists>fd. FailureDomainWithMostMachines E ep ms = Done fd" for ms
  proof (cases "col_Filter (coll E) (col_Not (coll E) (col_InFailureDomains (coll E) (map fdName (FailureDomains ep)))) ms = []")
    case False
    then obtain m where "col_Oldest (coll E)
        (col_Filter (coll E) (col_Not (coll E) (col_InFailureDomains (coll E) (map fdName (FailureDomains ep)))) ms) = Some m"
      using oldest_exists [OF assms] by blast
    then show ?thesis by (simp add: FailureDomainWithMostMachines_def Let_def)
  qed (simp add: FailureDomainWithMostMachines_def Let_def)
  then obtain fd where "FailureDomainWithMostMachines E ep (scaleDownCandidates E ep outs) = Done fd" by blast
  then show ?thesis
    by (auto simp: selectMachineForScaleDown_def MachineInFailureDomainWithMostMachines_def Let_def split: option.split)
qed

lemma fit_upgrade:
  assumes "choice_laws (coll E)"
  shows "quiet (fit E' cl) (upgradeEtcdCluster E cluster ep ms)"
proof -
  obtain r where "selectMachineForScaleDown E ep ms = Done r" using select_returns [OF assms] by blast
  then have "quiet (fit E' cl) (removeFromListOfOwnedMachines E ep ms)"
    unfolding removeFromListOfOwnedMachines_def call_UpdateMachine_def by (auto intro!: fit_intros)
  then show ?thesis
    unfolding upgradeEtcdCluster_def scaleUpEtcdCluster_def withoutResult_def
    by (intro returns_read fit_intros fit_clone) (simp_all add: fit_def)
qed

lemma fit_httpClient: "quiet (fit E' cl) (getEtcdHttpClient E cluster)"
  unfolding getEtcdHttpClient_def by (intro fit_intros fit_getCACert fit_getClientCerts quiet_modify) simp

lemma fit_isPortOpen: "quiet (fit E' cl) (isPortOpen E host)"
  unfolding isPortOpen_def call_Dial_def by (intro fit_intros)

lemma fit_healthCheck:
  assumes "\<And>host. quiet (fit E' cl) (r_isPortOpen E host)"
  shows "quiet (fit E' cl) (performEndpointHealthCheck E cluster endpoint verbose)"
  unfolding performEndpointHealthCheck_def call_HttpGet_def
  by (intro fit_intros fit_httpClient assms)

lemma fit_waitForNewest:
  assumes probe: "\<And>host. quiet (fit E' cl) (r_isPortOpen E host)" and choice: "choice_laws (coll E)"
    and some: "UpToDateMachines E ep \<noteq> []"
  shows "quiet (fit E' cl) (waitForNewestMachine E cluster ep)"
proof -
  have "NewestUpToDateMachine E ep \<noteq> None"
    using choice some unfolding NewestUpToDateMachine_def choice_laws_def by auto
  then show ?thesis
    unfolding waitForNewestMachine_def call_Now_def by (intro fit_intros fit_healthCheck [OF probe])
qed

lemma fit_onlyIf: "quiet (fit E' cl) m \<Longrightarrow> quiet (fit E' cl) (onlyIf b m)"
  unfolding onlyIf_def by (intro fit_intros)

lemma fit_deleteAnnotation: "quiet (fit E' cl) (deleteAnnotation k)"
  unfolding deleteAnnotation_def by (rule fit_EC(1)) simp

lemma fit_rollout:
  assumes probe: "\<And>host. quiet (fit E' cl) (r_isPortOpen E host)" and sound: "sound E cluster"
  shows "quiet (fit E' cl) (rolloutStage E cluster ep ms n m d)"
  unfolding rolloutStage_def rolloutCase_def rolloutDone_def
  by (intro fit_intros fit_upgrade fit_certs fit_onlyIf fit_deleteAnnotation fit_waitForNewest probe sound
      soundD(2) [OF sound]) simp

text \<open>Removing a member, with any function that gets a client.\<close>

lemma fit_remove:
  assumes client: "\<And>eps. quiet (fit E' cl) (GetEtcdClient E cluster eps)"
  shows "quiet (fit E' cl) (removeEtcdMachine E cluster m address)"
  unfolding removeEtcdMachine_def removeEtcdMemberAndDeleteMachine_def deleteMachineIfAny_def deleteMachine_def
    call_MemberList_def call_MemberRemove_def call_DeleteMachine_def call_CloseEtcdClient_def
  by (intro fit_intros client)

lemma fit_outdated:
  assumes client: "\<And>eps. quiet (fit E' cl) (GetEtcdClient E cluster eps)"
  shows "quiet (fit E' cl) (outdatedStage E cluster ms owned)"
  unfolding outdatedStage_def removeOutdated_def
  by (intro fit_intros fit_onlyIf fit_deleteAnnotation fit_remove client)

lemma fit_scaleDown:
  assumes client: "\<And>eps. quiet (fit E' cl) (GetEtcdClient E cluster eps)" and choice: "choice_laws (coll E)"
  shows "quiet (fit E' cl) (scaleDownEtcdCluster E cluster ep ms)"
proof -
  obtain r where "selectMachineForScaleDown E ep ms = Done r" using select_returns [OF choice] by blast
  then show ?thesis
    unfolding scaleDownEtcdCluster_def by (auto intro!: fit_intros fit_remove client)
qed

lemma fit_scale:
  assumes client: "\<And>eps. quiet (fit E' cl) (GetEtcdClient E cluster eps)" and sound: "sound E cluster"
  shows "quiet (fit E' cl) (scaleStage E cluster ep n m d)"
  unfolding scaleStage_def intializeEtcdCluster_def scaleUpEtcdCluster_def
  by (intro fit_intros fit_certs fit_clone fit_scaleDown fit_onlyIf fit_deleteAnnotation client sound
      soundD(2) [OF sound])

text \<open>The selector of the object in memory exists, whatever program asks for it.\<close>

lemma fit_selector:
  "fit E cl s \<Longrightarrow> EtcdMachinesSelectorForCluster E (clName cl) (Name (ecMeta (theEC s))) \<noteq> None"
  "fit E cl s \<Longrightarrow> Replicas (ecSpec (theEC s)) \<noteq> None"
  by (simp_all add: fit_def)

lemma fit_reconcile:
  assumes client: "\<And>eps. quiet (fit E cl) (GetEtcdClient E cl eps)"
    and probe: "\<And>host. quiet (fit E cl) (r_isPortOpen E host)" and sound: "sound E cl"
  shows "quiet (fit E cl) (reconcile E cl)"
  unfolding reconcile_def
  by (rule returns_read, frule fit_selector(1), drule fit_selector(2))
    (intro fit_intros fit_externalReference fit_NewEtcdPlane fit_outdated fit_rollout fit_scale client probe sound
      returns_quiet [OF fit_listing])

lemma fit_deleteMachines: "quiet (fit E' cl) (deleteMachines E errors ms)"
  by (induction ms arbitrary: errors) (auto simp: call_DeleteMachine_def intro!: fit_intros)

lemma fit_reconcileDelete:
  assumes sound: "sound E cl"
  shows "quiet (fit E cl) (reconcileDelete E cl)"
  unfolding reconcileDelete_def call_RecordEvent_def
  by (rule returns_read, drule fit_selector(1))
    (intro fit_intros fit_deleteMachines returns_quiet [OF fit_listing] sound, simp_all)

text \<open>The machines checked have labels, so that one more can be written.\<close>

definition labelled :: "etcdMachines \<Rightarrow> bool" where
  "labelled ms \<longleftrightarrow> (\<forall>(_, m)\<in>set ms. Labels (mMeta (emMachine m)) \<noteq> None)"

lemma fit_checkMachine:
  assumes probe: "\<And>host. quiet (fit E' cl) (r_isPortOpen E host)"
  shows "returns (fit E' cl) (\<lambda>e. emMachine e = m) (checkMachine E cluster m)"
proof -
  have "quiet (fit E' cl) (performEndpointHealthCheck E cluster (getMachineEtcdEndpoint m) True)"
    by (rule fit_healthCheck [OF probe])
  then show ?thesis
    by (simp add: checkMachine_def Let_def returns_ret) (auto intro!: returns_bnd returns_ret)
qed

lemma fit_checkMachines:
  assumes probe: "\<And>host. quiet (fit E' cl) (r_isPortOpen E host)"
  shows "\<forall>m\<in>set ms. Labels (mMeta m) \<noteq> None \<Longrightarrow> returns (fit E' cl) labelled (checkMachines E cluster ms)"
proof (induction ms)
  case (Cons m ms)
  have "returns (fit E' cl) labelled (bnd (checkMachine E cluster m) (\<lambda>x.
      bnd (checkMachines E cluster ms) (\<lambda>xs. ret ((mName m, x) # xs))))"
    by (rule returns_bnd [OF fit_checkMachine [OF probe]], rule returns_bnd [OF Cons.IH])
      (use Cons.prems in \<open>auto intro!: returns_ret simp: labelled_def\<close>)
  then show ?case by simp
qed (simp add: returns_ret labelled_def)

lemma fit_checkOwnedMachines:
  assumes probe: "\<And>host. quiet (fit E cl) (r_isPortOpen E host)" and sound: "sound E cl"
  shows "returns (fit E cl) (\<lambda>r. case r of Inl _ \<Rightarrow> True | Inr ms \<Rightarrow> labelled ms) (checkOwnedMachines E cl)"
proof -
  let ?P = "\<lambda>r. case r of Inl _ \<Rightarrow> True | Inr ms \<Rightarrow> \<forall>m\<in>set ms. Labels (mMeta m) \<noteq> None"
  have owned: "returns (fit E cl) ?P (getCurrentOwnedMachines E cl)"
    unfolding getCurrentOwnedMachines_def
    by (rule returns_read, drule fit_selector(1), rule returns_tryErr [OF fit_listing [OF sound]])
      (auto intro!: returns_ret simp: set_col(1) [OF soundD(1) [OF sound]])
  show ?thesis
    unfolding checkOwnedMachines_def
    by (rule returns_tryErr [OF owned], simp, rule returns_bnd [OF fit_range_over],
        rule returns_bnd [OF fit_checkMachines [OF probe]]) (auto intro!: returns_ret)
qed

lemma fit_readyLabel:
  assumes "labelled ms"
  shows "quiet (fit E' cl) (updateMachinesEtcdReadyLabel E ms)"
proof -
  have "quiet (fit E' cl) (labelIfHealthy E m)" if "Labels (mMeta (emMachine m)) \<noteq> None" for m
    unfolding labelIfHealthy_def call_UpdateMachine_def
    using that by (intro fit_intros) (auto simp: map_put_def)
  then have "quiet (fit E' cl) (forReturn (\<lambda>(_, m). labelIfHealthy E m) xs)" if "set xs = set ms" for xs
    using assms that by (intro quiet_forReturn) (auto simp: labelled_def)
  then show ?thesis
    unfolding updateMachinesEtcdReadyLabel_def
    by (intro returns_bnd [OF fit_range_over] quiet_orElse quiet_ret) simp
qed

lemma fit_updateStatus:
  assumes sound: "sound E cl"
  shows "quiet (fit E cl) (updateStatus E cl ms)"
proof -
  have first: "quiet (fit E cl) (firstUnhealthy ns)" for ns
    by (induction ns) (auto simp: setReady_def intro!: fit_intros)
  have secret: "returns (fit E cl) (\<lambda>r. case r of Inl _ \<Rightarrow> True | Inr x \<Rightarrow> secData x \<noteq> None) (call_GetSecret E k)" for k
    unfolding call_GetSecret_def using soundD(6) [OF sound] by (intro fit_answer) (auto split: sum.split)
  have init: "quiet (fit E cl) (updateInitSecret E cl eps curr)" for eps curr
    unfolding updateInitSecret_def call_UpdateSecret_def
    by (rule quiet_bnd [OF quiet_gets], rule returns_tryErr [OF secret], simp)
      (intro fit_intros, auto simp: map_put_def)
  show ?thesis
    unfolding updateStatus_def updateEndpoints_def setReady_def
    by (rule returns_read, frule fit_selector(1), drule fit_selector(2)) (intro fit_intros init first, simp_all)
qed

lemma fit_deferred:
  assumes probe: "\<And>host. quiet (fit E cl) (r_isPortOpen E host)" and sound: "sound E cl"
  shows "quiet (fit E cl) (deferredStatus E base cl result)"
  unfolding deferredStatus_def patchEtcdCluster_def call_PatchEtcdadmCluster_def setReady_def
  by (rule returns_bnd [OF fit_checkOwnedMachines [OF probe sound]])
    (auto split: sum.split intro!: fit_intros fit_readyLabel fit_updateStatus fit_onlyIf sound)

lemma fit_reconcileObject:
  assumes client: "\<And>eps. quiet (fit E cl) (GetEtcdClient E cl eps)"
    and probe: "\<And>host. quiet (fit E cl) (r_isPortOpen E host)" and sound: "sound E cl"
  shows "quiet (fit E cl) (reconcileObject E ec cl)"
  unfolding reconcileObject_def call_NewPatchHelper_def call_PatchEtcdadmCluster_def
  by (intro fit_intros fit_reconcile fit_reconcileDelete fit_deferred client probe sound) simp

text \<open>The functions the manager sets the reconciler up with.\<close>

lemma fit_wired:
  "quiet (fit E' cl) (GetEtcdClient (SetupWithManager_env E None) cluster eps)"
  "quiet (fit E' cl) (r_isPortOpen (SetupWithManager_env E None) host)"
  unfolding SetupWithManager_env_functions option.case generateEtcdClient_def call_NewEtcdClient_def
  by (intro fit_intros fit_getCACert fit_getClientCerts, rule fit_isPortOpen)

lemma sound_wired: "sound (SetupWithManager_env E p) cl = sound E cl"
proof -
  have "usable (SetupWithManager_env E p) c = usable E c" for c
    unfolding usable_def SetupWithManager_env_fields ..
  then show ?thesis unfolding sound_def SetupWithManager_env_fields by simp
qed

lemma selector_wired:
  "EtcdMachinesSelectorForCluster (SetupWithManager_env E p) c n = EtcdMachinesSelectorForCluster E c n"
  unfolding EtcdMachinesSelectorForCluster_def SetupWithManager_env_fields ..

section \<open>The property\<close>

text \<open>C12: A reconciliation returns, whatever calls fail, if the object it reads says
  how many machines it wants and its name and its Cluster's are valid values of labels, and if the
  outside is sound: listings give what the filter admits, certificates come with PEM key pairs, the
  Secrets read have data, and a choice among some machines names one of them.\<close>

theorem Reconcile_never_panics:
  assumes object: "\<And>ec. k_GetEtcdadmCluster (svc E) (trace s) key = Inr ec \<Longrightarrow> Replicas (ecSpec ec) \<noteq> None"
    and names: "\<And>ec cl h. k_GetEtcdadmCluster (svc E) (trace s) key = Inr ec \<Longrightarrow>
      k_GetOwnerCluster (svc E) h (ecMeta ec) = Inr (Some cl) \<Longrightarrow>
      EtcdMachinesSelectorForCluster E (clName cl) (Name (ecMeta ec)) \<noteq> None"
    and outside: "\<And>cl. sound E cl"
  shows "\<exists>result. fst (run_state (Reconcile (SetupWithManager_env E None) key) s) = Done result"
proof (cases "k_GetEtcdadmCluster (svc E) (trace s) key")
  case (Inl e)
  then show ?thesis by (simp add: Reconcile_def call_GetEtcdadmCluster_def run_simps)
next
  case (Inr ec)
  let ?E = "SetupWithManager_env E None"
  let ?s1 = "s\<lparr>trace := trace s @ [EvGetEtcdadmCluster key (Inr ec)], theEC := ec\<rparr>"
  let ?s2 = "?s1\<lparr>trace := trace ?s1 @ [EvGetOwnerCluster (ecMeta ec) (k_GetOwnerCluster (svc E) (trace ?s1) (ecMeta ec))]\<rparr>"
  have run: "run_state (Reconcile ?E key) s =
      (case k_GetOwnerCluster (svc E) (trace ?s1) (ecMeta ec) of
         Inl e \<Rightarrow> (Done (noResult, Some e), ?s2) | Inr None \<Rightarrow> (Done (noResult, None), ?s2)
       | Inr (Some cl) \<Rightarrow> run_state (reconcileObject ?E ec cl) ?s2)"
    using Inr by (simp add: Reconcile_def call_defs run_simps split: sum.split option.split)
  show ?thesis
  proof (cases "\<exists>cl. k_GetOwnerCluster (svc E) (trace ?s1) (ecMeta ec) = Inr (Some cl)")
    case True
    then obtain cl where cl: "k_GetOwnerCluster (svc E) (trace ?s1) (ecMeta ec) = Inr (Some cl)" by blast
    have "sound ?E cl" using outside [of cl] by (simp only: sound_wired)
    then have "quiet (fit ?E cl) (reconcileObject ?E ec cl)" by (rule fit_reconcileObject [OF fit_wired])
    moreover have "fit ?E cl ?s2"
      using object [OF Inr] names [OF Inr cl] by (simp add: fit_def selector_wired)
    ultimately obtain x t where "run_state (reconcileObject ?E ec cl) ?s2 = (Done x, t)" by (rule returnsE)
    then show ?thesis using run cl by simp
  next
    case False
    then show ?thesis using run by (auto split: sum.split option.split)
  qed
qed

definition live_env :: env where
  "live_env = with_svc (\<lambda>v. v\<lparr>k_GetEtcdadmCluster := (\<lambda>h k. Inr ref_ec),
     k_GetOwnerCluster := (\<lambda>h om. Inr (Some ref_cluster)), k_ListMachines := (\<lambda>h rd cl f. Inr (filter f [ref_machine ''m1'' ''10.0.0.1'']))\<rparr>)"

lemma live_env_sound: "sound live_env cl"
proof -
  have laws: "collections_laws (coll live_env)" "choice_laws (coll live_env)" by (simp_all add: live_env_def)
  have "usable live_env c" if "find P (map ref_keyPair cs) = Some c" for P cs c
    using that by (auto simp: find_Some_iff usable_def live_env_def ref_keyPair_def ref_capi_def)
  moreover have "\<not> labels_Matches (capi live_env) rs None" if "rs \<noteq> []" for rs
    using that by (cases rs) (simp_all add: live_env_def ref_capi_def)
  ultimately show ?thesis
    using laws unfolding sound_def by (auto simp: live_env_def ref_svc_def ref_capi_def)
qed

theorem Reconcile_never_panics_witness:
  "\<exists>result. fst (run_state (Reconcile (SetupWithManager_env live_env None)
     \<lparr>keyNamespace = ''ns'', keyName = ''etcd''\<rparr>) ref_sys) = Done result"
  by (rule Reconcile_never_panics [OF _ _ live_env_sound])
    (auto simp: live_env_def ref_ec_def EtcdMachinesSelectorForCluster_def ref_capi_def)

end
