(* ===== verification/Controller_Correct.thy ===== *)
theory Controller_Correct
  imports Reconcile Periodic_Correct
begin

text \<open>
  The reconciler and the health-check loop together: they take turns, in any order, and share the
  process's memory. What each of them leaves alone, and what survives all turns.
\<close>

section \<open>Leaving memory alone\<close>

text \<open>An HTTP client that is there stays, and \<open>F\<close> of the loop's memory is what it was.\<close>

definition calm :: "((string \<rightharpoonup> MemberHealthConfig) \<Rightarrow> 'f) \<Rightarrow> sys \<Rightarrow> sys \<Rightarrow> bool" where
  "calm F s t \<longleftrightarrow> F (etcdadmClusterMapper t) = F (etcdadmClusterMapper s) \<and>
     clusterToHttpClient s \<subseteq>\<^sub>m clusterToHttpClient t"

interpretation calm: step_order "calm F" for F
  by unfold_locales (auto simp: calm_def intro: map_le_trans)

lemma calm_modify:
  "(\<And>s. etcdadmClusterMapper (g s) = etcdadmClusterMapper s \<and> clusterToHttpClient (g s) = clusterToHttpClient s) \<Longrightarrow>
   obeys (calm F) (modify g)"
  by (simp add: obeys_def calm_def)

lemma calm_call: "obeys (calm F) (call ev f)" and calm_range_over: "obeys (calm F) (range_over E site xs)"
  by (simp_all add: obeys_def calm_def)

lemma calm_EC:
  "obeys (calm F) (modifyEC g)" "obeys (calm F) (modifyStatus f)" "obeys (calm F) (MarkTrue E t)"
  "obeys (calm F) (MarkFalse E t reason severity msg)" "obeys (calm F) (SetSummary E ts)"
  unfolding modifyEC_def modifyStatus_def MarkTrue_def MarkFalse_def SetSummary_def
  by (rule calm_modify, simp)+

lemma calm_onlyIf: "obeys (calm F) m \<Longrightarrow> obeys (calm F) (onlyIf b m)"
  unfolding onlyIf_def by (intro calm.prog_intros)

lemma calm_deleteAnnotation: "obeys (calm F) (deleteAnnotation k)"
  unfolding deleteAnnotation_def by (rule calm_EC)

lemmas calm_intros =
  calm.prog_intros calm_call calm_range_over calm_EC calm_onlyIf calm_deleteAnnotation

section \<open>The parts they share\<close>

lemma kept_certificates:
  "(\<And>s x. F (s\<lparr>trace := x\<rparr>) = F s) \<Longrightarrow> obeys (keeps F) (getCACert E cluster)"
  "(\<And>s x. F (s\<lparr>trace := x\<rparr>) = F s) \<Longrightarrow> obeys (keeps F) (getClientCerts E cluster)"
  unfolding getCACert_def getClientCerts_def call_LookupCerts_def by (intro kept_intros; simp)+

lemma calm_certificates: "obeys (calm F) (getCACert E cluster)" "obeys (calm F) (getClientCerts E cluster)"
  unfolding getCACert_def getClientCerts_def call_LookupCerts_def by (intro calm_intros)+

text \<open>The one place where an HTTP client is stored: only for a cluster that has none.\<close>

lemma calm_httpClient: "obeys (calm F) (getEtcdHttpClient E cluster)"
proof (rule obeysI)
  fix s :: sys
  let ?F = "\<lambda>s. (etcdadmClusterMapper s, clusterToHttpClient s)"
  obtain r1 t1 where t1: "run_state (getCACert E cluster) s = (r1, t1)" by fastforce
  obtain r2 t2 where t2: "run_state (getClientCerts E cluster) t1 = (r2, t2)" by fastforce
  have "?F t1 = ?F s" "?F t2 = ?F s"
    using keptD [OF kept_certificates(1) t1, of ?F] keptD [OF kept_certificates(2) t2, of ?F] by simp_all
  then show "calm F s (snd (run_state (getEtcdHttpClient E cluster) s))"
    by (auto simp: getEtcdHttpClient_def run_simps t1 t2 calm_def Let_def map_le_def
        split: option.split sum.split outcome.split)
qed

lemma calm_isPortOpen: "obeys (calm F) (isPortOpen E host)"
  unfolding isPortOpen_def call_Dial_def by (intro calm_intros)

lemma calm_wired:
  "obeys (calm F) (GetEtcdClient (SetupWithManager_env E None) cluster eps)"
  "obeys (calm F) (r_isPortOpen (SetupWithManager_env E None) host)"
  unfolding SetupWithManager_env_functions option.case generateEtcdClient_def call_NewEtcdClient_def
  by (intro calm_intros calm_certificates, rule calm_isPortOpen)

lemma calm_healthCheck: "obeys (calm F) (performEndpointHealthCheck (SetupWithManager_env E None) cluster endpoint verbose)"
  unfolding performEndpointHealthCheck_def call_HttpGet_def by (intro calm_intros calm_httpClient calm_wired)

lemma calm_remove: "obeys (calm F) (removeEtcdMachine (SetupWithManager_env E None) cluster m address)"
  unfolding removeEtcdMachine_def removeEtcdMemberAndDeleteMachine_def deleteMachineIfAny_def deleteMachine_def
    call_MemberList_def call_MemberRemove_def call_DeleteMachine_def call_CloseEtcdClient_def
  by (intro calm_intros calm_wired)

lemma calm_listing: "obeys (calm F) (listEtcdMachines E rd cluster n)"
  unfolding listEtcdMachines_def call_ListMachines_def by (intro calm_intros)

section \<open>A reconciliation\<close>

lemma calm_infra_loop: "obeys (calm F) (getInfraResources_loop E result ms)"
  by (induction E result ms rule: getInfraResources_loop.induct)
    (auto simp: call_ExternalGet_def simp del: fun_upd_apply split: sum.splits intro!: calm_intros)

lemma calm_config_loop: "obeys (calm F) (getEtcdadmConfigs_loop E result ms)"
  by (induction E result ms rule: getEtcdadmConfigs_loop.induct)
    (auto simp: call_GetEtcdadmConfig_def simp del: fun_upd_apply split: sum.splits intro!: calm_intros)

lemma calm_NewEtcdPlane: "obeys (calm F) (NewEtcdPlane E cluster ec ms)"
  unfolding NewEtcdPlane_def getInfraResources_def getEtcdadmConfigs_def newPatchHelpers_def call_NewPatchHelper_def
  by (intro calm_intros calm_infra_loop calm_config_loop)

lemma calm_certs: "obeys (calm F) (generateCAandClientCertSecrets E cluster)"
  unfolding generateCAandClientCertSecrets_def call_defs by (intro calm_intros)

lemma calm_clone: "obeys (calm F) (cloneConfigsAndGenerateMachine E cluster fd)"
  unfolding cloneConfigsAndGenerateMachine_def generateEtcdadmConfig_def generateMachine_def call_defs
  by (intro calm_intros)

lemma calm_upgrade: "obeys (calm F) (upgradeEtcdCluster E cluster ep ms)"
  unfolding upgradeEtcdCluster_def scaleUpEtcdCluster_def withoutResult_def removeFromListOfOwnedMachines_def
    call_UpdateMachine_def
  by (auto split: outcome.splits sum.splits intro!: calm_intros calm_clone)

lemma calm_stages:
  "obeys (calm F) (outdatedStage (SetupWithManager_env E None) cluster ms owned)"
  "obeys (calm F) (rolloutStage (SetupWithManager_env E None) cluster ep ms n m d)"
  "obeys (calm F) (scaleStage (SetupWithManager_env E None) cluster ep n m d)"
proof -
  have down: "obeys (calm F) (scaleDownEtcdCluster (SetupWithManager_env E None) cluster ep ms)" for ep ms
    unfolding scaleDownEtcdCluster_def by (auto split: outcome.splits sum.splits intro!: calm_intros calm_remove)
  have wait: "obeys (calm F) (waitForNewestMachine (SetupWithManager_env E None) cluster ep)" for ep
    unfolding waitForNewestMachine_def call_Now_def by (intro calm_intros calm_healthCheck)
  show "obeys (calm F) (outdatedStage (SetupWithManager_env E None) cluster ms owned)"
    unfolding outdatedStage_def removeOutdated_def by (intro calm_intros calm_remove)
  show "obeys (calm F) (rolloutStage (SetupWithManager_env E None) cluster ep ms n m d)"
    unfolding rolloutStage_def rolloutCase_def rolloutDone_def
    by (intro calm_intros calm_upgrade calm_certs wait)
  show "obeys (calm F) (scaleStage (SetupWithManager_env E None) cluster ep n m d)"
    unfolding scaleStage_def intializeEtcdCluster_def scaleUpEtcdCluster_def
    by (intro calm_intros calm_certs calm_clone down)
qed

lemma calm_reconcile: "obeys (calm F) (reconcile (SetupWithManager_env E None) cluster)"
  unfolding reconcile_def reconcileExternalReference_def call_defs
  by (intro calm_intros calm_listing calm_NewEtcdPlane calm_stages)

lemma calm_reconcileDelete: "obeys (calm F) (reconcileDelete E cluster)"
proof -
  have "obeys (calm F) (deleteMachines E errors ms)" for errors ms
    by (induction ms arbitrary: errors) (auto simp: call_DeleteMachine_def intro!: calm_intros)
  then show ?thesis
    unfolding reconcileDelete_def call_RecordEvent_def by (intro calm_intros calm_listing)
qed

lemma calm_deferred: "obeys (calm F) (deferredStatus (SetupWithManager_env E None) base cluster result)"
proof -
  let ?E = "SetupWithManager_env E None"
  have check: "obeys (calm F) (checkMachine ?E cluster m)" for m
    unfolding checkMachine_def by (intro calm_intros calm_healthCheck)
  have "obeys (calm F) (checkMachines ?E cluster ms)" for ms
    by (induction ms) (auto intro!: calm_intros check)
  then have owned: "obeys (calm F) (checkOwnedMachines ?E cluster)"
    unfolding checkOwnedMachines_def getCurrentOwnedMachines_def by (intro calm_intros calm_listing)
  have first: "obeys (calm F) (firstUnhealthy ms)" for ms
    by (induction ms) (auto simp: setReady_def intro!: calm_intros)
  have status: "obeys (calm F) (updateStatus ?E cluster ms)" for ms
    unfolding updateStatus_def updateEndpoints_def updateInitSecret_def setReady_def call_GetSecret_def call_UpdateSecret_def
    by (intro calm_intros first)
  have label: "obeys (calm F) (updateMachinesEtcdReadyLabel ?E ms)" for ms
    unfolding updateMachinesEtcdReadyLabel_def labelIfHealthy_def call_UpdateMachine_def by (intro calm_intros)
  show ?thesis
    unfolding deferredStatus_def patchEtcdCluster_def call_PatchEtcdadmCluster_def setReady_def
    by (intro calm_intros owned status label)
qed

lemma calm_Reconcile: "obeys (calm F) (Reconcile (SetupWithManager_env E None) key)"
  unfolding Reconcile_def reconcileObject_def call_GetEtcdadmCluster_def call_GetOwnerCluster_def
    call_NewPatchHelper_def call_PatchEtcdadmCluster_def
  by (intro calm_intros calm_reconcile calm_reconcileDelete calm_deferred)

section \<open>A tick\<close>

lemma calm_memory:
  "obeys (calm (\<lambda>_. ())) (updateEntry uid g)" "obeys (calm (\<lambda>_. ())) (writeEntry uid g)"
  by (simp_all add: obeys_def calm_def updateEntry_def writeEntry_def run_simps split: option.split)

lemma calm_owned: "obeys (calm F) (etcdMachinesOrNone E cluster n)" "obeys (calm F) (getOwnedMachines E cluster ec)"
  unfolding getOwnedMachines_def etcdMachinesOrNone_def by (intro calm_intros calm_listing)+

lemma calm_tick: "obeys (calm (\<lambda>_. ())) (startHealthCheck (SetupWithManager_env E None))"
proof -
  let ?E = "SetupWithManager_env E None"
  have check: "obeys (calm (\<lambda>_. ())) (checkMember ?E cluster ec owned m)" for cluster ec owned m
    unfolding checkMember_def memberFailed_def memberPassed_def
    by (intro calm_intros calm_memory calm_healthCheck)
  have one: "obeys (calm (\<lambda>_. ())) (removeOne ?E cluster d e m r)" for cluster d e m r
    unfolding removeOne_def by (intro calm_intros calm_memory calm_owned calm_remove)
  have "obeys (calm (\<lambda>_. ())) (removeUnhealthy ?E cluster d entries r)" for cluster d entries r
    by (induction entries arbitrary: r) (auto intro!: calm_intros one)
  then have round: "obeys (calm (\<lambda>_. ())) (periodicEtcdMembersHealthCheck ?E cluster)" for cluster
    unfolding periodicEtcdMembersHealthCheck_def healthRound_def removalPhase_def statusNotReady_def call_StatusUpdate_def
    by (intro calm_intros calm_memory calm_owned check)
  have "obeys (calm (\<lambda>_. ())) (modify (\<lambda>s. s\<lparr>etcdadmClusterMapper := g s\<rparr>))" for g
    by (simp add: obeys_def calm_def)
  then show ?thesis
    unfolding startHealthCheck_def healthCheckCluster_def enterCluster_def call_ListEtcdadmClusters_def call_GetOwnerCluster_def
    by (intro calm_intros calm_memory calm_owned round)
qed

section \<open>Turns\<close>

text \<open>
  What runs next: a reconciliation of some object, or a tick of the loop. A panic ends the turn only:
  the state goes on as it was then.
\<close>

datatype turn = Reconciles ObjectKey | Ticks

fun take_turn :: "env \<Rightarrow> turn \<Rightarrow> sys \<Rightarrow> sys" where
  "take_turn E (Reconciles key) s = snd (run_state (Reconcile E key) s)"
| "take_turn E Ticks s = snd (run_state (startHealthCheck E) s)"

definition turns :: "env \<Rightarrow> turn list \<Rightarrow> sys \<Rightarrow> sys" where
  "turns E ts s = fold (take_turn E) ts s"

lemma turn_keeps_clients:
  "clusterToHttpClient s \<subseteq>\<^sub>m clusterToHttpClient (take_turn (SetupWithManager_env E None) a s)"
proof (cases a)
  case (Reconciles key)
  then show ?thesis using calm_Reconcile [of "\<lambda>_. ()" E key] by (simp add: obeys_def calm_def)
next
  case Ticks
  then show ?thesis using calm_tick [of E] by (simp add: obeys_def calm_def)
qed

lemma turn_keeps_memory:
  "a \<noteq> Ticks \<Longrightarrow> etcdadmClusterMapper (take_turn (SetupWithManager_env E None) a s) = etcdadmClusterMapper s"
proof (cases a)
  case (Reconciles key)
  then show ?thesis using calm_Reconcile [of "\<lambda>m. m" E key] by (simp add: obeys_def calm_def)
qed simp

lemma turn_keeps_wf:
  "memory_wf s \<Longrightarrow> memory_wf (take_turn (SetupWithManager_env E None) a s)"
proof (cases a)
  case (Reconciles key)
  then show "memory_wf s \<Longrightarrow> ?thesis" using turn_keeps_memory [of a E s] by (simp add: memory_wf_def)
next
  case Ticks
  then show "memory_wf s \<Longrightarrow> ?thesis"
    using wired.wf_startHealthCheck [of E] by (simp add: obeys_def keeps_memory_wf_def)
qed

lemma cached_client:
  "clusterToHttpClient t (UID (clMeta cluster)) = Some client \<Longrightarrow>
   run_state (getEtcdHttpClient E cluster) t = (Done (Inr client), t)"
  by (simp add: getEtcdHttpClient_def run_simps)

text \<open>C29: Whatever turns the reconciler and the health-check loop take, whatever fails in
  them, and even if one of them panics: the loop's memory of failures stays well formed, and
  reconciliations alone never touch it; and the HTTP client a cluster once has is the one every later
  health check of that cluster uses, whatever its certificates are by then. A turn is one after another
  here; what becomes of the cache when they overlap is the subject of \<open>Client_Cache\<close>.\<close>

theorem controller_memory:
  assumes wf: "memory_wf s"
  shows "memory_wf (turns (SetupWithManager_env E None) ts s) \<and>
    (Ticks \<notin> set ts \<longrightarrow>
       etcdadmClusterMapper (turns (SetupWithManager_env E None) ts s) = etcdadmClusterMapper s) \<and>
    (\<forall>cluster client. clusterToHttpClient s (UID (clMeta cluster)) = Some client \<longrightarrow>
       run_state (getEtcdHttpClient (SetupWithManager_env E None) cluster) (turns (SetupWithManager_env E None) ts s) =
         (Done (Inr client), turns (SetupWithManager_env E None) ts s))"
proof -
  let ?E = "SetupWithManager_env E None"
  have "memory_wf (turns ?E ts s) \<and>
      (Ticks \<notin> set ts \<longrightarrow> etcdadmClusterMapper (turns ?E ts s) = etcdadmClusterMapper s) \<and>
      clusterToHttpClient s \<subseteq>\<^sub>m clusterToHttpClient (turns ?E ts s)"
    using wf unfolding turns_def
  proof (induction ts arbitrary: s)
    case (Cons a ts)
    from Cons.IH [OF turn_keeps_wf [OF Cons.prems, of E a]] show ?case
      using turn_keeps_clients [of s E a] turn_keeps_memory [of a E s] by (auto intro: map_le_trans)
  qed simp
  then show ?thesis by (auto intro!: cached_client simp: map_le_def dom_def)
qed

definition connected_sys :: sys where
  "connected_sys = ref_sys\<lparr>clusterToHttpClient := [''c1-uid'' \<mapsto>
     \<lparr>hcTimeout = httpClientTimeout, hcRootCAs = ''old'', hcCertificate = TlsCertificate ''old'' ''old''\<rparr>]\<rparr>"

theorem controller_memory_witness:
  "memory_wf (turns (SetupWithManager_env ref_env None) [Ticks, Reconciles \<lparr>keyNamespace = ''ns'', keyName = ''etcd''\<rparr>] connected_sys) \<and>
   fst (run_state (getEtcdHttpClient (SetupWithManager_env ref_env None) ref_cluster)
     (turns (SetupWithManager_env ref_env None) [Ticks, Reconciles \<lparr>keyNamespace = ''ns'', keyName = ''etcd''\<rparr>] connected_sys)) =
     Done (Inr \<lparr>hcTimeout = httpClientTimeout, hcRootCAs = ''old'', hcCertificate = TlsCertificate ''old'' ''old''\<rparr>)"
proof -
  have wf: "memory_wf connected_sys" by (simp add: memory_wf_def connected_sys_def ref_sys_def)
  have "clusterToHttpClient connected_sys (UID (clMeta ref_cluster)) =
      Some \<lparr>hcTimeout = httpClientTimeout, hcRootCAs = ''old'', hcCertificate = TlsCertificate ''old'' ''old''\<rparr>"
    by (simp add: connected_sys_def ref_cluster_def ref_meta_def)
  then show ?thesis using controller_memory [OF wf] by auto
qed

end
