(* ===== verification/Bringup_Correct.thy ===== *)
theory Bringup_Correct
  imports Scaling_Correct
begin

text \<open>
  How a cluster comes up: from no machine at all, over the certificates and the first member, which
  the bootstrap provider initialises, to the size its object asks for.
\<close>

text \<open>The same object with other conditions and another status.\<close>

definition same_object :: "EtcdadmCluster \<Rightarrow> EtcdadmCluster \<Rightarrow> bool" where
  "same_object ec ec' \<longleftrightarrow> ecMeta ec' = ecMeta ec \<and> ecSpec ec' = ecSpec ec"

lemma membersOf_same: "same_object ec ec' \<Longrightarrow> membersOf E cluster ec' ms = membersOf E cluster ec ms"
  by (simp add: same_object_def membersOf_def)

text \<open>A world that is friendly to the object, whatever its conditions and its status say.\<close>

definition hosts :: "env \<Rightarrow> Cluster \<Rightarrow> EtcdadmCluster \<Rightarrow> Machines \<Rightarrow> bool" where
  "hosts E cluster ec init \<longleftrightarrow> (\<forall>ec'. same_object ec ec' \<longrightarrow> friendly E cluster ec' init)"

lemma hostsD: "hosts E cluster ec init \<Longrightarrow> same_object ec ec' \<Longrightarrow> friendly E cluster ec' init"
  by (simp add: hosts_def)

text \<open>Certificates can be made and stored.\<close>

definition certifiable :: "env \<Rightarrow> bool" where
  "certifiable E \<longleftrightarrow>
     (\<forall>h k own. \<exists>certs c kp pem cert keyPem key.
        k_LookupOrGenerateCerts (svc E) h (etcdCACertKeyPair E) k own = Inr certs \<and>
        certs_GetByPurpose (capi E) certs (ManagedExternalEtcdCA (capi E)) = Some c \<and> certKeyPair c = Some kp \<and>
        pem_Decode (capi E) (kpCert kp) = Some pem \<and> x509_ParseCertificate (capi E) pem = Inr cert \<and>
        pem_Decode (capi E) (kpKey kp) = Some keyPem \<and> x509_ParsePKCS1PrivateKey (capi E) keyPem = Inr key) \<and>
     (\<forall>h c k cfg. \<exists>p. x_NewCertAndKey (svc E) h c k cfg = Inr p) \<and>
     (\<forall>h x. k_CreateOrPatchSecret (svc E) h x = None) \<and> (\<forall>h x. k_CreateSecret (svc E) h x = None)"

text \<open>The object with one condition marked.\<close>

definition withTrue :: "env \<Rightarrow> history \<Rightarrow> ConditionType \<Rightarrow> EtcdadmCluster \<Rightarrow> EtcdadmCluster" where
  "withTrue E h t ec = SetConditions ec (cond_MarkTrue (conds E) h t (GetConditions ec))"

definition withFalse ::
  "env \<Rightarrow> history \<Rightarrow> ConditionType \<Rightarrow> string \<Rightarrow> ConditionSeverity \<Rightarrow> string \<Rightarrow> EtcdadmCluster \<Rightarrow> EtcdadmCluster" where
  "withFalse E h t reason sev msg ec =
     SetConditions ec (cond_MarkFalse (conds E) h t reason sev msg (GetConditions ec))"

lemmas with_folds = withTrue_def [symmetric] withFalse_def [symmetric]

lemma run_certs:
  assumes "certifiable E"
  shows "\<exists>h t. run_state (generateCAandClientCertSecrets E cluster) s = (Done None, t) \<and>
     theEC t = withTrue E h EtcdCertificatesAvailableCondition (theEC s) \<and>
     stored init (trace t) = stored init (trace s)"
proof -
  obtain certs c kp pem cert keyPem key where a:
    "k_LookupOrGenerateCerts (svc E) (trace s) (etcdCACertKeyPair E) (clusterKey cluster) (controllerRefOf E (theEC s)) = Inr certs"
    "certs_GetByPurpose (capi E) certs (ManagedExternalEtcdCA (capi E)) = Some c" "certKeyPair c = Some kp"
    "pem_Decode (capi E) (kpCert kp) = Some pem" "x509_ParseCertificate (capi E) pem = Inr cert"
    "pem_Decode (capi E) (kpKey kp) = Some keyPem" "x509_ParsePKCS1PrivateKey (capi E) keyPem = Inr key"
    using assms unfolding certifiable_def by meson
  obtain p where p: "x_NewCertAndKey (svc E) (trace s @ [EvLookupOrGenerateCerts (clusterKey cluster) (Inr certs)])
      cert key (clientCertConfig E cluster) = Inr p"
    using assms unfolding certifiable_def by meson
  have secrets: "k_CreateOrPatchSecret (svc E) h x = None" "k_CreateSecret (svc E) h x = None" for h x
    using assms unfolding certifiable_def by simp_all
  show ?thesis
    by (simp add: generateCAandClientCertSecrets_def call_defs run_simps a p secrets with_folds stored_append)
      blast
qed

text \<open>What marking one condition does to the others, by the laws of the library.\<close>

lemma marked:
  assumes "conditions_laws (conds E) r"
  shows "IsFalse E (withFalse E h t reason sev msg ec) t"
    "\<not> IsFalse E (withTrue E h t ec) t"
    "t' \<noteq> t \<Longrightarrow> IsFalse E (withTrue E h t ec) t' = IsFalse E ec t'"
    "t' \<noteq> t \<Longrightarrow> IsFalse E (withFalse E h t reason sev msg ec) t' = IsFalse E ec t'"
    "t' \<noteq> t \<Longrightarrow> HasCondition E (withTrue E h t ec) t' = HasCondition E ec t'"
    "t' \<noteq> t \<Longrightarrow> HasCondition E (withFalse E h t reason sev msg ec) t' = HasCondition E ec t'"
  using conditions_lawsD [OF assms]
  by (simp_all add: IsFalse_def HasCondition_def GetConditions_def SetConditions_def same_condition_def
      withTrue_def withFalse_def)

lemma marked_frame:
  "same_object ec (withTrue E h t ec)" "Initialized (ecStatus (withTrue E h t ec)) = Initialized (ecStatus ec)"
  "hasAnnotation (withTrue E h t ec) k = hasAnnotation ec k" "ecSpec (withTrue E h t ec) = ecSpec ec"
  "same_object ec (withFalse E h t r sev msg ec)"
  "Initialized (ecStatus (withFalse E h t r sev msg ec)) = Initialized (ecStatus ec)"
  "hasAnnotation (withFalse E h t r sev msg ec) k = hasAnnotation ec k" "ecSpec (withFalse E h t r sev msg ec) = ecSpec ec"
  by (simp_all add: withTrue_def withFalse_def SetConditions_def same_object_def hasAnnotation_def)

lemma same_object_trans: "same_object a b \<Longrightarrow> same_object b c \<Longrightarrow> same_object a c"
  by (simp add: same_object_def)

lemma types_neq [simp]:
  "EtcdCertificatesAvailableCondition \<noteq> EtcdMachinesSpecUpToDateCondition"
  "EtcdClusterHasNoOutdatedMembersCondition \<noteq> EtcdCertificatesAvailableCondition"
  "EtcdClusterHasNoOutdatedMembersCondition \<noteq> InitializedCondition"
  "EtcdEndpointsAvailable \<noteq> InitializedCondition"
  "InitializedCondition \<noteq> EtcdCertificatesAvailableCondition"
  "InitializedCondition \<noteq> EtcdMachinesSpecUpToDateCondition"
  "EtcdEndpointsAvailable \<noteq> EtcdMachinesSpecUpToDateCondition"
  "EtcdEndpointsAvailable \<noteq> EtcdCertificatesAvailableCondition"
  "EtcdEndpointsAvailable \<noteq> EtcdClusterHasNoOutdatedMembersCondition"
  by (simp_all add: condition_type_defs)

text \<open>The object while its first member is not initialised yet.\<close>

definition waiting :: "env \<Rightarrow> EtcdadmCluster \<Rightarrow> 32 word \<Rightarrow> EtcdadmCluster \<Rightarrow> bool" where
  "waiting E ec n ec' \<longleftrightarrow> same_object ec ec' \<and> tranquil E ec' n \<and> IsFalse E ec' InitializedCondition \<and>
     Initialized (ecStatus ec') = Initialized (ecStatus ec)"

lemma tranquil_mark:
  assumes laws: "conditions_laws (conds E) r" and t: "tranquil E ec n"
  shows "c \<noteq> EtcdMachinesSpecUpToDateCondition \<Longrightarrow> c \<noteq> EtcdClusterHasNoOutdatedMembersCondition \<Longrightarrow>
      tranquil E (withTrue E h c ec) n"
    "c \<noteq> EtcdMachinesSpecUpToDateCondition \<Longrightarrow> c \<noteq> EtcdClusterHasNoOutdatedMembersCondition \<Longrightarrow>
      c \<noteq> EtcdCertificatesAvailableCondition \<Longrightarrow>
      tranquil E (withFalse E h c reason sev msg ec) n"
proof -
  show "tranquil E (withTrue E h c ec) n"
    if "c \<noteq> EtcdMachinesSpecUpToDateCondition" "c \<noteq> EtcdClusterHasNoOutdatedMembersCondition"
    using t that marked(3,5) [OF laws] marked(2) [OF laws]
    by (cases "c = EtcdCertificatesAvailableCondition") (auto simp: tranquil_def marked_frame)
  show "tranquil E (withFalse E h c reason sev msg ec) n"
    if "c \<noteq> EtcdMachinesSpecUpToDateCondition" "c \<noteq> EtcdClusterHasNoOutdatedMembersCondition"
      "c \<noteq> EtcdCertificatesAvailableCondition"
    using t that marked(4,6) [OF laws] by (auto simp: tranquil_def marked_frame)
qed

text \<open>The certificates and the first machine.\<close>

lemma run_initialize:
  assumes hosts: "hosts E cluster ec init" and cert: "certifiable E"
    and laws: "conditions_laws (conds E) r" and w: "waiting E ec n (theEC s)"
  shows "\<exists>t m. run_state (intializeEtcdCluster E cluster ep) s = (Done (noResult, None), t) \<and> waiting E ec n (theEC t) \<and>
     stored init (trace t) = stored init (trace s) @ [m] \<and>
     Labels (mMeta m) = EtcdLabelsForCluster E (clName cluster) (Name (ecMeta ec)) \<and>
     OwnerReferences (mMeta m) = [controllerRefOf E ec]"
proof -
  have step: "waiting E ec n (withTrue E h EtcdCertificatesAvailableCondition e)"
    if "waiting E ec n e" for e h
    using that tranquil_mark(1) [OF laws] marked(3) [OF laws]
    by (auto simp: waiting_def marked_frame intro: same_object_trans)
  obtain h s1 where s1: "run_state (generateCAandClientCertSecrets E cluster) s = (Done None, s1)"
    "theEC s1 = withTrue E h EtcdCertificatesAvailableCondition (theEC s)"
    "stored init (trace s1) = stored init (trace s)"
    using run_certs [OF cert] by blast
  define s2 where "s2 = snd (run_state (MarkTrue E EtcdCertificatesAvailableCondition) s1)"
  have s2: "run_state (MarkTrue E EtcdCertificatesAvailableCondition) s1 = (Done (), s2)" "waiting E ec n (theEC s2)"
    "stored init (trace s2) = stored init (trace s)"
    using step [OF w, of h] s1(2,3) step by (simp_all add: s2_def with_folds)
  then have same: "same_object ec (theEC s2)" by (simp add: waiting_def)
  obtain m t where m: "run_state (cloneConfigsAndGenerateMachine E cluster (NextFailureDomainForScaleUp E ep)) s2 = (Done (noResult, None), t)"
    "theEC t = theEC s2" "stored init (trace t) = stored init (trace s2) @ [m]"
    "Labels (mMeta m) = EtcdLabelsForCluster E (clName cluster) (Name (ecMeta (theEC s2)))"
    "OwnerReferences (mMeta m) = [controllerRefOf E (theEC s2)]"
    using run_clone [OF friendlyD(1) [OF hostsD [OF hosts same]] refl] by blast
  have "controllerRefOf E (theEC s2) = controllerRefOf E ec" "Name (ecMeta (theEC s2)) = Name (ecMeta ec)"
    using same by (simp_all add: same_object_def controllerRefOf_def)
  then show ?thesis using m s1 s2
    by (simp add: intializeEtcdCluster_def run_simps)
qed

text \<open>The first pass: from no machine to one, with the object waiting for it to be initialised.\<close>

lemma first_pass:
  assumes hosts: "hosts E cluster ec init" and cert: "certifiable E"
    and laws: "conditions_laws (conds E) r" and tr: "tranquil E ec n" and n: "1 \<le> sint n" and ec: "theEC s = ec"
    and none: "membersOf E cluster ec (stored init (trace s)) = []"
  shows "\<exists>t m. run_state (reconcile E cluster) s = (Done (noResult, None), t) \<and> waiting E ec n (theEC t) \<and>
     membersOf E cluster ec (stored init (trace t)) = [m] \<and> OwnerReferences (mMeta m) = [controllerRefOf E ec]"
proof -
  have f: "friendly E cluster ec init" using hosts by (simp add: hosts_def same_object_def)
  have reach: "\<exists>ep t. theEC t = ec \<and> stored init (trace t) = stored init (trace s) \<and> epMachines ep = ownedBy E ec [] \<and>
      run_state (reconcile E cluster) s = run_state (scaleStage E cluster ep (int (length ([] :: Machines))) 0 (sint n)) t"
    using none by (intro pass_reaches_scaling [OF f tr ec]) simp_all
  then obtain ep s' where s': "theEC s' = ec" "stored init (trace s') = stored init (trace s)"
    "run_state (reconcile E cluster) s = run_state (scaleStage E cluster ep 0 0 (sint n)) s'" by auto
  define m1 where "m1 = MarkFalse E InitializedCondition WaitingForEtcdadmInitReason ConditionSeverityInfo []"
  define m2 where "m2 = MarkFalse E EtcdEndpointsAvailable WaitingForEtcdadmEndpointsToPassHealthcheckReason
    ConditionSeverityInfo []"
  define s2 where "s2 = snd (run_state (seq m1 m2) s')"
  have run: "run_state (reconcile E cluster) s = run_state (intializeEtcdCluster E cluster ep) s2"
    using n by (simp add: s'(1,3) scaleStage_def run_simps s2_def m1_def m2_def with_folds)
  have "waiting E ec n (theEC s2)"
    using tranquil_mark(2) [OF laws] marked(1,4) [OF laws] tr
    by (simp add: s2_def m1_def m2_def run_simps with_folds s'(1) waiting_def marked_frame)
      (rule same_object_trans [OF marked_frame(5) marked_frame(5)])
  moreover have "stored init (trace s2) = stored init (trace s)"
    by (simp add: s2_def m1_def m2_def run_simps with_folds s'(2))
  ultimately obtain t m where m: "run_state (intializeEtcdCluster E cluster ep) s2 = (Done (noResult, None), t)"
    "waiting E ec n (theEC t)" "stored init (trace t) = stored init (trace s) @ [m]"
    "Labels (mMeta m) = EtcdLabelsForCluster E (clName cluster) (Name (ecMeta ec))"
    "OwnerReferences (mMeta m) = [controllerRefOf E ec]"
    using run_initialize [OF hosts cert laws, where s = s2 and n = n and ep = ep] by metis
  have "membersOf E cluster ec (stored init (trace t)) = [m]"
    using f by (rule friendly_selector) (use none m(3,4) in simp)
  then show ?thesis using run m by auto
qed

text \<open>The parameters of the world that look at the object see nothing new.\<close>

lemma reach_again:
  assumes hosts: "hosts E cluster ec init" and same: "same_object ec (theEC s)" and tr: "tranquil E (theEC s) n"
    and m: "membersOf E cluster ec (stored init (trace s)) = [m]" and owner: "OwnerReferences (mMeta m) = [controllerRefOf E ec]"
  shows "\<exists>ep t. theEC t = theEC s \<and> stored init (trace t) = stored init (trace s) \<and>
     run_state (reconcile E cluster) s = run_state (scaleStage E cluster ep 1 0 (sint n)) t"
proof -
  note f = hostsD [OF hosts same]
  have "controllerRefOf E (theEC s) = controllerRefOf E ec"
    using same by (simp add: same_object_def controllerRefOf_def)
  then have mine: "col_OwnedMachines (coll E) (theEC s) m" using friendlyD(6) [OF f] owner by simp
  have ms: "[m] = membersOf E cluster (theEC s) (stored init (trace s))"
    using m membersOf_same [OF same] by simp
  show ?thesis using pass_reaches_scaling [OF f tr refl ms] mine by auto
qed

text \<open>While the first member is not initialised, a pass changes nothing.\<close>

lemma waiting_pass:
  assumes hosts: "hosts E cluster ec init" and w: "waiting E ec n (theEC s)" and n: "1 \<le> sint n"
    and idle: "\<not> Initialized (ecStatus ec)"
    and m: "membersOf E cluster ec (stored init (trace s)) = [m]" and owner: "OwnerReferences (mMeta m) = [controllerRefOf E ec]"
  shows "\<exists>t. run_state (reconcile E cluster) s = (Done (noResult, None), t) \<and> theEC t = theEC s \<and>
     stored init (trace t) = stored init (trace s)"
proof -
  have "same_object ec (theEC s)" "tranquil E (theEC s) n" using w by (simp_all add: waiting_def)
  from reach_again [OF hosts this m owner] obtain ep t where t: "theEC t = theEC s"
    "stored init (trace t) = stored init (trace s)"
    "run_state (reconcile E cluster) s = run_state (scaleStage E cluster ep 1 0 (sint n)) t" by blast
  then show ?thesis using w idle n by (simp add: scaleStage_def run_simps waiting_def)
qed

lemma waiting_passes:
  assumes hosts: "hosts E cluster ec init" and n: "1 \<le> sint n" and idle: "\<not> Initialized (ecStatus ec)"
    and owner: "OwnerReferences (mMeta m) = [controllerRefOf E ec]"
  shows "waiting E ec n (theEC s) \<Longrightarrow> membersOf E cluster ec (stored init (trace s)) = [m] \<Longrightarrow>
     theEC (passes E cluster j s) = theEC s \<and> stored init (trace (passes E cluster j s)) = stored init (trace s)"
proof (induction j arbitrary: s)
  case (Suc j)
  obtain t where t: "run_state (reconcile E cluster) s = (Done (noResult, None), t)" "theEC t = theEC s"
    "stored init (trace t) = stored init (trace s)"
    using waiting_pass [OF hosts Suc.prems(1) n idle Suc.prems(2) owner] by blast
  with Suc.IH [of t] Suc.prems show ?case by simp
qed simp

text \<open>What the bootstrap provider does to the object when the first member runs.\<close>

definition initialised :: "sys \<Rightarrow> sys" where
  "initialised s = s\<lparr>theEC := (theEC s)\<lparr>ecStatus := (ecStatus (theEC s))\<lparr>Initialized := True\<rparr>\<rparr>\<rparr>"

text \<open>The pass after that marks the condition, and the cluster is settled.\<close>

lemma settling_pass:
  assumes hosts: "hosts E cluster ec init" and laws: "conditions_laws (conds E) r" and n: "1 \<le> sint n"
    and w: "waiting E ec n (theEC s)"
    and m: "membersOf E cluster ec (stored init (trace s)) = [m]" and owner: "OwnerReferences (mMeta m) = [controllerRefOf E ec]"
  shows "\<exists>t. run_state (reconcile E cluster) (initialised s) = (Done (noResult, None), t) \<and> settled E (theEC t) n \<and>
     same_object ec (theEC t) \<and> stored init (trace t) = stored init (trace s)"
proof -
  let ?ec = "theEC (initialised s)"
  have ec: "same_object ec ?ec" "tranquil E ?ec n" "IsFalse E ?ec InitializedCondition" "Initialized (ecStatus ?ec)"
    "trace (initialised s) = trace s"
    using w by (auto simp: initialised_def waiting_def same_object_def tranquil_def HasCondition_def IsFalse_def
        GetConditions_def hasAnnotation_def)
  have m': "membersOf E cluster ec (stored init (trace (initialised s))) = [m]" using m ec(5) by simp
  from reach_again [OF hosts ec(1,2) m' owner] obtain ep t where t: "theEC t = ?ec"
    "stored init (trace t) = stored init (trace s)"
    "run_state (reconcile E cluster) (initialised s) = run_state (scaleStage E cluster ep 1 0 (sint n)) t"
    using ec(5) by auto
  have "tranquil E (withTrue E (trace t) InitializedCondition ?ec) n"
    using tranquil_mark(1) [OF laws ec(2)] by simp
  moreover have "\<not> IsFalse E (withTrue E (trace t) InitializedCondition ?ec) InitializedCondition"
    by (rule marked(2) [OF laws])
  moreover have "same_object ec (withTrue E (trace t) InitializedCondition ?ec)"
    by (rule same_object_trans [OF ec(1) marked_frame(1)])
  ultimately show ?thesis using t ec(3,4) n
    by (simp add: scaleStage_def run_simps with_folds settled_def)
qed

section \<open>From nothing to the size asked for\<close>

lemma passes_after_first:
  assumes hosts: "hosts E cluster ec init" and cert: "certifiable E"
    and laws: "conditions_laws (conds E) r" and tr: "tranquil E ec n" and n: "1 \<le> sint n" and ec: "theEC s = ec"
    and idle: "\<not> Initialized (ecStatus ec)" and none: "membersOf E cluster ec (stored init (trace s)) = []"
  obtains m where "waiting E ec n (theEC (passes E cluster (Suc j) s))"
    "membersOf E cluster ec (stored init (trace (passes E cluster (Suc j) s))) = [m]"
    "OwnerReferences (mMeta m) = [controllerRefOf E ec]"
proof -
  obtain t m where t: "run_state (reconcile E cluster) s = (Done (noResult, None), t)" "waiting E ec n (theEC t)"
    "membersOf E cluster ec (stored init (trace t)) = [m]" "OwnerReferences (mMeta m) = [controllerRefOf E ec]"
    using first_pass [OF hosts cert laws tr n ec none] by blast
  then show ?thesis
    using that [of m] waiting_passes [OF hosts n idle t(4,2,3), of j] by simp
qed

text \<open>C5: a cluster object without any machine, in a world in which nothing fails and what is cloned
  from the template of the spec carries its name and kind, if any. The first
  pass makes one machine, and every later pass leaves it at that one machine, with
  the condition that the cluster is initialised marked false, for as long as the bootstrap provider has
  not initialised the member. When it has, one more pass marks the condition, and every pass after that
  adds one machine until there are as many as the object asks for: the member that was initialised
  stays, and there is no second machine before it runs.\<close>

theorem empty_cluster_comes_up:
  assumes hosts: "hosts E cluster ec init" and cert: "certifiable E"
    and laws: "conditions_laws (conds E) r" and tr: "tranquil E ec n" and n: "1 \<le> sint n" and ec: "theEC s = ec"
    and idle: "\<not> Initialized (ecStatus ec)" and none: "membersOf E cluster ec (stored init (trace s)) = []"
  shows "\<exists>m new.
     membersOf E cluster ec (stored init (trace (passes E cluster (Suc j) s))) = [m] \<and>
     IsFalse E (theEC (passes E cluster (Suc j) s)) InitializedCondition \<and>
     membersOf E cluster ec (stored init (trace (passes E cluster (Suc k) (initialised (passes E cluster (Suc j) s))))) =
       m # new \<and>
     int (length (m # new)) = min (sint n) (1 + int k) \<and>
     \<not> IsFalse E (theEC (passes E cluster (Suc k) (initialised (passes E cluster (Suc j) s)))) InitializedCondition"
proof -
  obtain m where m: "waiting E ec n (theEC (passes E cluster (Suc j) s))"
    "membersOf E cluster ec (stored init (trace (passes E cluster (Suc j) s))) = [m]"
    "OwnerReferences (mMeta m) = [controllerRefOf E ec]"
    using passes_after_first [OF hosts cert laws tr n ec idle none] by blast
  obtain t where t: "run_state (reconcile E cluster) (initialised (passes E cluster (Suc j) s)) = (Done (noResult, None), t)"
    "settled E (theEC t) n" "same_object ec (theEC t)"
    "stored init (trace t) = stored init (trace (passes E cluster (Suc j) s))"
    using settling_pass [OF hosts laws n m] by blast
  note f = hostsD [OF hosts t(3)] and same = membersOf_same [OF t(3)]
  have "controllerRefOf E (theEC t) = controllerRefOf E ec"
    using t(3) by (simp add: same_object_def controllerRefOf_def)
  then have owned: "\<forall>x\<in>set [m]. col_OwnedMachines (coll E) (theEC t) x" using friendlyD(6) [OF f] m(3) by simp
  have ms: "[m] = membersOf E cluster (theEC t) (stored init (trace t))" using m(2) same t(4) by simp
  have size: "int (length [m]) \<le> sint n" using n by simp
  obtain new where new: "membersOf E cluster ec (stored init (trace (passes E cluster k t))) = m # new"
    "int (length (m # new)) = min (sint n) (1 + int k)" "theEC (passes E cluster k t) = theEC t"
    using cluster_grows_to_size [OF f t(2) refl ms owned _ size, of k] same by auto
  have "\<not> IsFalse E (theEC t) InitializedCondition" using t(2) by (simp add: settled_def)
  then show ?thesis using m new t(1) by (intro exI [of _ m] exI [of _ new]) (simp add: waiting_def)
qed

text \<open>The controller as the manager sets it up, starting with nothing at all.\<close>

lemma friendly_same:
  assumes "ecMeta ec = ecMeta ref_ec" "ecSpec ec = ecSpec ref_ec"
  shows "friendly (friendly_env init) ref_cluster ec init"
proof -
  have ref: "controllerRefOf (friendly_env init) ec = controllerRefOf (friendly_env init) ref_ec"
    by (simp add: controllerRefOf_def assms)
  have owned: "col_OwnedMachines (coll (friendly_env init)) ec = col_OwnedMachines (coll (friendly_env init)) ref_ec"
    by (simp add: friendly_fields ref_collections_def assms fun_eq_iff)
  show ?thesis using friendly_world [of init] unfolding friendly_def selects_own_def cloned_from_other_def assms ref owned .
qed

definition new_ec :: EtcdadmCluster where
  "new_ec = ref_ec\<lparr>ecStatus := (ecStatus ref_ec)\<lparr>Initialized := False\<rparr>\<rparr>"

lemma friendly_hosts: "hosts (friendly_env init) ref_cluster new_ec init"
  by (simp add: hosts_def same_object_def new_ec_def friendly_same)

lemma friendly_certifiable: "certifiable (friendly_env init)"
  unfolding certifiable_def friendly_fields friendly_svc_def
  by (simp add: ref_svc_def ref_capi_def etcdCACertKeyPair_def ref_keyPair_def friendly_fields)

lemma new_ec_tranquil: "tranquil (friendly_env init) new_ec 3"
  using settledD [OF friendly_settled, of init]
  by (simp add: tranquil_def HasCondition_def IsFalse_def hasAnnotation_def GetConditions_def new_ec_def)

theorem empty_cluster_comes_up_witness:
  "\<exists>m new. membersOf (friendly_env []) ref_cluster new_ec (stored [] (trace
      (passes (friendly_env []) ref_cluster (Suc 6)
        (initialised (passes (friendly_env []) ref_cluster (Suc 4) (ref_sys\<lparr>theEC := new_ec\<rparr>)))))) = m # new \<and>
    length (m # new) = 3"
proof -
  let ?E = "friendly_env []" and ?s = "ref_sys\<lparr>theEC := new_ec\<rparr>"
  have laws: "conditions_laws (conds ?E) ''Ready''" by (simp add: friendly_fields)
  have n: "1 \<le> sint (3 :: 32 word)" by simp
  have none: "membersOf ?E ref_cluster new_ec (stored [] (trace ?s)) = []"
    using friendly_start [of "[]"] by (simp add: membersOf_def new_ec_def)
  have idle: "\<not> Initialized (ecStatus new_ec)" by (simp add: new_ec_def)
  have ec: "theEC ?s = new_ec" by simp
  from empty_cluster_comes_up [OF friendly_hosts friendly_certifiable laws new_ec_tranquil n ec idle none,
      where j = 4 and k = 6]
  obtain m new where "membersOf ?E ref_cluster new_ec (stored [] (trace (passes ?E ref_cluster (Suc 6)
      (initialised (passes ?E ref_cluster (Suc 4) ?s))))) = m # new"
    "int (length (m # new)) = min (sint (3 :: 32 word)) (1 + int 6)" by blast
  moreover have "min (sint (3 :: 32 word)) (1 + int 6) = 3" by simp
  ultimately show ?thesis by (intro exI [of _ m] exI [of _ new]) simp
qed

end
