(* ===== verification/Rollout_Correct.thy ===== *)
theory Rollout_Correct
  imports Bringup_Correct
begin

text \<open>
  How a rollout ends: a changed bootstrap config, or another infrastructure template, makes the
  machines of a cluster outdated that were made before, and pass
  after pass the controller disowns an outdated machine or makes a current one, until as many
  machines as the object asks for are owned and all of them are current.
\<close>

section \<open>What the API server keeps\<close>

text \<open>The bootstrap configs there are after a trace: those there were and those created.\<close>

type_synonym config_store = "ObjectKey \<rightharpoonup> EtcdadmConfig"

fun config_event :: "config_store \<Rightarrow> event \<Rightarrow> config_store" where
  "config_event cs (EvCreateEtcdadmConfig c None) =
     cs(\<lparr>keyNamespace = Namespace (cfgMeta c), keyName = Name (cfgMeta c)\<rparr> \<mapsto> c)"
| "config_event cs _ = cs"

definition configs :: "config_store \<Rightarrow> history \<Rightarrow> config_store" where
  "configs cfgs h = foldl config_event cfgs h"

lemma configs_append: "configs cfgs (h @ es) = foldl config_event (configs cfgs h) es"
  by (simp add: configs_def)

lemma configs_snoc [simp]: "configs cfgs (h @ [e]) = config_event (configs cfgs h) e"
  by (simp add: configs_def)

text \<open>
  The object after a trace: what the last patch made of it. Nobody else writes it, so a patch, which
  is computed against what was read, makes it what was patched.
\<close>

fun object_event :: "EtcdadmCluster \<Rightarrow> event \<Rightarrow> EtcdadmCluster" where
  "object_event ec (EvPatchEtcdadmCluster base new None) = new"
| "object_event ec _ = ec"

definition latest :: "EtcdadmCluster \<Rightarrow> history \<Rightarrow> EtcdadmCluster" where
  "latest ec0 h = foldl object_event ec0 h"

lemma latest_snoc [simp]: "latest ec0 (h @ [e]) = object_event (latest ec0 h) e"
  by (simp add: latest_def)

fun makes_config :: "event \<Rightarrow> bool" where
  "makes_config (EvCreateEtcdadmConfig _ _) = True"
| "makes_config _ = False"

lemma config_frame: "\<not> makes_config e \<Longrightarrow> config_event cs e = cs"
  by (cases e) simp_all

lemma configs_frame: "list_all (\<lambda>e. \<not> makes_config e) es \<Longrightarrow> configs cfgs (h @ es) = configs cfgs h"
  unfolding configs_append by (induction es arbitrary: h rule: rev_induct) (simp_all add: config_frame)

lemma reads_makes_no_config: "\<not> mutates e \<Longrightarrow> \<not> makes_config e"
  by (cases e) simp_all

text \<open>The config of a machine.\<close>

definition configKey :: "Machine \<Rightarrow> ObjectKey" where
  "configKey m = \<lparr>keyNamespace = Namespace (mMeta m), keyName = crName (mConfigRef m)\<rparr>"

definition configOf :: "env \<Rightarrow> config_store \<Rightarrow> Machine \<Rightarrow> EtcdadmConfig option" where
  "configOf E cs m = (if ref_IsDefined (capi E) (Some (mConfigRef m)) then cs (configKey m) else None)"

text \<open>
  An infrastructure object that was cloned from another template than the one the spec names; what it
  was cloned from is settled when it is made, so the object there is at the beginning tells.
\<close>

definition from_other_template :: "env \<Rightarrow> EtcdadmCluster \<Rightarrow> ObjectReference \<Rightarrow> bool" where
  "from_other_template E ec r \<longleftrightarrow>
     (case k_ExternalGet (svc E) [] r of Inl _ \<Rightarrow> False | Inr i \<Rightarrow> cloned_from_other E ec i)"

text \<open>A machine whose config was made from another spec than the object has now, or whose
  infrastructure was cloned from another template.\<close>

definition stale :: "env \<Rightarrow> EtcdadmCluster \<Rightarrow> config_store \<Rightarrow> Machine \<Rightarrow> bool" where
  "stale E ec cs m \<longleftrightarrow>
     (case configOf E cs m of None \<Rightarrow> False | Some c \<Rightarrow> cfgSpec c \<noteq> etcdadmConfigSpec (ecSpec ec)) \<or>
     from_other_template E ec (infraRefOf m)"

section \<open>A world in which nothing fails\<close>

text \<open>
  What becomes of a machine that is created or changed: its listings show it with an address and a
  creation time, and otherwise as it was written.
\<close>

definition boots :: "(Machine \<Rightarrow> Machine) \<Rightarrow> bool" where
  "boots boot \<longleftrightarrow> (\<forall>m. mName (boot m) = mName m \<and> mConfigRef (boot m) = mConfigRef m \<and>
     mInfrastructureRef (boot m) = mInfrastructureRef m \<and> Namespace (mMeta (boot m)) = Namespace (mMeta m) \<and> Labels (mMeta (boot m)) = Labels (mMeta m) \<and>
     Annotations (mMeta (boot m)) = Annotations (mMeta m) \<and>
     OwnerReferences (mMeta (boot m)) = OwnerReferences (mMeta m) \<and>
     DeletionTimestamp (mMeta (boot m)) = DeletionTimestamp (mMeta m) \<and> getEtcdMachineAddress (boot m) \<noteq> [])"

text \<open>
  Listings show every machine that is stored, configs are found when they were created, updates
  succeed. No infrastructure object changes what it was cloned from: some machines may have one of
  another template, but what \<open>CreateFromTemplate\<close> makes is not one of those. A generated name is the name of no machine and of no machine's config. Whenever the
  clock is looked at, every machine is old enough, so a pass comes at least a minute after the one
  before; and every machine passes its health check.
\<close>

definition rolling :: "env \<Rightarrow> Cluster \<Rightarrow> EtcdadmCluster \<Rightarrow> Machines \<Rightarrow> config_store \<Rightarrow> (Machine \<Rightarrow> Machine) \<Rightarrow> bool" where
  "rolling E cluster ec init cfgs boot \<longleftrightarrow>
     serving E \<and> selects_own E cluster ec \<and> choice_laws (coll E) \<and> certifiable E \<and> boots boot \<and>
     (\<forall>h rd f. k_ListMachines (svc E) h rd cluster f = Inr (filter f (map boot (stored init h)))) \<and>
     (\<forall>h k c. configs cfgs h k = Some c \<longrightarrow> k_GetEtcdadmConfig (svc E) h k = Inr c) \<and>
     (\<forall>h k. configs cfgs h k = None \<longrightarrow>
        (\<exists>e. k_GetEtcdadmConfig (svc E) h k = Inl e \<and> IsNotFound (errs E) (errors_Cause (errs E) e))) \<and>
     (\<forall>h m. k_UpdateMachine (svc E) h m = None) \<and>
     (\<forall>h base. \<forall>m\<in>set (stored init h).
        k_GenerateName (svc E) h base \<noteq> mName m \<and> k_GenerateName (svc E) h base \<noteq> crName (mConfigRef m)) \<and>
     (\<forall>h. \<forall>m\<in>set (stored init h).
        CreationTimestamp (mMeta (boot m)) + minEtcdMemberReadySeconds * time_Second \<le> t_Now (svc E) h) \<and>
     (\<forall>s. \<forall>m\<in>set (stored init (trace s)). \<exists>t. reads s t \<and>
        run_state (performEndpointHealthCheck E cluster (getMemberClientURL (getEtcdMachineAddress (boot m))) True) s =
          (Done None, t)) \<and>
     (\<forall>ec'. same_object ec ec' \<longrightarrow> col_OwnedMachines (coll E) ec' = col_OwnedMachines (coll E) ec) \<and>
     (\<forall>m. OwnerReferences (mMeta m) = [controllerRefOf E ec] \<longrightarrow> col_OwnedMachines (coll E) ec m) \<and>
     (\<forall>m. OwnerReferences (mMeta m) = [] \<longrightarrow> \<not> col_OwnedMachines (coll E) ec m) \<and>
     (\<forall>h r i. k_ExternalGet (svc E) h r = Inr i \<longrightarrow> cloned_from_other E ec i = from_other_template E ec r) \<and>
     (\<forall>h infra m. k_CreateFromTemplate (svc E) h (infraInput E cluster ec) = Inr (Some infra) \<longrightarrow>
        crName (mInfrastructureRef m) = Name (infMeta infra) \<longrightarrow> crKind (mInfrastructureRef m) = infKind infra \<longrightarrow>
        Namespace (mMeta m) = Namespace (ecMeta ec) \<longrightarrow> \<not> from_other_template E ec (infraRefOf m))"

lemma rollingD:
  assumes "rolling E cluster ec init cfgs boot"
  shows "serving E" "selects_own E cluster ec" "choice_laws (coll E)" "certifiable E" "boots boot"
    "k_ListMachines (svc E) h rd cluster f = Inr (filter f (map boot (stored init h)))"
    "configs cfgs h k = Some c \<Longrightarrow> k_GetEtcdadmConfig (svc E) h k = Inr c"
    "configs cfgs h k = None \<Longrightarrow>
       \<exists>e. k_GetEtcdadmConfig (svc E) h k = Inl e \<and> IsNotFound (errs E) (errors_Cause (errs E) e)"
    "k_UpdateMachine (svc E) h m = None"
    "m \<in> set (stored init h) \<Longrightarrow> k_GenerateName (svc E) h base \<noteq> mName m"
    "m \<in> set (stored init h) \<Longrightarrow> k_GenerateName (svc E) h base \<noteq> crName (mConfigRef m)"
    "m \<in> set (stored init h) \<Longrightarrow>
       CreationTimestamp (mMeta (boot m)) + minEtcdMemberReadySeconds * time_Second \<le> t_Now (svc E) h"
    "m \<in> set (stored init (trace s)) \<Longrightarrow>
       \<exists>t. reads s t \<and> run_state (performEndpointHealthCheck E cluster
         (getMemberClientURL (getEtcdMachineAddress (boot m))) True) s = (Done None, t)"
    "same_object ec ec' \<Longrightarrow> col_OwnedMachines (coll E) ec' = col_OwnedMachines (coll E) ec"
    "OwnerReferences (mMeta m) = [controllerRefOf E ec] \<Longrightarrow> col_OwnedMachines (coll E) ec m"
    "OwnerReferences (mMeta m) = [] \<Longrightarrow> \<not> col_OwnedMachines (coll E) ec m"
    "k_ExternalGet (svc E) h r = Inr i \<Longrightarrow> cloned_from_other E ec i = from_other_template E ec r"
    "k_CreateFromTemplate (svc E) h (infraInput E cluster ec) = Inr (Some infra) \<Longrightarrow>
       crName (mInfrastructureRef m) = Name (infMeta infra) \<Longrightarrow> crKind (mInfrastructureRef m) = infKind infra \<Longrightarrow>
       Namespace (mMeta m) = Namespace (ecMeta ec) \<Longrightarrow> \<not> from_other_template E ec (infraRefOf m)"
  using assms unfolding rolling_def by simp_all

section \<open>Steps that leave the machines and the configs alone\<close>

text \<open>The object may get other conditions, but not the one that the cluster is uninitialised.\<close>

definition steady :: "env \<Rightarrow> EtcdadmCluster \<Rightarrow> Machines \<Rightarrow> config_store \<Rightarrow> sys \<Rightarrow> sys \<Rightarrow> bool" where
  "steady E ec init cfgs s t \<longleftrightarrow>
     stored init (trace t) = stored init (trace s) \<and> configs cfgs (trace t) = configs cfgs (trace s) \<and>
     (same_object ec (theEC s) \<longrightarrow> same_object ec (theEC t)) \<and>
     (\<not> IsFalse E (theEC s) InitializedCondition \<longrightarrow> \<not> IsFalse E (theEC t) InitializedCondition)"

interpretation steady: step_order "steady E ec init cfgs" for E ec init cfgs
  by unfold_locales (auto simp: steady_def)

lemma steady_if_reads: "reads s t \<Longrightarrow> steady E ec init cfgs s t"
  by (auto simp: reads_def extends_def steady_def stored_if_reads
      intro!: configs_frame elim!: list.pred_mono_strong dest: reads_makes_no_config)

lemma steady_if_kept:
  "extends (\<lambda>e. \<not> makes_config e) s t \<Longrightarrow> theEC t = theEC s \<Longrightarrow> stored init (trace t) = stored init (trace s) \<Longrightarrow>
   steady E ec init cfgs s t"
  by (auto simp: extends_def steady_def configs_frame)

lemma steady_mark:
  assumes "conditions_laws (conds E) r" and "c \<noteq> InitializedCondition"
  shows "obeys (steady E ec init cfgs) (MarkTrue E c)" "obeys (steady E ec init cfgs) (MarkFalse E c reason sev msg)"
  using assms(2) marked(3,4) [OF assms(1)]
  by (auto simp: obeys_def steady_def run_simps with_folds marked_frame intro: same_object_trans)


section \<open>The machines of a pass\<close>

text \<open>The members as a listing shows them, and those among them the object owns.\<close>

definition fleet :: "env \<Rightarrow> Cluster \<Rightarrow> EtcdadmCluster \<Rightarrow> Machines \<Rightarrow> (Machine \<Rightarrow> Machine) \<Rightarrow> sys \<Rightarrow> Machines" where
  "fleet E cluster ec init boot s = membersOf E cluster ec (map boot (stored init (trace s)))"

definition crew :: "env \<Rightarrow> Cluster \<Rightarrow> EtcdadmCluster \<Rightarrow> Machines \<Rightarrow> (Machine \<Rightarrow> Machine) \<Rightarrow> sys \<Rightarrow> Machines" where
  "crew E cluster ec init boot s = filter (col_OwnedMachines (coll E) ec) (fleet E cluster ec init boot s)"

lemma run_listing:
  assumes w: "rolling E cluster ec init cfgs boot" and same: "same_object ec (theEC s)"
  shows "\<exists>t. run_state (listEtcdMachines E rd cluster (Name (ecMeta (theEC s)))) s =
     (Done (Inr (fleet E cluster ec init boot s)), t) \<and> theEC t = theEC s \<and> steady E ec init cfgs s t"
  using rollingD(2) [OF w]
proof (rule own_selector)
  fix sel
  assume sel: "EtcdMachinesSelectorForCluster E (clName cluster) (Name (ecMeta ec)) = Some sel"
    "\<And>ms. membersOf E cluster ec ms = filter (\<lambda>m. EtcdClusterMachines E sel (Some m)) ms"
  have "Name (ecMeta (theEC s)) = Name (ecMeta ec)" using same by (simp add: same_object_def)
  then show ?thesis using sel
    by (simp add: listEtcdMachines_def call_ListMachines_def run_simps fleet_def rollingD(6) [OF w] steady_def
        stored_append configs_append)
qed

lemma run_external:
  assumes w: "serving E"
  shows "\<exists>t. run_state (reconcileExternalReference E cluster ref) s = (Done None, t) \<and> theEC t = theEC s \<and>
     steady E ec init cfgs s t"
proof -
  obtain t where t: "run_state (reconcileExternalReference E cluster ref) s = (Done None, t)" "theEC t = theEC s"
    "stored init (trace t) = stored init (trace s)"
    using gives_bind [OF gives_externalReference [OF w]] by blast
  have "emits (\<lambda>e. \<not> makes_config e) (reconcileExternalReference E cluster ref)"
    by (rule emits_reconcileExternalReference) (simp_all add: reads_makes_no_config)
  then have "extends (\<lambda>e. \<not> makes_config e) s t" using t(1) by (rule obeysD)
  then show ?thesis using t steady_if_kept by blast
qed

text \<open>The plane knows the config of every one of its machines.\<close>

lemma run_config_loop:
  assumes w: "rolling E cluster ec init cfgs boot"
  shows "distinct (map mName ms) \<Longrightarrow> configs cfgs (trace s) = cs \<Longrightarrow> \<forall>m\<in>set ms. result (mName m) = None \<Longrightarrow>
    \<exists>r t. run_state (getEtcdadmConfigs_loop E result ms) s = (Done (Inr r), t) \<and>
      (\<forall>m\<in>set ms. r (mName m) = configOf E cs m) \<and> (\<forall>n. n \<notin> mName ` set ms \<longrightarrow> r n = result n)"
proof (induction ms arbitrary: result s)
  case (Cons m ms)
  note step = call_GetEtcdadmConfig_def run_simps configKey_def [symmetric]
  show ?case
  proof (cases "configOf E cs m")
    case None
    obtain t where t: "run_state (getEtcdadmConfigs_loop E result (m # ms)) s = run_state (getEtcdadmConfigs_loop E result ms) t"
      "configs cfgs (trace t) = cs"
    proof (cases "ref_IsDefined (capi E) (Some (mConfigRef m))")
      case True
      then have "configs cfgs (trace s) (configKey m) = None" using None Cons.prems(2) by (simp add: configOf_def)
      then obtain e where "k_GetEtcdadmConfig (svc E) (trace s) (configKey m) = Inl e"
        "IsNotFound (errs E) (errors_Cause (errs E) e)" using rollingD(8) [OF w] by blast
      then show ?thesis using True Cons.prems(2)
        by (intro that [of "s\<lparr>trace := trace s @ [EvGetEtcdadmConfig (configKey m) (Inl e)]\<rparr>"]) (simp_all add: step)
    next
      case False
      then show ?thesis using that Cons.prems(2) by simp
    qed
    have "distinct (map mName ms)" "\<forall>m\<in>set ms. result (mName m) = None" using Cons.prems by simp_all
    from Cons.IH [OF this(1) t(2) this(2)] obtain r u where
      "run_state (getEtcdadmConfigs_loop E result ms) t = (Done (Inr r), u)"
      "\<forall>m\<in>set ms. r (mName m) = configOf E cs m" "\<forall>n. n \<notin> mName ` set ms \<longrightarrow> r n = result n" by blast
    then show ?thesis using t(1) None Cons.prems by (intro exI [of _ r] exI [of _ u]) auto
  next
    case (Some c)
    then have c: "ref_IsDefined (capi E) (Some (mConfigRef m))" "configs cfgs (trace s) (configKey m) = Some c"
      using Cons.prems(2) by (simp_all add: configOf_def split: if_splits)
    have "distinct (map mName ms)" "\<forall>m'\<in>set ms. (result(mName m \<mapsto> c)) (mName m') = None"
      using Cons.prems by (auto simp: rev_image_eqI)
    from Cons.IH [OF this(1) _ this(2), of "s\<lparr>trace := trace s @ [EvGetEtcdadmConfig (configKey m) (Inr c)]\<rparr>"] Cons.prems(2)
    obtain r u where
      "run_state (getEtcdadmConfigs_loop E (result(mName m \<mapsto> c)) ms)
         (s\<lparr>trace := trace s @ [EvGetEtcdadmConfig (configKey m) (Inr c)]\<rparr>) = (Done (Inr r), u)"
      "\<forall>m\<in>set ms. r (mName m) = configOf E cs m" "\<forall>n. n \<notin> mName ` set ms \<longrightarrow> r n = (result(mName m \<mapsto> c)) n"
      by (auto simp del: fun_upd_apply)
    then show ?thesis using c Some Cons.prems rollingD(7) [OF w c(2)]
      by (intro exI [of _ r] exI [of _ u]) (auto simp: step simp del: fun_upd_apply, auto)
  qed
qed (simp add: run_simps)

text \<open>A plane of these machines, in which those are outdated that are stale.\<close>

definition knows :: "env \<Rightarrow> EtcdadmCluster \<Rightarrow> config_store \<Rightarrow> Machines \<Rightarrow> EtcdPlane \<Rightarrow> bool" where
  "knows E ec cs ms ep \<longleftrightarrow> same_object ec (EC ep) \<and> epMachines ep = ms \<and> (\<forall>m\<in>set ms. outdated E ep m = stale E ec cs m)"

lemma answeredD:
  assumes a: "answered E ms ir" and m: "m \<in> set ms"
  shows "\<exists>i m' h. ir (mName m) = Some i \<and> m' \<in> set ms \<and> mName m' = mName m \<and>
    k_ExternalGet (svc E) h (infraRefOf m') = Inr i"
proof -
  note all = a [unfolded answered_def]
  obtain i where i: "ir (mName m) = Some i" using bspec [OF conjunct2 [OF all] m] by auto
  with conjunct1 [OF all] obtain x h where "x \<in> set ms" "mName x = mName m" "k_ExternalGet (svc E) h (infraRefOf x) = Inr i"
    by blast
  then show ?thesis using i by blast
qed

lemma run_plane:
  assumes w: "rolling E cluster ec init cfgs boot" and same: "same_object ec ec0" and names: "distinct (map mName ms)"
  shows "\<exists>ep t. run_state (NewEtcdPlane E cluster ec0 ms) s = (Done (Inr ep), t) \<and> theEC t = theEC s \<and>
     steady E ec init cfgs s t \<and> knows E ec (configs cfgs (trace s)) ms ep"
proof -
  let ?cs = "configs cfgs (trace s)"
  have "\<exists>cs t'. run_state (getEtcdadmConfigs E ms) t = (Done (Inr cs), t') \<and>
      (\<forall>m\<in>set ms. cs (mName m) = configOf E ?cs m)" if "reads s t" for t
  proof -
    have "configs cfgs (trace t) = ?cs" using steady_if_reads [OF that] by (simp add: steady_def)
    then show ?thesis
      using run_config_loop [OF w, of "go_range (range_order (svc E) ''getEtcdadmConfigs'' (trace t) (length ms)) ms" t]
        names unfolding getEtcdadmConfigs_def run_over_range by force
  qed
  from gives_plane_with [OF rollingD(1) [OF w] this] obtain ep where
    ep: "gives init (NewEtcdPlane E cluster ec0 ms) s (Inr ep)" "EC ep = ec0" "epMachines ep = ms"
    "\<forall>m\<in>set ms. etcdadmConfigs ep (mName m) = configOf E ?cs m"
    "answered E ms (infraResources ep)"
    by blast
  have "outdated E ep m = stale E ec ?cs m" if "m \<in> set ms" for m
  proof -
    have spec: "ecSpec (EC ep) = ecSpec ec" using ep(2) same by (simp add: same_object_def)
    obtain i m' h where i: "infraResources ep (mName m) = Some i" "m' \<in> set ms" "mName m' = mName m"
      "k_ExternalGet (svc E) h (infraRefOf m') = Inr i"
      using answeredD [OF ep(5) \<open>m \<in> set ms\<close>] by blast
    then have "m' = m" using names that by (auto simp: distinct_map dest: inj_onD)
    then have "cloned_from_other E ec i = from_other_template E ec (infraRefOf m)" using rollingD(17) [OF w i(4)] by simp
    moreover have "outdated E ep m = (stale E ec ?cs m \<and> \<not> from_other_template E ec (infraRefOf m) \<or> cloned_from_other E ec i \<or>
        (case configOf E ?cs m of None \<Rightarrow> False | Some c \<Rightarrow> cfgSpec c \<noteq> etcdadmConfigSpec (ecSpec ec)))"
      using ep(4) that i(1) spec
      by (auto simp: outdated_def stale_def cloned_from_other_def split: option.splits)
    ultimately show ?thesis by (auto simp: stale_def)
  qed
  then have "knows E ec ?cs ms ep" using ep(2,3) same by (simp add: knows_def)
  moreover obtain t where t: "run_state (NewEtcdPlane E cluster ec0 ms) s = (Done (Inr ep), t)"
    using ep(1) by (auto simp: gives_def)
  moreover have "reads s t" using reads_NewEtcdPlane t by (rule obeysD)
  ultimately show ?thesis using steady_if_reads by (auto simp: reads_def)
qed

text \<open>Counting the machines the code counts.\<close>

lemma mset_outdated:
  assumes laws: "collections_laws (coll E)"
  shows "mset (OutOfDateMachines E ep) = mset (filter (outdated E ep) (epMachines ep))"
    "mset (MachinesNeedingRollout E ep) =
       mset (filter (\<lambda>m. outdated E ep m \<and> DeletionTimestamp (mMeta m) = None) (epMachines ep))"
  using collections_lawsD [OF laws]
  by (simp_all add: OutOfDateMachines_def MachinesNeedingRollout_def Let_def matches_iff [OF laws]
      filter_filter_mset conj_commute)

lemma distinct_map_mset: "mset xs = mset ys \<Longrightarrow> distinct (map f ys) \<Longrightarrow> distinct (map f xs)"
  by (metis mset_map mset_eq_imp_distinct_iff)

lemma length_mset_eq: "mset xs = mset ys \<Longrightarrow> length xs = length ys"
  by (metis size_mset)

lemma filter_if: "(\<And>x. x \<in> set xs \<Longrightarrow> P x = Q x) \<Longrightarrow> filter P xs = filter Q xs"
  by (rule filter_cong) simp_all

lemma count_out_of_date:
  assumes laws: "collections_laws (coll E)" and ep: "knows E ec cs ms ep"
  shows "length (OutOfDateMachines E ep) = length (filter (stale E ec cs) ms)"
proof -
  have "filter (outdated E ep) ms = filter (stale E ec cs) ms" using ep by (intro filter_if) (simp add: knows_def)
  then show ?thesis using length_mset_eq [OF mset_outdated(1) [OF laws, of ep]] ep by (simp add: knows_def)
qed

lemma need_rollout:
  assumes laws: "collections_laws (coll E)" and ep: "knows E ec cs ms ep"
    and alive: "\<forall>m\<in>set ms. DeletionTimestamp (mMeta m) = None"
  shows "mset (MachinesNeedingRollout E ep) = mset (filter (stale E ec cs) ms)"
proof -
  have "filter (\<lambda>m. outdated E ep m \<and> DeletionTimestamp (mMeta m) = None) ms = filter (stale E ec cs) ms"
    using ep alive by (intro filter_if) (simp add: knows_def)
  then show ?thesis using mset_outdated(2) [OF laws, of ep] ep by (simp add: knows_def del: mset_filter)
qed

section \<open>The stages\<close>

lemma run_mark_outdated:
  assumes laws: "conditions_laws (conds E) r"
  shows "\<exists>t. run_state (onlyIf b (MarkFalse E EtcdClusterHasNoOutdatedMembersCondition why sev msg)) s = (Done (), t) \<and>
      steady E ec init cfgs s t"
    "\<exists>t. run_state (onlyIf b (MarkTrue E EtcdClusterHasNoOutdatedMembersCondition)) s = (Done (), t) \<and>
      steady E ec init cfgs s t"
  using steady_mark [OF laws types_neq(3), of ec init cfgs] by (simp_all add: onlyIf_def obeys_def steady.refl)

lemma run_outdatedStage:
  assumes laws: "conditions_laws (conds E) r"
    and calm: "\<not> hasAnnotation (theEC s) (ControlPlaneUpgradeCompletedAnnotation (capi E))"
  shows "\<exists>t. run_state (outdatedStage E cluster ms owned) s = (Done None, t) \<and> steady E ec init cfgs s t"
proof -
  note marks = run_mark_outdated [OF laws]
  show ?thesis
  proof (cases "length owned = length ms")
    case True
    from marks(2) obtain t where "run_state (onlyIf (IsFalse E (theEC s) EtcdClusterHasNoOutdatedMembersCondition)
      (MarkTrue E EtcdClusterHasNoOutdatedMembersCondition)) s = (Done (), t)" "steady E ec init cfgs s t" by blast
    then show ?thesis using calm True by (simp add: outdatedStage_def run_simps onlyIf_def [of False])
  next
    case False
    from marks(1) obtain t where "run_state (onlyIf (IsUnknown E (theEC s) EtcdClusterHasNoOutdatedMembersCondition \<or>
        IsTrue E (theEC s) EtcdClusterHasNoOutdatedMembersCondition)
      (MarkFalse E EtcdClusterHasNoOutdatedMembersCondition EtcdClusterHasOutdatedMembersReason ConditionSeverityInfo
        (show_int (int (length (col_Difference (coll E) ms owned))) @ '' etcd members have outdated spec''))) s = (Done (), t)"
      "steady E ec init cfgs s t" by blast
    then show ?thesis using calm False by (simp add: outdatedStage_def run_simps)
  qed
qed

text \<open>An upgrade that waits for its newest machine finds it old enough, with an address and healthy.\<close>

lemma run_wait:
  assumes w: "rolling E cluster ec init cfgs boot" and laws: "collections_laws (coll E)"
    and stored: "set (epMachines ep) \<subseteq> boot ` set (stored init (trace s))" and some: "UpToDateMachines E ep \<noteq> []"
  shows "\<exists>t. run_state (waitForNewestMachine E cluster ep) s = (Done None, t) \<and> steady E ec init cfgs s t"
proof -
  obtain m where m: "NewestUpToDateMachine E ep = Some m" "m \<in> set (UpToDateMachines E ep)"
    using rollingD(3) [OF w] some unfolding choice_laws_def NewestUpToDateMachine_def by blast
  then have "m \<in> set (epMachines ep)" using laws by (auto simp: UpToDateMachines_def set_Difference)
  then obtain m0 where m0: "m = boot m0" "m0 \<in> set (stored init (trace s))" using stored by blast
  define s1 where "s1 = s\<lparr>trace := trace s @ [EvNow (t_Now (svc E) (trace s))]\<rparr>"
  have s1: "stored init (trace s1) = stored init (trace s)" "steady E ec init cfgs s s1"
    by (simp_all add: s1_def steady_def)
  have old: "\<not> CreationTimestamp (mMeta m) + minEtcdMemberReadySeconds * time_Second > t_Now (svc E) (trace s)"
    using rollingD(12) [OF w m0(2)] m0(1) by (simp add: not_less)
  have address: "getEtcdMachineAddress m \<noteq> []" using rollingD(5) [OF w] m0(1) by (simp add: boots_def)
  obtain t where t: "reads s1 t" "run_state (performEndpointHealthCheck E cluster
      (getMemberClientURL (getEtcdMachineAddress m)) True) s1 = (Done None, t)"
    using rollingD(13) [OF w, of m0 s1] m0 by (auto simp: s1_def)
  then have "steady E ec init cfgs s t" using steady.trans [OF s1(2) steady_if_reads] by blast
  then show ?thesis using m(1) old address t(2)
    by (intro exI [of _ t]) (simp add: waitForNewestMachine_def run_simps call_Now_def Let_def s1_def [symmetric])
qed

section \<open>A step of the rollout\<close>

text \<open>A machine is made: its config has the current spec, and it takes no name that was in use.\<close>

definition fresh_machine :: "env \<Rightarrow> Cluster \<Rightarrow> EtcdadmCluster \<Rightarrow> config_store \<Rightarrow> Machines \<Rightarrow> Machine \<Rightarrow> bool" where
  "fresh_machine E cluster ec cs ms m \<longleftrightarrow>
     Labels (mMeta m) = EtcdLabelsForCluster E (clName cluster) (Name (ecMeta ec)) \<and>
     OwnerReferences (mMeta m) = [controllerRefOf E ec] \<and> DeletionTimestamp (mMeta m) = None \<and>
     Annotations (mMeta m) = None \<and> mName m \<notin> mName ` set ms \<and> \<not> stale E ec cs m"

lemma run_make:
  assumes w: "rolling E cluster ec init cfgs boot" and same: "same_object ec (theEC s)"
  shows "\<exists>new t. run_state (cloneConfigsAndGenerateMachine E cluster fd) s = (Done (noResult, None), t) \<and>
     theEC t = theEC s \<and> stored init (trace t) = stored init (trace s) @ [new] \<and>
     fresh_machine E cluster ec (configs cfgs (trace t)) (stored init (trace s)) new \<and>
     (\<forall>m\<in>set (stored init (trace s)). configs cfgs (trace t) (configKey m) = configs cfgs (trace s) (configKey m))"
proof -
  let ?ec = "theEC s" and ?base = "Name (ecMeta (theEC s)) @ ''-''" and ?names = "mName ` set (stored init (trace s))"
  note f = rollingD(1) [OF w]
  obtain infra gv where a: "k_CreateFromTemplate (svc E) (trace s) (infraInput E cluster ?ec) = Inr (Some infra)"
    "schema_ParseGroupVersion (capi E) (infAPIVersion infra) = Inr gv"
    using servingD(5) [OF f] by blast
  define h1 where "h1 = trace s @ [EvCreateFromTemplate (infraInput E cluster ?ec) (Inr (Some infra))]"
  define n1 where "n1 = k_GenerateName (svc E) h1 ?base"
  define h2 where "h2 = h1 @ [EvGenerateName ?base n1, EvCreateEtcdadmConfig (configNamed E cluster ?ec n1) None]"
  define n2 where "n2 = k_GenerateName (svc E) h2 ?base"
  define h3 where "h3 = h2 @ [EvGenerateName ?base n2]"
  have st: "stored init h1 = stored init (trace s)" "stored init h2 = stored init (trace s)"
    "stored init h3 = stored init (trace s)"
    by (simp_all add: h1_def h2_def h3_def stored_append)
  have cs: "configs cfgs h3 = (configs cfgs (trace s))(\<lparr>keyNamespace = Namespace (ecMeta ec), keyName = n1\<rparr> \<mapsto>
      configNamed E cluster ?ec n1)"
    using same by (simp add: h1_def h2_def h3_def configs_append configNamed_def childMeta_def same_object_def)
  have fresh: "n2 \<notin> ?names" "\<forall>m\<in>set (stored init (trace s)). crName (mConfigRef m) \<noteq> n1"
    using rollingD(10) [OF w, of _ h2 ?base] rollingD(11) [OF w, of _ h1 ?base] st(1,2)
    unfolding n1_def n2_def by auto metis
  let ?new = "\<lparr>mMeta = childMeta E ?ec cluster n2 (controllerRefOf E ?ec), mClusterName = clName cluster,
    mInfrastructureRef = \<lparr>crKind = infKind infra, crName = Name (infMeta infra), crAPIGroup = gv\<rparr>,
    mConfigRef = \<lparr>crKind = ''EtcdadmConfig'', crName = n1, crAPIGroup = BootstrapGroup (capi E)\<rparr>,
    mFailureDomain = (case fd of None \<Rightarrow> [] | Some fd \<Rightarrow> fd), mAddresses = []\<rparr>"
  let ?t = "s\<lparr>trace := h3 @ [EvCreateMachine ?new None]\<rparr>"
  have run: "run_state (cloneConfigsAndGenerateMachine E cluster fd) s = (Done (noResult, None), ?t)"
    by (simp add: clone_defs a servingD(6,7) [OF f] h1_def [symmetric] n1_def [symmetric])
      (simp add: h1_def h2_def h3_def n1_def n2_def)
  have "infraInput E cluster ?ec = infraInput E cluster ec"
    using same by (simp add: infraInput_def etcdOwnerRef_def same_object_def)
  then have "\<not> from_other_template E ec (infraRefOf ?new)"
    using a(1) by (intro rollingD(18) [OF w, of "trace s" infra])
      (use same in \<open>simp_all add: childMeta_def same_object_def\<close>)
  then have "fresh_machine E cluster ec (configs cfgs h3) (stored init (trace s)) ?new"
    using same fresh(1) by (simp add: fresh_machine_def stale_def configOf_def cs configKey_def childMeta_def
        controllerRefOf_def same_object_def configNamed_def)
  moreover have "\<forall>m\<in>set (stored init (trace s)). configs cfgs h3 (configKey m) = configs cfgs (trace s) (configKey m)"
    using fresh(2) by (simp add: cs configKey_def)
  ultimately show ?thesis using run st(3) by (intro exI [of _ ?new] exI [of _ ?t]) simp
qed

text \<open>A machine is disowned: one of those that need it, as long as none is marked for deletion.\<close>

lemma run_disown:
  assumes w: "rolling E cluster ec init cfgs boot" and laws: "collections_laws (coll E)" and need: "need \<noteq> []"
    and plain: "\<forall>m\<in>set (epMachines ep) \<union> set need. map_get (Annotations (mMeta m)) (DeleteMachineAnnotation (capi E)) = None"
  shows "\<exists>m\<in>set need. \<exists>t. run_state (withoutResult (removeFromListOfOwnedMachines E ep need)) s = (Done (noResult, None), t) \<and>
     theEC t = theEC s \<and> configs cfgs (trace t) = configs cfgs (trace s) \<and>
     stored init (trace t) = map (\<lambda>x. if mName x = mName m then disowned m else x) (stored init (trace s))"
proof -
  have "candidates E ep need = need" using need plain by (simp add: candidates_def annotated_def)
  then obtain m where m: "selectMachineForScaleDown E ep need = Done (Inr m)" "m \<in> set need"
    using chosen_candidate [OF laws rollingD(3) [OF w], of ep need] need by auto
  then show ?thesis
    by (intro bexI [of _ m]) (simp_all add: withoutResult_def removeFromListOfOwnedMachines_def run_simps
        call_UpdateMachine_def rollingD(9) [OF w] stored_append configs_append)
qed

section \<open>What is left to do\<close>

text \<open>The outdated machines of the object, and its current ones.\<close>

definition laggards :: "env \<Rightarrow> Cluster \<Rightarrow> EtcdadmCluster \<Rightarrow> Machines \<Rightarrow> config_store \<Rightarrow> (Machine \<Rightarrow> Machine) \<Rightarrow> sys \<Rightarrow> Machines" where
  "laggards E cluster ec init cfgs boot s =
     filter (stale E ec (configs cfgs (trace s))) (crew E cluster ec init boot s)"

definition current :: "env \<Rightarrow> Cluster \<Rightarrow> EtcdadmCluster \<Rightarrow> Machines \<Rightarrow> config_store \<Rightarrow> (Machine \<Rightarrow> Machine) \<Rightarrow> sys \<Rightarrow> Machines" where
  "current E cluster ec init cfgs boot s =
     filter (\<lambda>m. \<not> stale E ec (configs cfgs (trace s)) m) (crew E cluster ec init boot s)"

text \<open>The measure: machines to disown and machines to make.\<close>

definition remaining :: "env \<Rightarrow> Cluster \<Rightarrow> EtcdadmCluster \<Rightarrow> Machines \<Rightarrow> config_store \<Rightarrow> (Machine \<Rightarrow> Machine) \<Rightarrow> 32 word \<Rightarrow> sys \<Rightarrow> nat" where
  "remaining E cluster ec init cfgs boot n s =
     length (laggards E cluster ec init cfgs boot s) + (nat (sint n) - length (current E cluster ec init cfgs boot s))"

text \<open>
  The invariant. Names are different, at least one machine is owned, and no more current ones than
  asked for; no machine is being deleted or marked for it, and every machine that is not owned any
  more is outdated.
\<close>

definition under_way :: "env \<Rightarrow> Cluster \<Rightarrow> EtcdadmCluster \<Rightarrow> Machines \<Rightarrow> config_store \<Rightarrow> (Machine \<Rightarrow> Machine) \<Rightarrow> 32 word \<Rightarrow> sys \<Rightarrow> bool" where
  "under_way E cluster ec init cfgs boot n s \<longleftrightarrow>
     same_object ec (theEC s) \<and> \<not> IsFalse E (theEC s) InitializedCondition \<and>
     distinct (map mName (stored init (trace s))) \<and>
     crew E cluster ec init boot s \<noteq> [] \<and> length (crew E cluster ec init boot s) < 2 ^ 31 \<and>
     length (current E cluster ec init cfgs boot s) \<le> nat (sint n) \<and>
     (\<forall>m\<in>set (fleet E cluster ec init boot s). DeletionTimestamp (mMeta m) = None \<and>
        map_get (Annotations (mMeta m)) (DeleteMachineAnnotation (capi E)) = None \<and>
        (\<not> col_OwnedMachines (coll E) ec m \<longrightarrow> stale E ec (configs cfgs (trace s)) m))"

text \<open>An object that asks for \<open>n\<close> machines while the control plane is not being upgraded.\<close>

definition plain :: "env \<Rightarrow> EtcdadmCluster \<Rightarrow> 32 word \<Rightarrow> bool" where
  "plain E ec n \<longleftrightarrow> Replicas (ecSpec ec) = Some n \<and> 1 \<le> sint n \<and>
     \<not> hasAnnotation ec (ControlPlaneUpgradeCompletedAnnotation (capi E)) \<and>
     \<not> hasAnnotation ec UpgradeInProgressAnnotation"

lemma bootsD:
  assumes "boots boot"
  shows "mName (boot m) = mName m" "mConfigRef (boot m) = mConfigRef m" "configKey (boot m) = configKey m"
    "Labels (mMeta (boot m)) = Labels (mMeta m)" "Annotations (mMeta (boot m)) = Annotations (mMeta m)"
    "OwnerReferences (mMeta (boot m)) = OwnerReferences (mMeta m)"
    "DeletionTimestamp (mMeta (boot m)) = DeletionTimestamp (mMeta m)" "infraRefOf (boot m) = infraRefOf m"
  using assms by (simp_all add: boots_def configKey_def infraRefOf_def)

lemma infraRefOf_disowned: "infraRefOf (disowned m) = infraRefOf m"
  by (simp add: infraRefOf_def disowned_def)

lemma configOf_cong: "mConfigRef m = mConfigRef m' \<Longrightarrow> cs (configKey m) = cs' (configKey m') \<Longrightarrow> configOf E cs m = configOf E cs' m'"
  by (simp add: configOf_def)

lemma stale_cong:
  "mConfigRef m = mConfigRef m' \<Longrightarrow> infraRefOf m = infraRefOf m' \<Longrightarrow> cs (configKey m) = cs' (configKey m') \<Longrightarrow>
   stale E ec cs m = stale E ec cs' m'"
  by (simp add: stale_def cong: configOf_cong)

lemma steady_counts:
  assumes "steady E ec init cfgs s t"
  shows "fleet E cluster ec init boot t = fleet E cluster ec init boot s"
    "crew E cluster ec init boot t = crew E cluster ec init boot s"
    "laggards E cluster ec init cfgs boot t = laggards E cluster ec init cfgs boot s"
    "current E cluster ec init cfgs boot t = current E cluster ec init cfgs boot s"
    "under_way E cluster ec init cfgs boot n s \<Longrightarrow> under_way E cluster ec init cfgs boot n t"
    "remaining E cluster ec init cfgs boot n t = remaining E cluster ec init cfgs boot n s"
  using assms unfolding steady_def under_way_def fleet_def crew_def laggards_def current_def remaining_def by auto

lemma fleet_from_store: "m \<in> set (fleet E cluster ec init boot s) \<Longrightarrow> m \<in> boot ` set (stored init (trace s))"
  unfolding fleet_def membersOf_def by (auto split: option.splits)

text \<open>A step that made a machine.\<close>

lemma made_one:
  assumes w: "rolling E cluster ec init cfgs boot"
    and st: "stored init (trace t) = stored init (trace s) @ [new]"
    and fresh: "fresh_machine E cluster ec (configs cfgs (trace t)) (stored init (trace s)) new"
    and keep: "\<forall>m\<in>set (stored init (trace s)). configs cfgs (trace t) (configKey m) = configs cfgs (trace s) (configKey m)"
  shows "fleet E cluster ec init boot t = fleet E cluster ec init boot s @ [boot new]"
    "crew E cluster ec init boot t = crew E cluster ec init boot s @ [boot new]"
    "laggards E cluster ec init cfgs boot t = laggards E cluster ec init cfgs boot s"
    "current E cluster ec init cfgs boot t = current E cluster ec init cfgs boot s @ [boot new]"
    "\<forall>m\<in>set (fleet E cluster ec init boot s).
       stale E ec (configs cfgs (trace t)) m = stale E ec (configs cfgs (trace s)) m"
proof -
  note b = bootsD [OF rollingD(5) [OF w]]
  show fl: "fleet E cluster ec init boot t = fleet E cluster ec init boot s @ [boot new]"
    using rollingD(2) [OF w]
    by (rule own_selector) (use fresh in \<open>simp add: fleet_def st b fresh_machine_def\<close>)
  have mine: "col_OwnedMachines (coll E) ec (boot new)"
    using rollingD(15) [OF w] fresh by (simp add: b fresh_machine_def)
  then show cr: "crew E cluster ec init boot t = crew E cluster ec init boot s @ [boot new]"
    by (simp add: crew_def fl)
  show same: "\<forall>m\<in>set (fleet E cluster ec init boot s).
      stale E ec (configs cfgs (trace t)) m = stale E ec (configs cfgs (trace s)) m"
  proof
    fix m assume "m \<in> set (fleet E cluster ec init boot s)"
    then obtain m0 where "m = boot m0" "m0 \<in> set (stored init (trace s))" using fleet_from_store by blast
    then show "stale E ec (configs cfgs (trace t)) m = stale E ec (configs cfgs (trace s)) m"
      using keep by (intro stale_cong) (simp_all add: b)
  qed
  then have eq: "\<forall>m\<in>set (crew E cluster ec init boot s).
      stale E ec (configs cfgs (trace t)) m = stale E ec (configs cfgs (trace s)) m" by (simp add: crew_def)
  have "\<not> stale E ec (configs cfgs (trace t)) (boot new)"
    using fresh stale_cong [of "boot new" new] by (simp add: b fresh_machine_def)
  with eq show "laggards E cluster ec init cfgs boot t = laggards E cluster ec init cfgs boot s"
    "current E cluster ec init cfgs boot t = current E cluster ec init cfgs boot s @ [boot new]"
    by (simp_all add: laggards_def current_def cr cong: filter_cong)
qed

text \<open>A step that disowned a machine.\<close>

lemma filter_map_replaced:
  "\<not> P r \<Longrightarrow> filter P (map (\<lambda>x. if f x = k then r else x) xs) = filter (\<lambda>x. f x \<noteq> k) (filter P xs)"
  by (induction xs) auto

lemma filter_off_name:
  "distinct (map mName ms) \<Longrightarrow> m \<in> set ms \<Longrightarrow> \<not> P m \<Longrightarrow> filter (\<lambda>x. mName x \<noteq> mName m) (filter P ms) = filter P ms"
  unfolding filter_id_conv by (auto simp del: filter_filter simp: distinct_map dest: inj_onD)

lemma distinct_fleet:
  assumes "boots boot" and "distinct (map mName (stored init (trace s)))"
  shows "distinct (map mName (fleet E cluster ec init boot s))"
proof -
  have "mName \<circ> boot = mName" using bootsD(1) [OF assms(1)] by (simp add: fun_eq_iff)
  then have "distinct (map mName (map boot (stored init (trace s))))" using assms(2) by simp
  then show ?thesis unfolding fleet_def membersOf_def
    by (auto split: option.splits intro: distinct_names_filter)
qed

lemma disowned_one:
  assumes w: "rolling E cluster ec init cfgs boot"
    and names: "distinct (map mName (stored init (trace s)))"
    and m: "m \<in> set (laggards E cluster ec init cfgs boot s)"
    and st: "stored init (trace t) = map (\<lambda>x. if mName x = mName m then disowned m else x) (stored init (trace s))"
    and cs: "configs cfgs (trace t) = configs cfgs (trace s)"
  shows "fleet E cluster ec init boot t =
      map (\<lambda>x. if mName x = mName m then boot (disowned m) else x) (fleet E cluster ec init boot s)"
    "crew E cluster ec init boot t = filter (\<lambda>x. mName x \<noteq> mName m) (crew E cluster ec init boot s)"
    "laggards E cluster ec init cfgs boot t = filter (\<lambda>x. mName x \<noteq> mName m) (laggards E cluster ec init cfgs boot s)"
    "current E cluster ec init cfgs boot t = current E cluster ec init cfgs boot s"
    "stale E ec (configs cfgs (trace t)) (boot (disowned m))"
proof -
  note b = bootsD [OF rollingD(5) [OF w]]
  have d: "Labels (mMeta (disowned m)) = Labels (mMeta m)" "mConfigRef (disowned m) = mConfigRef m"
    "configKey (disowned m) = configKey m" by (simp_all add: disowned_def configKey_def)
  have inc: "m \<in> set (crew E cluster ec init boot s)" and inf: "m \<in> set (fleet E cluster ec init boot s)"
    and old: "stale E ec (configs cfgs (trace s)) m"
    using m by (simp_all add: laggards_def crew_def)
  note dist = distinct_fleet [OF rollingD(5) [OF w] names, of E cluster ec]
  have distc: "distinct (map mName (crew E cluster ec init boot s))"
    unfolding crew_def by (rule distinct_names_filter [OF dist])
  show fl: "fleet E cluster ec init boot t =
      map (\<lambda>x. if mName x = mName m then boot (disowned m) else x) (fleet E cluster ec init boot s)"
    using rollingD(2) [OF w]
  proof (rule own_selector)
    fix sel
    assume sel: "\<And>ms. membersOf E cluster ec ms = filter (\<lambda>m. EtcdClusterMachines E sel (Some m)) ms"
    have yes: "EtcdClusterMachines E sel (Some m)" using inf by (simp add: fleet_def sel)
    then have yes': "EtcdClusterMachines E sel (Some (boot (disowned m)))" by (simp add: EtcdClusterMachines_def b d)
    have "filter (\<lambda>m. EtcdClusterMachines E sel (Some m))
        (map boot (map (\<lambda>x. if mName x = mName m then disowned m else x) xs)) =
      map (\<lambda>x. if mName x = mName m then boot (disowned m) else x)
        (filter (\<lambda>m. EtcdClusterMachines E sel (Some m)) (map boot xs))"
      if "\<forall>x\<in>set xs. mName x = mName m \<longrightarrow> boot x = m" for xs
      using that
    proof (induction xs)
      case (Cons x xs)
      show ?case
      proof (cases "mName x = mName m")
        case True
        then have "boot x = m" using Cons.prems by simp
        then show ?thesis using Cons True yes yes' by simp
      next
        case False
        then show ?thesis using Cons by (simp add: b(1))
      qed
    qed simp
    moreover have "\<forall>x\<in>set (stored init (trace s)). mName x = mName m \<longrightarrow> boot x = m"
    proof -
      obtain m0 where "m = boot m0" "m0 \<in> set (stored init (trace s))" using fleet_from_store [OF inf] by blast
      then show ?thesis using names by (auto simp: b distinct_map dest: inj_onD)
    qed
    ultimately show ?thesis by (simp add: fleet_def sel st)
  qed
  have "\<not> col_OwnedMachines (coll E) ec (boot (disowned m))" using rollingD(16) [OF w] by (simp add: b)
  then show cr: "crew E cluster ec init boot t = filter (\<lambda>x. mName x \<noteq> mName m) (crew E cluster ec init boot s)"
    unfolding crew_def fl by (rule filter_map_replaced)
  show "laggards E cluster ec init cfgs boot t = filter (\<lambda>x. mName x \<noteq> mName m) (laggards E cluster ec init cfgs boot s)"
    by (simp add: laggards_def cr cs conj_commute)
  show "current E cluster ec init cfgs boot t = current E cluster ec init cfgs boot s"
    using filter_off_name [OF distc inc, of "\<lambda>x. \<not> stale E ec (configs cfgs (trace s)) x"] old
    by (simp add: current_def cr cs conj_commute)
  show "stale E ec (configs cfgs (trace t)) (boot (disowned m))"
    using old stale_cong [of "boot (disowned m)" m] by (simp add: cs b d infraRefOf_disowned)
qed

text \<open>Either step keeps the invariant, loses no member and leaves one thing less to do.\<close>

definition advances :: "env \<Rightarrow> Cluster \<Rightarrow> EtcdadmCluster \<Rightarrow> Machines \<Rightarrow> config_store \<Rightarrow> (Machine \<Rightarrow> Machine) \<Rightarrow> 32 word \<Rightarrow> sys \<Rightarrow> sys \<Rightarrow> bool" where
  "advances E cluster ec init cfgs boot n s t \<longleftrightarrow>
     under_way E cluster ec init cfgs boot n t \<and>
     Suc (remaining E cluster ec init cfgs boot n t) = remaining E cluster ec init cfgs boot n s \<and>
     mName ` set (fleet E cluster ec init boot s) \<subseteq> mName ` set (fleet E cluster ec init boot t)"

lemma crew_count:
  "length (crew E cluster ec init boot s) =
     length (laggards E cluster ec init cfgs boot s) + length (current E cluster ec init cfgs boot s)"
  by (simp add: laggards_def current_def sum_length_filter_compl)

lemma sint32_bound: "sint (n :: 32 word) < 2 ^ 31"
  using sint_lt [of n] by simp

lemma make_advances:
  assumes w: "rolling E cluster ec init cfgs boot" and u: "under_way E cluster ec init cfgs boot n s"
    and ec: "theEC t = theEC s" and st: "stored init (trace t) = stored init (trace s) @ [new]"
    and fresh: "fresh_machine E cluster ec (configs cfgs (trace t)) (stored init (trace s)) new"
    and keep: "\<forall>m\<in>set (stored init (trace s)). configs cfgs (trace t) (configKey m) = configs cfgs (trace s) (configKey m)"
    and room: "int (length (crew E cluster ec init boot s)) < sint n \<or>
      sint n = 1 \<and> length (crew E cluster ec init boot s) = 1 \<and> laggards E cluster ec init cfgs boot s \<noteq> []"
  shows "advances E cluster ec init cfgs boot n s t"
proof -
  note b = bootsD [OF rollingD(5) [OF w]]
  note made = made_one [OF w st fresh keep]
  note count = crew_count [of E cluster ec init boot s cfgs]
  have fit: "length (current E cluster ec init cfgs boot s) < nat (sint n)" using room count
    by (cases "laggards E cluster ec init cfgs boot s") auto
  have "length (crew E cluster ec init boot s) + 1 < 2 ^ 31" using room sint32_bound [of n] by auto
  moreover have "\<not> col_OwnedMachines (coll E) ec m \<longrightarrow> stale E ec (configs cfgs (trace t)) m"
    "DeletionTimestamp (mMeta m) = None" "map_get (Annotations (mMeta m)) (DeleteMachineAnnotation (capi E)) = None"
    if "m \<in> set (fleet E cluster ec init boot t)" for m
    using that u made(5) fresh rollingD(15) [OF w, of "boot new"]
    by (auto simp: made(1) under_way_def fresh_machine_def b map_get_def)
  moreover have "distinct (map mName (stored init (trace t)))"
    using u fresh by (simp add: st under_way_def fresh_machine_def)
  ultimately have "under_way E cluster ec init cfgs boot n t"
    using u fit unfolding under_way_def by (simp add: ec made(2,4))
  then show ?thesis using fit by (auto simp: advances_def remaining_def made(1,3,4))
qed

lemma disown_advances:
  assumes w: "rolling E cluster ec init cfgs boot" and u: "under_way E cluster ec init cfgs boot n s"
    and ec: "theEC t = theEC s" and m: "m \<in> set (laggards E cluster ec init cfgs boot s)"
    and st: "stored init (trace t) = map (\<lambda>x. if mName x = mName m then disowned m else x) (stored init (trace s))"
    and cs: "configs cfgs (trace t) = configs cfgs (trace s)"
    and more: "1 < length (crew E cluster ec init boot s)"
  shows "advances E cluster ec init cfgs boot n s t"
proof -
  note b = bootsD [OF rollingD(5) [OF w]]
  have names: "distinct (map mName (stored init (trace s)))" using u by (simp add: under_way_def)
  note gone = disowned_one [OF w names m st cs]
  have inc: "m \<in> set (crew E cluster ec init boot s)" and inf: "m \<in> set (fleet E cluster ec init boot s)"
    using m by (simp_all add: laggards_def crew_def)
  note dist = distinct_fleet [OF rollingD(5) [OF w] names, of E cluster ec]
  have distc: "distinct (map mName (crew E cluster ec init boot s))"
    unfolding crew_def by (rule distinct_names_filter [OF dist])
  have distl: "distinct (map mName (laggards E cluster ec init cfgs boot s))"
    unfolding laggards_def by (rule distinct_names_filter [OF distc])
  have len: "length (crew E cluster ec init boot t) = length (crew E cluster ec init boot s) - 1"
    "length (laggards E cluster ec init cfgs boot t) = length (laggards E cluster ec init cfgs boot s) - 1"
    using length_without_name [OF distc inc] length_without_name [OF distl m] by (simp_all add: gone(2,3))
  have "mName \<circ> (\<lambda>x. if mName x = mName m then disowned m else x) = mName" by (auto simp: fun_eq_iff)
  then have "distinct (map mName (stored init (trace t)))" using names by (simp add: st)
  moreover have "\<not> col_OwnedMachines (coll E) ec x \<longrightarrow> stale E ec (configs cfgs (trace t)) x"
    "DeletionTimestamp (mMeta x) = None" "map_get (Annotations (mMeta x)) (DeleteMachineAnnotation (capi E)) = None"
    if "x \<in> set (fleet E cluster ec init boot t)" for x
    using that u gone(5) inf by (auto simp: gone(1) under_way_def cs b disowned_def)
  moreover have "crew E cluster ec init boot t \<noteq> []" "length (crew E cluster ec init boot t) < 2 ^ 31"
    using len(1) more u by (auto simp: under_way_def)
  ultimately have "under_way E cluster ec init cfgs boot n t"
    using u unfolding under_way_def by (simp add: ec gone(4))
  moreover have "length (laggards E cluster ec init cfgs boot s) > 0" using m by (cases "laggards E cluster ec init cfgs boot s") simp_all
  moreover have kept: "(\<lambda>x. mName (if mName x = mName m then boot (disowned m) else x)) = mName"
    by (auto simp: fun_eq_iff b)
  have "mName ` set (fleet E cluster ec init boot s) \<subseteq> mName ` set (fleet E cluster ec init boot t)"
    by (simp only: gone(1) set_map image_image kept order_refl)
  ultimately show ?thesis using len(2) by (simp add: advances_def remaining_def gone(4))
qed

section \<open>One pass\<close>

text \<open>A step of \<open>upgradeEtcdCluster\<close> while machines need it.\<close>

lemma run_upgrade:
  assumes w: "rolling E cluster ec init cfgs boot" and laws: "collections_laws (coll E)" and p: "plain E ec n"
    and u: "under_way E cluster ec init cfgs boot n s"
    and ep: "mset (epMachines ep) = mset (crew E cluster ec init boot s)"
    and need: "mset need = mset (laggards E cluster ec init cfgs boot s)" "need \<noteq> []"
  shows "\<exists>t. run_state (upgradeEtcdCluster E cluster ep need) s = (Done (noResult, None), t) \<and>
     advances E cluster ec init cfgs boot n s t"
proof -
  have sets: "set (epMachines ep) = set (crew E cluster ec init boot s)"
    "set need = set (laggards E cluster ec init cfgs boot s)"
    using ep need(1) by (metis set_mset_mset)+
  have len: "length (epMachines ep) = length (crew E cluster ec init boot s)" by (rule length_mset_eq [OF ep])
  have same: "same_object ec (theEC s)" and n: "Replicas (ecSpec (theEC s)) = Some n" and pos: "1 \<le> sint n"
    and small: "length (epMachines ep) < 2 ^ 31" and some: "crew E cluster ec init boot s \<noteq> []"
    using u p by (simp_all add: under_way_def plain_def same_object_def len)
  have lag: "laggards E cluster ec init cfgs boot s \<noteq> []" using need by (metis mset_zero_iff)
  note branches = upgrade_branches [OF laws n small, of cluster need]
  show ?thesis
  proof (cases "sint n = 1 \<and> length (epMachines ep) = 1 \<or> sint n \<noteq> 1 \<and> int (length (epMachines ep)) < sint n")
    case True
    obtain new t where t: "run_state (scaleUpEtcdCluster E cluster ep) s = (Done (noResult, None), t)" "theEC t = theEC s"
      "stored init (trace t) = stored init (trace s) @ [new]"
      "fresh_machine E cluster ec (configs cfgs (trace t)) (stored init (trace s)) new"
      "\<forall>m\<in>set (stored init (trace s)). configs cfgs (trace t) (configKey m) = configs cfgs (trace s) (configKey m)"
      using run_make [OF w same, of "NextFailureDomainForScaleUp E ep"] unfolding scaleUpEtcdCluster_def by blast
    have "advances E cluster ec init cfgs boot n s t"
      using True lag by (intro make_advances [OF w u t(2-5)]) (auto simp: len)
    then show ?thesis using branches t(1) True by auto
  next
    case False
    have tidy: "\<forall>m\<in>set (epMachines ep) \<union> set need. map_get (Annotations (mMeta m)) (DeleteMachineAnnotation (capi E)) = None"
      using u by (auto simp: sets under_way_def laggards_def crew_def)
    obtain m t where t: "m \<in> set need" "theEC t = theEC s" "configs cfgs (trace t) = configs cfgs (trace s)"
      "run_state (withoutResult (removeFromListOfOwnedMachines E ep need)) s = (Done (noResult, None), t)"
      "stored init (trace t) = map (\<lambda>x. if mName x = mName m then disowned m else x) (stored init (trace s))"
      using run_disown [OF w laws need(2) tidy] by blast
    have "0 < length (crew E cluster ec init boot s)" using some by simp
    then have "1 < length (crew E cluster ec init boot s)" using False pos len by arith
    then have "advances E cluster ec init cfgs boot n s t"
      using t(1) by (intro disown_advances [OF w u t(2) _ t(5,3)]) (simp_all add: sets)
    then show ?thesis using branches t(4) False by auto
  qed
qed

text \<open>The rollout goes on: the limit on the machines is kept, the newest one is well, one step is taken.\<close>

lemma run_rolloutCase:
  assumes w: "rolling E cluster ec init cfgs boot" and laws: "collections_laws (coll E)"
    and cl: "conditions_laws (conds E) r" and p: "plain E ec n" and u: "under_way E cluster ec init cfgs boot n s"
    and ep: "mset (epMachines ep) = mset (crew E cluster ec init boot s)"
    and need: "mset need = mset (laggards E cluster ec init cfgs boot s)" "need \<noteq> []"
    and out: "numOut = int (length (filter (stale E ec (configs cfgs (trace s))) (fleet E cluster ec init boot s)))"
  shows "\<exists>t. run_state (rolloutCase E cluster ep need (int (length (fleet E cluster ec init boot s))) numOut (sint n)) s =
      (Done (noResult, None), t) \<and> advances E cluster ec init cfgs boot n s t"
proof -
  let ?stale = "stale E ec (configs cfgs (trace s))" and ?fleet = "fleet E cluster ec init boot s"
  have "filter (\<lambda>m. \<not> ?stale m) ?fleet = current E cluster ec init cfgs boot s"
    unfolding current_def crew_def filter_filter using u by (intro filter_if) (auto simp: under_way_def)
  then have "int (length ?fleet) = numOut + int (length (current E cluster ec init cfgs boot s))"
    using sum_length_filter_compl [of ?stale ?fleet] out by (metis of_nat_add)
  moreover have "length (current E cluster ec init cfgs boot s) \<le> nat (sint n)" "1 \<le> sint n"
    using u p by (simp_all add: under_way_def plain_def)
  ultimately have limit: "\<not> int (length ?fleet) > numOut + sint n" by linarith
  have "set (epMachines ep) = set (crew E cluster ec init boot s)" using ep by (metis set_mset_mset)
  then have origin: "set (epMachines ep) \<subseteq> boot ` set (stored init (trace s))"
    using fleet_from_store by (auto simp: crew_def)
  obtain s1 where s1: "run_state (if IsFalse E (theEC s) EtcdMachinesSpecUpToDateCondition \<and> length (UpToDateMachines E ep) > 0
      then waitForNewestMachine E cluster ep else ret None) s = (Done None, s1)" "steady E ec init cfgs s s1"
  proof (cases "IsFalse E (theEC s) EtcdMachinesSpecUpToDateCondition \<and> length (UpToDateMachines E ep) > 0")
    case True
    then show ?thesis using run_wait [OF w laws origin] that by auto
  qed (use steady.refl that in auto)
  define m1 where "m1 = MarkFalse E EtcdMachinesSpecUpToDateCondition EtcdRollingUpdateInProgressReason
    ConditionSeverityWarning (rolloutMessage ep need)"
  define m2 where "m2 = MarkFalse E EtcdCertificatesAvailableCondition EtcdRollingUpdateInProgressReason
    ConditionSeverityWarning (rolloutMessage ep need)"
  define s2 where "s2 = snd (run_state (seq m1 m2) s1)"
  have "obeys (steady E ec init cfgs) m1" "obeys (steady E ec init cfgs) m2"
    using steady_mark(2) [OF cl] types_neq(5,6) unfolding m1_def m2_def by metis+
  then have "obeys (steady E ec init cfgs) (seq m1 m2)" by (intro steady.prog_intros)
  then have "steady E ec init cfgs s1 s2" by (simp add: obeys_def s2_def)
  with s1(2) have steady: "steady E ec init cfgs s s2" by (rule steady.trans)
  note counts = steady_counts [OF steady]
  obtain t where t: "run_state (upgradeEtcdCluster E cluster ep need) s2 = (Done (noResult, None), t)"
    "advances E cluster ec init cfgs boot n s2 t"
    using run_upgrade [OF w laws p counts(5) [OF u], of ep need] ep need counts by metis
  have "run_state (rolloutCase E cluster ep need (int (length ?fleet)) numOut (sint n)) s =
      run_state (upgradeEtcdCluster E cluster ep need) s2"
    using limit s1(1) by (simp add: rolloutCase_def run_simps s2_def m1_def m2_def)
  then show ?thesis using t counts by (simp add: advances_def)
qed

text \<open>Nothing is outdated any more: the certificates are made again, if the rollout asked for it.\<close>

lemma same_object_refl: "same_object ec ec"
  by (simp add: same_object_def)

lemma outdated_type_neq [simp]: "EtcdClusterHasNoOutdatedMembersCondition \<noteq> EtcdMachinesSpecUpToDateCondition"
  by (simp add: condition_type_defs)

lemma run_rolloutDone:
  assumes cert: "certifiable E" and cl: "conditions_laws (conds E) r"
    and quiet: "\<not> hasAnnotation (theEC s) UpgradeInProgressAnnotation"
  shows "\<exists>t. run_state (rolloutDone E cluster) s = (Done None, t) \<and> steady E ec init cfgs s t \<and>
     same_object (theEC s) (theEC t) \<and>
     IsFalse E (theEC t) EtcdClusterHasNoOutdatedMembersCondition = IsFalse E (theEC s) EtcdClusterHasNoOutdatedMembersCondition \<and>
     \<not> IsFalse E (theEC t) EtcdMachinesSpecUpToDateCondition"
proof -
  have has: "IsFalse E ec' c \<Longrightarrow> HasCondition E ec' c" for ec' c
    using cl by (simp add: conditions_laws_def condition_reads)
  define s1 where "s1 = (if HasCondition E (theEC s) EtcdMachinesSpecUpToDateCondition
    then snd (run_state (MarkTrue E EtcdMachinesSpecUpToDateCondition) s) else s)"
  have s1: "steady E ec init cfgs s s1" "same_object (theEC s) (theEC s1)"
    "IsFalse E (theEC s1) EtcdClusterHasNoOutdatedMembersCondition = IsFalse E (theEC s) EtcdClusterHasNoOutdatedMembersCondition"
    using steady_mark(1) [OF cl, of EtcdMachinesSpecUpToDateCondition] marked(3) [OF cl]
    by (simp_all add: s1_def obeys_def steady.refl with_folds marked_frame same_object_refl)
  have current: "\<not> IsFalse E (theEC s1) EtcdMachinesSpecUpToDateCondition"
    using marked(2) [OF cl] has by (auto simp: s1_def with_folds)
  have run: "run_state (rolloutDone E cluster) s =
      (if IsFalse E (theEC s1) EtcdCertificatesAvailableCondition
       then run_state (checkErr (generateCAandClientCertSecrets E cluster) (\<lambda>e. Some (noResult, Some e)) (ret None)) s1
       else (Done None, s1))"
    using quiet by (auto simp: rolloutDone_def onlyIf_def run_simps s1_def)
  obtain h t where t: "run_state (generateCAandClientCertSecrets E cluster) s1 = (Done None, t)"
    "theEC t = withTrue E h EtcdCertificatesAvailableCondition (theEC s1)"
    "stored init (trace t) = stored init (trace s1)"
    using run_certs [OF cert] by blast
  have "cert_event e \<Longrightarrow> \<not> makes_config e" for e by (cases e) simp_all
  then have "emits (\<lambda>e. \<not> makes_config e) (generateCAandClientCertSecrets E cluster)"
    by (rule emits_generateCAandClientCertSecrets)
  then have "extends (\<lambda>e. \<not> makes_config e) s1 t" using t(1) by (rule obeysD)
  then have "configs cfgs (trace t) = configs cfgs (trace s1)" by (auto simp: extends_def configs_frame)
  then have "steady E ec init cfgs s1 t"
    using t marked(3) [OF cl, of InitializedCondition EtcdCertificatesAvailableCondition]
    by (auto simp: steady_def marked_frame intro: same_object_trans)
  moreover have "same_object (theEC s1) (theEC t)"
    "IsFalse E (theEC t) EtcdClusterHasNoOutdatedMembersCondition = IsFalse E (theEC s1) EtcdClusterHasNoOutdatedMembersCondition"
    "\<not> IsFalse E (theEC t) EtcdMachinesSpecUpToDateCondition"
    using t(2) current marked(3) [OF cl] types_neq(1) by (simp_all add: marked_frame)
  ultimately show ?thesis
    using run t(1) s1 current steady.trans [OF s1(1)] same_object_trans [OF s1(2)] by (simp add: run_simps)
qed

text \<open>After the rollout the pass goes on to scale: up to the number asked for, and no further.\<close>

lemma run_scaleStage:
  assumes w: "rolling E cluster ec init cfgs boot" and p: "plain E ec n" and u: "under_way E cluster ec init cfgs boot n s"
    and calm: "laggards E cluster ec init cfgs boot s = []"
  shows "\<exists>t. run_state (scaleStage E cluster ep (int (length (crew E cluster ec init boot s))) 0 (sint n)) s =
      (Done (noResult, None), t) \<and>
     (if remaining E cluster ec init cfgs boot n s = 0 then t = s
      else advances E cluster ec init cfgs boot n s t)"
proof -
  have same: "same_object ec (theEC s)" and init: "\<not> IsFalse E (theEC s) InitializedCondition"
    and quiet: "\<not> hasAnnotation (theEC s) UpgradeInProgressAnnotation"
    using u p by (simp_all add: under_way_def plain_def hasAnnotation_def same_object_def)
  have count: "length (crew E cluster ec init boot s) = length (current E cluster ec init cfgs boot s)"
    using crew_count [of E cluster ec init boot s cfgs] calm by simp
  have some: "0 < length (crew E cluster ec init boot s)" using u by (simp add: under_way_def)
  have le: "length (crew E cluster ec init boot s) \<le> nat (sint n)" and pos: "1 \<le> sint n"
    using u p count by (simp_all add: under_way_def plain_def)
  have rem: "remaining E cluster ec init cfgs boot n s = nat (sint n) - length (crew E cluster ec init boot s)"
    by (simp add: remaining_def calm count)
  show ?thesis
  proof (cases "int (length (crew E cluster ec init boot s)) < sint n")
    case True
    obtain new t where t: "run_state (scaleUpEtcdCluster E cluster ep) s = (Done (noResult, None), t)" "theEC t = theEC s"
      "stored init (trace t) = stored init (trace s) @ [new]"
      "fresh_machine E cluster ec (configs cfgs (trace t)) (stored init (trace s)) new"
      "\<forall>m\<in>set (stored init (trace s)). configs cfgs (trace t) (configKey m) = configs cfgs (trace s) (configKey m)"
      using run_make [OF w same, of "NextFailureDomainForScaleUp E ep"] unfolding scaleUpEtcdCluster_def by blast
    have "advances E cluster ec init cfgs boot n s t"
      using True by (intro make_advances [OF w u t(2-5)]) simp
    moreover have "remaining E cluster ec init cfgs boot n s \<noteq> 0" using True rem by simp
    ultimately show ?thesis using t(1) True some by (simp add: scaleStage_def run_simps init)
  next
    case False
    then have "int (length (crew E cluster ec init boot s)) = sint n" using le pos by linarith
    moreover from this have "remaining E cluster ec init cfgs boot n s = 0" using rem by simp
    ultimately show ?thesis using some
      by (simp add: scaleStage_def run_simps init onlyIf_def quiet)
  qed
qed

text \<open>The machines of a pass: what it lists, which of them it owns, and what its planes know.\<close>

lemma owned_crew:
  assumes w: "rolling E cluster ec init cfgs boot" and same: "same_object ec ec'"
  shows "mset (ownedBy E ec' (fleet E cluster ec init boot s)) = mset (crew E cluster ec init boot s)"
  using collections_lawsD(1) [OF servingD(1) [OF rollingD(1) [OF w]]] rollingD(14) [OF w same]
  by (simp add: ownedBy_def crew_def)

text \<open>The last pass: nothing changes but conditions, and the machines are no longer reported as outdated.\<close>

definition concludes :: "env \<Rightarrow> EtcdadmCluster \<Rightarrow> Machines \<Rightarrow> config_store \<Rightarrow> sys \<Rightarrow> sys \<Rightarrow> bool" where
  "concludes E ec init cfgs s t \<longleftrightarrow>
     steady E ec init cfgs s t \<and> \<not> IsFalse E (theEC t) EtcdMachinesSpecUpToDateCondition"

lemma pass_after_steady:
  assumes st: "steady E ec init cfgs s s'"
    and run: "\<exists>t. run_state m s0 = (Done x, t) \<and>
     (if remaining E cluster ec init cfgs boot n s' = 0 then concludes E ec init cfgs s' t
      else advances E cluster ec init cfgs boot n s' t)"
  shows "\<exists>t. run_state m s0 = (Done x, t) \<and>
     (if remaining E cluster ec init cfgs boot n s = 0 then concludes E ec init cfgs s t
      else advances E cluster ec init cfgs boot n s t)"
  using run steady.trans [OF st] unfolding advances_def concludes_def steady_counts(1,6) [OF st] by metis

text \<open>A pass until it looks for outdated members, and what comes after that stage.\<close>

definition afterOutdated :: "env \<Rightarrow> Cluster \<Rightarrow> EtcdadmCluster \<Rightarrow> Machines \<Rightarrow> Machines \<Rightarrow> EtcdPlane \<Rightarrow> reconcile_result io" where
  "afterOutdated E cluster ec ms owned ep =
     orPanic ''nil pointer dereference'' (Replicas (ecSpec ec)) (\<lambda>replicas.
     let needRollout = MachinesNeedingRollout E ep in
     tryErr (NewEtcdPlane E cluster ec ms)
       (\<lambda>e. (noResult, errors_Wrap (errs E) (Some e) ''Error initializing internal object EtcdPlane''))
       (\<lambda>ep2.
     orElse (rolloutStage E cluster ep needRollout (int (length ms)) (int (length (OutOfDateMachines E ep2))) (sint replicas))
       (scaleStage E cluster ep (int (length owned)) (int (length needRollout)) (sint replicas))))"

lemma pass_front:
  assumes w: "rolling E cluster ec init cfgs boot" and same: "same_object ec (theEC s)"
    and names: "distinct (map mName (stored init (trace s)))"
    and owned_eq: "owned = ownedBy E (theEC s) (fleet E cluster ec init boot s)"
  shows "\<exists>ep t. run_state (reconcile E cluster) s =
      run_state (orElse (outdatedStage E cluster (fleet E cluster ec init boot s) owned)
        (afterOutdated E cluster (theEC s) (fleet E cluster ec init boot s) owned ep)) t \<and>
     theEC t = theEC s \<and> steady E ec init cfgs s t \<and> knows E ec (configs cfgs (trace s)) owned ep"
proof -
  let ?ec = "theEC s" and ?fleet = "fleet E cluster ec init boot s" and ?cs = "configs cfgs (trace s)"
  note owned = owned_crew [OF w same, of s, folded owned_eq]
  have dist: "distinct (map mName owned)"
    using distinct_names_filter [OF distinct_fleet [OF rollingD(5) [OF w] names]]
    by (intro distinct_map_mset [OF owned]) (simp add: crew_def)
  obtain s1 where s1: "run_state (reconcileExternalReference E cluster (InfrastructureTemplate (ecSpec ?ec))) s = (Done None, s1)"
    "theEC s1 = ?ec" "steady E ec init cfgs s s1" using run_external [OF rollingD(1) [OF w]] by blast
  obtain s2 where s2: "run_state (listEtcdMachines E UncachedClient cluster (Name (ecMeta ?ec))) s1 = (Done (Inr ?fleet), s2)"
    "theEC s2 = ?ec" "steady E ec init cfgs s s2"
    using run_listing [OF w, where s = s1 and rd = UncachedClient] s1 same steady.trans [OF s1(3)] steady_counts(1) [OF s1(3)] by auto
  have cs: "configs cfgs (trace s2) = ?cs" using s2(3) by (simp add: steady_def)
  obtain ep s3 where s3: "run_state (NewEtcdPlane E cluster ?ec owned) s2 = (Done (Inr ep), s3)" "theEC s3 = ?ec"
    "steady E ec init cfgs s2 s3" "knows E ec ?cs owned ep"
    using run_plane [OF w same dist, of s2] unfolding cs s2(2) by blast
  have "run_state (reconcile E cluster) s =
      run_state (orElse (outdatedStage E cluster ?fleet owned) (afterOutdated E cluster ?ec ?fleet owned ep)) s3"
    by (simp add: reconcile_def afterOutdated_def run_simps Let_def s1(1,2) s2(1,2) s3(1,2) owned_eq [symmetric])
  then show ?thesis using s3 steady.trans [OF s2(3) s3(3)] by blast
qed

lemma pass_rest:
  assumes w: "rolling E cluster ec init cfgs boot" and same: "same_object ec ec0" and n: "Replicas (ecSpec ec) = Some n"
    and names: "distinct (map mName ms)"
  shows "\<exists>out t. run_state (afterOutdated E cluster ec0 ms owned ep) s =
      run_state (orElse (rolloutStage E cluster ep (MachinesNeedingRollout E ep) (int (length ms)) out (sint n))
        (scaleStage E cluster ep (int (length owned)) (int (length (MachinesNeedingRollout E ep))) (sint n))) t \<and>
     out = int (length (filter (stale E ec (configs cfgs (trace s))) ms)) \<and>
     theEC t = theEC s \<and> steady E ec init cfgs s t"
proof -
  note laws = servingD(1) [OF rollingD(1) [OF w]]
  obtain ep2 t where t: "run_state (NewEtcdPlane E cluster ec0 ms) s = (Done (Inr ep2), t)" "theEC t = theEC s"
    "steady E ec init cfgs s t" "knows E ec (configs cfgs (trace s)) ms ep2"
    using run_plane [OF w same names] by blast
  have "Replicas (ecSpec ec0) = Some n" using same n by (simp add: same_object_def)
  then show ?thesis using t count_out_of_date [OF laws t(4)]
    by (intro exI [of _ "int (length (OutOfDateMachines E ep2))"] exI [of _ t]) (simp add: afterOutdated_def run_simps Let_def)
qed

text \<open>A pass comes to the rollout, with the machines counted.\<close>

lemma pass_to_rollout:
  assumes w: "rolling E cluster ec init cfgs boot" and cl: "conditions_laws (conds E) r" and p: "plain E ec n"
    and u: "under_way E cluster ec init cfgs boot n s"
  shows "\<exists>ep need out t. steady E ec init cfgs s t \<and>
     mset (epMachines ep) = mset (crew E cluster ec init boot t) \<and>
     mset need = mset (laggards E cluster ec init cfgs boot t) \<and>
     out = int (length (filter (stale E ec (configs cfgs (trace t))) (fleet E cluster ec init boot t))) \<and>
     run_state (reconcile E cluster) s = run_state (orElse
       (rolloutStage E cluster ep need (int (length (fleet E cluster ec init boot t))) out (sint n))
       (scaleStage E cluster ep (int (length (crew E cluster ec init boot t))) (int (length need)) (sint n))) t"
proof -
  note laws = servingD(1) [OF rollingD(1) [OF w]]
  let ?ec = "theEC s" and ?fleet = "fleet E cluster ec init boot s" and ?cs = "configs cfgs (trace s)"
  let ?owned = "ownedBy E ?ec ?fleet"
  have same: "same_object ec ?ec" and n: "Replicas (ecSpec ec) = Some n"
    and calm: "\<not> hasAnnotation ?ec (ControlPlaneUpgradeCompletedAnnotation (capi E))"
    and names: "distinct (map mName (stored init (trace s)))"
    using u p by (simp_all add: under_way_def plain_def same_object_def hasAnnotation_def)
  note owned = owned_crew [OF w same, of s]
  obtain ep s3 where s3: "run_state (reconcile E cluster) s = run_state (orElse (outdatedStage E cluster ?fleet ?owned)
      (afterOutdated E cluster ?ec ?fleet ?owned ep)) s3" "theEC s3 = ?ec" "steady E ec init cfgs s s3"
    "knows E ec ?cs ?owned ep" using pass_front [OF w same names refl] by blast
  obtain s4 where s4: "run_state (outdatedStage E cluster ?fleet ?owned) s3 = (Done None, s4)" "steady E ec init cfgs s3 s4"
    using run_outdatedStage [OF cl, of s3] calm unfolding s3(2) by blast
  let ?need = "MachinesNeedingRollout E ep"
  obtain out s5 where s5: "run_state (afterOutdated E cluster ?ec ?fleet ?owned ep) s4 = run_state (orElse
      (rolloutStage E cluster ep ?need (int (length ?fleet)) out (sint n))
      (scaleStage E cluster ep (int (length ?owned)) (int (length ?need)) (sint n))) s5"
    "out = int (length (filter (stale E ec (configs cfgs (trace s4))) ?fleet))" "steady E ec init cfgs s4 s5"
    using pass_rest [OF w same n distinct_fleet [OF rollingD(5) [OF w] names]] by blast
  note st = steady.trans [OF steady.trans [OF s3(3) s4(2)] s5(3)]
  note c5 = steady_counts [OF st]
  have "set ?owned = set (crew E cluster ec init boot s)" using owned by (metis set_mset_mset)
  then have alive: "\<forall>m\<in>set ?owned. DeletionTimestamp (mMeta m) = None" using u by (auto simp: under_way_def crew_def)
  have "mset ?need = mset (laggards E cluster ec init cfgs boot s5)"
    using need_rollout [OF laws s3(4) alive] owned c5(3) by (simp add: laggards_def)
  moreover have "mset (epMachines ep) = mset (crew E cluster ec init boot s5)"
    using s3(4) owned c5(2) by (simp add: knows_def)
  moreover have "length ?owned = length (crew E cluster ec init boot s5)" using length_mset_eq [OF owned] c5(2) by simp
  moreover have "out = int (length (filter (stale E ec (configs cfgs (trace s5))) (fleet E cluster ec init boot s5)))"
    using s5(2,3) c5(1) by (simp add: steady_def)
  ultimately show ?thesis using st c5(1)
    by (intro exI [of _ ep] exI [of _ ?need] exI [of _ out] exI [of _ s5])
      (simp add: s3(1) run_orElse [of "outdatedStage E cluster ?fleet ?owned"] s4(1) s5(1))
qed

lemma rollout_pass:
  assumes w: "rolling E cluster ec init cfgs boot" and cl: "conditions_laws (conds E) r" and p: "plain E ec n"
    and u: "under_way E cluster ec init cfgs boot n s"
  shows "\<exists>t. run_state (reconcile E cluster) s = (Done (noResult, None), t) \<and>
     (if remaining E cluster ec init cfgs boot n s = 0 then concludes E ec init cfgs s t
      else advances E cluster ec init cfgs boot n s t)"
proof -
  obtain ep need out s5 where st: "steady E ec init cfgs s s5"
    and ep: "mset (epMachines ep) = mset (crew E cluster ec init boot s5)"
    and need: "mset need = mset (laggards E cluster ec init cfgs boot s5)"
    and out: "out = int (length (filter (stale E ec (configs cfgs (trace s5))) (fleet E cluster ec init boot s5)))"
    and run: "run_state (reconcile E cluster) s = run_state (orElse
       (rolloutStage E cluster ep need (int (length (fleet E cluster ec init boot s5))) out (sint n))
       (scaleStage E cluster ep (int (length (crew E cluster ec init boot s5))) (int (length need)) (sint n))) s5"
    using pass_to_rollout [OF w cl p u] by blast
  note u5 = steady_counts(5) [OF st u]
  show ?thesis
  proof (intro pass_after_steady [OF st], cases "need = []")
    case False
    then have "remaining E cluster ec init cfgs boot n s5 \<noteq> 0" using need by (auto simp: remaining_def)
    then show "\<exists>t. run_state (reconcile E cluster) s = (Done (noResult, None), t) \<and>
      (if remaining E cluster ec init cfgs boot n s5 = 0 then concludes E ec init cfgs s5 t
       else advances E cluster ec init cfgs boot n s5 t)"
      using run_rolloutCase [OF w servingD(1) [OF rollingD(1) [OF w]] cl p u5 ep need False out] run False
      by (auto simp: rolloutStage_def run_simps)
  next
    case True
    have quiet: "\<not> hasAnnotation (theEC s5) UpgradeInProgressAnnotation"
      using u5 p by (simp add: under_way_def plain_def same_object_def hasAnnotation_def)
    obtain s6 where s6: "run_state (rolloutDone E cluster) s5 = (Done None, s6)" "steady E ec init cfgs s5 s6"
      "\<not> IsFalse E (theEC s6) EtcdMachinesSpecUpToDateCondition"
      using run_rolloutDone [OF rollingD(4) [OF w] cl quiet] by blast
    note c6 = steady_counts [OF s6(2)]
    obtain t where t: "run_state (scaleStage E cluster ep (int (length (crew E cluster ec init boot s5))) 0 (sint n)) s6 =
        (Done (noResult, None), t)"
      "if remaining E cluster ec init cfgs boot n s6 = 0 then t = s6 else advances E cluster ec init cfgs boot n s6 t"
      using run_scaleStage [OF w p c6(5) [OF u5], of ep] True need c6 by auto
    have "run_state (reconcile E cluster) s = (Done (noResult, None), t)"
      using run True s6(1) t(1) by (simp add: rolloutStage_def run_simps)
    then show "\<exists>t. run_state (reconcile E cluster) s = (Done (noResult, None), t) \<and>
      (if remaining E cluster ec init cfgs boot n s5 = 0 then concludes E ec init cfgs s5 t
       else advances E cluster ec init cfgs boot n s5 t)"
      using t(2) s6(2,3) by (intro pass_after_steady [OF s6(2)])
        (auto simp: concludes_def steady.refl split: if_splits)
  qed
qed

section \<open>Pass after pass\<close>

lemma finished:
  assumes p: "plain E ec n" and u: "under_way E cluster ec init cfgs boot n s"
    and none: "remaining E cluster ec init cfgs boot n s = 0"
  shows "laggards E cluster ec init cfgs boot s = [] \<and> int (length (crew E cluster ec init boot s)) = sint n"
proof -
  have lag: "laggards E cluster ec init cfgs boot s = []" using none by (simp add: remaining_def)
  moreover have "nat (sint n) \<le> length (current E cluster ec init cfgs boot s)" using none by (simp add: remaining_def)
  moreover have "length (current E cluster ec init cfgs boot s) \<le> nat (sint n)" using u by (simp add: under_way_def)
  moreover have "1 \<le> sint n" using p by (simp add: plain_def)
  moreover have "length (crew E cluster ec init boot s) = length (current E cluster ec init cfgs boot s)"
    using crew_count [of E cluster ec init boot s cfgs] lag by simp
  ultimately show ?thesis by linarith
qed

text \<open>A rollout of a changed bootstrap config, or of another infrastructure template, ends. What is left to do, the
  outdated machines the object owns and the current ones it lacks, is one less after every pass of
  \<open>reconcile\<close>, none of which fails, until nothing is left; then exactly as many machines as the object
  asks for are owned, all of them made from the current spec, and later passes keep it so. No member
  leaves on the way: a machine that is disowned stays a member until the control plane has been
  upgraded. This is so in a world in which nothing fails and passes come at least a minute apart,
  whatever machines were outdated when the rollout began, and also for a cluster of one.\<close>

theorem rollout_finishes:
  assumes w: "rolling E cluster ec init cfgs boot" and cl: "conditions_laws (conds E) r" and p: "plain E ec n"
    and u: "under_way E cluster ec init cfgs boot n s"
  shows "remaining E cluster ec init cfgs boot n (passes E cluster k s) = remaining E cluster ec init cfgs boot n s - k \<and>
     fst (run_state (reconcile E cluster) (passes E cluster k s)) = Done (noResult, None) \<and>
     mName ` set (fleet E cluster ec init boot s) \<subseteq> mName ` set (fleet E cluster ec init boot (passes E cluster k s)) \<and>
     (remaining E cluster ec init cfgs boot n s \<le> k \<longrightarrow>
        laggards E cluster ec init cfgs boot (passes E cluster k s) = [] \<and>
        int (length (crew E cluster ec init boot (passes E cluster k s))) = sint n)"
  using u
proof (induction k arbitrary: s)
  case 0
  obtain t where "run_state (reconcile E cluster) s = (Done (noResult, None), t)"
    using rollout_pass [OF w cl p 0] by blast
  moreover have "laggards E cluster ec init cfgs boot s = [] \<and> int (length (crew E cluster ec init boot s)) = sint n"
    if "remaining E cluster ec init cfgs boot n s = 0" using finished [OF p 0 that] .
  ultimately show ?case by simp
next
  case (Suc k)
  obtain t where t: "run_state (reconcile E cluster) s = (Done (noResult, None), t)"
    "if remaining E cluster ec init cfgs boot n s = 0 then concludes E ec init cfgs s t
     else advances E cluster ec init cfgs boot n s t"
    using rollout_pass [OF w cl p Suc.prems] by blast
  have less: "under_way E cluster ec init cfgs boot n t"
    "remaining E cluster ec init cfgs boot n t = remaining E cluster ec init cfgs boot n s - 1"
    "mName ` set (fleet E cluster ec init boot s) \<subseteq> mName ` set (fleet E cluster ec init boot t)"
    using t(2) Suc.prems steady_counts(1,5,6) [of E ec init cfgs s t] by (auto simp: advances_def concludes_def split: if_splits)
  show ?case using Suc.IH [OF less(1)] t(1) less(2,3) by auto
qed

text \<open>
  An example: the controller as the manager sets it up, three members, two with the configs of an
  old spec and one with infrastructure cloned from another template, an API server that gives every machine an address and makes up a name longer than all that
  are in use.
\<close>

definition with_address :: "Machine \<Rightarrow> Machine" where
  "with_address m = m\<lparr>mMeta := (mMeta m)\<lparr>CreationTimestamp := 0\<rparr>,
     mAddresses := [\<lparr>addrType = MachineExternalIP, addrAddress = ''10.0.0.1''\<rparr>]\<rparr>"

definition names_used :: "Machines \<Rightarrow> string" where
  "names_used ms = concat (map (\<lambda>m. mName m @ crName (mConfigRef m)) ms)"

definition old_infra :: InfraObject where
  "old_infra = demo_infra\<lparr>infMeta := clone_meta ''old-tmpl''\<rparr>"

definition rolling_svc :: "Machines \<Rightarrow> config_store \<Rightarrow> service_api" where
  "rolling_svc init cfgs = (friendly_svc init)\<lparr>
     k_ListMachines := (\<lambda>h rd cl f. Inr (filter f (map with_address (stored init h)))),
     k_ExternalGet := (\<lambda>h r. Inr (if oName r = ''infra-0'' then old_infra else demo_infra)),
     k_GetEtcdadmConfig := (\<lambda>h k. case configs cfgs h k of None \<Rightarrow> Inl notFound | Some c \<Rightarrow> Inr c),
     k_GenerateName := (\<lambda>h base. CHR ''x'' # names_used (stored init h)),
     k_GetEtcdadmCluster := (\<lambda>h k. Inr (latest ref_ec h)),
     k_GetOwnerCluster := (\<lambda>h om. Inr (Some ref_cluster)),
     k_GetSecret := (\<lambda>h k. Inr \<lparr>secMeta = ref_meta (keyName k), secData = Some Map.empty, secType = ''Opaque''\<rparr>),
     t_Now := (\<lambda>h. minEtcdMemberReadySeconds * time_Second),
     n_HttpGet := (\<lambda>h c url. Inr \<lparr>respStatusCode = 200, respBody = Inr (health_json ''true'')\<rparr>)\<rparr>"

definition rolling_env :: "Machines \<Rightarrow> config_store \<Rightarrow> env" where
  "rolling_env init cfgs = SetupWithManager_env (with_svc (\<lambda>_. rolling_svc init cfgs)) None"

lemma rolling_fields:
  "errs (rolling_env init cfgs) = ref_errors" "coll (rolling_env init cfgs) = ref_collections"
  "conds (rolling_env init cfgs) = ref_conditions ''Ready''" "capi (rolling_env init cfgs) = ref_capi"
  "svc (rolling_env init cfgs) = rolling_svc init cfgs"
  by (simp_all add: rolling_env_def)

lemma names_used_longer:
  "m \<in> set ms \<Longrightarrow> length (mName m) \<le> length (names_used ms) \<and> length (crName (mConfigRef m)) \<le> length (names_used ms)"
  by (induction ms) (auto simp: names_used_def)

lemma fresh_name:
  assumes "m \<in> set ms"
  shows "CHR ''x'' # names_used ms \<noteq> mName m" "CHR ''x'' # names_used ms \<noteq> crName (mConfigRef m)"
  using names_used_longer [OF assms] by (metis Suc_n_not_le_n length_Cons)+

lemma healthy_parses: "parseEtcdHealthCheckOutput (health_json ''true'') = None"
proof -
  have "plain_text ''true''" by (simp add: plain_text_def ord_def)
  from health_json_decodes [OF this] show ?thesis by (simp add: parseEtcdHealthCheckOutput_def)
qed

lemma address_parses:
  "url_Parse ''https://10.0.0.1:2379'' = Some ''10.0.0.1:2379''" "url_Parse ''https://10.0.0.1:2379/health'' \<noteq> None"
  by code_simp+

lemma the_address: "getMemberClientURL (getEtcdMachineAddress (with_address m)) = ''https://10.0.0.1:2379''"
  by (simp add: with_address_def getEtcdMachineAddress_def scan_addresses_def Let_def getMemberClientURL_def
      httpsPrefix_def etcdClientURLPort_def)

lemma rolling_client: "\<exists>c t. run_state (getEtcdHttpClient (rolling_env init cfgs) ref_cluster) s = (Done (Inr c), t)"
  by (cases "clusterToHttpClient s (UID (clMeta ref_cluster))")
    (simp_all add: getEtcdHttpClient_def lookupCert_def getCACert_def getClientCerts_def run_simps call_defs Let_def
      rolling_fields rolling_svc_def friendly_svc_def ref_svc_def ref_capi_def ref_keyPair_def)

lemma rolling_healthy:
  "\<exists>t. reads s t \<and> run_state (performEndpointHealthCheck (rolling_env init cfgs) ref_cluster ''https://10.0.0.1:2379'' True) s =
     (Done None, t)"
proof -
  let ?m = "performEndpointHealthCheck (rolling_env init cfgs) ref_cluster ''https://10.0.0.1:2379'' True"
  obtain c s1 where s1: "run_state (getEtcdHttpClient (rolling_env init cfgs) ref_cluster) s = (Done (Inr c), s1)"
    using rolling_client by blast
  have port: "\<exists>t. run_state (r_isPortOpen (rolling_env init cfgs) h) u = (Done True, t)" for h u
    by (simp add: rolling_env_def isPortOpen_def run_simps call_defs rolling_svc_def friendly_svc_def ref_svc_def)
  obtain s2 where s2: "run_state (r_isPortOpen (rolling_env init cfgs) ''10.0.0.1:2379'') s1 = (Done True, s2)"
    using port by blast
  have "\<exists>t. run_state ?m s = (Done None, t)"
    using address_parses healthy_parses
    by (auto simp: performEndpointHealthCheck_def run_simps s1 s2 call_HttpGet_def Let_def getMemberHealthCheckEndpoint_def
        rolling_fields rolling_svc_def)
  then obtain t where t: "run_state ?m s = (Done None, t)" by blast
  have "obeys reads ?m" unfolding rolling_env_def by (rule wired.checker.check_reads)
  then have "reads s t" using t by (rule obeysD)
  then show ?thesis using t by blast
qed

lemma rolling_certifiable: "certifiable (rolling_env init cfgs)"
  unfolding certifiable_def rolling_fields rolling_svc_def friendly_svc_def
  by (simp add: ref_svc_def ref_capi_def etcdCACertKeyPair_def ref_keyPair_def rolling_fields)

lemma rolling_selector:
  "EtcdMachinesSelectorForCluster (rolling_env init cfgs) (clName ref_cluster) ''etcd'' = Some (ref_selector ''c1'' ''etcd'')"
  by (simp add: EtcdMachinesSelectorForCluster_def rolling_fields ref_selector_def ref_capi_def ref_cluster_def ref_meta_def)

lemma rolling_selects:
  assumes "Name (ecMeta ec) = ''etcd''"
  shows "selects_own (rolling_env init cfgs) ref_cluster ec"
  unfolding selects_own_def assms
  by (simp add: rolling_selector EtcdClusterMachines_def EtcdLabelsForCluster_def rolling_fields ref_selector_def
      ref_capi_def ref_cluster_def ref_meta_def)

lemma rolling_serves: "serving (rolling_env init cfgs)"
  unfolding serving_def rolling_fields rolling_svc_def friendly_svc_def
  by (simp add: ref_svc_def ref_capi_def demo_infra_def ref_meta_def)

lemma rolling_world:
  assumes ec: "Name (ecMeta ec) = ''etcd''" "ecSpec ec = ecSpec ref_ec"
  shows "rolling (rolling_env init cfgs) ref_cluster ec init cfgs with_address"
proof -
  have "boots with_address"
    by (simp add: boots_def with_address_def getEtcdMachineAddress_def scan_addresses_def Let_def)
  moreover have "col_OwnedMachines ref_collections ec' = col_OwnedMachines ref_collections ec"
    if "same_object ec ec'" for ec'
    using that by (simp add: ref_collections_def same_object_def fun_eq_iff)
  moreover have "\<not> from_other_template (rolling_env init cfgs) ec (infraRefOf m)" if "crName (mInfrastructureRef m) = ''infra''" for m
    using demo_infra_marked [OF rolling_fields(4) ec(2)] that
    by (simp add: from_other_template_def infraRefOf_def rolling_fields rolling_svc_def)
  moreover have "cloned_from_other (rolling_env init cfgs) ec i = from_other_template (rolling_env init cfgs) ec r"
    if "k_ExternalGet (svc (rolling_env init cfgs)) h r = Inr i" for h r i
    using that by (simp add: from_other_template_def rolling_fields rolling_svc_def)
  ultimately show ?thesis
    using rolling_serves rolling_selects [OF ec(1)] rolling_certifiable rolling_healthy fresh_name
    unfolding rolling_def rolling_fields the_address
    by (simp add: rolling_svc_def friendly_svc_def ref_svc_def notFound_def ref_errors_def with_address_def)
      (simp add: ref_collections_def controllerRefOf_def rolling_fields ref_capi_def)
qed

lemma ref_ec_name: "Name (ecMeta ref_ec) = ''etcd''"
  by (simp add: ref_ec_def ref_meta_def)

definition old_member :: "string \<Rightarrow> Machine" where
  "old_member n = (named_member n)\<lparr>mInfrastructureRef :=
       \<lparr>crKind = ''InfraMachine'', crName = (if n = ''a'' then ''infra-0'' else ''infra''), crAPIGroup = ''infra.x-k8s.io''\<rparr>,
     mConfigRef := \<lparr>crKind = ''EtcdadmConfig'', crName = n, crAPIGroup = []\<rparr>\<rparr>"

definition old_members :: Machines where "old_members = map old_member [''a'', ''b'', ''c'']"

definition old_configs :: config_store where "old_configs k = Some (if keyName k = ''a'' then (old_config ''a'')\<lparr>cfgSpec := etcdadmConfigSpec (ecSpec ref_ec)\<rparr>
     else old_config (keyName k))"

lemma old_member_facts:
  "EtcdClusterMachines (rolling_env init cfgs) (ref_selector ''c1'' ''etcd'') (Some (with_address (old_member n)))"
  "col_OwnedMachines ref_collections ref_ec (with_address (old_member n))"
  "stale (rolling_env init cfgs) ref_ec old_configs (with_address (old_member n))"
  "DeletionTimestamp (mMeta (with_address (old_member n))) = None"
  "map_get (Annotations (mMeta (with_address (old_member n)))) k = None"
  "mName (old_member n) = n"
  using first_member_mine [of init]
  by (simp_all add: EtcdClusterMachines_def old_member_def named_member_def with_address_def friendly_fields rolling_fields
      ref_collections_def stale_def from_other_template_def infraRefOf_def rolling_svc_def old_infra_def demo_infra_def
      cloned_from_other_def clone_meta_def configOf_def configKey_def old_configs_def old_config_def ref_capi_def ref_ec_def
      first_member_def ref_machine_def ref_meta_def map_get_def)

lemma ref_store: "stored init (trace ref_sys) = init" "configs cfgs (trace ref_sys) = cfgs"
  by (simp_all add: stored_def configs_def ref_sys_def)

lemma rolling_start:
  "fleet (rolling_env old_members old_configs) ref_cluster ref_ec old_members with_address ref_sys = map with_address old_members"
  "crew (rolling_env old_members old_configs) ref_cluster ref_ec old_members with_address ref_sys = map with_address old_members"
  "laggards (rolling_env old_members old_configs) ref_cluster ref_ec old_members old_configs with_address ref_sys =
     map with_address old_members"
  "current (rolling_env old_members old_configs) ref_cluster ref_ec old_members old_configs with_address ref_sys = []"
proof -
  let ?E = "rolling_env old_members old_configs"
  show fl: "fleet ?E ref_cluster ref_ec old_members with_address ref_sys = map with_address old_members"
    by (simp add: fleet_def membersOf_def ref_ec_name rolling_selector ref_store) (simp add: old_members_def old_member_facts)
  then show cr: "crew ?E ref_cluster ref_ec old_members with_address ref_sys = map with_address old_members"
    by (simp add: crew_def rolling_fields) (simp add: old_members_def old_member_facts)
  show "laggards ?E ref_cluster ref_ec old_members old_configs with_address ref_sys = map with_address old_members"
    "current ?E ref_cluster ref_ec old_members old_configs with_address ref_sys = []"
    by (simp_all add: laggards_def current_def cr ref_store) (simp_all add: old_members_def old_member_facts)
qed

lemma rolling_under_way:
  "under_way (rolling_env old_members old_configs) ref_cluster ref_ec old_members old_configs with_address 3 ref_sys"
proof -
  have "Conditions (ecStatus ref_ec) = []" by (simp add: ref_ec_def)
  then show ?thesis
    unfolding under_way_def rolling_start ref_store
    by (simp add: same_object_def ref_sys_def IsFalse_def GetConditions_def rolling_fields ref_conditions_def
        has_status_def get_condition_def)
      (simp add: old_members_def old_member_facts)
qed

lemma rolling_plain: "plain (rolling_env init cfgs) ref_ec 3"
  by (simp add: plain_def hasAnnotation_def ref_ec_def ref_meta_def rolling_fields map_get_def)

theorem rollout_finishes_witness:
  "laggards (rolling_env old_members old_configs) ref_cluster ref_ec old_members old_configs with_address
     (passes (rolling_env old_members old_configs) ref_cluster 6 ref_sys) = [] \<and>
   length (crew (rolling_env old_members old_configs) ref_cluster ref_ec old_members with_address
     (passes (rolling_env old_members old_configs) ref_cluster 6 ref_sys)) = 3 \<and>
   {''a'', ''b'', ''c''} \<subseteq> mName ` set (fleet (rolling_env old_members old_configs) ref_cluster ref_ec old_members with_address
     (passes (rolling_env old_members old_configs) ref_cluster 6 ref_sys))"
proof -
  let ?E = "rolling_env old_members old_configs"
  have laws: "conditions_laws (conds ?E) ''Ready''" by (simp add: rolling_fields)
  have "remaining ?E ref_cluster ref_ec old_members old_configs with_address 3 ref_sys = 6"
    by (simp add: remaining_def rolling_start) (simp add: old_members_def)
  moreover have "mName ` set (fleet ?E ref_cluster ref_ec old_members with_address ref_sys) = {''a'', ''b'', ''c''}"
    unfolding rolling_start by (simp add: old_members_def with_address_def old_member_facts(6))
  ultimately show ?thesis
    using rollout_finishes [OF rolling_world [OF ref_ec_name refl] laws rolling_plain rolling_under_way, of 6] by simp
qed

end
