(* ===== verification/Upgrade_Correct.thy ===== *)
theory Upgrade_Correct
  imports Rollout_Correct
begin

text \<open>
  How an upgrade ends: when the control plane has been upgraded, the members that the rollout has
  disowned are removed, all in one pass, and the next pass takes the sign off the object.
\<close>

section \<open>Removing several machines\<close>

lemma emits_no_config:
  assumes "\<And>eps. obeys reads (GetEtcdClient E cluster eps)"
  shows "emits (\<lambda>e. \<not> makes_config e) (removeEtcdMachine E cluster mo address)"
proof -
  have "is_delete e \<or> is_remove e \<Longrightarrow> \<not> makes_config e" for e by (cases e) simp_all
  then show ?thesis
    unfolding removeEtcdMachine_def call_CloseEtcdClient_def
    by (intro emit_intros emits_removeEtcdMemberAndDeleteMachine reads_emits [OF assms])
      (simp_all add: reads_makes_no_config)
qed

lemma two_in_list: "a \<in> set xs \<Longrightarrow> b \<in> set xs \<Longrightarrow> a \<noteq> b \<Longrightarrow> 1 < length xs"
  by (cases xs; cases "tl xs") auto

lemma membersOf_filter:
  assumes "selects_own E cluster ec"
  shows "membersOf E cluster ec (filter P ms) = filter P (membersOf E cluster ec ms)"
  using assms by (rule own_selector) (simp add: conj_commute)

text \<open>One after the other, while a member is left that is not among them.\<close>

lemma run_departures:
  assumes sel: "selects_own E cluster ec" and r: "removable E cluster ec init"
    and client: "\<And>eps. obeys reads (GetEtcdClient E cluster eps)"
  shows "distinct (map mName xs) \<Longrightarrow> mName ` set xs \<subseteq> mName ` set (membersOf E cluster ec (stored init (trace s))) \<Longrightarrow>
     \<exists>c\<in>set (membersOf E cluster ec (stored init (trace s))). mName c \<notin> mName ` set xs \<Longrightarrow>
     \<exists>t. run_state (forReturn (removeOutdated E cluster) xs) s = (Done None, t) \<and> theEC t = theEC s \<and>
       configs cfgs (trace t) = configs cfgs (trace s) \<and>
       stored init (trace t) = filter (\<lambda>x. mName x \<notin> mName ` set xs) (stored init (trace s))"
proof (induction xs arbitrary: s)
  case (Cons x xs)
  let ?ms = "membersOf E cluster ec (stored init (trace s))"
  obtain c where c: "c \<in> set ?ms" "mName c \<notin> mName ` set (x # xs)" using Cons.prems(3) by blast
  obtain y where y: "y \<in> set ?ms" "mName y = mName x" using Cons.prems(2) by auto
  have "y \<noteq> c" using c(2) y(2) by auto
  then have "1 < length ?ms" using two_in_list [OF y(1) c(1)] by blast
  then obtain t where t: "run_state (removeEtcdMachine E cluster (Some x) (getEtcdMachineAddress x)) s = (Done None, t)"
    "theEC t = theEC s" "stored init (trace t) = filter (\<lambda>z. mName z \<noteq> mName x) (stored init (trace s))"
    using run_removeEtcdMachine [OF r] by blast
  have "extends (\<lambda>e. \<not> makes_config e) s t" by (rule obeysD [OF emits_no_config [OF client] t(1)])
  then have cs: "configs cfgs (trace t) = configs cfgs (trace s)" by (auto simp: extends_def configs_frame)
  have mem: "membersOf E cluster ec (stored init (trace t)) = filter (\<lambda>z. mName z \<noteq> mName x) ?ms"
    by (simp add: t(3) membersOf_filter [OF sel])
  have "distinct (map mName xs)" using Cons.prems(1) by simp
  moreover have "mName ` set xs \<subseteq> mName ` set (membersOf E cluster ec (stored init (trace t)))"
  proof
    fix k assume k: "k \<in> mName ` set xs"
    then obtain z where z: "z \<in> set ?ms" "mName z = k" using Cons.prems(2) by auto
    moreover have "k \<noteq> mName x"
    proof
      assume "k = mName x"
      then show False using k Cons.prems(1) by simp
    qed
    ultimately show "k \<in> mName ` set (membersOf E cluster ec (stored init (trace t)))" unfolding mem by auto
  qed
  moreover have "\<exists>c\<in>set (membersOf E cluster ec (stored init (trace t))). mName c \<notin> mName ` set xs"
    using c unfolding mem by auto
  ultimately obtain u where "run_state (forReturn (removeOutdated E cluster) xs) t = (Done None, u)" "theEC u = theEC t"
    "configs cfgs (trace u) = configs cfgs (trace t)"
    "stored init (trace u) = filter (\<lambda>x. mName x \<notin> mName ` set xs) (stored init (trace t))"
    using Cons.IH [of t] by blast
  then show ?case using t cs
    by (intro exI [of _ u]) (simp add: run_simps removeOutdated_def [of E cluster x] conj_commute)
qed (simp add: run_simps)

section \<open>The pass after the control plane upgrade\<close>

text \<open>
  The rollout is over: as many machines as asked for are owned, and none of them is outdated. The
  control plane has been upgraded, as an annotation of the object tells.
\<close>

definition rolled_out :: "env \<Rightarrow> Cluster \<Rightarrow> EtcdadmCluster \<Rightarrow> Machines \<Rightarrow> config_store \<Rightarrow> (Machine \<Rightarrow> Machine) \<Rightarrow> 32 word \<Rightarrow> sys \<Rightarrow> bool" where
  "rolled_out E cluster ec init cfgs boot n s \<longleftrightarrow>
     same_object ec (theEC s) \<and> \<not> IsFalse E (theEC s) InitializedCondition \<and>
     distinct (map mName (stored init (trace s))) \<and>
     int (length (crew E cluster ec init boot s)) = sint n \<and> laggards E cluster ec init cfgs boot s = [] \<and>
     (\<forall>m\<in>set (crew E cluster ec init boot s). DeletionTimestamp (mMeta m) = None)"

definition upgraded :: "env \<Rightarrow> EtcdadmCluster \<Rightarrow> 32 word \<Rightarrow> bool" where
  "upgraded E ec n \<longleftrightarrow> Replicas (ecSpec ec) = Some n \<and> 1 \<le> sint n \<and>
     hasAnnotation ec (ControlPlaneUpgradeCompletedAnnotation (capi E)) \<and>
     \<not> hasAnnotation ec UpgradeInProgressAnnotation"

lemma lookup_crew:
  assumes "distinct (map mName xs)" and "set ys \<subseteq> set xs" and "m \<in> set xs"
  shows "machines_lookup ys (mName m) = None \<longleftrightarrow> m \<notin> set ys"
proof -
  have "y = m" if "y \<in> set ys" "mName y = mName m" for y
    using assms that by (auto simp: distinct_map dest: inj_onD)
  then show ?thesis by (auto simp: machines_lookup_def find_None_iff)
qed

text \<open>The machines of the fleet that are not in the crew are the ones to remove.\<close>

lemma strangers:
  assumes laws: "collections_laws (coll E)" and b: "boots boot"
    and names: "distinct (map mName (stored init (trace s)))"
    and owned: "mset owned = mset (crew E cluster ec init boot s)"
    and xs: "mset xs = mset (col_Difference (coll E) (fleet E cluster ec init boot s) owned)"
  shows "distinct (map mName xs)"
    "set xs = {m \<in> set (fleet E cluster ec init boot s). \<not> col_OwnedMachines (coll E) ec m}"
    "filter (\<lambda>m. mName m \<notin> mName ` set xs) (fleet E cluster ec init boot s) = crew E cluster ec init boot s"
proof -
  let ?fleet = "fleet E cluster ec init boot s"
  note dist = distinct_fleet [OF b names, of E cluster ec]
  have sets: "set owned = set (crew E cluster ec init boot s)" using owned by (metis set_mset_mset)
  have "mset xs = mset (filter (\<lambda>m. machines_lookup owned (mName m) = None) ?fleet)"
    using xs collections_lawsD(3) [OF laws] by simp
  note diff = this
  show "distinct (map mName xs)" by (rule distinct_map_mset [OF diff distinct_names_filter [OF dist]])
  have "set owned \<subseteq> set ?fleet" by (auto simp: sets crew_def)
  note lookup = lookup_crew [OF dist this]
  show eq: "set xs = {m \<in> set ?fleet. \<not> col_OwnedMachines (coll E) ec m}"
    using mset_eq_setD [OF diff] lookup sets by (auto simp: crew_def)
  show "filter (\<lambda>m. mName m \<notin> mName ` set xs) ?fleet = crew E cluster ec init boot s"
    unfolding crew_def
  proof (rule filter_if)
    fix m assume m: "m \<in> set ?fleet"
    have "mName m \<in> mName ` set xs \<longleftrightarrow> m \<in> set xs"
      using dist m eq by (auto simp: distinct_map dest: inj_onD)
    then show "(mName m \<notin> mName ` set xs) = col_OwnedMachines (coll E) ec m" using eq m by simp
  qed
qed

lemma fleet_boot:
  assumes "boots boot" and "selects_own E cluster ec"
  shows "fleet E cluster ec init boot s = map boot (membersOf E cluster ec (stored init (trace s)))"
  using assms(2)
  by (rule own_selector) (simp add: fleet_def filter_map comp_def EtcdClusterMachines_def bootsD [OF assms(1)])

lemma fleet_filtered:
  assumes b: "boots boot" and sel: "selects_own E cluster ec"
    and st: "stored init (trace t) = filter (\<lambda>x. mName x \<notin> N) (stored init (trace s))"
  shows "fleet E cluster ec init boot t = filter (\<lambda>x. mName x \<notin> N) (fleet E cluster ec init boot s)"
  by (simp add: fleet_boot [OF b sel] st membersOf_filter [OF sel] filter_map comp_def bootsD [OF b])

text \<open>The removal of what the rollout has left behind.\<close>

lemma departure_pass:
  assumes w: "rolling E cluster ec init cfgs boot" and r: "removable E cluster ec init"
    and client: "\<And>eps. obeys reads (GetEtcdClient E cluster eps)"
    and cl: "conditions_laws (conds E) rd" and p: "upgraded E ec n"
    and ro: "rolled_out E cluster ec init cfgs boot n s"
    and some: "\<not> set (fleet E cluster ec init boot s) \<subseteq> set (crew E cluster ec init boot s)"
  shows "\<exists>t. run_state (reconcile E cluster) s = (Done (requeueNow, None), t) \<and>
     rolled_out E cluster ec init cfgs boot n t \<and> fleet E cluster ec init boot t = crew E cluster ec init boot s \<and>
     crew E cluster ec init boot t = crew E cluster ec init boot s"
proof -
  note laws = servingD(1) [OF rollingD(1) [OF w]] and b = rollingD(5) [OF w] and sel = rollingD(2) [OF w]
  let ?ec = "theEC s" and ?fleet = "fleet E cluster ec init boot s" and ?crew = "crew E cluster ec init boot s"
  let ?owned = "ownedBy E ?ec ?fleet"
  have same: "same_object ec ?ec" and up: "hasAnnotation ?ec (ControlPlaneUpgradeCompletedAnnotation (capi E))"
    and names: "distinct (map mName (stored init (trace s)))" and crew: "?crew \<noteq> []"
    using ro p by (auto simp: rolled_out_def upgraded_def same_object_def hasAnnotation_def)
  note owned = owned_crew [OF w same, of s]
  obtain ep s3 where s3: "run_state (reconcile E cluster) s = run_state (orElse (outdatedStage E cluster ?fleet ?owned)
      (afterOutdated E cluster ?ec ?fleet ?owned ep)) s3" "theEC s3 = ?ec" "steady E ec init cfgs s s3"
    using pass_front [OF w same names refl] by blast
  have "length ?crew < length ?fleet"
    using some unfolding crew_def by (metis filter_id_conv length_filter_less mem_Collect_eq set_filter subsetI)
  then have differ: "length ?owned \<noteq> length ?fleet" using length_mset_eq [OF owned] by simp
  define mark where "mark = onlyIf (IsUnknown E ?ec EtcdClusterHasNoOutdatedMembersCondition \<or>
      IsTrue E ?ec EtcdClusterHasNoOutdatedMembersCondition)
    (MarkFalse E EtcdClusterHasNoOutdatedMembersCondition EtcdClusterHasOutdatedMembersReason ConditionSeverityInfo
      (show_int (int (length (col_Difference (coll E) ?fleet ?owned))) @ '' etcd members have outdated spec''))"
  obtain s4 where s4: "run_state mark s3 = (Done (), s4)" "steady E ec init cfgs s3 s4"
    using run_mark_outdated(1) [OF cl] unfolding mark_def by blast
  note st = steady.trans [OF s3(3) s4(2)]
  have st4: "stored init (trace s4) = stored init (trace s)" "configs cfgs (trace s4) = configs cfgs (trace s)"
    using st by (simp_all add: steady_def)
  define xs where "xs = go_range (range_order (svc E) ''outdatedMachines'' (trace s4)
    (length (col_Difference (coll E) ?fleet ?owned))) (col_Difference (coll E) ?fleet ?owned)"
  have "mset xs = mset (col_Difference (coll E) ?fleet ?owned)" by (simp add: xs_def)
  note others = strangers [OF laws b names owned this]
  have fl: "mName ` set ?fleet = mName ` set (membersOf E cluster ec (stored init (trace s4)))"
    using bootsD(1) [OF b] by (simp add: fleet_boot [OF b sel] st4(1) image_image)
  obtain c where c: "c \<in> set ?crew" using crew by (cases ?crew) auto
  then have "c \<in> set (filter (\<lambda>m. mName m \<notin> mName ` set xs) ?fleet)" by (simp only: others(3))
  then have mem: "mName c \<in> mName ` set ?fleet" and gone: "mName c \<notin> mName ` set xs" by simp_all
  from mem obtain d where d: "d \<in> set (membersOf E cluster ec (stored init (trace s4)))" "mName c = mName d"
    unfolding fl by (rule imageE)
  have left: "\<exists>c\<in>set (membersOf E cluster ec (stored init (trace s4))). mName c \<notin> mName ` set xs"
    by (rule bexI [OF _ d(1)]) (use gone d(2) in simp)
  have "mName ` set xs \<subseteq> mName ` set (membersOf E cluster ec (stored init (trace s4)))" using others(2) fl by auto
  from run_departures [OF sel r client others(1) this left, of cfgs] obtain t where
    t: "run_state (forReturn (removeOutdated E cluster) xs) s4 = (Done None, t)" "theEC t = theEC s4"
    "configs cfgs (trace t) = configs cfgs (trace s)"
    "stored init (trace t) = filter (\<lambda>x. mName x \<notin> mName ` set xs) (stored init (trace s))"
    using st4 by auto
  have run: "run_state (reconcile E cluster) s = (Done (requeueNow, None), t)"
    using up differ s4(1) t(1)
    by (simp add: s3(1) run_orElse outdatedStage_def run_bnd run_seq s3(2) mark_def [symmetric] xs_def [symmetric])
  have fleet: "fleet E cluster ec init boot t = ?crew" using fleet_filtered [OF b sel t(4)] others(3) by simp
  then have crew: "crew E cluster ec init boot t = ?crew" by (simp add: crew_def)
  have "rolled_out E cluster ec init cfgs boot n t"
    using ro steady_counts(5) st unfolding rolled_out_def laggards_def crew t(2,3,4)
    by (auto simp: steady_def intro: distinct_names_filter)
  then show ?thesis using run fleet crew by blast
qed

text \<open>When no stranger is left, the stage takes the annotation off and marks the condition.\<close>

lemma run_signs_off:
  assumes cl: "conditions_laws (conds E) rd" and up: "hasAnnotation (theEC s) (ControlPlaneUpgradeCompletedAnnotation (capi E))"
    and calm: "\<not> hasAnnotation (theEC s) UpgradeInProgressAnnotation"
    and init: "\<not> IsFalse E (theEC s) InitializedCondition" and len: "length owned = length ms"
  shows "\<exists>t. run_state (outdatedStage E cluster ms owned) s = (Done None, t) \<and> trace t = trace s \<and>
     \<not> hasAnnotation (theEC t) (ControlPlaneUpgradeCompletedAnnotation (capi E)) \<and>
     \<not> hasAnnotation (theEC t) UpgradeInProgressAnnotation \<and> ecSpec (theEC t) = ecSpec (theEC s) \<and>
     \<not> IsFalse E (theEC t) EtcdClusterHasNoOutdatedMembersCondition \<and> \<not> IsFalse E (theEC t) InitializedCondition"
proof -
  define ec1 where "ec1 = (theEC s)\<lparr>ecMeta := (ecMeta (theEC s))\<lparr>Annotations :=
    map_delete (Annotations (ecMeta (theEC s))) (ControlPlaneUpgradeCompletedAnnotation (capi E))\<rparr>\<rparr>"
  have ec1: "\<not> hasAnnotation ec1 (ControlPlaneUpgradeCompletedAnnotation (capi E))"
    "\<not> hasAnnotation ec1 UpgradeInProgressAnnotation" "ecSpec ec1 = ecSpec (theEC s)"
    "IsFalse E ec1 c = IsFalse E (theEC s) c" for c
    using calm by (simp_all add: ec1_def hasAnnotation_def IsFalse_def GetConditions_def)
  show ?thesis
    using up len ec1 init marked(2,3) [OF cl]
    by (simp add: outdatedStage_def onlyIf_def deleteAnnotation_def run_simps ec1_def [symmetric] with_folds marked_frame)
qed

text \<open>The pass after that: no stranger is left, and the sign of the upgrade goes.\<close>

lemma settled_pass:
  assumes w: "rolling E cluster ec init cfgs boot" and cl: "conditions_laws (conds E) rd" and p: "upgraded E ec n"
    and ro: "rolled_out E cluster ec init cfgs boot n s"
    and all: "fleet E cluster ec init boot s = crew E cluster ec init boot s"
  shows "\<exists>t. run_state (reconcile E cluster) s = (Done (noResult, None), t) \<and>
     fleet E cluster ec init boot t = fleet E cluster ec init boot s \<and> ecSpec (theEC t) = ecSpec ec \<and>
     \<not> hasAnnotation (theEC t) (ControlPlaneUpgradeCompletedAnnotation (capi E)) \<and>
     \<not> IsFalse E (theEC t) EtcdClusterHasNoOutdatedMembersCondition"
proof -
  note laws = servingD(1) [OF rollingD(1) [OF w]] and b = rollingD(5) [OF w]
  let ?ec = "theEC s" and ?fleet = "fleet E cluster ec init boot s" and ?up = "ControlPlaneUpgradeCompletedAnnotation (capi E)"
  let ?owned = "ownedBy E ?ec ?fleet"
  have same: "same_object ec ?ec" and names: "distinct (map mName (stored init (trace s)))"
    and n: "Replicas (ecSpec ec) = Some n" and pos: "1 \<le> sint n" and lag: "laggards E cluster ec init cfgs boot s = []"
    and count: "int (length (crew E cluster ec init boot s)) = sint n"
    and alive: "\<forall>m\<in>set (crew E cluster ec init boot s). DeletionTimestamp (mMeta m) = None"
    using ro p by (auto simp: rolled_out_def upgraded_def)
  have up: "hasAnnotation ?ec ?up" and calm: "\<not> hasAnnotation ?ec UpgradeInProgressAnnotation"
    and init: "\<not> IsFalse E ?ec InitializedCondition" and spec: "ecSpec ?ec = ecSpec ec"
    using p same ro by (simp_all add: upgraded_def same_object_def hasAnnotation_def rolled_out_def)
  note owned = owned_crew [OF w same, of s]
  obtain ep s3 where s3: "run_state (reconcile E cluster) s = run_state (orElse (outdatedStage E cluster ?fleet ?owned)
      (afterOutdated E cluster ?ec ?fleet ?owned ep)) s3" "theEC s3 = ?ec" "steady E ec init cfgs s s3"
    "knows E ec (configs cfgs (trace s)) ?owned ep"
    using pass_front [OF w same names refl] by blast
  have lens: "length ?owned = length ?fleet" using length_mset_eq [OF owned] all by simp
  obtain s4 where s4: "run_state (outdatedStage E cluster ?fleet ?owned) s3 = (Done None, s4)" "trace s4 = trace s3"
    "\<not> hasAnnotation (theEC s4) ?up" "\<not> hasAnnotation (theEC s4) UpgradeInProgressAnnotation" "ecSpec (theEC s4) = ecSpec ec"
    "\<not> IsFalse E (theEC s4) EtcdClusterHasNoOutdatedMembersCondition" "\<not> IsFalse E (theEC s4) InitializedCondition"
    using run_signs_off [OF cl, of s3 ?owned ?fleet] up calm init lens spec unfolding s3(2) by auto
  obtain out s5 where s5: "run_state (afterOutdated E cluster ?ec ?fleet ?owned ep) s4 = run_state (orElse
      (rolloutStage E cluster ep (MachinesNeedingRollout E ep) (int (length ?fleet)) out (sint n))
      (scaleStage E cluster ep (int (length ?owned)) (int (length (MachinesNeedingRollout E ep))) (sint n))) s5"
    "theEC s5 = theEC s4" "steady E ec init cfgs s4 s5"
    using pass_rest [OF w same n distinct_fleet [OF b names]] by blast
  have "set ?owned = set (crew E cluster ec init boot s)" using owned by (metis set_mset_mset)
  then have "\<forall>m\<in>set ?owned. DeletionTimestamp (mMeta m) = None" using alive by simp
  from need_rollout [OF laws s3(4) this] have "mset (MachinesNeedingRollout E ep) = mset (laggards E cluster ec init cfgs boot s)"
    using owned by (simp add: laggards_def)
  then have need: "MachinesNeedingRollout E ep = []" using lag by simp
  have "\<not> hasAnnotation (theEC s5) UpgradeInProgressAnnotation" using s4(4) s5(2) by simp
  from run_rolloutDone [OF rollingD(4) [OF w] cl this] obtain t where t: "run_state (rolloutDone E cluster) s5 = (Done None, t)"
    "steady E ec init cfgs s5 t" "same_object (theEC s5) (theEC t)"
    "IsFalse E (theEC t) EtcdClusterHasNoOutdatedMembersCondition = IsFalse E (theEC s5) EtcdClusterHasNoOutdatedMembersCondition"
    by blast
  have fin: "\<not> hasAnnotation (theEC t) ?up" "\<not> hasAnnotation (theEC t) UpgradeInProgressAnnotation"
    "ecSpec (theEC t) = ecSpec ec" "\<not> IsFalse E (theEC t) InitializedCondition"
    using t(2,3) s4(3,4,5,7) s5(2) by (simp_all add: same_object_def hasAnnotation_def steady_def)
  have "int (length ?owned) = sint n" using count lens all by simp
  then have "run_state (reconcile E cluster) s = (Done (noResult, None), t)"
    using pos fin(2,4) need t(1)
    by (simp add: s3(1) run_orElse s4(1) s5(1) rolloutStage_def scaleStage_def run_simps onlyIf_def)
  moreover have "fleet E cluster ec init boot t = ?fleet"
    using s3(3) s4(2) s5(3) t(2) by (simp add: fleet_def steady_def)
  ultimately show ?thesis using fin t(4) s4(6) s5(2) by auto
qed

text \<open>C4: When a rollout is over and the control plane has been upgraded, one pass of
  \<open>reconcile\<close> removes every member that the object does not own any more, and no other, and asks to be
  run again; the next pass changes nothing about the machines, takes the annotation that told of the
  control plane's upgrade off the object and no longer reports outdated members. This is so in a world
  in which nothing fails.\<close>

theorem upgrade_completes:
  assumes w: "rolling E cluster ec init cfgs boot" and r: "removable E cluster ec init"
    and client: "\<And>eps. obeys reads (GetEtcdClient E cluster eps)"
    and cl: "conditions_laws (conds E) rd" and p: "upgraded E ec n"
    and ro: "rolled_out E cluster ec init cfgs boot n s"
    and some: "\<not> set (fleet E cluster ec init boot s) \<subseteq> set (crew E cluster ec init boot s)"
  shows "fst (run_state (reconcile E cluster) s) = Done (requeueNow, None) \<and>
     fleet E cluster ec init boot (passes E cluster 1 s) = crew E cluster ec init boot s \<and>
     fst (run_state (reconcile E cluster) (passes E cluster 1 s)) = Done (noResult, None) \<and>
     fleet E cluster ec init boot (passes E cluster 2 s) = crew E cluster ec init boot s \<and>
     \<not> hasAnnotation (theEC (passes E cluster 2 s)) (ControlPlaneUpgradeCompletedAnnotation (capi E)) \<and>
     \<not> IsFalse E (theEC (passes E cluster 2 s)) EtcdClusterHasNoOutdatedMembersCondition"
proof -
  obtain t where t: "run_state (reconcile E cluster) s = (Done (requeueNow, None), t)"
    "rolled_out E cluster ec init cfgs boot n t" "fleet E cluster ec init boot t = crew E cluster ec init boot s"
    "crew E cluster ec init boot t = crew E cluster ec init boot s"
    using departure_pass [OF w r client cl p ro some] by blast
  have "fleet E cluster ec init boot t = crew E cluster ec init boot t" using t(3,4) by simp
  from settled_pass [OF w cl p t(2) this] obtain u where u: "run_state (reconcile E cluster) t = (Done (noResult, None), u)"
    "fleet E cluster ec init boot u = fleet E cluster ec init boot t"
    "\<not> hasAnnotation (theEC u) (ControlPlaneUpgradeCompletedAnnotation (capi E))"
    "\<not> IsFalse E (theEC u) EtcdClusterHasNoOutdatedMembersCondition" by blast
  have "passes E cluster 1 s = t" "passes E cluster 2 s = u" using t(1) u(1) by (simp_all add: numeral_2_eq_2)
  then show ?thesis using t u by simp
qed

text \<open>An example: three current members, and one that the rollout has disowned.\<close>

definition up_ec :: EtcdadmCluster where
  "up_ec = ref_ec\<lparr>ecMeta := (ecMeta ref_ec)\<lparr>Annotations := Some [''upgrade-complete'' \<mapsto> ''true'']\<rparr>\<rparr>"

definition four_members :: Machines where
  "four_members = disowned (old_member ''a'') # map old_member [''b'', ''c'', ''d'']"

definition mixed_configs :: config_store where
  "mixed_configs k = Some (if keyName k = ''a'' then old_config ''a''
     else \<lparr>cfgMeta = ref_meta ''cfg'', cfgSpec = etcdadmConfigSpec (ecSpec ref_ec)\<rparr>)"

lemma up_ec_name: "Name (ecMeta up_ec) = ''etcd''" and up_ec_spec: "ecSpec up_ec = ecSpec ref_ec"
  by (simp_all add: up_ec_def ref_ec_name)

lemma rolling_client_gives: "\<exists>c. gives init (GetEtcdClient (rolling_env init cfgs) ref_cluster eps) s (Inr (Some c))"
  by (simp add: gives_def rolling_env_def generateEtcdClient_def lookupCert_def getCACert_def getClientCerts_def
      run_simps call_defs rolling_svc_def friendly_svc_def ref_svc_def ref_capi_def ref_keyPair_def unchanged_def stored_append)

lemma rolling_removable: "removable (rolling_env init cfgs) ref_cluster up_ec init"
proof -
  have "length (membersOf (rolling_env init cfgs) ref_cluster up_ec ms) \<le> length ms" for ms
    by (simp add: membersOf_def up_ec_name rolling_selector)
  then have "length (membersOf (rolling_env init cfgs) ref_cluster up_ec (stored init h)) > 1 \<longrightarrow>
      length (map memberOf (stored init h)) > 1" for h
    using order_less_le_trans by auto
  then show ?thesis using rolling_client_gives unfolding removable_def
    by (auto simp: rolling_fields rolling_svc_def friendly_svc_def ref_svc_def)
qed

lemma member_facts:
  "EtcdClusterMachines (rolling_env init cfgs) (ref_selector ''c1'' ''etcd'') (Some (with_address (old_member n)))"
  "EtcdClusterMachines (rolling_env init cfgs) (ref_selector ''c1'' ''etcd'') (Some (with_address (disowned (old_member n))))"
  "col_OwnedMachines ref_collections up_ec (with_address (old_member n))"
  "\<not> col_OwnedMachines ref_collections up_ec (with_address (disowned (old_member n)))"
  "n \<noteq> ''a'' \<Longrightarrow> \<not> stale (rolling_env init cfgs) up_ec mixed_configs (with_address (old_member n))"
  using old_member_facts(1) [of init cfgs n] old_member_facts(2) [of n]
  by (simp_all add: EtcdClusterMachines_def rolling_fields disowned_def with_address_def stale_def configOf_def configKey_def
      from_other_template_def infraRefOf_def rolling_svc_def demo_infra_marked up_ec_spec mixed_configs_def old_member_def ref_collections_def up_ec_def)

lemma upgrade_start:
  "fleet (rolling_env four_members mixed_configs) ref_cluster up_ec four_members with_address (ref_sys\<lparr>theEC := up_ec\<rparr>) =
     map with_address four_members"
  "crew (rolling_env four_members mixed_configs) ref_cluster up_ec four_members with_address (ref_sys\<lparr>theEC := up_ec\<rparr>) =
     map with_address (tl four_members)"
  "laggards (rolling_env four_members mixed_configs) ref_cluster up_ec four_members mixed_configs with_address
     (ref_sys\<lparr>theEC := up_ec\<rparr>) = []"
proof -
  let ?E = "rolling_env four_members mixed_configs" and ?s = "ref_sys\<lparr>theEC := up_ec\<rparr>"
  show fl: "fleet ?E ref_cluster up_ec four_members with_address ?s = map with_address four_members"
    by (simp add: fleet_def membersOf_def up_ec_name rolling_selector ref_store) (simp add: four_members_def member_facts)
  then show cr: "crew ?E ref_cluster up_ec four_members with_address ?s = map with_address (tl four_members)"
    by (simp add: crew_def rolling_fields) (simp add: four_members_def member_facts)
  show "laggards ?E ref_cluster up_ec four_members mixed_configs with_address ?s = []"
    by (simp add: laggards_def cr ref_store) (simp add: four_members_def member_facts)
qed

lemma upgrade_rolled_out:
  "rolled_out (rolling_env four_members mixed_configs) ref_cluster up_ec four_members mixed_configs with_address 3
     (ref_sys\<lparr>theEC := up_ec\<rparr>)"
proof -
  have "Conditions (ecStatus up_ec) = []" by (simp add: up_ec_def ref_ec_def)
  then show ?thesis
    unfolding rolled_out_def upgrade_start
    by (simp add: same_object_def ref_store IsFalse_def GetConditions_def rolling_fields ref_conditions_def has_status_def
        get_condition_def)
      (simp add: four_members_def old_member_facts)
qed

lemma rolling_upgraded: "upgraded (rolling_env init cfgs) up_ec 3"
  by (simp add: upgraded_def hasAnnotation_def up_ec_def ref_ec_def ref_meta_def rolling_fields ref_capi_def
      UpgradeInProgressAnnotation_def)

theorem upgrade_completes_witness:
  "map mName (fleet (rolling_env four_members mixed_configs) ref_cluster up_ec four_members with_address
     (ref_sys\<lparr>theEC := up_ec\<rparr>)) = [''a'', ''b'', ''c'', ''d''] \<and>
   map mName (fleet (rolling_env four_members mixed_configs) ref_cluster up_ec four_members with_address
     (passes (rolling_env four_members mixed_configs) ref_cluster 2 (ref_sys\<lparr>theEC := up_ec\<rparr>))) = [''b'', ''c'', ''d'']"
proof -
  let ?E = "rolling_env four_members mixed_configs" and ?s = "ref_sys\<lparr>theEC := up_ec\<rparr>"
  have laws: "conditions_laws (conds ?E) ''Ready''" by (simp add: rolling_fields)
  have client: "obeys reads (GetEtcdClient ?E ref_cluster eps)" for eps
    by (simp add: rolling_env_def reads_generateEtcdClient)
  have names: "mName (with_address m) = mName m" for m by (simp add: with_address_def)
  have "with_address (disowned (old_member ''a'')) \<in> set (fleet ?E ref_cluster up_ec four_members with_address ?s)"
    unfolding upgrade_start by (simp add: four_members_def)
  moreover have "with_address (disowned (old_member ''a'')) \<notin> set (crew ?E ref_cluster up_ec four_members with_address ?s)"
    by (simp add: crew_def rolling_fields member_facts)
  ultimately have some: "\<not> set (fleet ?E ref_cluster up_ec four_members with_address ?s) \<subseteq>
      set (crew ?E ref_cluster up_ec four_members with_address ?s)" by blast
  show ?thesis
    using upgrade_completes [OF rolling_world [OF up_ec_name up_ec_spec] rolling_removable client laws rolling_upgraded
        upgrade_rolled_out some]
    unfolding upgrade_start by (simp add: four_members_def names old_member_facts)
qed

end
