(* ===== verification/Handler_Correct.thy ===== *)
theory Handler_Correct
  imports Rollout_Correct Status_Correct
begin

text \<open>
  A rollout as the controller runs it: \<open>Reconcile\<close> reads the object, does a pass of \<open>reconcile\<close>, and
  the deferred function checks the machines, labels those that are healthy, updates the status and
  patches the object, which the next call reads. The results on passes of \<open>reconcile\<close> are carried
  over to calls of \<open>Reconcile\<close>.
\<close>

section \<open>Machines that differ in the etcd-ready label only\<close>









section \<open>The world of the handler\<close>



section \<open>Steps that may label machines\<close>





section \<open>The check of the owned machines\<close>






section \<open>The labels\<close>




section \<open>The status and the patch\<close>















section \<open>One call of the handler\<close>





section \<open>Call after call\<close>








end
