(* ===== verification/Test_Fixtures.thy ===== *)
theory Test_Fixtures
  imports Status_Correct Address_Correct
begin

text \<open>
  \<open>controllers/testutils.go\<close>: the objects the repository's own tests are run on, as the builders make
  them, and that they are what the code under test takes them for.
\<close>

section \<open>Builders\<close>

text \<open>
  What the builders take from random sources: the UUIDs, the generated names and the numbers drawn by
  \<open>rand.Intn(256)\<close>, each by the number of calls before. The Cluster has the first UUID and the
  EtcdadmCluster the second; \<open>machineCounter\<close> counts the machines made.
\<close>

record random_api =
  uuid_New :: "nat \<Rightarrow> string"
  names_GenerateName :: "nat \<Rightarrow> string \<Rightarrow> string"
  rand_Intn256 :: "nat \<Rightarrow> nat"

definition testClusterName :: string where "testClusterName = ''testCluster''"
definition testNamespace :: string where "testNamespace = ''test''"
definition testInfrastructureTemplateName :: string where "testInfrastructureTemplateName = ''testInfraTemplate''"
definition etcdClusterNameSuffix :: string where "etcdClusterNameSuffix = ''etcd-cluster''"
definition etcdVersion :: string where "etcdVersion = ''v3.4.9''"

text \<open>\<open>infraTemplate\<close>, as a reference to it; its \<open>spec\<close> is never read.\<close>

definition infraTemplate :: ObjectReference where
  "infraTemplate = \<lparr>oAPIVersion = ''infra.io/v1'', oKind = ''InfrastructureTemplate'',
     oNamespace = testNamespace, oName = testInfrastructureTemplateName\<rparr>"

text \<open>Pointers are options; following a nil one is \<open>None\<close> as the result of a builder.\<close>

record etcdadmClusterTest =
  tReplicas :: int
  tName :: string
  tNamespace :: string
  tCluster :: "Cluster option"
  tEtcdadmCluster :: "EtcdadmCluster option"
  tMachines :: "Machine list"
  machineCounter :: nat
  tInitSecret :: "Secret option"

definition newEtcdadmClusterTest :: "int \<Rightarrow> etcdadmClusterTest" where
  "newEtcdadmClusterTest etcdReplicas =
     \<lparr>tReplicas = etcdReplicas, tName = testClusterName, tNamespace = testNamespace, tCluster = None,
      tEtcdadmCluster = None, tMachines = [], machineCounter = 0, tInitSecret = None\<rparr>"

definition getEtcdClusterName :: "etcdadmClusterTest \<Rightarrow> string" where
  "getEtcdClusterName e = tName e @ ''-'' @ etcdClusterNameSuffix"

definition newClusterWithExternalEtcd :: "env \<Rightarrow> random_api \<Rightarrow> etcdadmClusterTest \<Rightarrow> Cluster" where
  "newClusterWithExternalEtcd E R e =
     \<lparr>clMeta = \<lparr>Name = tName e, Namespace = tNamespace e, UID = uuid_New R 0, Labels = None, Annotations = None,
        Finalizers = [], OwnerReferences = [], CreationTimestamp = 0, DeletionTimestamp = None\<rparr>,
      clPaused = None,
      clManagedExternalEtcdRef = Some \<lparr>crKind = ''EtcdadmCluster'', crName = tName e, crAPIGroup = []\<rparr>,
      clFailureDomains = None,
      clConditions = [(InfrastructureReadyCondition (capi E), ''True'')]\<rparr>"

text \<open>The owner is the Cluster of the test, whatever the argument is.\<close>

definition newEtcdadmCluster :: "env \<Rightarrow> random_api \<Rightarrow> etcdadmClusterTest \<Rightarrow> Cluster option \<Rightarrow> EtcdadmCluster option" where
  "newEtcdadmCluster E R e cluster =
     (case tCluster e of
        None \<Rightarrow> None
      | Some owner \<Rightarrow> Some
          \<lparr>ecMeta = \<lparr>Name = getEtcdClusterName e, Namespace = tNamespace e, UID = uuid_New R 1, Labels = None,
             Annotations = None, Finalizers = [EtcdadmClusterFinalizer],
             OwnerReferences = [NewControllerRef (capi E) (clMeta owner) (GroupVersionString (capi E)) ''Cluster''],
             CreationTimestamp = 0, DeletionTimestamp = None\<rparr>,
           ecSpec = \<lparr>Replicas = Some (word_of_int (tReplicas e)),
             InfrastructureTemplate = infraTemplate\<lparr>oNamespace := tNamespace e\<rparr>,
             etcdadmConfigSpec = OpaqueEtcdadmConfigSpec etcdVersion\<rparr>,
           ecStatus = \<lparr>ReadyReplicas = 0, InitMachineAddress = [], Initialized = False, Ready = False,
             CreationComplete = False, Endpoints = [], Selector = [], ObservedGeneration = 0, Conditions = []\<rparr>\<rparr>)"

definition randomAddress :: "random_api \<Rightarrow> nat \<Rightarrow> string" where
  "randomAddress R i =
     show_int (int (rand_Intn256 R (4 * i))) @ ''.'' @ show_int (int (rand_Intn256 R (4 * i + 1))) @ ''.'' @
     show_int (int (rand_Intn256 R (4 * i + 2))) @ ''.'' @ show_int (int (rand_Intn256 R (4 * i + 3)))"

definition newEtcdMachine :: "env \<Rightarrow> random_api \<Rightarrow> etcdadmClusterTest \<Rightarrow> (Machine \<times> etcdadmClusterTest) option" where
  "newEtcdMachine E R e =
     (case (tCluster e, tEtcdadmCluster e) of
        (Some cluster, Some ec) \<Rightarrow> Some
          (\<lparr>mMeta = \<lparr>Name = names_GenerateName R (machineCounter e) (Name (ecMeta ec) @ ''-''),
              Namespace = Namespace (ecMeta ec), UID = uuid_New R (machineCounter e + 2),
              Labels = EtcdLabelsForCluster E (clName cluster) (Name (ecMeta ec)), Annotations = None,
              Finalizers = [EtcdadmClusterFinalizer], OwnerReferences = [controllerRefOf E ec],
              CreationTimestamp = 0, DeletionTimestamp = None\<rparr>,
            mClusterName = clName cluster,
            mInfrastructureRef = \<lparr>crKind = oKind infraTemplate, crName = oName infraTemplate, crAPIGroup = []\<rparr>,
            mConfigRef = \<lparr>crKind = [], crName = [], crAPIGroup = []\<rparr>, mFailureDomain = [],
            mAddresses = [\<lparr>addrType = MachineExternalIP, addrAddress = randomAddress R (machineCounter e)\<rparr>]\<rparr>,
           e\<lparr>machineCounter := machineCounter e + 1\<rparr>)
      | _ \<Rightarrow> None)"

text \<open>\<open>machine.Status.Addresses[0].Address\<close>\<close>

definition firstAddress :: "Machine \<Rightarrow> string option" where
  "firstAddress m = (case mAddresses m of [] \<Rightarrow> None | a # _ \<Rightarrow> Some (addrAddress a))"

fun buildMachines ::
  "env \<Rightarrow> random_api \<Rightarrow> nat \<Rightarrow> etcdadmClusterTest \<Rightarrow> string list \<Rightarrow> (etcdadmClusterTest \<times> string list) option" where
  "buildMachines E R 0 e endpoints = Some (e, endpoints)"
| "buildMachines E R (Suc k) e endpoints =
     (case newEtcdMachine E R e of
        None \<Rightarrow> None
      | Some (machine, e') \<Rightarrow>
          (case firstAddress machine of
             None \<Rightarrow> None
           | Some a \<Rightarrow>
               buildMachines E R k (e'\<lparr>tMachines := tMachines e' @ [machine]\<rparr>)
                 (endpoints @ [''https://'' @ a @ '':2379''])))"

definition buildClusterWithExternalEtcd :: "env \<Rightarrow> random_api \<Rightarrow> etcdadmClusterTest \<Rightarrow> etcdadmClusterTest option" where
  "buildClusterWithExternalEtcd E R e =
     (let e1 = e\<lparr>tCluster := Some (newClusterWithExternalEtcd E R e)\<rparr>;
          e2 = e1\<lparr>tEtcdadmCluster := newEtcdadmCluster E R e1 (tCluster e1), tMachines := []\<rparr> in
      case buildMachines E R (nat (tReplicas e)) e2 [] of
        None \<Rightarrow> None
      | Some (e3, endpoints) \<Rightarrow>
          (case tEtcdadmCluster e3 of
             None \<Rightarrow> None
           | Some ec \<Rightarrow> Some (e3\<lparr>tEtcdadmCluster := Some
               (ec\<lparr>ecStatus := (ecStatus ec)\<lparr>Endpoints := strings_Join endpoints '',''\<rparr>\<rparr>)\<rparr>)))"

definition withHealthCheckRetries :: "etcdadmClusterTest \<Rightarrow> int \<Rightarrow> etcdadmClusterTest option" where
  "withHealthCheckRetries e retries =
     (case tEtcdadmCluster e of
        None \<Rightarrow> None
      | Some ec \<Rightarrow>
          (let annotations = (case Annotations (ecMeta ec) of None \<Rightarrow> Map.empty | Some a \<Rightarrow> a) in
           Some (e\<lparr>tEtcdadmCluster := Some (ec\<lparr>ecMeta := (ecMeta ec)\<lparr>Annotations :=
             Some (annotations(HealthCheckRetriesAnnotation \<mapsto> show_int retries))\<rparr>\<rparr>)\<rparr>)))"

datatype test_object = ObjCluster "Cluster option" | ObjEtcdadmCluster "EtcdadmCluster option" | ObjMachine Machine

definition gatherObjects :: "etcdadmClusterTest \<Rightarrow> test_object list" where
  "gatherObjects e = [ObjCluster (tCluster e), ObjEtcdadmCluster (tEtcdadmCluster e)] @ map ObjMachine (tMachines e)"

text \<open>The members etcd is made to list, one per machine, with nothing but their peer URL.\<close>

definition memberAt :: "string \<Rightarrow> Member" where
  "memberAt a = \<lparr>memberID = 0, memberName = [], memberPeerURLs = [''https://'' @ a @ '':2380'']\<rparr>"

definition getMemberListResponse :: "etcdadmClusterTest \<Rightarrow> Member list option" where
  "getMemberListResponse e = map_option (map memberAt) (those (map firstAddress (tMachines e)))"

definition getMemberRemoveResponse :: "etcdadmClusterTest \<Rightarrow> Member list option" where
  "getMemberRemoveResponse e =
     (case tMachines e of
        [] \<Rightarrow> None
      | m # _ \<Rightarrow> (case firstAddress m of None \<Rightarrow> None | Some a \<Rightarrow> Some [memberAt a]))"

text \<open>The machines a client shows as being deleted. An error leaves the empty object, which is not.\<close>

definition getDeletedMachines :: "(ObjectKey \<Rightarrow> Machine option) \<Rightarrow> etcdadmClusterTest \<Rightarrow> Machine list" where
  "getDeletedMachines get e =
     concat (map (\<lambda>machine.
       case get \<lparr>keyNamespace = Namespace (mMeta machine), keyName = mName machine\<rparr> of
         None \<Rightarrow> []
       | Some m \<Rightarrow> if DeletionTimestamp (mMeta m) \<noteq> None then [m] else []) (tMachines e))"

definition getHealthyEtcdResponse :: HttpResponse where
  "getHealthyEtcdResponse = \<lparr>respStatusCode = 200,
     respBody = Inr (CHR ''{'' # quoted ''Health'' @ '': '' @ quoted ''true'' @ ''}'')\<rparr>"

definition newInitSecret :: "etcdadmClusterTest \<Rightarrow> etcdadmClusterTest option" where
  "newInitSecret e =
     (case (tCluster e, tEtcdadmCluster e) of
        (Some cluster, Some ec) \<Rightarrow> Some (e\<lparr>tInitSecret := Some
          \<lparr>secMeta = \<lparr>Name = InitMachineAddress (ecStatus ec), Namespace = Namespace (clMeta cluster), UID = [],
             Labels = None, Annotations = None, Finalizers = [], OwnerReferences = [], CreationTimestamp = 0,
             DeletionTimestamp = None\<rparr>,
           secData = Some [''address'' \<mapsto> getEtcdMachineAddressFromClientURL (InitMachineAddress (ecStatus ec)),
             ''clientUrls'' \<mapsto> Endpoints (ecStatus ec)],
           secType = []\<rparr>\<rparr>)
      | _ \<Rightarrow> None)"

section \<open>What the objects are\<close>

lemma digit_char_digit: "d < 10 \<Longrightarrow> is_digit (digit_char d)"
  by (simp add: digit_char_def is_digit_def)

lemma show_nat_digits: "list_all is_digit (show_nat n)"
proof (induction n rule: show_nat.induct)
  case (1 n)
  then show ?case by (subst show_nat.simps) (simp add: digit_char_digit)
qed

lemma digit_is_address: "is_digit c \<Longrightarrow> address_byte c \<and> c \<noteq> CHR '':'' \<and> c \<noteq> CHR '',''"
  by (auto simp: address_byte_def is_alnum_def is_digit_def)

text \<open>The addresses are dotted quads: bytes of an address, no colon and no comma, and never empty.\<close>

definition quad :: "string \<Rightarrow> bool" where
  "quad a \<longleftrightarrow> a \<noteq> [] \<and> list_all (\<lambda>c. address_byte c \<and> c \<noteq> CHR '':'' \<and> c \<noteq> CHR '','') a"

lemma quad_random: "quad (randomAddress R i)"
proof -
  have num: "list_all (\<lambda>c. address_byte c \<and> c \<noteq> CHR '':'' \<and> c \<noteq> CHR '','') (show_int (int n))" for n
    using show_nat_digits [of n] digit_is_address by (auto simp: show_int_def list_all_iff)
  show ?thesis using num by (simp add: quad_def randomAddress_def) (simp add: address_byte_def)
qed

text \<open>A machine of the fixture.\<close>

definition builtFor :: "env \<Rightarrow> Cluster \<Rightarrow> EtcdadmCluster \<Rightarrow> Machine \<Rightarrow> bool" where
  "builtFor E cluster ec m \<longleftrightarrow>
     Labels (mMeta m) = EtcdLabelsForCluster E (clName cluster) (Name (ecMeta ec)) \<and>
     OwnerReferences (mMeta m) = [controllerRefOf E ec] \<and>
     (\<exists>a. quad a \<and> mAddresses m = [\<lparr>addrType = MachineExternalIP, addrAddress = a\<rparr>])"

lemma builtFor_address:
  assumes "builtFor E cluster ec m"
  shows "firstAddress m = Some (getEtcdMachineAddress m)" "quad (getEtcdMachineAddress m)"
proof -
  obtain a where "quad a" "mAddresses m = [\<lparr>addrType = MachineExternalIP, addrAddress = a\<rparr>]"
    using assms by (auto simp: builtFor_def)
  moreover from this have "getEtcdMachineAddress m = a"
    by (simp add: getEtcdMachineAddress_def scan_addresses_def Let_def quad_def)
  ultimately show "firstAddress m = Some (getEtcdMachineAddress m)" "quad (getEtcdMachineAddress m)"
    by (simp_all add: firstAddress_def)
qed

lemma newEtcdMachine_built:
  assumes "tCluster e = Some cluster" "tEtcdadmCluster e = Some ec"
  obtains m where "newEtcdMachine E R e = Some (m, e\<lparr>machineCounter := machineCounter e + 1\<rparr>)" "builtFor E cluster ec m"
  using assms quad_random by (simp add: newEtcdMachine_def builtFor_def)

lemma buildMachines_all:
  "tCluster e = Some cluster \<Longrightarrow> tEtcdadmCluster e = Some ec \<Longrightarrow>
   \<exists>ms. buildMachines E R k e eps = Some (e\<lparr>tMachines := tMachines e @ ms, machineCounter := machineCounter e + k\<rparr>,
       eps @ map (\<lambda>m. getMemberClientURL (getEtcdMachineAddress m)) ms) \<and>
     length ms = k \<and> list_all (builtFor E cluster ec) ms"
proof (induction k arbitrary: e eps)
  case (Suc k)
  obtain m where m: "newEtcdMachine E R e = Some (m, e\<lparr>machineCounter := machineCounter e + 1\<rparr>)" "builtFor E cluster ec m"
    using newEtcdMachine_built [OF Suc.prems] .
  let ?e = "e\<lparr>machineCounter := machineCounter e + 1, tMachines := tMachines e @ [m]\<rparr>"
  let ?eps = "eps @ [getMemberClientURL (getEtcdMachineAddress m)]"
  obtain ms where ms: "buildMachines E R k ?e ?eps = Some (?e\<lparr>tMachines := tMachines ?e @ ms,
      machineCounter := machineCounter ?e + k\<rparr>, ?eps @ map (\<lambda>m. getMemberClientURL (getEtcdMachineAddress m)) ms)"
    "length ms = k" "list_all (builtFor E cluster ec) ms"
    using Suc.IH [of ?e ?eps] Suc.prems by auto
  then show ?case using m builtFor_address(1) [OF m(2)]
    by (intro exI [of _ "m # ms"]) (simp add: getMemberClientURL_def httpsPrefix_def etcdClientURLPort_def)
qed simp

lemma strings_Split_self: "sep \<notin> set x \<Longrightarrow> strings_Split x sep = [x]"
  by (induction x) auto

lemma strings_Split_append: "sep \<notin> set x \<Longrightarrow> strings_Split (x @ sep # y) sep = x # strings_Split y sep"
  by (induction x) auto

lemma strings_Split_Join:
  "xs \<noteq> [] \<Longrightarrow> \<forall>x\<in>set xs. sep \<notin> set x \<Longrightarrow> strings_Split (strings_Join xs [sep]) sep = xs"
  by (induction xs "[sep]" rule: strings_Join.induct) (simp_all add: strings_Split_self strings_Split_append)

lemma those_Some: "\<forall>x\<in>set xs. f x = Some (g x) \<Longrightarrow> those (map f xs) = Some (map g xs)"
  by (induction xs) simp_all

text \<open>
  For any number of replicas the builders succeed, and what they build is what the code takes it for:
  every machine has the labels that select it and the cluster for its owner, etcd lists a member at
  its peer URL, its client URL gives back its address, and the endpoints in the status are the client
  URLs of the machines, in their order.
\<close>

theorem fixture_is_coherent:
  "\<exists>e cluster ec members. buildClusterWithExternalEtcd E R (newEtcdadmClusterTest (int k)) = Some e \<and>
     tCluster e = Some cluster \<and> tEtcdadmCluster e = Some ec \<and> getMemberListResponse e = Some members \<and>
     length (tMachines e) = k \<and> length members = k \<and>
     (\<forall>m\<in>set (tMachines e). Labels (mMeta m) = EtcdLabelsForCluster E (clName cluster) (Name (ecMeta ec)) \<and>
        OwnerReferences (mMeta m) = [controllerRefOf E ec] \<and>
        memberForPeerURLs members [peerURLOf (getEtcdMachineAddress m)] = Some (memberAt (getEtcdMachineAddress m)) \<and>
        getEtcdMachineAddressFromClientURL (getMachineEtcdEndpoint m) = getEtcdMachineAddress m) \<and>
     (k \<noteq> 0 \<longrightarrow> strings_Split (Endpoints (ecStatus ec)) (CHR '','') = map getMachineEtcdEndpoint (tMachines e))"
proof -
  let ?t = "newEtcdadmClusterTest (int k)"
  have size: "tReplicas ?t = int k" by (simp add: newEtcdadmClusterTest_def)
  define cl where "cl = newClusterWithExternalEtcd E R ?t"
  obtain ec where ec: "newEtcdadmCluster E R (?t\<lparr>tCluster := Some cl\<rparr>) (Some cl) = Some ec"
    by (simp add: newEtcdadmCluster_def)
  let ?e = "?t\<lparr>tCluster := Some cl, tEtcdadmCluster := Some ec, tMachines := []\<rparr>"
  obtain ms where ms: "buildMachines E R k ?e [] = Some (?e\<lparr>tMachines := ms, machineCounter := k\<rparr>,
      map (\<lambda>m. getMemberClientURL (getEtcdMachineAddress m)) ms)" "length ms = k" "list_all (builtFor E cl ec) ms"
    using buildMachines_all [of ?e cl ec E R k "[]"] by (auto simp: newEtcdadmClusterTest_def)
  let ?urls = "map (\<lambda>m. getMemberClientURL (getEtcdMachineAddress m)) ms"
  let ?ec = "ec\<lparr>ecStatus := (ecStatus ec)\<lparr>Endpoints := strings_Join ?urls '',''\<rparr>\<rparr>"
  let ?f = "?e\<lparr>tMachines := ms, machineCounter := k, tEtcdadmCluster := Some ?ec\<rparr>"
  have build: "buildClusterWithExternalEtcd E R ?t = Some ?f"
    using ec ms(1) by (simp add: buildClusterWithExternalEtcd_def Let_def cl_def [symmetric] size)
  have all: "builtFor E cl ec m" "quad (getEtcdMachineAddress m)" if "m \<in> set ms" for m
    using ms(3) that builtFor_address(2) by (auto simp: list_all_iff)
  have "those (map firstAddress ms) = Some (map getEtcdMachineAddress ms)"
    by (rule those_Some) (use all(1) builtFor_address(1) in blast)
  then have members: "getMemberListResponse ?f = Some (map memberAt (map getEtcdMachineAddress ms))"
    by (simp add: getMemberListResponse_def)
  have endpoint: "getMachineEtcdEndpoint m = getMemberClientURL (getEtcdMachineAddress m)" if "m \<in> set ms" for m
    using all(2) [OF that] by (simp add: getMachineEtcdEndpoint_def Let_def quad_def)
  have found: "memberForPeerURLs (map memberAt xs) [peerURLOf a] = Some (memberAt a)" if "a \<in> set xs" for a xs
    using that by (induction xs) (auto simp: memberAt_def peerURLOf_def)
  have again: "getEtcdMachineAddressFromClientURL (getMemberClientURL a) = a" if "quad a" for a
    using that client_url_address [of a] by (auto simp: quad_def list_all_iff)
  have each: "Labels (mMeta m) = EtcdLabelsForCluster E (clName cl) (Name (ecMeta ?ec)) \<and>
      OwnerReferences (mMeta m) = [controllerRefOf E ?ec] \<and>
      memberForPeerURLs (map memberAt (map getEtcdMachineAddress ms)) [peerURLOf (getEtcdMachineAddress m)] =
        Some (memberAt (getEtcdMachineAddress m)) \<and>
      getEtcdMachineAddressFromClientURL (getMachineEtcdEndpoint m) = getEtcdMachineAddress m" if "m \<in> set ms" for m
    using all [OF that] found [of "getEtcdMachineAddress m" "map getEtcdMachineAddress ms"] that again endpoint [OF that]
    by (simp add: builtFor_def controllerRefOf_def del: map_map)
  have "CHR '','' \<notin> set (getMemberClientURL a)" if "quad a" for a
    using that by (auto simp: quad_def list_all_iff getMemberClientURL_def httpsPrefix_def etcdClientURLPort_def)
  then have "ms \<noteq> [] \<Longrightarrow> strings_Split (strings_Join ?urls '','') (CHR '','') = ?urls"
    using all(2) by (intro strings_Split_Join) auto
  moreover have "?urls = map getMachineEtcdEndpoint ms" using endpoint by simp
  ultimately have split: "k \<noteq> 0 \<longrightarrow> strings_Split (Endpoints (ecStatus ?ec)) (CHR '','') = map getMachineEtcdEndpoint ms"
    using ms(2) by (cases ms) simp_all
  have lens: "length ms = k" "length (map memberAt (map getEtcdMachineAddress ms)) = k" using ms(2) by simp_all
  show ?thesis
    by (rule exI [of _ ?f], rule exI [of _ cl], rule exI [of _ ?ec], rule exI [of _ "map memberAt (map getEtcdMachineAddress ms)"])
      (use build members split each lens in simp)
qed

text \<open>The answer of a healthy member in the tests, with its capital letter and its space, is taken as healthy.\<close>

theorem healthy_response_is_healthy:
  "\<exists>body. respStatusCode getHealthyEtcdResponse = 200 \<and> respBody getHealthyEtcdResponse = Inr body \<and>
     parseEtcdHealthCheckOutput body = None"
proof -
  let ?body = "CHR ''{'' # quoted ''Health'' @ '': '' @ quoted ''true'' @ ''}''"
  have plain: "plain_text ''Health''" "plain_text ''true''" by (simp_all add: plain_text_def ord_def)
  note key = scan_quoted_key [OF plain(1)] and val = scan_quoted_value [OF plain(2)]
  have "json_members ?body = scan BeginStringOrEmpty [ParseObjectKey] \<lparr>capKey = [], capVal = [], capMembers = []\<rparr>
      (quoted ''Health'' @ CHR '':'' # CHR '' '' # quoted ''true'' @ ''}'')"
    by (simp add: json_members_def step_begin_value_def isSpace_def ord_def push_ctx_def maxNestingDepth_def capture_byte_def)
  also have "\<dots> = scan BeginValue [ParseObjectValue] \<lparr>capKey = quoted ''Health'', capVal = '' '', capMembers = []\<rparr> (quoted ''true'' @ ''}'')"
    by (simp add: key step_end_value_def step_begin_value_def isSpace_def ord_def capture_byte_def)
  also have "\<dots> = Some [(quoted ''Health'', CHR '' '' # quoted ''true'')]"
    by (simp add: val step_end_value_def isSpace_def ord_def capture_byte_def pop_ctx_def)
  finally have members: "json_members ?body = Some [(quoted ''Health'', CHR '' '' # quoted ''true'')]" .
  have "trim (CHR '' '' # quoted ''true'') = quoted ''true''"
    using quoted_value [OF plain(2)] by (simp add: trim_def isSpace_def ord_def)
  moreover have "is_health_key (quoted ''Health'')"
    using quoted_value [OF plain(1)] by (simp add: is_health_key_def ascii_lower_def ord_def char_of_def bit_0)
  ultimately have "store_health ([], False) (quoted ''Health'', CHR '' '' # quoted ''true'') = (''true'', False)"
    using quoted_value [OF plain(2)] by (simp add: quoted_def ord_def)
  moreover have "first_byte ?body = Some (CHR ''{'')" by (simp add: first_byte_def isSpace_def ord_def)
  ultimately have "parseEtcdHealthCheckOutput ?body = None"
    using members by (simp add: parseEtcdHealthCheckOutput_def json_Unmarshal_health_def)
  then show ?thesis by (simp add: getHealthyEtcdResponse_def)
qed

end
