(* ===== verification/Client_Cache.thy ===== *)
theory Client_Cache
  imports Health_Check Reference
begin

text \<open>
  The cache of HTTP clients when calls of \<open>getEtcdHttpClient\<close> (\<open>controllers/healthcheck.go\<close>) overlap.
  The cache is a \<open>sync.Map\<close>, so a load and a store are atomic, but a call reads certificates between
  the two, and the reconciler and the health-check loop may both be in the middle of a call for the
  same cluster.
\<close>

section \<open>A call, step by step\<close>

text \<open>Where a call is: about to load, to read the CA, to read the client certificate, to store; or done.\<close>

datatype client_call =
  Loading | ReadsCA | ReadsCert string | Stores HttpClient | Returned "err + HttpClient" | Panicked string

fun client_step :: "env \<Rightarrow> Cluster \<Rightarrow> client_call \<Rightarrow> sys \<Rightarrow> client_call \<times> sys" where
  "client_step E cluster Loading s =
     (case clusterToHttpClient s (UID (clMeta cluster)) of
        Some httpClient \<Rightarrow> (Returned (Inr httpClient), s)
      | None \<Rightarrow> (ReadsCA, s))"
| "client_step E cluster ReadsCA s =
     (case run_state (getCACert E cluster) s of
        (Done (Inr caCert), t) \<Rightarrow> (ReadsCert caCert, t)
      | (Done (Inl e), t) \<Rightarrow> (Returned (Inl e), t)
      | (Panic msg, t) \<Rightarrow> (Panicked msg, t))"
| "client_step E cluster (ReadsCert caCert) s =
     (case run_state (getClientCerts E cluster) s of
        (Done (Inr clientCert), t) \<Rightarrow>
          (Stores \<lparr>hcTimeout = httpClientTimeout, hcRootCAs = caCert, hcCertificate = clientCert\<rparr>, t)
      | (Done (Inl e), t) \<Rightarrow> (Returned (Inl (wrapErr E e ''Error getting client cert for healthcheck'')), t)
      | (Panic msg, t) \<Rightarrow> (Panicked msg, t))"
| "client_step E cluster (Stores httpClient) s =
     (Returned (Inr httpClient),
      s\<lparr>clusterToHttpClient := (clusterToHttpClient s)(UID (clMeta cluster) \<mapsto> httpClient)\<rparr>)"
| "client_step E cluster (Returned r) s = (Returned r, s)"
| "client_step E cluster (Panicked msg) s = (Panicked msg, s)"

fun client_steps :: "nat \<Rightarrow> env \<Rightarrow> Cluster \<Rightarrow> client_call \<times> sys \<Rightarrow> client_call \<times> sys" where
  "client_steps 0 E cluster x = x"
| "client_steps (Suc k) E cluster (c, s) = client_steps k E cluster (client_step E cluster c s)"

text \<open>Four steps that nobody disturbs are the function.\<close>

fun call_outcome :: "client_call \<times> sys \<Rightarrow> (err + HttpClient) outcome \<times> sys" where
  "call_outcome (Returned r, s) = (Done r, s)"
| "call_outcome (Panicked msg, s) = (Panic msg, s)"
| "call_outcome (_, s) = (Panic ''not finished'', s)"

lemma undisturbed_call:
  "run_state (getEtcdHttpClient E cluster) s = call_outcome (client_steps 4 E cluster (Loading, s))"
proof -
  have four: "(4 :: nat) = Suc (Suc (Suc (Suc 0)))" by simp
  show ?thesis
    unfolding four getEtcdHttpClient_def
    by (simp add: run_simps Let_def split: option.split prod.split outcome.split sum.split)
qed

section \<open>Calls that overlap\<close>

text \<open>
  Call \<open>i\<close> is one for the cluster \<open>cl i\<close>. Between its steps other calls go on, a call that has returned
  is made again, and the rest of the process and of the world do anything that is not in the cache.
\<close>

inductive overlap :: "env \<Rightarrow> (nat \<Rightarrow> Cluster) \<Rightarrow> sys \<times> (nat \<Rightarrow> client_call) \<Rightarrow> sys \<times> (nat \<Rightarrow> client_call) \<Rightarrow> bool"
  for E cl where
  call_goes_on: "client_step E (cl i) (calls i) s = (c, t) \<Longrightarrow> overlap E cl (s, calls) (t, calls(i := c))"
| called_again: "calls i = Returned r \<Longrightarrow> overlap E cl (s, calls) (s, calls(i := Loading))"
| elsewhere: "clusterToHttpClient t = clusterToHttpClient s \<Longrightarrow> overlap E cl (s, calls) (t, calls)"

inductive_cases overlap_elim: "overlap E cl (s, calls) (t, calls')"

lemma overlapE:
  assumes "overlap E cl (s, calls) (t, calls')"
  obtains (step) i c where "client_step E (cl i) (calls i) s = (c, t)" "calls' = calls(i := c)"
    | (again) i r where "calls i = Returned r" "calls' = calls(i := Loading)" "t = s"
    | (outside) "clusterToHttpClient t = clusterToHttpClient s" "calls' = calls"
  using assms by (cases rule: overlap_elim) blast+

text \<open>A call that has missed the cache, and may come to store a client.\<close>

fun building :: "client_call \<Rightarrow> bool" where
  "building ReadsCA = True"
| "building (ReadsCert _) = True"
| "building (Stores _) = True"
| "building _ = False"

definition quietFor :: "(nat \<Rightarrow> Cluster) \<Rightarrow> string \<Rightarrow> (nat \<Rightarrow> client_call) \<Rightarrow> bool" where
  "quietFor cl uid calls \<longleftrightarrow> (\<forall>i. UID (clMeta (cl i)) = uid \<longrightarrow> \<not> building (calls i))"

lemma certs_keep_clients:
  "run_state (getCACert E cluster) s = (r, t) \<Longrightarrow> clusterToHttpClient t = clusterToHttpClient s"
  "run_state (getClientCerts E cluster) s = (r', t) \<Longrightarrow> clusterToHttpClient t = clusterToHttpClient s"
  by (auto simp: getCACert_def getClientCerts_def call_LookupCerts_def run_simps
      split: sum.splits option.splits prod.splits)

text \<open>Only the last step of a call that is building writes, and only the entry of its cluster.\<close>

lemma client_step_cache:
  assumes "client_step E cluster c s = (c', t)"
  shows "clusterToHttpClient t = clusterToHttpClient s \<or>
     (\<exists>x. c = Stores x \<and> clusterToHttpClient t = (clusterToHttpClient s)(UID (clMeta cluster) \<mapsto> x))"
proof (cases c)
  case ReadsCA
  obtain r u where "run_state (getCACert E cluster) s = (r, u)" by fastforce
  with certs_keep_clients(1) [OF this] show ?thesis using assms ReadsCA by (auto split: outcome.splits sum.splits)
next
  case (ReadsCert ca)
  obtain r u where "run_state (getClientCerts E cluster) s = (r, u)" by fastforce
  with certs_keep_clients(2) [OF this] show ?thesis using assms ReadsCert by (auto split: outcome.splits sum.splits)
qed (use assms in \<open>auto split: option.splits\<close>)

text \<open>A call that is not building, for a cluster with a client: it returns that client.\<close>

lemma client_step_cached:
  assumes "client_step E cluster c s = (c', t)" and "\<not> building c"
    and "clusterToHttpClient s (UID (clMeta cluster)) = Some x"
  shows "t = s \<and> c' = (if c = Loading then Returned (Inr x) else c)"
  using assms by (cases c) auto

lemma overlap_keeps_entries:
  assumes "overlap E cl (s, calls) (t, calls')"
  shows "dom (clusterToHttpClient s) \<subseteq> dom (clusterToHttpClient t)"
  using assms by (cases rule: overlapE) (auto dest!: client_step_cache)

text \<open>What an observer of a quiet cluster can see: its client, and calls that return it.\<close>

definition settledOn :: "(nat \<Rightarrow> Cluster) \<Rightarrow> string \<Rightarrow> HttpClient \<Rightarrow> (nat \<Rightarrow> client_call) \<Rightarrow> sys \<times> (nat \<Rightarrow> client_call) \<Rightarrow> bool" where
  "settledOn cl uid x calls0 = (\<lambda>(s, calls).
     clusterToHttpClient s uid = Some x \<and> quietFor cl uid calls \<and>
     (\<forall>i. UID (clMeta (cl i)) = uid \<longrightarrow> calls i \<in> {Loading, Returned (Inr x), calls0 i}))"

lemma settledOn_step:
  assumes step: "overlap E cl (s, calls) (t, calls')" and set: "settledOn cl uid x calls0 (s, calls)"
  shows "settledOn cl uid x calls0 (t, calls')"
  using step
proof (cases rule: overlapE)
  case (step i c)
  show ?thesis
  proof (cases "UID (clMeta (cl i)) = uid")
    case True
    then have "\<not> building (calls i)" "clusterToHttpClient s (UID (clMeta (cl i))) = Some x"
      using set by (auto simp: settledOn_def quietFor_def)
    note this = client_step_cached [OF step(1) this]
    then show ?thesis using set step(2) True by (auto simp: settledOn_def quietFor_def)
  next
    case False
    have "clusterToHttpClient t uid = clusterToHttpClient s uid"
      using client_step_cache [OF step(1)] False by auto
    then show ?thesis using set step(2) False by (auto simp: settledOn_def quietFor_def)
  qed
qed (use set in \<open>auto simp: settledOn_def quietFor_def\<close>)

text \<open>C30: However calls of \<open>getEtcdHttpClient\<close> overlap, with each other and with anything else, a
  cluster that has an HTTP client always has one from then on. It may be another one only as long as
  calls that began before there was a client are still under way; once they are over, the client is
  the same for good, and every call that begins then returns it.\<close>

theorem client_cache_settles:
  assumes "(overlap E cl)\<^sup>*\<^sup>* (s, calls) (t, calls')"
  shows "dom (clusterToHttpClient s) \<subseteq> dom (clusterToHttpClient t) \<and>
     (\<forall>uid x. clusterToHttpClient s uid = Some x \<and> quietFor cl uid calls \<longrightarrow>
        clusterToHttpClient t uid = Some x \<and> quietFor cl uid calls' \<and>
        (\<forall>i. UID (clMeta (cl i)) = uid \<and> calls i = Loading \<longrightarrow> calls' i \<in> {Loading, Returned (Inr x)}))"
proof -
  have "dom (clusterToHttpClient s) \<subseteq> dom (clusterToHttpClient t) \<and>
      (\<forall>uid x. settledOn cl uid x calls (s, calls) \<longrightarrow> settledOn cl uid x calls (t, calls'))"
    using assms
  proof (induction rule: rtranclp_induct2)
    case (step u c v d)
    then show ?case using overlap_keeps_entries [OF step(2)] settledOn_step [OF step(2)] by blast
  qed simp
  moreover have "settledOn cl uid x calls (s, calls)"
    if "clusterToHttpClient s uid = Some x" "quietFor cl uid calls" for uid x
    using that by (simp add: settledOn_def)
  ultimately show ?thesis by (fastforce simp: settledOn_def)
qed

section \<open>Two first calls\<close>

text \<open>
  That nobody is building cannot be left out. The client certificate changes while two calls overlap
  that found no client; the second to store replaces the client of the first, which goes on with its own.
\<close>

definition rotating_env :: env where
  "rotating_env = with_svc (\<lambda>v. v\<lparr>k_LookupCerts := (\<lambda>h cs k. Inr (map
     (\<lambda>c. c\<lparr>certKeyPair := Some \<lparr>kpCert = (if length h < 3 then ''old'' else ''new''), kpKey = ''key''\<rparr>\<rparr>) cs))\<rparr>)"

text \<open>The calls in the order in which they go on.\<close>

fun interleaved :: "env \<Rightarrow> (nat \<Rightarrow> Cluster) \<Rightarrow> nat list \<Rightarrow> sys \<times> (nat \<Rightarrow> client_call) \<Rightarrow> sys \<times> (nat \<Rightarrow> client_call)" where
  "interleaved E cl [] x = x"
| "interleaved E cl (i # is) (s, calls) =
     (let (c, t) = client_step E (cl i) (calls i) s in interleaved E cl is (t, calls(i := c)))"

lemma interleaved_overlaps: "(overlap E cl)\<^sup>*\<^sup>* x (interleaved E cl is x)"
proof (induction "is" arbitrary: x)
  case (Cons i "is")
  obtain s calls where x: "x = (s, calls)" by fastforce
  obtain c t where c: "client_step E (cl i) (calls i) s = (c, t)" by fastforce
  have "overlap E cl x (t, calls(i := c))" using c unfolding x by (rule call_goes_on)
  then show ?case using Cons.IH [of "(t, calls(i := c))"] c by (simp add: x converse_rtranclp_into_rtranclp)
qed simp

definition built_client :: "string \<Rightarrow> string \<Rightarrow> HttpClient" where
  "built_client ca cert = \<lparr>hcTimeout = httpClientTimeout, hcRootCAs = ca, hcCertificate = TlsCertificate cert ''key''\<rparr>"

definition both_missed :: "sys \<times> (nat \<Rightarrow> client_call)" where
  "both_missed = interleaved rotating_env (\<lambda>_. ref_cluster) [0, 1, 0, 0, 1, 1, 0] (ref_sys, \<lambda>_. Loading)"

lemma both_missed_eval:
  "clusterToHttpClient (fst both_missed) ''c1-uid'' = Some (built_client ''old'' ''old'')"
  "snd both_missed = (\<lambda>_. Loading)(0 := Returned (Inr (built_client ''old'' ''old'')), 1 := Stores (built_client ''old'' ''new''))"
  by (simp_all add: both_missed_def rotating_env_def ref_sys_def ref_cluster_def ref_meta_def Let_def getCACert_def
      getClientCerts_def lookupCert_def call_LookupCerts_def run_simps ref_capi_def built_client_def fun_eq_iff)

theorem first_calls_may_replace:
  "clusterToHttpClient (fst both_missed) ''c1-uid'' = Some (built_client ''old'' ''old'') \<and>
   snd both_missed 0 = Returned (Inr (built_client ''old'' ''old'')) \<and>
   clusterToHttpClient (fst (interleaved rotating_env (\<lambda>_. ref_cluster) [1] both_missed)) ''c1-uid'' =
     Some (built_client ''old'' ''new'')"
proof -
  obtain t calls where b: "both_missed = (t, calls)" by fastforce
  show ?thesis using both_missed_eval unfolding b by (simp add: ref_cluster_def ref_meta_def)
qed

text \<open>A cluster that has a client, and two calls that find it.\<close>

definition cached_start :: "sys \<times> (nat \<Rightarrow> client_call)" where
  "cached_start = (ref_sys\<lparr>clusterToHttpClient := [''c1-uid'' \<mapsto> built_client ''old'' ''old'']\<rparr>, \<lambda>_. Loading)"

theorem client_cache_settles_witness:
  "clusterToHttpClient (fst (interleaved rotating_env (\<lambda>_. ref_cluster) [0, 1, 0] cached_start)) ''c1-uid'' =
     Some (built_client ''old'' ''old'') \<and>
   snd (interleaved rotating_env (\<lambda>_. ref_cluster) [0, 1, 0] cached_start) 1 \<in>
     {Loading, Returned (Inr (built_client ''old'' ''old''))}"
proof -
  obtain t calls where i: "interleaved rotating_env (\<lambda>_. ref_cluster) [0, 1, 0] cached_start = (t, calls)" by fastforce
  have "(overlap rotating_env (\<lambda>_. ref_cluster))\<^sup>*\<^sup>* (fst cached_start, snd cached_start) (t, calls)"
    using interleaved_overlaps [of rotating_env "\<lambda>_. ref_cluster" cached_start] i by (metis prod.collapse)
  from client_cache_settles [OF this] show ?thesis
    unfolding i by (fastforce simp: cached_start_def quietFor_def ref_cluster_def ref_meta_def)
qed

end
