(* ===== verification/Registration.thy ===== *)
theory Registration
  imports Conversion
begin

text \<open>
  The start of every Go program of this repository: the package variables of both API versions
  (\<open>api/*/groupversion_info.go\<close>), their \<open>init\<close> functions and that of \<open>main.go\<close>, which make the scheme
  that says which types the client and the webhooks know. \<open>runtime.Scheme\<close>, \<open>runtime.SchemeBuilder\<close> and
  \<open>scheme.Builder\<close> are library types; a function that adds something to a scheme is a program on it.
\<close>

section \<open>The library\<close>

record GroupVersion =
  gvGroup :: string
  gvVersion :: string

type_synonym 's adder = "('s, err option) prog"

text \<open>
  A \<open>runtime.SchemeBuilder\<close> is a value of type \<open>'b\<close>, \<open>nil\<close> at first, and \<open>Register\<close> replaces the value of
  the variable it is called on. \<open>addTypes\<close> is what \<open>scheme.Builder.Register\<close> adds for its objects.
\<close>

record ('s, 'b) scheme_api =
  sb_nil :: 'b
  sb_Register :: "'b \<Rightarrow> 's adder \<Rightarrow> 'b"
  sb_AddToScheme :: "'b \<Rightarrow> 's adder"
  addTypes :: "GroupVersion \<Rightarrow> string list \<Rightarrow> 's adder"

text \<open>\<open>AddToScheme\<close> runs what was registered, in that order, up to the first error.\<close>

definition scheme_laws :: "('s, 'b) scheme_api \<Rightarrow> bool" where
  "scheme_laws L \<longleftrightarrow>
     sb_AddToScheme L (sb_nil L) = ret None \<and>
     (\<forall>b f. sb_AddToScheme L (sb_Register L b f) = checkErr (sb_AddToScheme L b) Some f)"

section \<open>The API packages\<close>

text \<open>
  The variables. \<open>SchemeBuilder\<close> is a pointer to a \<open>scheme.Builder\<close>, whose embedded builder is
  \<open>schemeBuilder\<close>; the variable \<open>AddToScheme\<close> is its method, bound to the pointer.
\<close>

record 'b api_package =
  pkgGroupVersion :: GroupVersion
  schemeBuilder :: 'b
  localSchemeBuilder :: 'b

definition v1alpha3_GroupVersion :: GroupVersion where
  "v1alpha3_GroupVersion = \<lparr>gvGroup = ''etcdcluster.cluster.x-k8s.io'', gvVersion = ''v1alpha3''\<rparr>"

definition v1beta1_GroupVersion :: GroupVersion where
  "v1beta1_GroupVersion = \<lparr>gvGroup = ''etcdcluster.cluster.x-k8s.io'', gvVersion = ''v1beta1''\<rparr>"

text \<open>
  \<open>localSchemeBuilder = SchemeBuilder.SchemeBuilder\<close> reads the embedded builder: what it copies is the
  \<open>nil\<close> of that moment. Version \<open>v1beta1\<close> has no such variable; its component here stays \<open>nil\<close>.
\<close>

definition package_variables :: "('s, 'b) scheme_api \<Rightarrow> GroupVersion \<Rightarrow> 'b api_package" where
  "package_variables L gv =
     (let builder = sb_nil L in \<lparr>pkgGroupVersion = gv, schemeBuilder = builder, localSchemeBuilder = builder\<rparr>)"

text \<open>\<open>init\<close> of \<open>etcdadmcluster_types.go\<close>, in both versions.\<close>

definition init_types :: "('s, 'b) scheme_api \<Rightarrow> 'b api_package \<Rightarrow> 'b api_package" where
  "init_types L pkg = pkg\<lparr>schemeBuilder := sb_Register L (schemeBuilder pkg)
     (addTypes L (pkgGroupVersion pkg) [''EtcdadmCluster'', ''EtcdadmClusterList''])\<rparr>"

text \<open>\<open>init\<close> of \<open>zz_generated.conversion.go\<close>\<close>

definition init_conversions :: "('s, 'b) scheme_api \<Rightarrow> 's adder \<Rightarrow> 'b api_package \<Rightarrow> 'b api_package" where
  "init_conversions L registerConversions pkg =
     pkg\<lparr>localSchemeBuilder := sb_Register L (localSchemeBuilder pkg) registerConversions\<rparr>"

definition v1alpha3_package :: "('s, 'b) scheme_api \<Rightarrow> 's adder \<Rightarrow> 'b api_package" where
  "v1alpha3_package L registerConversions =
     init_conversions L registerConversions (init_types L (package_variables L v1alpha3_GroupVersion))"

definition v1beta1_package :: "('s, 'b) scheme_api \<Rightarrow> 'b api_package" where
  "v1beta1_package L = init_types L (package_variables L v1beta1_GroupVersion)"

definition AddToScheme :: "('s, 'b) scheme_api \<Rightarrow> 'b api_package \<Rightarrow> 's adder" where
  "AddToScheme L pkg = sb_AddToScheme L (schemeBuilder pkg)"

section \<open>\<open>main.go\<close>\<close>

text \<open>
  \<open>init\<close>: the types of client-go, of cluster-api, of the bootstrap provider, and the two versions here.
  Every error is thrown away.
\<close>

definition main_init ::
  "('s, 'b) scheme_api \<Rightarrow> 's adder \<Rightarrow> 's adder \<Rightarrow> 's adder \<Rightarrow> 's adder \<Rightarrow> ('s, unit) prog" where
  "main_init L clientgoscheme clusterv1 etcdbp registerConversions =
     bnd clientgoscheme (\<lambda>_.
     bnd clusterv1 (\<lambda>_.
     bnd etcdbp (\<lambda>_.
     bnd (AddToScheme L (v1alpha3_package L registerConversions)) (\<lambda>_.
     bnd (AddToScheme L (v1beta1_package L)) (\<lambda>_.
     ret ())))))"

section \<open>What is in the scheme\<close>

lemma registered_types:
  assumes "scheme_laws L"
  shows "AddToScheme L (v1alpha3_package L conv) =
      checkErr (ret None) Some (addTypes L v1alpha3_GroupVersion [''EtcdadmCluster'', ''EtcdadmClusterList''])"
    "AddToScheme L (v1beta1_package L) =
      checkErr (ret None) Some (addTypes L v1beta1_GroupVersion [''EtcdadmCluster'', ''EtcdadmClusterList''])"
  using assms
  by (simp_all add: AddToScheme_def v1alpha3_package_def v1beta1_package_def init_conversions_def init_types_def
      package_variables_def Let_def scheme_laws_def)

text \<open>
  The scheme has the types of both versions, whatever the libraries before them did, as long as they
  return. The generated conversions are registered with a builder that nothing adds to the scheme:
  whatever they are, the scheme is the same. The webhooks convert with \<open>ConvertTo\<close> and \<open>ConvertFrom\<close>,
  which call the conversions directly, and do not need them there.
\<close>

theorem conversions_not_in_scheme:
  assumes "scheme_laws L"
  shows "run_state (main_init L cg cl bp conv) s =
     (case run_state (bnd cg (\<lambda>_. bnd cl (\<lambda>_. bp))) s of
        (Panic msg, t) \<Rightarrow> (Panic msg, t)
      | (Done _, t) \<Rightarrow> run_state
          (bnd (addTypes L v1alpha3_GroupVersion [''EtcdadmCluster'', ''EtcdadmClusterList'']) (\<lambda>_.
           bnd (addTypes L v1beta1_GroupVersion [''EtcdadmCluster'', ''EtcdadmClusterList'']) (\<lambda>_. ret ()))) t)"
    and "main_init L cg cl bp conv = main_init L cg cl bp conv'"
  by (auto simp: main_init_def registered_types [OF assms] run_simps split: prod.splits outcome.splits)

corollary RegisterConversions_not_in_scheme:
  "scheme_laws L \<Longrightarrow> main_init L cg cl bp (RegisterConversions A toHub fromHub) = main_init L cg cl bp (ret None)"
  by (rule conversions_not_in_scheme(2))

text \<open>A scheme that is the list of its types and of the pairs it can convert; builders that are lists.\<close>

datatype scheme_entry = KnownType GroupVersion string | Converts string string

definition list_scheme :: "(scheme_entry list, scheme_entry list adder list) scheme_api" where
  "list_scheme = \<lparr>sb_nil = [], sb_Register = (\<lambda>b f. b @ [f]),
     sb_AddToScheme = (\<lambda>b. foldl (\<lambda>m f. checkErr m Some f) (ret None) b),
     addTypes = (\<lambda>gv kinds. seq (modify (\<lambda>s. s @ map (KnownType gv) kinds)) (ret None))\<rparr>"

lemma list_scheme_laws: "scheme_laws list_scheme"
  by (simp add: scheme_laws_def list_scheme_def)

theorem conversions_not_in_scheme_witness:
  "snd (run_state (main_init list_scheme (ret None) (ret (Some (ErrorNew ''refused''))) (ret None)
     (seq (modify (\<lambda>s. s @ [Converts ''v1alpha3'' ''v1beta1''])) (ret None))) []) =
     [KnownType v1alpha3_GroupVersion ''EtcdadmCluster'', KnownType v1alpha3_GroupVersion ''EtcdadmClusterList'',
      KnownType v1beta1_GroupVersion ''EtcdadmCluster'', KnownType v1beta1_GroupVersion ''EtcdadmClusterList'']"
  unfolding conversions_not_in_scheme(1) [OF list_scheme_laws]
  by (simp add: run_simps list_scheme_def)

end
