(* ===== verification/Spec2Isabelle.thy ===== *)
theory Spec2Isabelle
  imports Reconcile_Correct Periodic_Correct Address_Correct Status_Correct Plane_Correct
    Removal_Correct Api_Correct Process_Correct Deepcopy_Correct Scaling_Correct Panic_Free
    Controller_Correct Bringup_Correct Upgrade_Correct Handler_Correct Test_Fixtures
    Client_Cache Registration
begin

text \<open>
  A model of etcdadm-controller and what it does right.

  THE PROGRAM. The controller keeps an etcd cluster, described by an EtcdadmCluster object, as a set of
  cluster-api Machines. Two threads of control work on it. The reconciler (\<open>controllers/controller.go\<close>)
  handles one object at a time: it creates the first machine and its certificates, scales up and
  down, rolls out a changed spec, deletes members that a rollout has left behind, deletes everything
  when the object is deleted, and at the end of every run recomputes the status and patches the
  object. The health-check loop (\<open>controllers/periodic_healthcheck.go\<close>) checks every member on each
  tick and removes a member that failed too often in a row, if a quorum is left. Both remove members
  through \<open>removeEtcdMachine\<close> (\<open>controllers/scale.go\<close>) and check them through
  \<open>performEndpointHealthCheck\<close> (\<open>controllers/healthcheck.go\<close>). Around them: the API types in two
  versions with their conversions, deep copies and admission webhooks (\<open>api/\<close>), and the start and end
  of the process (\<open>main.go\<close>).

  HOW IT IS MODELLED. A Go function that acts on the world is a program \<open>'a io\<close>: a state monad whose
  state \<open>sys\<close> holds the trace of what was done outside, the object being reconciled (\<open>theEC\<close>), the
  cache of HTTP clients and the memory of the health-check loop; it ends with \<open>Done\<close> or \<open>Panic\<close>.
  Errors are values (\<open>err option\<close>, \<open>err + 'a\<close>). Every call that leaves the repository, to the API
  server, etcd, the network, the clock or a linked library, is a field of the environment \<open>env\<close>; a
  service answers as a function of the whole trace, so it may answer differently every time. The
  order in which a Go map is ranged over is such an answer too. What libraries document about
  themselves is stated in \<open>Laws\<close>; a theorem that needs it names it as a hypothesis, and \<open>Reference\<close> has
  an environment that meets it. \<open>int32\<close> fields are 32-bit words read by \<open>sint\<close>, \<open>int\<close> is \<open>int\<close>.

  THE THEORIES.
  \<^item> \<open>Prelude\<close>: errors, Go's maps, programs with early return, loops and \<open>defer\<close>, the rules that follow
    them through a program, and the collections of simplification rules.
  \<^item> \<open>Api_Types\<close>: the API types; \<open>Webhook\<close>, \<open>Conversion\<close>, \<open>Deepcopy\<close>: what \<open>api/\<close> does with them.
  \<^item> \<open>Go_Std\<close>, \<open>Go_Json\<close>: \<open>strconv.Atoi\<close>, \<open>net/url\<close>, \<open>net.SplitHostPort\<close> and the decoding of JSON, as
    far as the controller uses them.
  \<^item> \<open>World\<close>, \<open>Calls\<close>, \<open>Laws\<close>, \<open>Reference\<close>: the environment, one program per call, the laws, an example.
  \<^item> \<open>Effects\<close>: what a program may do to the trace: only read; only removals that follow the protocol
    (a monitor over the trace); at most one change to the machines. The locales \<open>closed_events\<close>,
    \<open>absorbing\<close> and \<open>collaborators\<close> state these interfaces; the latter is what the reconciler needs of the
    functions its struct holds, and \<open>Members\<close> shows that those of \<open>SetupWithManager\<close> meet it.
  \<^item> \<open>Helpers\<close> (\<open>helpers.go\<close>), \<open>Etcd_Plane\<close> (\<open>etcd_plane.go\<close>), \<open>Certs\<close> (\<open>certs.go\<close>), \<open>Health_Check\<close>
    (\<open>healthcheck.go\<close>), \<open>Members\<close> (removal, in \<open>scale.go\<close>), \<open>Provision\<close> (creation, in \<open>helpers.go\<close> and
    \<open>scale.go\<close>), \<open>Upgrade\<close> (\<open>upgrade.go\<close>), \<open>Machine_Health\<close> (\<open>machines.go\<close>), \<open>Status\<close> (\<open>status.go\<close>),
    \<open>Reconcile\<close> (\<open>controller.go\<close>), \<open>Periodic_Healthcheck\<close> (\<open>periodic_healthcheck.go\<close>), \<open>Process\<close>
    (\<open>main.go\<close> and the rest of \<open>SetupWithManager\<close>): the components, in the order of their calls.
    Two long functions are split into the stages of their text: \<open>reconcile\<close> and
    \<open>periodicEtcdMembersHealthCheck\<close>.
  \<^item> \<open>Registration\<close> (\<open>groupversion_info.go\<close> and the \<open>init\<close> functions): the scheme of the process, over a scheme
    builder that is a parameter; the types of both versions are in it, the generated conversions are not.
  \<^item> The theories named \<open>_Correct\<close> hold the properties, with an example for each that has hypotheses.

  WHAT IS SHOWN.
  \<^item> \<open>Reconcile_Correct\<close>: which gates a reconciliation passes, that the finalizer comes first and goes
    last, that one pass changes at most one machine, that removals follow the protocol (members listed,
    never the last one, member before machine), that a rollout waits for its newest member, that the
    object is patched last and every error of that part is returned, that an unready cluster is
    reconciled again.
  \<^item> \<open>Panic_Free\<close>: a logic of programs that return (\<open>returns\<close>, with one rule for every way of putting
    programs together), and in it that a reconciliation returns whatever fails, if the object and the
    outside give what the code takes for granted; each condition stands for a place that could panic.
  \<^item> \<open>Periodic_Correct\<close>: the memory of the loop is well formed and counts consecutive failures; members
    are removed only while fewer than half have failed, and only after a fresh count of the machines.
  \<^item> \<open>Controller_Correct\<close>: reconciler and loop taking turns on the memory they share: what survives all
    turns, and what a reconciliation never touches.
    \<open>Client_Cache\<close>: calls of \<open>getEtcdHttpClient\<close> that overlap, as a step relation of their loads, reads and
    stores; undisturbed, the steps are the function (\<open>undisturbed_call\<close>).
  \<^item> \<open>Removal_Correct\<close>, \<open>Plane_Correct\<close>, \<open>Status_Correct\<close>, \<open>Address_Correct\<close>: the parts these rest on, against
    specifications of their own: the plan of a removal, outdated machines, the choice of a machine to
    remove, an upgrade step, the machine created, certificates before machines, the verdict of a health
    check, the status, the addresses.
  \<^item> \<open>Convergence\<close>, \<open>Scaling_Correct\<close>: against an API server that stores what it is told and an etcd that
    removes members, passes of \<open>reconcile\<close> bring a cluster to its size, up or down; the assumptions are
    the predicates \<open>friendly\<close>, \<open>removable\<close> and \<open>settled\<close>. Infrastructure may carry the annotations of the
    template it was cloned from; here it is the template of the spec (\<open>cloned_from_other\<close> is false of it).
    \<open>Bringup_Correct\<close>: the same from no machine at all,
    over the first member and its initialisation by the bootstrap provider (\<open>certifiable\<close>, \<open>waiting\<close>,
    \<open>initialised\<close>). \<open>Rollout_Correct\<close>: a rollout of a changed config or of another template ends;
    \<open>stale\<close> is what makes a machine outdated. The world stores configs too, generates new names and
    gives machines addresses (\<open>rolling\<close>); a measure, the outdated machines owned and the current ones
    lacking, falls by one with every pass (\<open>advances\<close>), under an invariant (\<open>under_way\<close>).
    \<open>Handler_Correct\<close>: and with a ready cluster, when passes are calls of \<open>Reconcile\<close> that read the object as
    they patched it (\<open>latest\<close>, \<open>attended\<close>); labelled machines are \<open>alike\<close>, and steps that only label keep
    everything a rollout counts (\<open>tends\<close>).
    \<open>Upgrade_Correct\<close>: an upgrade ends with the removal of the members that were disowned.
  \<^item> \<open>Api_Correct\<close>, \<open>Deepcopy_Correct\<close>: what is admitted, that conversions are inverse, that deep copies
    share nothing (locale \<open>deep_copier\<close>, met by every copy function when the foreign ones meet it).
  \<^item> \<open>Process_Correct\<close>: order of the start, bounds of the health-check interval, the shutdown protocol as
    an invariant of a step relation, and that one signal is enough to stop.
  \<^item> \<open>Test_Fixtures\<close>: the builders of \<open>controllers/testutils.go\<close>, and that the objects of the repository's own
    tests are what the code takes them for.

  BOUNDS. Loops of the code are recursions over the list they range over, or over what is left of it,
  so they end; there is no fuel. The health-check loop, which ends only when told, is a function of the
  signals it receives. Theorems about counts held in an \<open>int32\<close> ask for fewer than \<open>2 ^ 31\<close> machines.

  NOT MODELLED. Logging; the texts of wrapped errors beyond the values they wrap; request timeouts and
  contexts other than that of the process; the wiring inside controller-runtime; package documentation;
  the generated mocks. The threads of control interleave run by run, not call by call: a theorem about
  a run speaks of any answers of the outside, and so of any changes another thread makes there, but a
  run sees the process's own memory change only by what it does itself. The one part of that memory
  that threads share is the cache of HTTP clients, for which \<open>Client_Cache\<close> interleaves step by step.
\<close>

end
